(* ===== verification/JsNumber.thy ===== *)
theory JsNumber
  imports Prelude
begin

text \<open>
  JavaScript numbers: IEEE 754 binary64 values, read as exact rationals together with NaN
  and the infinities, and the arithmetic of the language on them with round-to-nearest,
  ties-to-even. The two zeros are one value here: the source never looks at the sign of a
  zero. The facts the components use are that rounding is monotone, exact on integers up
  to \<open>2^53\<close>, and keeps every value below a representable bound.
\<close>

section \<open>Rounding\<close>

datatype jsnum = NaN | PosInf | NegInf | Fin rat

text \<open>The binary exponent: \<open>2^e \<le> \<bar>x\<bar> < 2^(e+1)\<close> for \<open>x \<noteq> 0\<close>.\<close>

definition expo :: "rat \<Rightarrow> int" where
  "expo x = (if 1 \<le> \<bar>x\<bar> then bitlen \<lfloor>\<bar>x\<bar>\<rfloor> - 1 else - bitlen (\<lceil>1 / \<bar>x\<bar>\<rceil> - 1))"

text \<open>Round half to even.\<close>

definition rne :: "rat \<Rightarrow> int" where
  "rne y = (let f = \<lfloor>y\<rfloor>; d = y - of_int f
            in if d < 1/2 then f else if d > 1/2 then f + 1
               else if even f then f else f + 1)"

text \<open>The unit in the last place of the binade of \<open>x\<close>; below the normal range it is the
  subnormal unit.\<close>

definition ulp :: "rat \<Rightarrow> rat" where
  "ulp x = 2 powi (max (expo x) (-1022) - 52)"

definition round64 :: "rat \<Rightarrow> rat" where
  "round64 x = (if x = 0 then 0 else of_int (rne (x / ulp x)) * ulp x)"

definition max_bound :: rat where
  "max_bound = 2 ^ 1024"

definition fl :: "rat \<Rightarrow> jsnum" where
  "fl x = (let r = round64 x in
           if r \<ge> max_bound then PosInf else if r \<le> - max_bound then NegInf else Fin r)"

text \<open>The values binary64 can hold.\<close>

definition representable :: "rat \<Rightarrow> bool" where
  "representable x \<longleftrightarrow> round64 x = x \<and> \<bar>x\<bar> < max_bound"

subsection \<open>Round half to even on rationals\<close>

lemma rne_cases: "rne y = \<lfloor>y\<rfloor> \<or> rne y = \<lfloor>y\<rfloor> + 1"
  by (simp add: rne_def Let_def)

lemma rne_of_int [simp]: "rne (of_int n) = n"
  by (simp add: rne_def Let_def)

lemma rne_mono: assumes "x \<le> y" shows "rne x \<le> rne y"
proof (cases "\<lfloor>x\<rfloor> = \<lfloor>y\<rfloor>")
  case True
  with assms show ?thesis by (auto simp: rne_def Let_def)
next
  case False
  with assms have "\<lfloor>x\<rfloor> + 1 \<le> \<lfloor>y\<rfloor>" using floor_mono [of x y] by linarith
  then show ?thesis using rne_cases [of x] rne_cases [of y] by linarith
qed

lemma rne_le_int: "x \<le> of_int n \<Longrightarrow> rne x \<le> n"
  using rne_mono [of x "of_int n"] by simp

lemma int_le_rne: "of_int n \<le> x \<Longrightarrow> n \<le> rne x"
  using rne_mono [of "of_int n" x] by simp

lemma rne_minus: "rne (- y) = - rne y"
proof (cases "y = of_int \<lfloor>y\<rfloor>")
  case True
  then obtain n where "y = of_int n" by blast
  then show ?thesis by (metis of_int_minus rne_of_int)
next
  case False
  have f: "\<lfloor>- y\<rfloor> = - \<lfloor>y\<rfloor> - 1"
    using False by (intro floor_unique) (auto, linarith+)
  show ?thesis
    unfolding rne_def Let_def f by (auto simp: algebra_simps)
qed

lemma rne_error: "\<bar>of_int (rne y) - y\<bar> \<le> 1/2"
proof -
  have "of_int \<lfloor>y\<rfloor> \<le> y" "y < of_int \<lfloor>y\<rfloor> + 1" by linarith+
  then show ?thesis by (auto simp: rne_def Let_def)
qed

subsection \<open>The binary exponent\<close>

lemma bitlen_powi:
  assumes "0 < n"
  shows "(2::rat) powi (bitlen n - 1) \<le> of_int n" "of_int n < (2::rat) powi bitlen n"
proof -
  have "1 \<le> bitlen n" using assms by (simp add: bitlen_ge_iff_power)
  moreover have "rat_of_int (2 ^ nat (bitlen n - 1)) \<le> of_int n"
    using bitlen_bounds [OF assms] by (simp only: of_int_le_iff)
  moreover have "rat_of_int n < of_int (2 ^ nat (bitlen n))"
    using bitlen_bounds [OF assms] by (simp only: of_int_less_iff)
  ultimately show "(2::rat) powi (bitlen n - 1) \<le> of_int n" "of_int n < (2::rat) powi bitlen n"
    by (simp_all add: power_int_def)
qed

lemma expo_bounds:
  assumes "x \<noteq> 0"
  shows "2 powi expo x \<le> \<bar>x\<bar> \<and> \<bar>x\<bar> < 2 powi (expo x + 1)"
proof (cases "1 \<le> \<bar>x\<bar>")
  case True
  define n where "n = \<lfloor>\<bar>x\<bar>\<rfloor>"
  have n: "0 < n" "of_int n \<le> \<bar>x\<bar>" "\<bar>x\<bar> < of_int n + 1" using True by (auto simp: n_def) linarith
  have e: "expo x = bitlen n - 1" using True by (simp add: expo_def n_def)
  have "n + 1 \<le> 2 ^ nat (bitlen n)" using bitlen_bounds [OF n(1)] by simp
  then have "rat_of_int (n + 1) \<le> of_int (2 ^ nat (bitlen n))" by (simp only: of_int_le_iff)
  then have "of_int n + 1 \<le> (2::rat) powi bitlen n"
    by (simp add: power_int_def bitlen_nonneg)
  then show ?thesis using bitlen_powi [OF n(1)] n unfolding e by simp
next
  case False
  define m where "m = \<lceil>1 / \<bar>x\<bar>\<rceil> - 1"
  have x: "0 < \<bar>x\<bar>" "\<bar>x\<bar> < 1" using assms False by auto
  then have "1 < 1 / \<bar>x\<bar>" by simp
  then have m: "0 < m" "of_int m < 1 / \<bar>x\<bar>" "1 / \<bar>x\<bar> \<le> of_int m + 1"
    unfolding m_def by linarith+
  have e: "expo x = - bitlen m" using False by (simp add: expo_def m_def)
  have "m + 1 \<le> 2 ^ nat (bitlen m)" using bitlen_bounds [OF m(1)] by simp
  then have "rat_of_int (m + 1) \<le> of_int (2 ^ nat (bitlen m))" by (simp only: of_int_le_iff)
  then have "of_int m + 1 \<le> (2::rat) powi bitlen m"
    by (simp add: power_int_def bitlen_nonneg)
  then have up: "1 / \<bar>x\<bar> \<le> 2 powi bitlen m" using m by linarith
  have lo: "2 powi (bitlen m - 1) < 1 / \<bar>x\<bar>" using bitlen_powi [OF m(1)] m by linarith
  have "(2::rat) powi expo x = 1 / 2 powi bitlen m" by (simp add: e power_int_minus_divide)
  also have "\<dots> \<le> \<bar>x\<bar>" using up x by (simp add: field_simps)
  finally have 1: "2 powi expo x \<le> \<bar>x\<bar>" .
  have "\<bar>x\<bar> < 1 / 2 powi (bitlen m - 1)" using lo x by (simp add: field_simps)
  also have "\<dots> = 2 powi (expo x + 1)"
    using power_int_minus_divide [of "2::rat" "bitlen m - 1"] by (simp add: e)
  finally show ?thesis using 1 by simp
qed

lemma powi2_mono: "a \<le> b \<Longrightarrow> (2::rat) powi a \<le> 2 powi b"
  by (rule power_int_increasing) auto

lemma powi2_less_iff: "(2::rat) powi a < 2 powi b \<longleftrightarrow> a < b"
  by (metis linorder_not_le powi2_mono power_int_strict_increasing one_less_numeral_iff
      semiring_norm(76))

lemma expo_unique:
  assumes "2 powi k \<le> \<bar>x\<bar>" "\<bar>x\<bar> < 2 powi (k + 1)"
  shows "expo x = k"
proof -
  have "(0::rat) < 2 powi k" by simp
  then have "0 < \<bar>x\<bar>" using assms(1) by (rule less_le_trans)
  then have "x \<noteq> 0" by auto
  note b = expo_bounds [OF this]
  have "(2::rat) powi k < 2 powi (expo x + 1)" "(2::rat) powi expo x < 2 powi (k + 1)"
    using assms b by linarith+
  then show ?thesis by (simp add: powi2_less_iff)
qed

lemma expo_mono:
  assumes "x \<noteq> 0" "\<bar>x\<bar> \<le> \<bar>y\<bar>"
  shows "expo x \<le> expo y"
proof -
  have "y \<noteq> 0" using assms by auto
  have "(2::rat) powi expo x < 2 powi (expo y + 1)"
    using expo_bounds [OF \<open>x \<noteq> 0\<close>] expo_bounds [OF \<open>y \<noteq> 0\<close>] assms(2) by linarith
  then show ?thesis by (simp add: powi2_less_iff)
qed

lemma expo_minus [simp]: "expo (- x) = expo x"
  by (simp add: expo_def)

lemma ulp_pos: "0 < ulp x"
  by (simp add: ulp_def)

lemma ulp_minus [simp]: "ulp (- x) = ulp x"
  by (simp add: ulp_def)

subsection \<open>Rounding is odd, monotone and exact on the grid\<close>

lemma round64_0 [simp]: "round64 0 = 0"
  by (simp add: round64_def)

lemma round64_minus [simp]: "round64 (- x) = - round64 x"
  by (simp add: round64_def rne_minus)

lemma ulp_scale: "2 powi (max (expo x) (-1022) + 1) = of_int (2 ^ 53) * ulp x"
proof -
  have "(2::rat) powi (max (expo x) (-1022) + 1) = 2 powi (53 + (max (expo x) (-1022) - 52))"
    by (rule arg_cong [where f = "power_int 2"]) simp
  also have "\<dots> = 2 powi 53 * ulp x" by (subst power_int_add) (auto simp: ulp_def)
  finally show ?thesis by simp
qed

lemma ulp_scale': "2 powi (max (expo x) (-1022)) = of_int (2 ^ 52) * ulp x"
proof -
  have "(2::rat) powi (max (expo x) (-1022)) = 2 powi (52 + (max (expo x) (-1022) - 52))"
    by (rule arg_cong [where f = "power_int 2"]) simp
  also have "\<dots> = 2 powi 52 * ulp x" by (subst power_int_add) (auto simp: ulp_def)
  finally show ?thesis by simp
qed

lemma round64_le_grid:
  assumes "x \<le> of_int n * ulp x" "x \<noteq> 0"
  shows "round64 x \<le> of_int n * ulp x"
proof -
  have "rne (x / ulp x) \<le> n"
    using assms ulp_pos [of x] by (intro rne_le_int) (simp add: pos_divide_le_eq)
  then show ?thesis using assms ulp_pos [of x] by (simp add: round64_def)
qed

lemma grid_le_round64:
  assumes "of_int n * ulp x \<le> x" "x \<noteq> 0"
  shows "of_int n * ulp x \<le> round64 x"
proof -
  have "n \<le> rne (x / ulp x)"
    using assms ulp_pos [of x] by (intro int_le_rne) (simp add: pos_le_divide_eq)
  then show ?thesis using assms ulp_pos [of x] by (simp add: round64_def)
qed

lemma round64_grid: "x = of_int n * ulp x \<Longrightarrow> round64 x = x"
  using round64_le_grid [of x n] grid_le_round64 [of n x] by (cases "x = 0") auto

lemma round64_nonneg: "0 \<le> x \<Longrightarrow> 0 \<le> round64 x"
  using grid_le_round64 [of 0 x] by (cases "x = 0") auto

lemma round64_le_binade:
  assumes "0 < x"
  shows "round64 x \<le> 2 powi (max (expo x) (-1022) + 1)"
proof -
  have "x < 2 powi (expo x + 1)" using expo_bounds [of x] assms by simp
  also have "\<dots> \<le> 2 powi (max (expo x) (-1022) + 1)" by (rule powi2_mono) simp
  finally show ?thesis unfolding ulp_scale using assms by (intro round64_le_grid) auto
qed

lemma binade_le_round64:
  assumes "0 < x" "-1022 \<le> expo x"
  shows "2 powi expo x \<le> round64 x"
proof -
  have "2 powi (max (expo x) (-1022)) \<le> x" using expo_bounds [of x] assms by (simp add: max_def)
  then have "of_int (2 ^ 52) * ulp x \<le> round64 x"
    unfolding ulp_scale' using assms by (intro grid_le_round64) auto
  moreover have "of_int (2 ^ 52) * ulp x = 2 powi expo x"
    using assms by (simp only: ulp_scale' [symmetric]) (simp add: max_def)
  ultimately show ?thesis by simp
qed

lemma round64_mono_pos:
  assumes "0 < x" "x \<le> y"
  shows "round64 x \<le> round64 y"
proof (cases "max (expo x) (-1022) = max (expo y) (-1022)")
  case True
  then have u: "ulp x = ulp y" by (simp add: ulp_def)
  have "x / ulp y \<le> y / ulp y" using assms ulp_pos [of y] by (simp add: divide_right_mono)
  then have "rne (x / ulp y) \<le> rne (y / ulp y)" by (rule rne_mono)
  then show ?thesis using assms u ulp_pos [of y] by (simp add: round64_def)
next
  case False
  have "expo x \<le> expo y" using assms by (intro expo_mono) auto
  with False have "max (expo x) (-1022) + 1 \<le> expo y" "-1022 \<le> expo y" by linarith+
  then have "round64 x \<le> 2 powi expo y"
    using round64_le_binade [of x] assms powi2_mono by (meson order_trans)
  also have "\<dots> \<le> round64 y" using assms \<open>-1022 \<le> expo y\<close> by (intro binade_le_round64) auto
  finally show ?thesis .
qed

lemma round64_mono:
  assumes "x \<le> y"
  shows "round64 x \<le> round64 y"
proof -
  consider "0 < x" | "x \<le> 0" "0 \<le> y" | "y < 0" by linarith
  then show ?thesis
  proof cases
    case 1
    with assms show ?thesis by (simp add: round64_mono_pos)
  next
    case 2
    have "round64 x \<le> 0" using round64_nonneg [of "- x"] 2 by simp
    also have "0 \<le> round64 y" using round64_nonneg 2 by simp
    finally show ?thesis .
  next
    case 3
    with assms have "round64 (- y) \<le> round64 (- x)" by (intro round64_mono_pos) auto
    then show ?thesis by simp
  qed
qed

text \<open>Every dyadic rational of at most 53 significant bits is left as it is.\<close>

lemma round64_dyadic:
  assumes m: "\<bar>m\<bar> \<le> 2 ^ 53" and k: "-1074 \<le> k"
  shows "round64 (of_int m * 2 powi k) = of_int m * 2 powi k"
proof (cases "m = 0")
  case False
  let ?x = "rat_of_int m * 2 powi k"
  have b: "2 powi expo ?x \<le> \<bar>?x\<bar>" using expo_bounds [of ?x] False by auto
  have "\<bar>?x\<bar> = of_int \<bar>m\<bar> * 2 powi k" by (simp add: abs_mult)
  also have "\<dots> \<le> of_int (2 ^ 53) * 2 powi k"
    using m by (intro mult_right_mono) (simp_all only: of_int_le_iff, simp)
  also have "of_int (2 ^ 53) * 2 powi k = (2::rat) powi (53 + k)" by (simp add: power_int_add)
  finally have le: "\<bar>?x\<bar> \<le> 2 powi (53 + k)" .
  then have "(2::rat) powi expo ?x \<le> 2 powi (53 + k)" using b by linarith
  then have e53: "expo ?x \<le> 53 + k" using powi2_less_iff [of "53 + k" "expo ?x"] by linarith
  show ?thesis
  proof (cases "expo ?x = 53 + k")
    case True
    have "2 powi (53 + k) = \<bar>?x\<bar>" using b le True by simp
    then have "\<bar>?x\<bar> = of_int (2 ^ 53) * 2 powi k" by (simp add: power_int_add)
    also have "of_int (2 ^ 53) * 2 powi k = of_int (2 ^ 52) * ulp ?x"
      using True k by (simp add: ulp_def max_def power_int_add)
    finally have "\<bar>?x\<bar> = of_int (2 ^ 52) * ulp ?x" .
    moreover have "?x = of_int (sgn m) * \<bar>?x\<bar>"
      by (simp add: abs_mult mult_sgn_abs flip: of_int_abs of_int_mult mult.assoc)
    ultimately have "?x = of_int (sgn m) * (of_int (2 ^ 52) * ulp ?x)" by simp
    then have "?x = of_int (sgn m * 2 ^ 52) * ulp ?x" by (simp add: mult.assoc)
    then show ?thesis by (rule round64_grid)
  next
    case False
    define j where "j = nat (k - (max (expo ?x) (-1022) - 52))"
    have "ulp ?x = 2 powi (k - int j)"
    proof -
      have "max (expo ?x) (-1022) - 52 \<le> k" using False e53 k by linarith
      then have "k - int j = max (expo ?x) (-1022) - 52" by (simp add: j_def)
      then show ?thesis by (simp add: ulp_def)
    qed
    then have "?x = of_int (m * 2 ^ j) * ulp ?x"
      by (simp add: power_int_diff)
    then show ?thesis by (rule round64_grid)
  qed
qed simp

lemma round64_int: "\<bar>n\<bar> \<le> 2 ^ 53 \<Longrightarrow> round64 (of_int n) = of_int n"
  using round64_dyadic [of n 0] by simp

lemma round64_significand:
  assumes "x \<noteq> 0"
  shows "\<bar>rne (x / ulp x)\<bar> \<le> 2 ^ 53"
proof -
  have "\<bar>x\<bar> < 2 powi (expo x + 1)" using expo_bounds [OF assms] by simp
  also have "\<dots> \<le> 2 powi (max (expo x) (-1022) + 1)" by (rule powi2_mono) simp
  also have "\<dots> = of_int (2 ^ 53) * ulp x" by (rule ulp_scale)
  finally have "x / ulp x \<le> of_int (2 ^ 53)" "of_int (- (2 ^ 53)) \<le> x / ulp x"
    using ulp_pos [of x] by (auto simp: field_simps abs_less_iff)
  then have "rne (x / ulp x) \<le> 2 ^ 53" "- (2 ^ 53) \<le> rne (x / ulp x)"
    by (simp_all only: rne_le_int int_le_rne)
  then show ?thesis by (simp add: abs_le_iff)
qed

lemma round64_idem [simp]: "round64 (round64 x) = round64 x"
proof (cases "x = 0")
  case False
  then show ?thesis
    using round64_dyadic [OF round64_significand [OF False], of "max (expo x) (-1022) - 52"]
    by (simp add: round64_def [of x] flip: ulp_def)
qed simp

lemma round64_error:
  assumes "x \<noteq> 0"
  shows "\<bar>round64 x - x\<bar> \<le> ulp x / 2"
proof -
  have "round64 x - x = (of_int (rne (x / ulp x)) - x / ulp x) * ulp x"
    using assms ulp_pos [of x] by (simp add: round64_def field_simps)
  then have "\<bar>round64 x - x\<bar> = \<bar>of_int (rne (x / ulp x)) - x / ulp x\<bar> * ulp x"
    using ulp_pos [of x] by (simp add: abs_mult)
  also have "\<dots> \<le> 1/2 * ulp x" using rne_error ulp_pos [of x] by (intro mult_right_mono) auto
  finally show ?thesis by simp
qed

text \<open>A certificate for the rounding of a concrete rational: its exponent and its
  rounded significand. The conditions are arithmetic on literals.\<close>

lemma rne_nearest:
  assumes "\<bar>y - of_int m\<bar> < 1/2"
  shows "rne y = m"
proof -
  have "\<bar>rat_of_int (rne y) - of_int m\<bar> < 1" using rne_error [of y] assms by linarith
  then have "\<bar>rat_of_int (rne y - m)\<bar> < of_int 1" by simp
  then have "\<bar>rne y - m\<bar> < 1" by (simp only: of_int_less_iff flip: of_int_abs)
  then show ?thesis by linarith
qed

lemma round64_cert:
  assumes "2 powi e \<le> \<bar>x\<bar>" "\<bar>x\<bar> < 2 powi (e + 1)" "-1022 \<le> e"
    "\<bar>x / 2 powi (e - 52) - of_int m\<bar> < 1/2"
  shows "round64 x = of_int m * 2 powi (e - 52)"
proof -
  have "0 < \<bar>x\<bar>" using zero_less_power_int [of "2::rat" e] assms(1) by linarith
  then show ?thesis
    using assms expo_unique [OF assms(1,2)] rne_nearest [OF assms(4)]
    by (simp add: round64_def ulp_def max_def)
qed

lemma fl_cert:
  assumes "2 powi e \<le> \<bar>x\<bar>" "\<bar>x\<bar> < 2 powi (e + 1)" "-1022 \<le> e" "e \<le> 1000"
    "\<bar>x / 2 powi (e - 52) - of_int m\<bar> < 1/2"
  shows "fl x = Fin (of_int m * 2 powi (e - 52))"
proof -
  have b: "\<bar>x\<bar> < 2 powi 1001"
    using assms(2) powi2_mono [of "e + 1" 1001] assms(4) by linarith
  have r: "round64 (2 powi 1001) = 2 powi 1001"
    using round64_dyadic [of 1 1001] by simp
  have "round64 x \<le> 2 powi 1001" "- (2 powi 1001) \<le> round64 x"
    using round64_mono [of x "2 powi 1001"] round64_mono [of "- (2 powi 1001)" x] b r
    by (auto simp: abs_less_iff)
  moreover have "(2::rat) powi 1001 < 2 powi 1024" by (simp only: powi2_less_iff)
  ultimately have "\<bar>round64 x\<bar> < max_bound"
    unfolding max_bound_def power_int_numeral abs_less_iff by linarith
  then show ?thesis
    by (simp add: fl_def Let_def abs_less_iff round64_cert [OF assms(1,2,3,5)])
qed

section \<open>Numbers and their arithmetic\<close>

definition num_ok :: "jsnum \<Rightarrow> bool" where
  "num_ok a = (case a of Fin x \<Rightarrow> representable x | _ \<Rightarrow> True)"

fun js_sgn :: "jsnum \<Rightarrow> int" where
  "js_sgn NaN = 0"
| "js_sgn PosInf = 1"
| "js_sgn NegInf = -1"
| "js_sgn (Fin x) = (if x > 0 then 1 else if x < 0 then -1 else 0)"

definition inf_of_sign :: "int \<Rightarrow> jsnum" where
  "inf_of_sign s = (if s > 0 then PosInf else if s < 0 then NegInf else NaN)"

fun js_neg :: "jsnum \<Rightarrow> jsnum" where
  "js_neg NaN = NaN"
| "js_neg PosInf = NegInf"
| "js_neg NegInf = PosInf"
| "js_neg (Fin x) = Fin (- x)"

fun js_add :: "jsnum \<Rightarrow> jsnum \<Rightarrow> jsnum" where
  "js_add (Fin x) (Fin y) = fl (x + y)"
| "js_add NaN b = NaN"
| "js_add a NaN = NaN"
| "js_add PosInf NegInf = NaN"
| "js_add NegInf PosInf = NaN"
| "js_add PosInf b = PosInf"
| "js_add NegInf b = NegInf"
| "js_add a b = b"

definition js_sub :: "jsnum \<Rightarrow> jsnum \<Rightarrow> jsnum" where
  "js_sub a b = js_add a (js_neg b)"

fun js_mul :: "jsnum \<Rightarrow> jsnum \<Rightarrow> jsnum" where
  "js_mul (Fin x) (Fin y) = fl (x * y)"
| "js_mul a b = inf_of_sign (js_sgn a * js_sgn b)"

fun js_div :: "jsnum \<Rightarrow> jsnum \<Rightarrow> jsnum" where
  "js_div (Fin x) (Fin y) = (if y = 0 then inf_of_sign (js_sgn (Fin x)) else fl (x / y))"
| "js_div NaN b = NaN"
| "js_div a NaN = NaN"
| "js_div (Fin x) b = Fin 0"
| "js_div a (Fin y) = (if y < 0 then js_neg a else a)"
| "js_div a b = NaN"

fun js_lt :: "jsnum \<Rightarrow> jsnum \<Rightarrow> bool" where
  "js_lt (Fin x) (Fin y) = (x < y)"
| "js_lt NaN b = False"
| "js_lt a NaN = False"
| "js_lt a PosInf = (a \<noteq> PosInf)"
| "js_lt NegInf b = (b \<noteq> NegInf)"
| "js_lt a b = False"

definition js_eq :: "jsnum \<Rightarrow> jsnum \<Rightarrow> bool" where
  "js_eq a b = (a \<noteq> NaN \<and> a = b)"

definition js_le :: "jsnum \<Rightarrow> jsnum \<Rightarrow> bool" where
  "js_le a b = (js_lt a b \<or> js_eq a b)"

fun js_floor :: "jsnum \<Rightarrow> jsnum" where
  "js_floor (Fin x) = Fin (of_int \<lfloor>x\<rfloor>)"
| "js_floor a = a"

fun js_ceil :: "jsnum \<Rightarrow> jsnum" where
  "js_ceil (Fin x) = Fin (of_int \<lceil>x\<rceil>)"
| "js_ceil a = a"

definition num_truthy :: "jsnum \<Rightarrow> bool" where
  "num_truthy a = (a \<noteq> NaN \<and> a \<noteq> Fin 0)"

text \<open>\<open>Number(n)\<close> of a bigint, \<open>10 ** n\<close> for a whole \<open>n\<close>, and \<open>BigInt(a)\<close> of a number,
  which throws unless the number is an integer.\<close>

definition num_of_int :: "int \<Rightarrow> jsnum" where
  "num_of_int n = fl (of_int n)"

definition pow10 :: "nat \<Rightarrow> jsnum" where
  "pow10 n = fl (10 ^ n)"

fun bigint_of_num :: "jsnum \<Rightarrow> int res" where
  "bigint_of_num (Fin x) = (if of_int \<lfloor>x\<rfloor> = x then Inr \<lfloor>x\<rfloor> else Inl RangeError)"
| "bigint_of_num a = Inl RangeError"

text \<open>A decimal literal of the source: \<open>lit n d\<close> is the double nearest to \<open>n / d\<close>.\<close>

definition lit :: "int \<Rightarrow> int \<Rightarrow> jsnum" where
  "lit n d = fl (of_int n / of_int d)"

subsection \<open>Facts the components use\<close>

lemma fl_num_ok [simp, intro]: "num_ok (fl x)"
  by (auto simp: fl_def num_ok_def representable_def Let_def abs_less_iff)

lemma fl_representable: "representable x \<Longrightarrow> fl x = Fin x"
  by (auto simp: fl_def representable_def Let_def max_bound_def abs_less_iff)

lemma representable_int: "\<bar>n\<bar> \<le> 2 ^ 53 \<Longrightarrow> representable (of_int n)"
proof -
  assume a: "\<bar>n\<bar> \<le> 2 ^ 53"
  then have "\<bar>rat_of_int n\<bar> \<le> of_int (2 ^ 53)" by (simp only: of_int_le_iff flip: of_int_abs)
  also have "\<dots> < max_bound" by (simp add: max_bound_def)
  finally show ?thesis using a by (simp add: representable_def round64_int)
qed

lemma fl_int: "\<bar>n\<bar> \<le> 2 ^ 53 \<Longrightarrow> fl (of_int n) = Fin (of_int n)"
  by (simp add: fl_representable representable_int)

lemma num_of_int_exact: "\<bar>n\<bar> \<le> 2 ^ 53 \<Longrightarrow> num_of_int n = Fin (of_int n)"
  by (simp add: num_of_int_def fl_int)

lemma fl_le:
  assumes "x \<le> b" "representable b" "fl x = Fin r"
  shows "r \<le> b"
  using round64_mono [OF assms(1)] assms(2,3)
  by (auto simp: fl_def representable_def Let_def split: if_splits)

lemma le_fl:
  assumes "b \<le> x" "representable b" "fl x = Fin r"
  shows "b \<le> r"
  using round64_mono [OF assms(1)] assms(2,3)
  by (auto simp: fl_def representable_def Let_def split: if_splits)

lemma fl_between:
  assumes "a \<le> x" "x \<le> b" "representable a" "representable b"
  shows "\<exists>r. fl x = Fin r \<and> a \<le> r \<and> r \<le> b"
proof -
  have "a \<le> round64 x" "round64 x \<le> b"
    using round64_mono [OF assms(1)] round64_mono [OF assms(2)] assms(3,4)
    by (auto simp: representable_def)
  then show ?thesis
    using assms(3,4) by (auto simp: fl_def Let_def representable_def abs_less_iff)
qed

lemma representable_0 [simp]: "representable 0"
  using representable_int [of 0] by simp

lemma representable_1 [simp]: "representable 1"
  using representable_int [of 1] by simp

text \<open>Scaling down: a product with a factor in \<open>[0, 1]\<close> never exceeds the other factor,
  whatever the rounding.\<close>

lemma js_mul_shrink:
  assumes "representable a" "0 \<le> a" "0 \<le> b" "b \<le> 1"
  shows "\<exists>c. js_mul (Fin a) (Fin b) = Fin c \<and> 0 \<le> c \<and> c \<le> a"
proof -
  have "0 \<le> a * b" "a * b \<le> a" using assms by (auto simp: mult_left_le)
  from fl_between [OF this] show ?thesis using assms by simp
qed

lemma js_lt_irrefl [simp]: "\<not> js_lt a a"
  by (cases a) auto

lemma js_floor_int [simp]: "js_floor (Fin (of_int n)) = Fin (of_int n)"
  by simp

lemma bigint_of_floor [simp]: "bigint_of_num (js_floor (Fin x)) = Inr \<lfloor>x\<rfloor>"
  by simp

lemma bigint_of_ceil [simp]: "bigint_of_num (js_ceil (Fin x)) = Inr \<lceil>x\<rceil>"
  by simp

text \<open>From \<open>2^52\<close> on every double is an integer.\<close>

lemma round64_integral:
  assumes "2 ^ 52 \<le> \<bar>x\<bar>"
  shows "\<exists>n. round64 x = of_int n"
proof -
  have x: "x \<noteq> 0" using assms by auto
  have "(2::rat) powi 52 < 2 powi (expo x + 1)" using expo_bounds [OF x] assms by simp
  then have e: "52 \<le> expo x" by (simp only: powi2_less_iff)
  have "(2::rat) powi (expo x - 52) = of_int (2 ^ nat (expo x - 52))"
    using e by (simp add: power_int_def)
  then have "round64 x = of_int (rne (x / ulp x) * 2 ^ nat (expo x - 52))"
    using e x by (simp add: round64_def ulp_def max_def)
  then show ?thesis by blast
qed

lemma fl_integral:
  assumes "2 ^ 52 \<le> \<bar>x\<bar>" "fl x = Fin r"
  shows "\<exists>n. r = of_int n"
proof -
  have "r = round64 x" using assms(2) by (auto simp: fl_def Let_def split: if_splits)
  then show ?thesis using round64_integral [OF assms(1)] by simp
qed

lemma representable_dyadic:
  assumes "\<bar>m\<bar> \<le> 2 ^ 53" "0 \<le> k" "k \<le> 900"
  shows "representable (of_int m * 2 powi k)"
proof -
  have "\<bar>rat_of_int m\<bar> \<le> of_int (2 ^ 53)" using assms(1) by (simp only: of_int_le_iff flip: of_int_abs)
  moreover have "(2::rat) powi k \<le> 2 powi 900" using assms by (intro powi2_mono) simp
  ultimately have "\<bar>rat_of_int m\<bar> * 2 powi k \<le> of_int (2 ^ 53) * 2 powi 900"
    by (intro mult_mono) auto
  also have "\<dots> < max_bound" by (simp add: max_bound_def)
  finally have "\<bar>of_int m * 2 powi k\<bar> < max_bound" by (simp add: abs_mult)
  then show ?thesis using round64_dyadic [of m k] assms by (simp add: representable_def)
qed

text \<open>The absolute error of a rounding, from a power of two above the value.\<close>

lemma round64_error_below:
  assumes "\<bar>x\<bar> \<le> 2 powi k" "-1000 \<le> k"
  shows "\<bar>round64 x - x\<bar> \<le> 2 powi (k - 54)"
proof (cases "\<bar>x\<bar> = 2 powi k \<or> x = 0")
  case True
  then consider "x = 0" | "x = of_int 1 * 2 powi k" | "x = of_int (-1) * 2 powi k"
    by (auto simp: abs_if split: if_splits)
  then have "round64 x = x"
  proof cases
    case 2
    then show ?thesis using round64_dyadic [of 1 k] assms by simp
  next
    case 3
    then show ?thesis using round64_dyadic [of "-1" k] assms by simp
  qed simp
  then show ?thesis by simp
next
  case False
  then have x: "x \<noteq> 0" "\<bar>x\<bar> < 2 powi k" using assms by auto
  then have "(2::rat) powi expo x < 2 powi k" using expo_bounds [OF x(1)] by linarith
  then have "expo x < k" by (simp only: powi2_less_iff)
  then have "ulp x \<le> 2 powi (k - 53)" using assms unfolding ulp_def by (intro powi2_mono) linarith
  also have "\<dots> = 2 * 2 powi (k - 54)"
    using power_int_add [of "2::rat" 1 "k - 54"] by simp
  finally show ?thesis using round64_error [OF x(1)] by linarith
qed

lemma fl_error_below:
  assumes "\<bar>x\<bar> \<le> 2 powi k" "-1000 \<le> k" "k \<le> 900"
  shows "\<exists>r. fl x = Fin r \<and> \<bar>r - x\<bar> \<le> 2 powi (k - 54)"
proof -
  have r: "representable (2 powi k)" "representable (- (2 powi k))"
  proof -
    have "(2::rat) powi k \<le> 2 powi 900" using assms by (intro powi2_mono)
    then have "(2::rat) powi k < max_bound" by (simp add: max_bound_def)
    then show "representable (2 powi k)" "representable (- (2 powi k))"
      using round64_dyadic [of 1 k] assms by (simp_all add: representable_def)
  qed
  have "- (2 powi k) \<le> x" "x \<le> 2 powi k" using assms(1) by (auto simp: abs_le_iff)
  then obtain r where "fl x = Fin r" using fl_between r by blast
  moreover from this have "r = round64 x" by (auto simp: fl_def Let_def split: if_splits)
  ultimately show ?thesis using round64_error_below [OF assms(1,2)] by auto
qed

end
