(* ===== verification/JsString.thy ===== *)
theory JsString
  imports JsNumber
begin

text \<open>
  JavaScript strings and the conversions between strings and numbers that the source
  uses: decimal digits, \<open>Number(s)\<close>, \<open>Number.parseFloat\<close>, \<open>BigInt(s)\<close>, \<open>toFixed\<close>,
  \<open>toString\<close> and \<open>toExponential\<close> of numbers, and the string methods (trim, split,
  substring, the trailing-zeros replacement). A string is a list of characters; a
  character outside ASCII is written as its UTF-8 bytes.
\<close>

section \<open>Decimal digits\<close>

definition digit_char :: "nat \<Rightarrow> char" where
  "digit_char d = char_of (48 + d)"

definition is_digit :: "char \<Rightarrow> bool" where
  "is_digit c = (48 \<le> (of_char c :: nat) \<and> (of_char c :: nat) \<le> 57)"

definition digit_val :: "char \<Rightarrow> nat" where
  "digit_val c = of_char c - 48"

fun nat_str :: "nat \<Rightarrow> string" where
  "nat_str n = (if n < 10 then [digit_char n]
                else nat_str (n div 10) @ [digit_char (n mod 10)])"

declare nat_str.simps [simp del]

definition str_nat :: "string \<Rightarrow> nat" where
  "str_nat s = foldl (\<lambda>a c. 10 * a + digit_val c) 0 s"

definition int_str :: "int \<Rightarrow> string" where
  "int_str n = (if n < 0 then ''-'' @ nat_str (nat (- n)) else nat_str (nat n))"

lemma digit_char_props:
  assumes "d < 10"
  shows "is_digit (digit_char d)" "digit_val (digit_char d) = d"
  using assms by (simp_all add: is_digit_def digit_val_def digit_char_def)

lemma nat_str_digits: "\<forall>c \<in> set (nat_str n). is_digit c"
proof (induction n rule: nat_str.induct)
  case (1 n)
  then show ?case by (subst nat_str.simps) (auto simp: digit_char_props)
qed

lemma nat_str_nonempty [simp]: "nat_str n \<noteq> []"
  by (subst nat_str.simps) simp

lemma str_nat_snoc: "str_nat (s @ [c]) = 10 * str_nat s + digit_val c"
  by (simp add: str_nat_def)

lemma str_nat_nat_str [simp]: "str_nat (nat_str n) = n"
proof (induction n rule: nat_str.induct)
  case (1 n)
  show ?case
  proof (cases "n < 10")
    case True
    then show ?thesis by (subst nat_str.simps) (simp add: str_nat_def digit_char_props)
  next
    case False
    with 1 show ?thesis
      by (subst nat_str.simps) (simp add: str_nat_snoc digit_char_props)
  qed
qed

lemma nat_str_inj: "nat_str m = nat_str n \<longleftrightarrow> m = n"
  by (metis str_nat_nat_str)

lemma is_digit_hd_not_minus: "is_digit c \<Longrightarrow> c \<noteq> CHR ''-''"
  by (auto simp: is_digit_def)

lemma int_str_inj: "int_str m = int_str n \<longleftrightarrow> m = n"
proof -
  have *: "nat_str k \<noteq> CHR ''-'' # t" for k t
    using nat_str_digits [of k] is_digit_hd_not_minus by force
  show ?thesis
    by (auto simp: int_str_def nat_str_inj * * [symmetric] split: if_splits)
qed

section \<open>Parsing numbers\<close>

definition is_ws :: "char \<Rightarrow> bool" where
  "is_ws c = (c = CHR '' '' \<or> 9 \<le> (of_char c :: nat) \<and> (of_char c :: nat) \<le> 13)"

definition js_trim_start :: "string \<Rightarrow> string" where
  "js_trim_start s = dropWhile is_ws s"

definition js_trim :: "string \<Rightarrow> string" where
  "js_trim s = rev (dropWhile is_ws (rev (dropWhile is_ws s)))"

definition span_digits :: "string \<Rightarrow> string \<times> string" where
  "span_digits s = (takeWhile is_digit s, dropWhile is_digit s)"

text \<open>The exponent part, if there is one: \<open>e\<close> or \<open>E\<close>, a sign, at least one digit.\<close>

definition parse_exp :: "string \<Rightarrow> int \<times> string" where
  "parse_exp s = (case s of [] \<Rightarrow> (0, s) | c # r \<Rightarrow>
     if c = CHR ''e'' \<or> c = CHR ''E'' then
       (let (neg, r1) = (case r of [] \<Rightarrow> (False, r) | d # r' \<Rightarrow>
              if d = CHR ''-'' then (True, r') else if d = CHR ''+'' then (False, r')
              else (False, r));
            (ds, r2) = span_digits r1
        in if ds = [] then (0, s) else ((if neg then - int (str_nat ds) else int (str_nat ds)), r2))
     else (0, s))"

text \<open>The longest unsigned decimal literal at the start of a string: its value and the
  rest.\<close>

definition parse_decimal :: "string \<Rightarrow> (rat \<times> string) option" where
  "parse_decimal s =
     (let (ip, r1) = span_digits s;
          (dot, fp, r2) = (case r1 of [] \<Rightarrow> (False, [], r1) | c # r \<Rightarrow>
             if c = CHR ''.'' then (let (f, r') = span_digits r in (True, f, r'))
             else (False, [], r1))
      in if ip = [] \<and> fp = [] then None
         else (let (e, r3) = parse_exp r2
               in Some (of_nat (str_nat (ip @ fp)) / 10 ^ length fp * 10 powi e, r3)))"

definition parse_sign :: "string \<Rightarrow> bool \<times> string" where
  "parse_sign s = (case s of [] \<Rightarrow> (False, s) | c # r \<Rightarrow>
     if c = CHR ''-'' then (True, r) else if c = CHR ''+'' then (False, r) else (False, s))"

fun digit_in_base :: "nat \<Rightarrow> char \<Rightarrow> nat option" where
  "digit_in_base b c =
     (let n = (of_char c :: nat);
          v = (if 48 \<le> n \<and> n \<le> 57 then Some (n - 48)
               else if 97 \<le> n \<and> n \<le> 102 then Some (n - 87)
               else if 65 \<le> n \<and> n \<le> 70 then Some (n - 55) else None)
      in case v of None \<Rightarrow> None | Some d \<Rightarrow> if d < b then Some d else None)"

fun parse_base :: "nat \<Rightarrow> nat \<Rightarrow> string \<Rightarrow> nat option" where
  "parse_base b acc [] = Some acc"
| "parse_base b acc (c # cs) =
     (case digit_in_base b c of None \<Rightarrow> None | Some d \<Rightarrow> parse_base b (b * acc + d) cs)"

text \<open>A \<open>0x\<close>, \<open>0o\<close> or \<open>0b\<close> literal: \<open>None\<close> where the string is none.\<close>

definition parse_prefixed :: "string \<Rightarrow> nat option option" where
  "parse_prefixed s = (case s of c # d # e # r \<Rightarrow>
     if c = CHR ''0'' \<and> (d = CHR ''x'' \<or> d = CHR ''X'') then Some (parse_base 16 0 (e # r))
     else if c = CHR ''0'' \<and> (d = CHR ''o'' \<or> d = CHR ''O'') then Some (parse_base 8 0 (e # r))
     else if c = CHR ''0'' \<and> (d = CHR ''b'' \<or> d = CHR ''B'') then Some (parse_base 2 0 (e # r))
     else None | _ \<Rightarrow> None)"

definition js_Number :: "string \<Rightarrow> jsnum" where
  "js_Number s = (let t = js_trim s in
     if t = [] then Fin 0
     else case parse_prefixed t of
       Some (Some n) \<Rightarrow> fl (of_nat n)
     | Some None \<Rightarrow> NaN
     | None \<Rightarrow>
        (let (neg, r) = parse_sign t in
         if r = ''Infinity'' then (if neg then NegInf else PosInf)
         else case parse_decimal r of
           Some (x, []) \<Rightarrow> fl (if neg then - x else x)
         | _ \<Rightarrow> NaN))"

definition js_parseFloat :: "string \<Rightarrow> jsnum" where
  "js_parseFloat s =
     (let (neg, r) = parse_sign (js_trim_start s) in
      if take 8 r = ''Infinity'' then (if neg then NegInf else PosInf)
      else case parse_decimal r of
        Some (x, _) \<Rightarrow> fl (if neg then - x else x)
      | None \<Rightarrow> NaN)"

definition js_BigInt :: "string \<Rightarrow> int res" where
  "js_BigInt s = (let t = js_trim s in
     if t = [] then Inr 0
     else case parse_prefixed t of
       Some (Some n) \<Rightarrow> Inr (int n)
     | Some None \<Rightarrow> Inl SyntaxError
     | None \<Rightarrow>
        (let (neg, r) = parse_sign t in
         if r \<noteq> [] \<and> list_all is_digit r
         then Inr (if neg then - int (str_nat r) else int (str_nat r))
         else Inl SyntaxError))"

subsection \<open>Parsing undoes printing\<close>

lemma takeWhile_all: "\<forall>c \<in> set s. P c \<Longrightarrow> takeWhile P s = s \<and> dropWhile P s = []"
  by (induction s) auto

lemma is_digit_not_ws: "is_digit c \<Longrightarrow> \<not> is_ws c"
  by (auto simp: is_digit_def is_ws_def)

lemma js_trim_no_ws:
  assumes "\<forall>c \<in> set s. \<not> is_ws c"
  shows "js_trim s = s"
proof -
  have *: "dropWhile is_ws t = t" if "\<forall>c \<in> set t. \<not> is_ws c" for t
    using that by (cases t) auto
  then show ?thesis using assms * [of "rev s"] by (simp add: js_trim_def)
qed

lemma parse_prefixed_digits:
  assumes "\<forall>c \<in> set s. is_digit c"
  shows "parse_prefixed s = None"
proof -
  have "c \<notin> {CHR ''x'', CHR ''X'', CHR ''o'', CHR ''O'', CHR ''b'', CHR ''B''}"
    if "is_digit c" for c using that by (auto simp: is_digit_def)
  then show ?thesis using assms by (auto simp: parse_prefixed_def split: list.splits)
qed

lemma parse_prefixed_minus: "parse_prefixed (CHR ''-'' # s) = None"
  by (auto simp: parse_prefixed_def split: list.splits)

lemma parse_decimal_digits:
  assumes "\<forall>c \<in> set s. is_digit c" "s \<noteq> []"
  shows "parse_decimal s = Some (of_nat (str_nat s), [])"
proof -
  have "span_digits s = (s, [])" using takeWhile_all [OF assms(1)] by (simp add: span_digits_def)
  then show ?thesis using assms(2) by (simp add: parse_decimal_def parse_exp_def)
qed

lemma parse_sign_digits:
  assumes "\<forall>c \<in> set s. is_digit c"
  shows "parse_sign s = (False, s)"
proof -
  have "c \<noteq> CHR ''-'' \<and> c \<noteq> CHR ''+''" if "is_digit c" for c
    using that by (auto simp: is_digit_def)
  then show ?thesis using assms by (auto simp: parse_sign_def split: list.splits)
qed

lemma digits_not_Infinity:
  assumes "\<forall>c \<in> set s. is_digit c" shows "s \<noteq> ''Infinity''"
  using assms by (auto simp: is_digit_def)

lemma int_str_no_ws: "\<forall>c \<in> set (int_str n). \<not> is_ws c"
  using nat_str_digits is_digit_not_ws by (auto simp: int_str_def is_ws_def)

lemma parse_sign_int_str:
  "parse_sign (int_str n) = (n < 0, nat_str (nat \<bar>n\<bar>))"
  using parse_sign_digits [OF nat_str_digits]
  by (auto simp: int_str_def parse_sign_def)

lemma parse_prefixed_int_str: "parse_prefixed (int_str n) = None"
  using parse_prefixed_digits [OF nat_str_digits] parse_prefixed_minus
  by (auto simp: int_str_def)

lemma int_str_nonempty [simp]: "int_str n \<noteq> []"
  by (simp add: int_str_def)

text \<open>\<open>Number(String(n))\<close> and \<open>BigInt(String(n))\<close> of a bigint.\<close>

lemma js_Number_int_str: "js_Number (int_str n) = num_of_int n"
proof -
  have v: "(if n < 0 then - rat_of_nat (nat \<bar>n\<bar>) else rat_of_nat (nat \<bar>n\<bar>)) = of_int n" by simp
  show ?thesis
    using digits_not_Infinity [OF nat_str_digits, of "nat \<bar>n\<bar>"] v
    by (simp add: js_Number_def js_trim_no_ws int_str_no_ws parse_prefixed_int_str
        parse_sign_int_str parse_decimal_digits [OF nat_str_digits] num_of_int_def Let_def)
qed

lemma js_BigInt_int_str: "js_BigInt (int_str n) = Inr n"
  using nat_str_digits [of "nat \<bar>n\<bar>"]
  by (auto simp: js_BigInt_def js_trim_no_ws int_str_no_ws parse_prefixed_int_str
      parse_sign_int_str Let_def list_all_iff)

section \<open>Printing numbers\<close>

text \<open>The decimal point position: \<open>10^(n-1) \<le> \<bar>x\<bar> < 10^n\<close> for \<open>x \<noteq> 0\<close>.\<close>

definition dec_point :: "rat \<Rightarrow> int" where
  "dec_point x = (if 1 \<le> \<bar>x\<bar> then int (length (nat_str (nat \<lfloor>\<bar>x\<bar>\<rfloor>)))
                  else 1 - int (length (nat_str (nat (\<lceil>1 / \<bar>x\<bar>\<rceil> - 1)))))"

text \<open>The digits and the point position of \<open>Number::toString\<close>: the shortest digit string
  that reads back as the number, of those the closest. \<open>shortest_from f k x\<close> tries \<open>k\<close>
  digits, then more; seventeen always do. A digit string that rounds up to the next power
  of ten is that power with the point one place on.\<close>

definition digits_of_len :: "nat \<Rightarrow> rat \<Rightarrow> nat option" where
  "digits_of_len k x =
     (let u = 10 powi (dec_point x - int k); a = nat \<lfloor>x / u\<rfloor>; b = nat \<lceil>x / u\<rceil>;
          ok = (\<lambda>n. round64 (of_nat n * u) = x)
      in if ok a \<and> (\<not> ok b \<or> x - of_nat a * u \<le> of_nat b * u - x) then Some a
         else if ok b then Some b else None)"

definition digits_at :: "nat \<Rightarrow> rat \<Rightarrow> nat \<Rightarrow> string \<times> int" where
  "digits_at k x n = (if n = 10 ^ k then (nat_str (10 ^ (k - 1)), dec_point x + 1)
                      else (nat_str n, dec_point x))"

fun shortest_from :: "nat \<Rightarrow> nat \<Rightarrow> rat \<Rightarrow> string \<times> int" where
  "shortest_from 0 k x = digits_at k x (nat (rne (x / 10 powi (dec_point x - int k))))"
| "shortest_from (Suc f) k x =
     (case digits_of_len k x of Some n \<Rightarrow> digits_at k x n | None \<Rightarrow> shortest_from f (Suc k) x)"

definition shortest_digits :: "rat \<Rightarrow> string \<times> int" where
  "shortest_digits x = shortest_from 16 1 x"

definition zeros :: "nat \<Rightarrow> string" where
  "zeros n = replicate n (CHR ''0'')"

definition exp_str :: "int \<Rightarrow> string" where
  "exp_str e = ''e'' @ (if e < 0 then ''-'' else ''+'') @ nat_str (nat \<bar>e\<bar>)"

definition mantissa_str :: "string \<Rightarrow> string" where
  "mantissa_str ds = (case ds of [] \<Rightarrow> [] | [d] \<Rightarrow> [d] | d # r \<Rightarrow> d # CHR ''.'' # r)"

definition pos_to_string :: "rat \<Rightarrow> string" where
  "pos_to_string x =
     (let (ds, n) = shortest_digits x; k = int (length ds)
      in if k \<le> n \<and> n \<le> 21 then ds @ zeros (nat (n - k))
         else if 0 < n \<and> n \<le> 21 then take (nat n) ds @ ''.'' @ drop (nat n) ds
         else if -6 < n \<and> n \<le> 0 then ''0.'' @ zeros (nat (- n)) @ ds
         else mantissa_str ds @ exp_str (n - 1))"

text \<open>\<open>String(a)\<close>, \<open>a.toString()\<close> and the template literal of a number.\<close>

fun js_toString :: "jsnum \<Rightarrow> string" where
  "js_toString NaN = ''NaN''"
| "js_toString PosInf = ''Infinity''"
| "js_toString NegInf = ''-Infinity''"
| "js_toString (Fin x) = (if x = 0 then ''0'' else if x < 0 then ''-'' @ pos_to_string (- x)
                          else pos_to_string x)"

text \<open>\<open>a.toExponential()\<close> without an argument: as many digits as necessary.\<close>

fun js_toExponential :: "jsnum \<Rightarrow> string" where
  "js_toExponential (Fin x) =
     (if x = 0 then ''0e+0''
      else (let (ds, n) = shortest_digits \<bar>x\<bar>
            in (if x < 0 then ''-'' else []) @ mantissa_str ds @ exp_str (n - 1)))"
| "js_toExponential a = js_toString a"

text \<open>\<open>a.toFixed(f)\<close>: the integer nearest to \<open>a \<cdot> 10^f\<close>, the larger of two, with the point
  put in; from \<open>10^21\<close> on as \<open>toString\<close>.\<close>

definition pad_left :: "nat \<Rightarrow> string \<Rightarrow> string" where
  "pad_left n s = zeros (n - length s) @ s"

definition fixed_digits :: "nat \<Rightarrow> nat \<Rightarrow> string" where
  "fixed_digits f n = (if f = 0 then nat_str n
     else (let s = pad_left (Suc f) (nat_str n)
           in take (length s - f) s @ ''.'' @ drop (length s - f) s))"

fun js_toFixed :: "nat \<Rightarrow> jsnum \<Rightarrow> string" where
  "js_toFixed f (Fin x) =
     (if 10 ^ 21 \<le> \<bar>x\<bar> then js_toString (Fin x)
      else (if x < 0 then ''-'' else []) @ fixed_digits f (nat \<lfloor>\<bar>x\<bar> * 10 ^ f + 1/2\<rfloor>))"
| "js_toFixed f a = js_toString a"

section \<open>String methods\<close>

text \<open>\<open>s.split(c)\<close> for a one-character separator.\<close>

fun js_split :: "char \<Rightarrow> string \<Rightarrow> string list" where
  "js_split c [] = [[]]"
| "js_split c (x # xs) =
     (if x = c then [] # js_split c xs
      else (case js_split c xs of [] \<Rightarrow> [[x]] | p # ps \<Rightarrow> (x # p) # ps))"

text \<open>\<open>s.replace(/\.?0+$/, "")\<close>: the zeros at the end, and a point before them.\<close>

definition strip_zeros :: "string \<Rightarrow> string" where
  "strip_zeros s =
     (let r = rev s; z = takeWhile (\<lambda>c. c = CHR ''0'') r; t = dropWhile (\<lambda>c. c = CHR ''0'') r
      in if z = [] then s
         else case t of [] \<Rightarrow> [] | c # t' \<Rightarrow> if c = CHR ''.'' then rev t' else rev t)"

definition starts_with :: "string \<Rightarrow> string \<Rightarrow> bool" where
  "starts_with p s = (take (length p) s = p)"

fun str_includes :: "string \<Rightarrow> string \<Rightarrow> bool" where
  "str_includes p [] = (p = [])"
| "str_includes p (c # s) = (starts_with p (c # s) \<or> str_includes p s)"

text \<open>\<open>s.slice(-n)\<close>.\<close>

definition take_last :: "nat \<Rightarrow> 'a list \<Rightarrow> 'a list" where
  "take_last n s = drop (length s - n) s"

lemma js_split_nonempty [simp]: "js_split c s \<noteq> []"
  by (induction s) (auto split: list.splits)

lemma js_split_no_sep: "c \<notin> set s \<Longrightarrow> js_split c s = [s]"
  by (induction s) auto

lemma js_split_append: "c \<notin> set s \<Longrightarrow> js_split c (s @ c # t) = s # js_split c t"
  by (induction s) auto

lemma digit_char_zero [simp]: "digit_char 0 = CHR ''0''"
  by (simp add: digit_char_def char_of_def bit_simps flip: numeral_eq_Suc)

lemma zeros_digits: "\<forall>c \<in> set (zeros n). is_digit c"
  by (simp add: zeros_def is_digit_def)

lemma length_pad_left: "length (pad_left n s) = max n (length s)"
  by (simp add: pad_left_def zeros_def)

lemma pad_left_digits: "\<forall>c \<in> set s. is_digit c \<Longrightarrow> \<forall>c \<in> set (pad_left n s). is_digit c"
  using zeros_digits by (auto simp: pad_left_def)

lemma fixed_digits_split:
  assumes "0 < f"
  shows "\<exists>i d. js_split (CHR ''.'') (fixed_digits f n) = [i, d] \<and> length d = f \<and> i \<noteq> [] \<and>
     (\<forall>c \<in> set (i @ d). is_digit c)"
proof -
  define s where "s = pad_left (Suc f) (nat_str n)"
  have d: "\<forall>c \<in> set s. is_digit c" unfolding s_def by (rule pad_left_digits) (rule nat_str_digits)
  have l: "Suc f \<le> length s" by (simp add: s_def length_pad_left)
  have nd: "CHR ''.'' \<notin> set s" using d by (auto simp: is_digit_def)
  then have "CHR ''.'' \<notin> set (take k s)" "CHR ''.'' \<notin> set (drop k s)" for k
    by (auto dest: in_set_takeD in_set_dropD)
  then have "js_split (CHR ''.'') (fixed_digits f n) =
      [take (length s - f) s, drop (length s - f) s]"
    using assms by (simp add: fixed_digits_def js_split_append js_split_no_sep flip: s_def)
  then show ?thesis using l d by (auto dest: in_set_takeD in_set_dropD)
qed

section \<open>Whole numbers print as their decimal digits\<close>

lemma nat_str_times10: "0 < m \<Longrightarrow> nat_str (10 * m) = nat_str m @ ''0''"
  by (subst nat_str.simps) simp

lemma nat_str_zeros: "0 < m \<Longrightarrow> nat_str (m * 10 ^ j) = nat_str m @ zeros j"
proof (induction j)
  case (Suc j)
  have "nat_str (m * 10 ^ Suc j) = nat_str (10 * (m * 10 ^ j))" by (simp add: mult.left_commute)
  also have "\<dots> = (nat_str m @ zeros j) @ ''0''"
    using Suc by (simp only: nat_str_times10 mult_pos_pos zero_less_power zero_less_numeral)
  finally show ?case by (simp add: zeros_def replicate_append_same)
qed (simp add: zeros_def)

lemma nat_str_length_bounds:
  "0 < n \<Longrightarrow> 10 ^ (length (nat_str n) - 1) \<le> n \<and> n < 10 ^ length (nat_str n)"
proof (induction n rule: nat_str.induct)
  case (1 n)
  show ?case
  proof (cases "n < 10")
    case True
    then show ?thesis using "1.prems" by (subst (1 2) nat_str.simps) simp
  next
    case False
    let ?l = "length (nat_str (n div 10))"
    have l: "length (nat_str n) = Suc ?l" using False by (subst nat_str.simps) simp
    have ih: "10 ^ (?l - 1) \<le> n div 10" "n div 10 < 10 ^ ?l"
      using "1.IH" [OF False] False by (simp_all add: div_greater_zero_iff)
    have "0 < ?l" by simp
    then have "10 ^ ?l = 10 * (10::nat) ^ (?l - 1)" by (simp add: power_eq_if)
    then have "10 ^ ?l \<le> n" using ih(1) by linarith
    moreover have "n < 10 * 10 ^ ?l" using ih(2) by linarith
    ultimately show ?thesis unfolding l by simp
  qed
qed

lemma nat_str_length_eq:
  assumes "0 < k" "10 ^ (k - 1) \<le> m" "m < 10 ^ k" shows "length (nat_str m) = k"
proof -
  have "0 < m" using assms(2) less_le_trans zero_less_power by fastforce
  note b = nat_str_length_bounds [OF this]
  have "(10::nat) ^ (length (nat_str m) - 1) < 10 ^ k" using b assms(3) by linarith
  then have "length (nat_str m) - 1 < k" by (rule power_less_imp_less_exp [rotated]) simp
  moreover have "(10::nat) ^ (k - 1) < 10 ^ length (nat_str m)" using b assms(2) by linarith
  then have "k - 1 < length (nat_str m)" by (rule power_less_imp_less_exp [rotated]) simp
  ultimately show ?thesis using assms(1) by linarith
qed

lemma dec_point_int: "0 < n \<Longrightarrow> dec_point (of_nat n) = int (length (nat_str n))"
  by (simp add: dec_point_def)

text \<open>\<open>k\<close> digits of a whole number below \<open>2^53\<close> suffice exactly if the rest are zeros.\<close>

lemma digits_of_len_int:
  assumes n: "0 < n" "n < 2 ^ 53" and k: "k \<le> length (nat_str n)"
  defines "v \<equiv> 10 ^ (length (nat_str n) - k)"
  shows "digits_of_len k (of_nat n) = (if v dvd n then Some (n div v) else None)"
proof -
  have u: "(10::rat) powi (dec_point (of_nat n) - int k) = of_nat v"
    using k by (simp add: dec_point_int [OF n(1)] v_def of_nat_diff [symmetric] del: of_nat_diff)
  have v0: "0 < v" by (simp add: v_def)
  have ex: "round64 (of_nat m) = of_nat m" if "m < 2 ^ 53" for m
    using round64_int [of "int m"] that by simp
  have fl: "nat \<lfloor>(of_nat n :: rat) / of_nat v\<rfloor> = n div v"
    by (simp add: floor_divide_of_nat_eq)
  define b where "b = nat \<lceil>(of_nat n :: rat) / of_nat v\<rceil>"
  have "(of_nat n :: rat) / of_nat v \<le> of_nat b"
    unfolding b_def by (metis of_nat_0_le_iff divide_nonneg_nonneg le_of_int_ceiling ceiling_mono
        ceiling_zero nat_0_le of_int_of_nat_eq)
  then have bu: "(of_nat n :: rat) \<le> of_nat b * of_nat v" using v0 by (simp add: field_simps)
  have lo: "round64 (of_nat (n div v) * of_nat v) = (of_nat n :: rat) \<longleftrightarrow> v dvd n"
  proof -
    have "n div v * v < 2 ^ 53" using n(2) by (meson le_less_trans div_times_less_eq_dividend)
    then have "round64 (of_nat (n div v) * of_nat v) = of_nat (n div v * v)"
      using ex [of "n div v * v"] by simp
    then show ?thesis by (metis dvd_div_mult_self dvd_triv_right of_nat_eq_iff)
  qed
  have hi: "round64 (of_nat b * of_nat v) \<noteq> of_nat n" if "\<not> v dvd n"
  proof -
    have "(of_nat n :: rat) \<le> of_nat (b * v)" using bu by simp
    then have "n \<le> b * v" by (simp only: of_nat_le_iff)
    moreover have "n \<noteq> b * v" using that by auto
    ultimately have "n + 1 \<le> b * v" by simp
    then have "rat_of_nat (n + 1) \<le> of_nat (b * v)" by (simp only: of_nat_le_iff)
    then have "round64 (of_nat (n + 1)) \<le> round64 (of_nat b * of_nat v)"
      using round64_mono by simp
    moreover have "round64 (rat_of_nat (n + 1)) = of_nat (n + 1)"
      using round64_int [of "int (n + 1)"] n(2) by simp
    ultimately show ?thesis by auto
  qed
  show ?thesis
  proof (cases "v dvd n")
    case True
    then have "rat_of_nat (n div v) * of_nat v = of_nat n" by (metis dvd_div_mult_self of_nat_mult)
    then show ?thesis using True lo bu unfolding digits_of_len_def Let_def u fl b_def [symmetric]
      by simp
  next
    case False
    then show ?thesis using lo hi unfolding digits_of_len_def Let_def u fl b_def [symmetric]
      by simp
  qed
qed

lemma shortest_from_int:
  assumes n: "0 < n" "n < 2 ^ 53"
    and "0 < k" "k \<le> length (nat_str n)" "length (nat_str n) < f + k"
  shows "\<exists>j m. n = m * 10 ^ j \<and> length (nat_str m) + j = length (nat_str n) \<and>
    shortest_from f k (of_nat n) = (nat_str m, int (length (nat_str n)))"
  using assms(3-)
proof (induction f arbitrary: k)
  case (Suc f)
  let ?l = "length (nat_str n)"
  show ?case
  proof (cases "10 ^ (?l - k) dvd n")
    case True
    then obtain m where m: "n = m * 10 ^ (?l - k)" by (metis dvd_div_mult_self)
    have "10 ^ (k - 1) * 10 ^ (?l - k) = (10::nat) ^ (?l - 1)"
      using Suc.prems by (simp flip: power_add)
    moreover have "10 ^ k * 10 ^ (?l - k) = (10::nat) ^ ?l"
      using Suc.prems by (simp flip: power_add)
    ultimately have "10 ^ (k - 1) \<le> m" "m < 10 ^ k"
      using nat_str_length_bounds [OF n(1)] m
      by (metis mult_le_cancel2 zero_less_power zero_less_numeral, metis mult_less_cancel2)
    then have "length (nat_str m) = k" "m \<noteq> 10 ^ k"
      using nat_str_length_eq [OF Suc.prems(1)] by auto
    moreover have "n div p = m" if "n = m * p" "0 < p" for p using that by simp
    from this [OF m] have "n div 10 ^ (?l - k) = m" by simp
    ultimately show ?thesis
      using True Suc.prems m digits_of_len_int [OF n Suc.prems(2)]
      by (intro exI [of _ "?l - k"] exI [of _ m]) (simp add: digits_at_def dec_point_int [OF n(1)])
  next
    case False
    then have "k \<noteq> ?l" by auto
    then show ?thesis
      using False Suc.IH [of "Suc k"] Suc.prems digits_of_len_int [OF n Suc.prems(2)] by simp
  qed
qed simp

lemma js_toString_nat:
  assumes "n < 2 ^ 53" shows "js_toString (Fin (of_nat n)) = nat_str n"
proof (cases "n = 0")
  case True
  then show ?thesis by (subst nat_str.simps) simp
next
  case False
  let ?l = "length (nat_str n)"
  have "10 ^ (?l - 1) \<le> n" using nat_str_length_bounds False by simp
  then have "(10::nat) ^ (?l - 1) < 10 ^ 16" using assms by simp
  then have l: "?l \<le> 16" using power_less_imp_less_exp [of "10::nat" "?l - 1" 16] by simp
  then obtain j m where m: "n = m * 10 ^ j" "length (nat_str m) + j = ?l"
      "shortest_digits (of_nat n) = (nat_str m, int ?l)"
    using shortest_from_int [of n 1 16] False assms
    by (auto simp: shortest_digits_def Suc_le_eq)
  have "0 < m" using m(1) False by (cases m) auto
  then have "nat_str n = nat_str m @ zeros j" using m(1) nat_str_zeros by simp
  then show ?thesis using False l m(2,3) by (simp add: pos_to_string_def)
qed

lemma js_toString_int:
  assumes "\<bar>n\<bar> < 2 ^ 53" shows "js_toString (Fin (of_int n)) = int_str n"
proof (cases "0 \<le> n")
  case True
  then show ?thesis using js_toString_nat [of "nat n"] assms by (simp add: int_str_def)
next
  case False
  then have "pos_to_string (of_nat (nat (- n))) = nat_str (nat (- n))"
    using js_toString_nat [of "nat (- n)"] assms by simp
  then show ?thesis using False by (simp add: int_str_def)
qed

end
