(* ===== verification/BigJs.thy ===== *)
theory BigJs
  imports JsString
begin

text \<open>
  The decimal library big.js, which is not part of the repository: a record of the
  operations the source calls, passed to the definitions that use them, and the documented
  laws of these operations over the exact value of a decimal. Also the untyped JavaScript
  values (\<open>number | string | null | undefined\<close>) that some functions take, with the
  language's conversions.
\<close>

section \<open>Untyped values\<close>

datatype jsval = JUndef | JNull | JNum jsnum | JStr string

definition is_nullish :: "jsval \<Rightarrow> bool" where
  "is_nullish v = (v = JUndef \<or> v = JNull)"

fun val_truthy :: "jsval \<Rightarrow> bool" where
  "val_truthy (JNum a) = num_truthy a"
| "val_truthy (JStr s) = (s \<noteq> [])"
| "val_truthy _ = False"

text \<open>\<open>Number(v)\<close> and \<open>String(v)\<close>.\<close>

fun val_Number :: "jsval \<Rightarrow> jsnum" where
  "val_Number JUndef = NaN"
| "val_Number JNull = Fin 0"
| "val_Number (JNum a) = a"
| "val_Number (JStr s) = js_Number s"

fun val_String :: "jsval \<Rightarrow> string" where
  "val_String JUndef = ''undefined''"
| "val_String JNull = ''null''"
| "val_String (JNum a) = js_toString a"
| "val_String (JStr s) = s"

text \<open>\<open>v || w\<close>.\<close>

definition val_or :: "jsval \<Rightarrow> jsval \<Rightarrow> jsval" where
  "val_or v w = (if val_truthy v then v else w)"

section \<open>The operations of big.js\<close>

record 'b bigjs =
  big_num :: "jsnum \<Rightarrow> 'b res"
  big_str :: "string \<Rightarrow> 'b res"
  big_times :: "'b \<Rightarrow> 'b \<Rightarrow> 'b"
  big_div :: "'b \<Rightarrow> 'b \<Rightarrow> 'b res"
  big_plus :: "'b \<Rightarrow> 'b \<Rightarrow> 'b"
  big_minus :: "'b \<Rightarrow> 'b \<Rightarrow> 'b"
  big_pow :: "'b \<Rightarrow> int \<Rightarrow> 'b res"
  big_round_down :: "'b \<Rightarrow> nat \<Rightarrow> 'b"
  big_toString :: "'b \<Rightarrow> string"
  big_toNumber :: "'b \<Rightarrow> jsnum"
  big_toFixed :: "'b \<Rightarrow> nat \<Rightarrow> string"
  big_toPrecision :: "'b \<Rightarrow> nat \<Rightarrow> string"
  big_lt :: "'b \<Rightarrow> 'b \<Rightarrow> bool"

text \<open>\<open>new Big(v)\<close> of an untyped value: neither \<open>undefined\<close> nor \<open>null\<close> is a number to the
  library.\<close>

fun big_val :: "'b bigjs \<Rightarrow> jsval \<Rightarrow> 'b res" where
  "big_val B (JNum a) = big_num B a"
| "big_val B (JStr s) = big_str B s"
| "big_val B _ = Inl BigError"

text \<open>Rounding towards zero to \<open>dp\<close> decimal places, the mode \<open>0\<close> of \<open>round\<close>.\<close>

definition rat_trunc :: "rat \<Rightarrow> int" where
  "rat_trunc x = (if 0 \<le> x then \<lfloor>x\<rfloor> else - \<lfloor>- x\<rfloor>)"

definition round_down_at :: "nat \<Rightarrow> rat \<Rightarrow> rat" where
  "round_down_at dp x = of_int (rat_trunc (x * 10 ^ dp)) / 10 ^ dp"

text \<open>The default of \<open>div\<close>: twenty decimal places, half up in magnitude.\<close>

definition round_half_up_at :: "nat \<Rightarrow> rat \<Rightarrow> rat" where
  "round_half_up_at dp x =
     (if 0 \<le> x then of_int \<lfloor>x * 10 ^ dp + 1/2\<rfloor> / 10 ^ dp
      else - (of_int \<lfloor>- x * 10 ^ dp + 1/2\<rfloor> / 10 ^ dp))"

text \<open>The documented behaviour the source relies on. \<open>val\<close> is the exact value of a decimal.
  Integers of at most \<open>2^53\<close> and the powers of ten up to \<open>10^22\<close> come in unchanged from
  numbers, and every integer from its decimal string; a decimal becomes the nearest number;
  NaN, the infinities, the empty string and strings with a character that no decimal literal
  has are rejected; sums, differences and
  products are exact; quotients are rounded at twenty places; integers below \<open>10^21\<close> print
  in positional notation and larger ones with an exponent, and a printed decimal has no
  characters but digits, signs, the point and the \<open>e\<close>.\<close>

definition num_char :: "char \<Rightarrow> bool" where
  "num_char c = (is_digit c \<or> c = CHR ''-'' \<or> c = CHR ''+'' \<or> c = CHR ''.'' \<or> c = CHR ''e'')"

definition literal_char :: "char \<Rightarrow> bool" where
  "literal_char c = (num_char c \<or> c = CHR ''E'')"

definition big_laws :: "'b bigjs \<Rightarrow> ('b \<Rightarrow> rat) \<Rightarrow> bool" where
  "big_laws B val \<longleftrightarrow>
     (\<forall>n. \<bar>n\<bar> \<le> 2 ^ 53 \<longrightarrow> (\<exists>b. big_num B (Fin (of_int n)) = Inr b \<and> val b = of_int n)) \<and>
     (\<forall>n. \<exists>b. big_str B (int_str n) = Inr b \<and> val b = of_int n) \<and>
     big_num B NaN = Inl BigError \<and> big_num B PosInf = Inl BigError \<and>
     big_num B NegInf = Inl BigError \<and> big_str B [] = Inl BigError \<and>
     (\<forall>s. \<not> list_all literal_char s \<longrightarrow> big_str B s = Inl BigError) \<and>
     (\<forall>a b. val (big_times B a b) = val a * val b) \<and>
     (\<forall>a b. val (big_plus B a b) = val a + val b) \<and>
     (\<forall>a b. val (big_minus B a b) = val a - val b) \<and>
     (\<forall>a b. big_div B a b = Inl BigError \<longleftrightarrow> val b = 0) \<and>
     (\<forall>a b. val b \<noteq> 0 \<longrightarrow> (\<exists>c. big_div B a b = Inr c)) \<and>
     (\<forall>a b c. big_div B a b = Inr c \<longrightarrow> val c = round_half_up_at 20 (val a / val b)) \<and>
     (\<forall>a n c. 0 \<le> n \<longrightarrow> big_pow B a n = Inr c \<longrightarrow> val c = val a ^ nat n) \<and>
     (\<forall>a n. 0 \<le> n \<longrightarrow> n \<le> 1000 \<longrightarrow> (\<exists>c. big_pow B a n = Inr c)) \<and>
     (\<forall>a dp. val (big_round_down B a dp) = round_down_at dp (val a)) \<and>
     (\<forall>a n. val a = of_int n \<longrightarrow> \<bar>n\<bar> < 10 ^ 21 \<longrightarrow> big_toString B a = int_str n) \<and>
     (\<forall>a. 10 ^ 21 \<le> \<bar>val a\<bar> \<longrightarrow> CHR ''e'' \<in> set (big_toString B a)) \<and>
     (\<forall>a. list_all num_char (big_toString B a)) \<and>
     (\<forall>a. big_toNumber B a = fl (val a)) \<and>
     (\<forall>a b. big_lt B a b = (val a < val b)) \<and>
     (\<forall>e. e \<le> 22 \<longrightarrow> (\<exists>b. big_num B (pow10 e) = Inr b \<and> val b = 10 ^ e)) \<and>
     (\<exists>b. big_str B ''1e18'' = Inr b \<and> val b = 10 ^ 18)"

lemma big_lawsD:
  assumes "big_laws B val"
  shows "\<bar>n\<bar> \<le> 2 ^ 53 \<Longrightarrow> \<exists>b. big_num B (Fin (of_int n)) = Inr b \<and> val b = of_int n"
    "\<exists>b. big_str B (int_str n) = Inr b \<and> val b = of_int n"
    "val (big_times B a b) = val a * val b"
    "val (big_plus B a b) = val a + val b"
    "val (big_minus B a b) = val a - val b"
    "big_div B a b = Inl BigError \<longleftrightarrow> val b = 0"
    "big_div B a b = Inr c \<Longrightarrow> val c = round_half_up_at 20 (val a / val b)"
    "val (big_round_down B a dp) = round_down_at dp (val a)"
    "val a = of_int n \<Longrightarrow> \<bar>n\<bar> < 10 ^ 21 \<Longrightarrow> big_toString B a = int_str n"
    "10 ^ 21 \<le> \<bar>val a\<bar> \<Longrightarrow> CHR ''e'' \<in> set (big_toString B a)"
    "val a = of_int n \<Longrightarrow> \<bar>n\<bar> \<le> 2 ^ 53 \<Longrightarrow> big_toNumber B a = Fin (of_int n)"
    "big_lt B a b = (val a < val b)"
    "list_all num_char (big_toString B a)"
proof -
  note L = assms [unfolded big_laws_def]
  show "\<bar>n\<bar> \<le> 2 ^ 53 \<Longrightarrow> \<exists>b. big_num B (Fin (of_int n)) = Inr b \<and> val b = of_int n"
    using L [THEN conjunct1] by simp
  show "\<exists>b. big_str B (int_str n) = Inr b \<and> val b = of_int n"
    using L [THEN conjunct2, THEN conjunct1] by simp
  show "val (big_times B a b) = val a * val b" using L by simp
  show "val (big_plus B a b) = val a + val b" using L by simp
  show "val (big_minus B a b) = val a - val b" using L by simp
  show "big_div B a b = Inl BigError \<longleftrightarrow> val b = 0" using L by simp
  show "big_div B a b = Inr c \<Longrightarrow> val c = round_half_up_at 20 (val a / val b)" using L by simp
  show "val (big_round_down B a dp) = round_down_at dp (val a)" using L by simp
  show "val a = of_int n \<Longrightarrow> \<bar>n\<bar> < 10 ^ 21 \<Longrightarrow> big_toString B a = int_str n"
    using L by simp
  show "10 ^ 21 \<le> \<bar>val a\<bar> \<Longrightarrow> CHR ''e'' \<in> set (big_toString B a)" using L by simp
  have "big_toNumber B a = fl (val a)" using L by simp
  then show "val a = of_int n \<Longrightarrow> \<bar>n\<bar> \<le> 2 ^ 53 \<Longrightarrow> big_toNumber B a = Fin (of_int n)"
    using fl_int by simp
  show "big_lt B a b = (val a < val b)" using L by simp
  show "list_all num_char (big_toString B a)" using L by simp
qed

text \<open>The powers of ten up to \<open>10^22\<close> are numbers exactly.\<close>

lemma pow10_value: "e \<le> 22 \<Longrightarrow> pow10 e = Fin (10 ^ e)"
proof -
  assume e: "e \<le> 22"
  have "(5::int) ^ e \<le> 5 ^ 22" using e by (rule power_increasing) simp
  then have "representable (of_int (5 ^ e) * 2 powi (int e))"
    using e by (intro representable_dyadic) simp_all
  then have "representable ((5 * 2) ^ e)" by (simp only: power_mult_distrib) simp
  then have "representable (10 ^ e)" by simp
  then show ?thesis by (simp add: pow10_def fl_representable)
qed

lemma big_laws_pow10:
  assumes "big_laws B val" "e \<le> 22"
  shows "\<exists>b. big_num B (pow10 e) = Inr b \<and> val b = 10 ^ e"
  using assms unfolding big_laws_def by metis

lemma big_laws_number:
  assumes "big_laws B val"
  shows "big_toNumber B a = fl (val a)" "\<exists>b. big_str B ''1e18'' = Inr b \<and> val b = 10 ^ 18"
  using assms unfolding big_laws_def by simp_all

text \<open>A quotient of a non-zero divisor exists.\<close>

lemma big_div_error:
  assumes "big_laws B val" "val b \<noteq> 0"
  shows "\<exists>q. big_div B a b = Inr q"
  using assms unfolding big_laws_def by metis

lemma big_laws_reject:
  assumes "big_laws B val"
  shows "big_num B NaN = Inl BigError" "big_num B PosInf = Inl BigError"
    "big_num B NegInf = Inl BigError" "big_str B [] = Inl BigError"
    "\<not> list_all literal_char s \<Longrightarrow> big_str B s = Inl BigError"
  using assms unfolding big_laws_def by simp_all

lemma big_laws_pow:
  assumes "big_laws B val" "0 \<le> n" "n \<le> 1000"
  shows "\<exists>c. big_pow B a n = Inr c \<and> val c = val a ^ nat n"
  using assms unfolding big_laws_def by metis

subsection \<open>An exact implementation\<close>

text \<open>The library over the rationals themselves. It shows that the laws can hold, and the
  witnesses run on it.\<close>

definition rat_of_dec :: "string \<Rightarrow> rat res" where
  "rat_of_dec s =
     (let (neg, r) = (case s of c # t \<Rightarrow> if c = CHR ''-'' then (True, t) else (False, s)
                              | [] \<Rightarrow> (False, s))
      in case parse_decimal r of Some (x, []) \<Rightarrow> Inr (if neg then - x else x)
                               | _ \<Rightarrow> Inl BigError)"

fun rat_of_num :: "jsnum \<Rightarrow> rat res" where
  "rat_of_num (Fin x) = Inr x"
| "rat_of_num _ = Inl BigError"

definition rat_to_str :: "rat \<Rightarrow> string" where
  "rat_to_str x = (if of_int \<lfloor>x\<rfloor> = x \<and> \<bar>x\<bar> < 10 ^ 21 then int_str \<lfloor>x\<rfloor> else js_toString (Fin x))"

definition rat_big :: "rat bigjs" where
  "rat_big =
     \<lparr> big_num = rat_of_num,
       big_str = rat_of_dec,
       big_times = (*),
       big_div = (\<lambda>a b. if b = 0 then Inl BigError else Inr (round_half_up_at 20 (a / b))),
       big_plus = (+),
       big_minus = (-),
       big_pow = (\<lambda>a n. Inr (if 0 \<le> n then a ^ nat n else round_half_up_at 20 (1 / a ^ nat (- n)))),
       big_round_down = (\<lambda>a dp. round_down_at dp a),
       big_toString = rat_to_str,
       big_toNumber = (\<lambda>a. fl a),
       big_toFixed = (\<lambda>a dp. js_toFixed dp (Fin a)),
       big_toPrecision = (\<lambda>a n. rat_to_str a),
       big_lt = (<) \<rparr>"

lemma rat_of_dec_int_str: "rat_of_dec (int_str n) = Inr (of_int n)"
proof -
  have h: "nat_str k \<noteq> CHR ''-'' # t" for k t
    using nat_str_digits [of k] is_digit_hd_not_minus by force
  have p: "parse_decimal (nat_str k) = Some (of_nat k, [])" for k
    using parse_decimal_digits [OF nat_str_digits nat_str_nonempty, of k] by simp
  show ?thesis
  proof (cases "n < 0")
    case True
    then show ?thesis by (simp add: rat_of_dec_def int_str_def p)
  next
    case False
    then obtain c t where s: "nat_str (nat n) = c # t" "c \<noteq> CHR ''-''"
      using h [of "nat n"] nat_str_nonempty [of "nat n"] by (cases "nat_str (nat n)") auto
    then show ?thesis using False p [of "nat n"]
      by (simp add: rat_of_dec_def int_str_def)
  qed
qed

lemma nat_str_length: "10 ^ k \<le> n \<Longrightarrow> k < length (nat_str n)"
proof (induction n arbitrary: k rule: nat_str.induct)
  case (1 n)
  show ?case
  proof (cases k)
    case 0
    then show ?thesis by (simp add: Suc_le_eq)
  next
    case (Suc j)
    then have "10 ^ j \<le> n div 10" "\<not> n < 10"
      using "1.prems" by (auto simp: less_eq_div_iff_mult_less_eq)
        (metis le_trans mult.commute mult_le_mono2 nat_one_le_power nat_mult_1_right
          zero_less_numeral le_less_trans less_le_not_le one_le_power one_le_numeral)
    then show ?thesis using "1.IH" [of j] Suc by (subst nat_str.simps) simp
  qed
qed

lemma shortest_from_point:
  "snd (shortest_from f k x) = dec_point x \<or> snd (shortest_from f k x) = dec_point x + 1"
  by (induction f k x rule: shortest_from.induct)
    (auto simp: digits_at_def split: option.splits)

lemma pos_to_string_exp:
  assumes "10 ^ 21 \<le> x"
  shows "CHR ''e'' \<in> set (pos_to_string x)"
proof -
  have "of_int (10 ^ 21) \<le> x" using assms by simp
  then have "(10::int) ^ 21 \<le> \<lfloor>x\<rfloor>" by (simp only: le_floor_iff)
  then have "nat (10 ^ 21) \<le> nat \<lfloor>x\<rfloor>" by (rule nat_mono)
  then have "10 ^ 21 \<le> nat \<lfloor>x\<rfloor>" by (simp add: nat_power_eq)
  then have "21 < length (nat_str (nat \<lfloor>x\<rfloor>))" by (rule nat_str_length)
  moreover have "1 \<le> x" using assms by simp
  ultimately have "21 < dec_point x" by (simp add: dec_point_def)
  moreover obtain ds n where d: "shortest_digits x = (ds, n)" by (cases "shortest_digits x")
  ultimately have "21 < n"
    using shortest_from_point [of 16 1 x] by (auto simp: shortest_digits_def)
  then show ?thesis by (simp add: pos_to_string_def d exp_str_def)
qed

lemma rat_to_str_exp: "10 ^ 21 \<le> \<bar>x\<bar> \<Longrightarrow> CHR ''e'' \<in> set (rat_to_str x)"
  using pos_to_string_exp [of x] pos_to_string_exp [of "- x"]
  by (cases "0 \<le> x") (auto simp: rat_to_str_def)

lemma rat_to_str_int: "\<bar>n\<bar> < 10 ^ 21 \<Longrightarrow> rat_to_str (of_int n) = int_str n"
proof -
  assume "\<bar>n\<bar> < 10 ^ 21"
  then have "\<bar>rat_of_int n\<bar> < of_int (10 ^ 21)" by (simp only: of_int_less_iff flip: of_int_abs)
  then show ?thesis by (simp add: rat_to_str_def)
qed

lemma nat_str_num_char [simp]: "list_all num_char (nat_str n)"
  using nat_str_digits [of n] by (auto simp: list_all_iff num_char_def)

lemma shortest_digits_num_char:
  "shortest_digits x = (ds, n) \<Longrightarrow> list_all num_char ds"
proof -
  have "list_all num_char (fst (shortest_from f k x))" for f k
    by (induction f k x rule: shortest_from.induct)
      (auto simp: digits_at_def split: option.splits)
  then show "shortest_digits x = (ds, n) \<Longrightarrow> list_all num_char ds"
    by (metis fst_conv shortest_digits_def)
qed

lemma num_char_lits [simp]:
  "num_char (CHR ''0'')" "num_char (CHR ''e'')" "num_char (CHR ''+'')" "num_char (CHR ''-'')"
  "num_char (CHR ''.'')"
  by (simp_all add: num_char_def is_digit_def)

lemma list_all_take_drop:
  "list_all P xs \<Longrightarrow> list_all P (take n xs)" "list_all P xs \<Longrightarrow> list_all P (drop n xs)"
  by (auto simp: list_all_iff dest: in_set_takeD in_set_dropD)

lemma parts_num_char:
  "list_all num_char (zeros n)" "list_all num_char (exp_str e)"
  "list_all num_char ds \<Longrightarrow> list_all num_char (mantissa_str ds)"
  by (simp add: zeros_def list_all_iff, simp add: exp_str_def,
      cases ds, auto simp: mantissa_str_def split: list.split)

lemma pos_to_string_num_char: "list_all num_char (pos_to_string x)"
proof -
  obtain ds n where d: "shortest_digits x = (ds, n)" by (cases "shortest_digits x")
  note c = shortest_digits_num_char [OF d]
  show ?thesis
    using c by (simp add: pos_to_string_def d parts_num_char list_all_take_drop Let_def)
qed

lemma rat_to_str_num_char: "list_all num_char (rat_to_str x)"
  using pos_to_string_num_char by (auto simp: rat_to_str_def int_str_def)

lemma literal_char_lits [simp]:
  "literal_char (CHR ''.'')" "literal_char (CHR ''e'')" "literal_char (CHR ''E'')"
  "literal_char (CHR ''+'')" "literal_char (CHR ''-'')"
  by (simp_all add: literal_char_def)

lemma literal_digits: "list_all literal_char (takeWhile is_digit s)"
  by (auto simp: list_all_iff literal_char_def num_char_def dest: set_takeWhileD)

lemma literal_all_digits: "\<forall>c \<in> set s. is_digit c \<Longrightarrow> list_all literal_char s"
  by (auto simp: list_all_iff literal_char_def num_char_def)

lemma literal_digit: "is_digit c \<Longrightarrow> literal_char c"
  by (simp add: literal_char_def num_char_def)

lemma literal_rest:
  "list_all literal_char (dropWhile is_digit s) \<Longrightarrow> list_all literal_char s"
  using literal_digits [of s] takeWhile_dropWhile_id [of is_digit s] list_all_append by metis

lemma parse_exp_literal: "snd (parse_exp s) = [] \<Longrightarrow> list_all literal_char s"
  by (auto simp: parse_exp_def span_digits_def Let_def literal_all_digits literal_digit
      split: list.splits if_splits prod.splits)

lemma parse_decimal_literal: "parse_decimal s = Some (x, []) \<Longrightarrow> list_all literal_char s"
proof -
  assume p: "parse_decimal s = Some (x, [])"
  define r where "r = dropWhile is_digit s"
  have "list_all literal_char r"
  proof (cases r)
    case (Cons c t)
    show ?thesis
    proof (cases "c = CHR ''.''")
      case True
      have "snd (parse_exp (dropWhile is_digit t)) = []"
        using p Cons True unfolding r_def
        by (auto simp: parse_decimal_def span_digits_def Let_def split: if_splits prod.splits)
      then show ?thesis using Cons True parse_exp_literal literal_rest by auto
    next
      case False
      have "snd (parse_exp r) = []"
        using p Cons False unfolding r_def
        by (auto simp: parse_decimal_def span_digits_def Let_def split: if_splits prod.splits)
      then show ?thesis by (rule parse_exp_literal)
    qed
  qed simp
  then show ?thesis unfolding r_def by (rule literal_rest)
qed

lemma rat_of_dec_literal:
  assumes "\<not> list_all literal_char s" shows "rat_of_dec s = Inl BigError"
proof (rule ccontr)
  assume "rat_of_dec s \<noteq> Inl BigError"
  then have "\<exists>r. (\<exists>x. parse_decimal r = Some (x, [])) \<and> (s = r \<or> s = CHR ''-'' # r)"
    by (auto simp: rat_of_dec_def Let_def split: list.splits option.splits if_splits prod.splits)
  then show False using assms parse_decimal_literal by auto
qed

lemma rat_of_dec_1e18: "rat_of_dec ''1e18'' = Inr (10 ^ 18)"
  by code_simp

lemma rat_big_laws: "big_laws rat_big (\<lambda>x. x)"
  unfolding big_laws_def rat_big_def bigjs.simps
  using rat_of_dec_literal rat_of_dec_int_str rat_to_str_int rat_to_str_exp rat_to_str_num_char fl_int
    pow10_value rat_of_dec_1e18
  by (simp add: rat_of_dec_def parse_decimal_def span_digits_def)

end
