(* ===== verification/Format.thy ===== *)
theory Format
  imports BigJs
begin

text \<open>
  The formatting and amount helpers of \<open>utils/common.ts\<close>, \<open>utils/fee.ts\<close>,
  \<open>utils/getImgUrl.ts\<close> and \<open>utils/principal.ts\<close>. Functions that go through big.js take the
  library as their first argument. The lemmas show which amounts the conversions between
  display units and ledger units keep, where they throw, and what the unit scaling and the
  trailing-zeros replacement do to the number that is shown.
\<close>

section \<open>Amounts and ledger units\<close>

text \<open>The exponent is a number or a bigint; a bigint goes through \<open>Number\<close>. \<open>10 ** e\<close> of the
  source with a whole exponent is \<open>pow10\<close>.\<close>

definition multiplyAndConvertToBigInt :: "'b bigjs \<Rightarrow> jsval \<Rightarrow> nat \<Rightarrow> int res" where
  "multiplyAndConvertToBigInt B value exponent =
     res_bind (big_num B (val_Number (val_or value (JNum (Fin 0))))) (\<lambda>v.
     res_bind (big_num B (pow10 exponent)) (\<lambda>p.
       js_BigInt (big_toString B (big_round_down B (big_times B v p) 0))))"

definition divideAndConvertToNumber :: "'b bigjs \<Rightarrow> jsnum \<Rightarrow> nat \<Rightarrow> nat \<Rightarrow> jsnum res" where
  "divideAndConvertToNumber B dividend exponent dps =
     res_bind (big_num B dividend) (\<lambda>v.
     res_bind (big_num B (pow10 exponent)) (\<lambda>p.
     res_bind (big_div B v p) (\<lambda>x.
       Inr (js_Number (big_toString B (big_round_down B x dps))))))"

section \<open>Fees\<close>

definition computeFee :: "'b bigjs \<Rightarrow> jsnum \<Rightarrow> bool \<Rightarrow> jsnum \<Rightarrow> jsnum res" where
  "computeFee B amount isFixed fee =
     (if isFixed then Inr fee
      else res_bind (big_num B amount) (\<lambda>a. res_bind (big_num B fee) (\<lambda>f.
             Inr (js_Number (big_toPrecision B (big_times B a f) 4)))))"

record fee_params =
  fp_amount :: jsnum
  isTransferFeeFixed :: bool
  transferFee :: jsnum
  isBurnFeeFixed :: bool
  burnFee :: jsnum

definition calculateTotalTokenAmountWithFees :: "'b bigjs \<Rightarrow> fee_params \<Rightarrow> jsnum res" where
  "calculateTotalTokenAmountWithFees B p =
     res_bind (computeFee B (fp_amount p) (isTransferFeeFixed p) (transferFee p)) (\<lambda>t.
     res_bind (computeFee B (fp_amount p) (isBurnFeeFixed p) (burnFee p)) (\<lambda>b.
       Inr (js_add (js_add (fp_amount p) t) b)))"

definition calculateTotalTokenAmountWithFeesToBigint ::
  "'b bigjs \<Rightarrow> fee_params \<Rightarrow> nat \<Rightarrow> int res" where
  "calculateTotalTokenAmountWithFeesToBigint B p dps =
     res_bind (calculateTotalTokenAmountWithFees B p)
       (\<lambda>a. multiplyAndConvertToBigInt B (JNum a) dps)"

section \<open>Display of numbers\<close>

text \<open>The match of \<open>/\d(?:\.(\d*))?e([+-]\d+)/\<close> in the output of \<open>toExponential\<close>: the digits
  after the point (empty where there are none) and the exponent.\<close>

definition match_exponential :: "string \<Rightarrow> (string \<times> int) option" where
  "match_exponential s =
     (let r = dropWhile (\<lambda>c. \<not> is_digit c) s
      in case r of [] \<Rightarrow> None | d # r1 \<Rightarrow>
        (let (fp, r2) = (case r1 of [] \<Rightarrow> ([], r1) | c # r' \<Rightarrow>
               if c = CHR ''.'' then span_digits r' else ([], r1))
         in case r2 of e # sg # ds \<Rightarrow>
              if e = CHR ''e'' \<and> (sg = CHR ''+'' \<or> sg = CHR ''-'') \<and> fst (span_digits ds) \<noteq> []
              then Some (fp, (if sg = CHR ''-'' then - int (str_nat (fst (span_digits ds)))
                              else int (str_nat (fst (span_digits ds)))))
              else None
            | _ \<Rightarrow> None))"

text \<open>The first test of the source, \<open>Number.isNaN(~~x)\<close>, is false for every \<open>x\<close>: \<open>~~\<close> yields
  a 32-bit integer.\<close>

definition transferToNumber :: "jsval \<Rightarrow> jsval" where
  "transferToNumber v =
     (if \<not> val_truthy v \<or> js_eq (val_Number v) (Fin 0) then v
      else (let x = js_parseFloat (val_String v);
                m = match_exponential (js_toExponential x);
                dotLen = max 0 (case m of None \<Rightarrow> 0 | Some (fp, e) \<Rightarrow> int (length fp) - e);
                n = js_toFixed (if dotLen > 7 then 7 else nat dotLen) x
            in if CHR ''e'' \<in> set (js_toString (js_Number n)) then JStr n
               else JNum (js_Number n)))"

text \<open>The loop \<open>while (num >= 1000 && unitIndex < units.length - 1)\<close>.\<close>

function scale_units :: "jsnum \<Rightarrow> nat \<Rightarrow> jsnum \<times> nat" where
  "scale_units num unitIndex =
     (if js_le (Fin 1000) num \<and> unitIndex < 4
      then scale_units (js_div num (Fin 1000)) (Suc unitIndex) else (num, unitIndex))"
  by pat_completeness auto

termination scale_units
  by (relation "measure (\<lambda>(_, i). 4 - i)") auto

declare scale_units.simps [simp del]

definition units :: "string list" where
  "units = ['''', ''K'', ''M'', ''B'', ''T'']"

text \<open>\<open>x.toFixed(18).split(".")\<close>, its first and second part.\<close>

definition fixed_parts :: "jsnum \<Rightarrow> string \<times> string" where
  "fixed_parts num = (case js_split (CHR ''.'') (js_toFixed 18 num) of
     [] \<Rightarrow> ([], []) | [i] \<Rightarrow> (i, []) | i # d # _ \<Rightarrow> (i, d))"

definition leading_zeros :: "string \<Rightarrow> nat" where
  "leading_zeros s = length (takeWhile (\<lambda>c. c = CHR ''0'') s)"

text \<open>\<open>decimalPart.replace(/^0+/, "").substring(0, unit).replace(/\.?0+$/, "")\<close>.\<close>

definition nonzero_part :: "nat \<Rightarrow> string \<Rightarrow> string" where
  "nonzero_part unit d = strip_zeros (take unit (dropWhile (\<lambda>c. c = CHR ''0'') d))"

fun amount_num :: "jsval \<Rightarrow> jsnum" where
  "amount_num (JStr s) = js_parseFloat s"
| "amount_num v = val_Number v"

definition formatAmountByUnit :: "jsval \<Rightarrow> nat \<Rightarrow> string" where
  "formatAmountByUnit v unit =
     (if is_nullish v then ''0''
      else let num = amount_num v in
      if js_eq num (Fin 0) then ''0''
      else (let (num, unitIndex) = scale_units num 0;
                (intPart, decimalPart) = fixed_parts num;
                numZeros = leading_zeros decimalPart
            in if intPart = ''0'' \<and> numZeros \<ge> 2
               then ''0.0{'' @ nat_str numZeros @ ''}'' @ nonzero_part unit decimalPart
               else strip_zeros (js_toFixed 2 num) @ '' '' @ units ! unitIndex))"

definition formatAmountByUnitToT :: "jsval \<Rightarrow> nat \<Rightarrow> bool \<Rightarrow> string" where
  "formatAmountByUnitToT v unit isneedT =
     (if is_nullish v then ''0''
      else let num = amount_num v in
      if js_eq num (Fin 0) then ''0''
      else (let num = js_div num (Fin 1000000000000);
                (intPart, decimalPart) = fixed_parts num;
                numZeros = leading_zeros decimalPart
            in if intPart = ''0'' \<and> isneedT \<and> numZeros \<ge> 2
               then ''0.0{'' @ nat_str numZeros @ ''}'' @ nonzero_part unit decimalPart @
                    '' '' @ (if isneedT then ''T'' else [])
               else if isneedT then strip_zeros (js_toFixed 2 num) @ '' T''
               else strip_zeros (js_toString num)))"

section \<open>Strings and links\<close>

definition default_img :: string where
  "default_img = ''https://image.fomowell.com/api/files/download/default''"

definition getImgUrl :: "string \<Rightarrow> string" where
  "getImgUrl reference =
     (if reference \<noteq> [] then
        (if starts_with ''http'' reference then default_img
         else ''https://image.fomowell.com/api/files/download/'' @ reference)
      else default_img)"

definition truncateString :: "string \<Rightarrow> nat \<Rightarrow> string" where
  "truncateString str mx =
     (if length str \<le> mx then str else take 5 str @ ''...'' @ take_last 5 str)"

definition is_hex :: "char \<Rightarrow> bool" where
  "is_hex c = (digit_in_base 16 c \<noteq> None)"

definition isValidAccountId :: "string \<Rightarrow> bool" where
  "isValidAccountId s = (length s = 64 \<and> list_all is_hex s)"

text \<open>\<open>Principal.fromText\<close> is the agent library's: the argument tells whether it accepts the
  text. It accepts a text only if it is the text of the principal it decodes to, so a
  principal is identified with its text.\<close>

type_synonym principal = string

definition from_text :: "(string \<Rightarrow> bool) \<Rightarrow> string \<Rightarrow> principal res" where
  "from_text valid s = (if valid s then Inr s else Inl (JsError ''Invalid principal''))"

definition isValidPrincipal :: "(string \<Rightarrow> bool) \<Rightarrow> string \<Rightarrow> bool" where
  "isValidPrincipal valid s = (case from_text valid s of Inl _ \<Rightarrow> False | Inr _ \<Rightarrow> True)"

section \<open>Lemmas\<close>

subsection \<open>Ledger units\<close>

lemma round_down_at_0_int: "round_down_at 0 (of_int n) = of_int n"
  by (simp add: round_down_at_def rat_trunc_def)

lemma pow10_exact: "e \<le> 15 \<Longrightarrow> pow10 e = Fin (of_int (10 ^ e))"
proof -
  assume "e \<le> 15"
  then have "(10::int) ^ e \<le> 10 ^ 15" by (rule power_increasing) simp
  then have "fl (of_int (10 ^ e)) = Fin (of_int (10 ^ e))" by (intro fl_int) auto
  then show ?thesis by (simp add: pow10_def)
qed

lemma num_char_props:
  "num_char c \<Longrightarrow> \<not> is_ws c"
  "num_char c \<Longrightarrow> c \<notin> {CHR ''x'', CHR ''X'', CHR ''o'', CHR ''O'', CHR ''b'', CHR ''B''}"
  by (auto simp: num_char_def is_digit_def is_ws_def)

lemma exp_string_no_bigint:
  assumes "CHR ''e'' \<in> set s" "list_all num_char s"
  shows "js_BigInt s = Inl SyntaxError"
proof -
  have t: "js_trim s = s"
    using assms(2) num_char_props(1) by (intro js_trim_no_ws) (auto simp: list_all_iff)
  have p: "parse_prefixed s = None"
    using assms(2) num_char_props(2)
    by (auto simp: parse_prefixed_def list_all_iff split: list.splits)
  have "CHR ''e'' \<in> set (snd (parse_sign s))"
    using assms(1) by (auto simp: parse_sign_def split: list.splits)
  moreover have "\<not> is_digit (CHR ''e'')" by (simp add: is_digit_def)
  ultimately have "\<not> list_all is_digit (snd (parse_sign s))"
    by (metis list_all_iff)
  then show ?thesis
    using assms(1) t p by (auto simp: js_BigInt_def Let_def split: prod.splits)
qed

lemma multiply_step:
  assumes L: "big_laws B val" and n: "\<bar>n\<bar> \<le> 2 ^ 53" and e: "e \<le> 15"
  shows "\<exists>y. val y = of_int (n * 10 ^ e) \<and>
    multiplyAndConvertToBigInt B (JNum (Fin (of_int n))) e = js_BigInt (big_toString B y)"
proof -
  obtain v where v: "big_num B (Fin (of_int n)) = Inr v" "val v = of_int n"
    using big_lawsD(1) [OF L n] by blast
  have "(10::int) ^ e \<le> 10 ^ 15" using e by (rule power_increasing) simp
  then have "\<bar>(10::int) ^ e\<bar> \<le> 2 ^ 53" by simp
  then obtain p where p: "big_num B (pow10 e) = Inr p" "val p = of_int (10 ^ e)"
    using big_lawsD(1) [OF L, of "10 ^ e"] pow10_exact [OF e] by auto
  let ?y = "big_round_down B (big_times B v p) 0"
  have "val (big_times B v p) = of_int (n * 10 ^ e)"
    using big_lawsD(3) [OF L] v p by simp
  then have "val ?y = of_int (n * 10 ^ e)"
    by (simp only: big_lawsD(8) [OF L] round_down_at_0_int)
  moreover have "val_Number (val_or (JNum (Fin (of_int n))) (JNum (Fin 0))) = Fin (of_int n)"
    by (simp add: val_or_def num_truthy_def)
  ultimately show ?thesis using v p by (auto simp: multiplyAndConvertToBigInt_def)
qed

lemma multiply_exact:
  assumes "big_laws B val" "\<bar>n\<bar> \<le> 2 ^ 53" "e \<le> 15" "\<bar>n * 10 ^ e\<bar> < 10 ^ 21"
  shows "multiplyAndConvertToBigInt B (JNum (Fin (of_int n))) e = Inr (n * 10 ^ e)"
proof -
  obtain y where y: "val y = of_int (n * 10 ^ e)"
    "multiplyAndConvertToBigInt B (JNum (Fin (of_int n))) e = js_BigInt (big_toString B y)"
    using multiply_step [OF assms(1-3)] by blast
  show ?thesis unfolding y(2) big_lawsD(9) [OF assms(1) y(1) assms(4)] by (rule js_BigInt_int_str)
qed

lemma multiply_overflow:
  assumes "big_laws B val" "\<bar>n\<bar> \<le> 2 ^ 53" "e \<le> 15" "10 ^ 21 \<le> \<bar>n * 10 ^ e\<bar>"
  shows "multiplyAndConvertToBigInt B (JNum (Fin (of_int n))) e = Inl SyntaxError"
proof -
  obtain y where y: "val y = of_int (n * 10 ^ e)"
    "multiplyAndConvertToBigInt B (JNum (Fin (of_int n))) e = js_BigInt (big_toString B y)"
    using multiply_step [OF assms(1-3)] by blast
  have "rat_of_int (10 ^ 21) \<le> of_int \<bar>n * 10 ^ e\<bar>" using assms(4) by (simp only: of_int_le_iff)
  then have "10 ^ 21 \<le> \<bar>val y\<bar>" unfolding y(1) by (simp del: of_int_mult)
  then show ?thesis unfolding y(2)
    by (intro exp_string_no_bigint big_lawsD(10) [OF assms(1)] big_lawsD(13) [OF assms(1)])
qed

subsection \<open>Units\<close>

lemma scale_units_index: "i \<le> 4 \<Longrightarrow> snd (scale_units x i) \<le> 4"
proof (induction x i rule: scale_units.induct)
  case (1 x i)
  then show ?case by (subst scale_units.simps) (auto simp: Suc_le_eq)
qed

lemma scale_units_stop:
  "i \<le> 4 \<Longrightarrow> snd (scale_units x i) = 4 \<or> \<not> js_le (Fin 1000) (fst (scale_units x i))"
proof (induction x i rule: scale_units.induct)
  case (1 x i)
  then show ?case by (cases "i = 4") (subst scale_units.simps; auto simp: scale_units.simps)+
qed

lemma strip_zeros_no_zero: "last s \<noteq> CHR ''0'' \<Longrightarrow> strip_zeros s = s"
  by (cases s rule: rev_cases) (auto simp: strip_zeros_def)

lemma getImgUrl_prefix:
  "starts_with ''https://image.fomowell.com/api/files/download/'' (getImgUrl r)"
  by (simp add: getImgUrl_def default_img_def starts_with_def)

lemma truncateString_length:
  "10 \<le> mx \<Longrightarrow> length (truncateString s mx) \<le> max mx 13"
  by (auto simp: truncateString_def take_last_def)

lemma multiply_text_step:
  assumes L: "big_laws B val" and n: "\<bar>n\<bar> \<le> 2 ^ 53" and e: "e \<le> 22"
  shows "\<exists>y. val y = of_int (n * 10 ^ e) \<and>
    multiplyAndConvertToBigInt B (JStr (int_str n)) e = js_BigInt (big_toString B y)"
proof -
  obtain v where v: "big_num B (Fin (of_int n)) = Inr v" "val v = of_int n"
    using big_lawsD(1) [OF L n] by blast
  obtain p where p: "big_num B (pow10 e) = Inr p" "val p = 10 ^ e"
    using big_laws_pow10 [OF L e] by blast
  have "val (big_times B v p) = of_int (n * 10 ^ e)"
    using big_lawsD(3) [OF L] v p by simp
  then have "val (big_round_down B (big_times B v p) 0) = of_int (n * 10 ^ e)"
    by (simp only: big_lawsD(8) [OF L] round_down_at_0_int)
  moreover have "val_Number (val_or (JStr (int_str n)) (JNum (Fin 0))) = Fin (of_int n)"
    by (simp add: val_or_def js_Number_int_str num_of_int_exact [OF n])
  ultimately show ?thesis using v p by (auto simp: multiplyAndConvertToBigInt_def)
qed

lemma multiply_text_exact:
  assumes "big_laws B val" "\<bar>n\<bar> \<le> 2 ^ 53" "e \<le> 22" "\<bar>n * 10 ^ e\<bar> < 10 ^ 21"
  shows "multiplyAndConvertToBigInt B (JStr (int_str n)) e = Inr (n * 10 ^ e)"
proof -
  obtain y where y: "val y = of_int (n * 10 ^ e)"
    "multiplyAndConvertToBigInt B (JStr (int_str n)) e = js_BigInt (big_toString B y)"
    using multiply_text_step [OF assms(1-3)] by blast
  show ?thesis unfolding y(2) big_lawsD(9) [OF assms(1) y(1) assms(4)] by (rule js_BigInt_int_str)
qed

text \<open>C5. What a typed whole amount is sent as. With \<open>e\<close> decimals the transfer and trade dialogs send
  exactly \<open>n * 10 ^ e\<close> units of it, as long as that is below \<open>10 ^ 21\<close>; from there on the decimal
  library prints an exponent, which \<open>BigInt\<close> refuses, so a token of eighteen decimals cannot be
  sent a thousand at a time.\<close>

theorem typed_amount_sent:
  assumes "big_laws B val" "\<bar>n\<bar> \<le> 2 ^ 53" "e \<le> 22"
  shows "multiplyAndConvertToBigInt B (JStr (int_str n)) e =
    (if \<bar>n * 10 ^ e\<bar> < 10 ^ 21 then Inr (n * 10 ^ e) else Inl SyntaxError)"
proof -
  obtain y where y: "val y = of_int (n * 10 ^ e)"
    "multiplyAndConvertToBigInt B (JStr (int_str n)) e = js_BigInt (big_toString B y)"
    using multiply_text_step [OF assms] by blast
  show ?thesis
  proof (cases "\<bar>n * 10 ^ e\<bar> < 10 ^ 21")
    case True
    then show ?thesis unfolding y(2) big_lawsD(9) [OF assms(1) y(1) True]
      by (simp add: js_BigInt_int_str)
  next
    case False
    then have "rat_of_int (10 ^ 21) \<le> of_int \<bar>n * 10 ^ e\<bar>" by (simp only: of_int_le_iff not_less)
    then have "10 ^ 21 \<le> \<bar>val y\<bar>" unfolding y(1) by (simp del: of_int_mult)
    then have "js_BigInt (big_toString B y) = Inl SyntaxError"
      by (intro exp_string_no_bigint big_lawsD(10) [OF assms(1)] big_lawsD(13) [OF assms(1)])
    then show ?thesis unfolding y(2) using False by simp
  qed
qed

theorem typed_amount_sent_witness:
  "multiplyAndConvertToBigInt rat_big (JStr (int_str 25)) 8 = Inr 2500000000 \<and>
   multiplyAndConvertToBigInt rat_big (JStr (int_str 1000)) 18 = Inl SyntaxError"
  using typed_amount_sent [OF rat_big_laws, of 25 8] typed_amount_sent [OF rat_big_laws, of 1000 18]
  by simp

lemma js_parseFloat_nat_str: "js_parseFloat (nat_str n) = fl (of_nat n)"
proof -
  have t: "js_trim_start (nat_str n) = nat_str n"
    using nat_str_digits [of n] is_digit_not_ws
    by (cases "nat_str n") (simp_all add: js_trim_start_def)
  have "take 8 (nat_str n) \<noteq> ''Infinity''"
    using nat_str_digits [of n] by (cases "nat_str n") (auto simp: is_digit_def)
  then show ?thesis
    using parse_decimal_digits [OF nat_str_digits nat_str_nonempty, of n]
    by (simp add: js_parseFloat_def t parse_sign_digits [OF nat_str_digits])
qed

lemma strip_zeros_zero:
  assumes "\<forall>c \<in> set s. is_digit c" shows "strip_zeros (s @ ''0'') = strip_zeros s"
proof -
  let ?z = "\<lambda>c. c = CHR ''0''" and ?r = "rev s"
  have nd: "CHR ''.'' \<notin> set (dropWhile ?z ?r)"
    using assms [THEN bspec, of "CHR ''.''"] set_dropWhileD [of "CHR ''.''" ?z ?r]
    by (auto simp: is_digit_def)
  show ?thesis
  proof (cases "takeWhile ?z ?r = []")
    case True
    then have "dropWhile ?z ?r = ?r" by (cases ?r) auto
    then show ?thesis using nd True
      by (auto simp: strip_zeros_def Let_def split: list.splits dest: arg_cong [of _ _ rev])
  next
    case False
    have "dropWhile ?z (rev (s @ ''0'')) = dropWhile ?z ?r" "takeWhile ?z (rev (s @ ''0'')) \<noteq> []"
      by simp_all
    then show ?thesis unfolding strip_zeros_def Let_def using False by (simp only: if_False)
  qed
qed

lemma shown_T_amount:
  assumes "0 < k" "k \<le> 9000"
  shows "formatAmountByUnitToT (JStr (int_str (int k * 10 ^ 12))) 4 False = strip_zeros (nat_str k)"
proof -
  have n: "int_str (int k * 10 ^ 12) = nat_str (k * 10 ^ 12)"
    by (simp add: int_str_def nat_mult_distrib)
  have "int k * 10 ^ 12 \<le> 9000 * 10 ^ 12" using assms(2) by simp
  then have "\<bar>int (k * 10 ^ 12)\<bar> \<le> 2 ^ 53" by simp
  then have v: "amount_num (JStr (int_str (int k * 10 ^ 12))) = Fin (of_nat k * 1000000000000)"
    using fl_int [of "int (k * 10 ^ 12)"] unfolding amount_num.simps n js_parseFloat_nat_str by simp
  have d: "js_div (Fin (of_nat k * 1000000000000)) (Fin 1000000000000) = Fin (of_nat k)"
    using fl_int [of "int k"] assms by simp
  have t: "js_toString (Fin (of_nat k)) = nat_str k"
    using js_toString_int [of "int k"] assms by (simp add: int_str_def)
  have z: "\<not> js_eq (Fin (of_nat k * 1000000000000)) (Fin 0)" using assms(1) by (simp add: js_eq_def)
  show ?thesis
    unfolding formatAmountByUnitToT_def v Let_def
    by (simp add: is_nullish_def z d t split: prod.splits del: js_div.simps js_toString.simps)
qed

text \<open>The cycles amount of the Max button is shown without its zeros. The text of the amount in
  units of 10^12 is stripped of the zeros at its end even where it has no point, so ten times
  an amount is shown like the amount itself: 10 T reads 1.\<close>

lemma T_amount_shown_tenth:
  assumes "0 < k" "k \<le> 900"
  shows "formatAmountByUnitToT (JStr (int_str (int (10 * k) * 10 ^ 12))) 4 False =
         formatAmountByUnitToT (JStr (int_str (int k * 10 ^ 12))) 4 False"
  using assms shown_T_amount [of "10 * k"] shown_T_amount [of k]
  by (simp add: nat_str_times10 strip_zeros_zero nat_str_digits)

end
