(* ===== verification/Candid.thy ===== *)
theory Candid
  imports Format
begin

text \<open>
  The data the front end exchanges with the canisters, as the interface declarations of
  \<open>canisters/*/*.did.d.ts\<close> give it: the launcher's projects, users and search parameters,
  the project canister's comments and holders, the ledgers' transfer and approve arguments
  with their error variants, and the swap records. A candid \<open>opt t\<close>, the array
  \<open>[] | [t]\<close>, is an \<open>option\<close>; a principal is its text; \<open>nat\<close> and \<open>int\<close> values are unbounded.
\<close>

section \<open>Results\<close>

datatype ('a, 'e) candid_result = COk 'a | CErr 'e

type_synonym blob = "nat list"

text \<open>\<open>Number(xs)\<close> of a candid \<open>opt nat\<close>: the empty array converts to \<open>0\<close>.\<close>

definition opt_Number :: "int option \<Rightarrow> jsnum" where
  "opt_Number x = (case x of None \<Rightarrow> Fin 0 | Some n \<Rightarrow> num_of_int n)"

section \<open>The launcher\<close>

record FomoProject =
  god_of_wells_time :: "int option"
  twitter_link :: string
  sneed_dao_lock :: "int option"
  market_cap :: int
  recently_reply_time :: int
  ticker :: string
  img_url :: string
  dogmi_dao_lock :: "int option"
  project_name :: string
  recently_bump_time :: int
  create_user_pid :: principal
  description :: string
  pool_progress_done_time :: "int option"
  telegram_link :: string
  website :: string
  fomo_idx :: int
  fomo_pid :: principal
  create_time :: int
  reply_count :: int
  token_pid :: principal
  pool_progress :: int
  pool_pid :: principal
  god_of_wells_progress :: int

record FomoProjectCreate =
  fc_twitter_link :: string
  fc_sneed_dao_lock :: "int option"
  fc_ticker :: string
  fc_img_url :: string
  fc_dogmi_dao_lock :: "int option"
  fc_logo :: string
  fc_name :: string
  fc_description :: string
  fc_telegram_link :: string
  fc_website :: string

record FomoProjectVo =
  start_idx :: int
  end_idx :: int
  vo_fomo_vec :: "FomoProject list"

record FomoProjectSearchVo =
  sv_end :: int
  sv_start :: int
  sv_fomo_vec :: "FomoProject list"

datatype OrderType = ASC | DESC

datatype SortType = CreationTime | ReplyCount | BumpOrder | LastReply | MarketCap

record SearchParam =
  sp_order :: OrderType
  sp_sort :: SortType
  sp_text :: string
  sp_limit :: int
  sp_start :: int

record launcher_page =
  page_limit :: int
  page_start :: int

record CreateFomoSignalVo =
  cf_user_name :: string
  cf_op_user_pid :: principal
  cf_user_avatar :: string
  cf_fomo_idx :: int
  cf_create_time :: int
  cf_token_logo :: string
  cf_fomo_name :: string

record RecordSignal =
  rs_fomo_idx :: int
  rs_buy_sell_op :: string
  rs_icp_amount :: int
  rs_swap_hash :: int

record RecordSignalVo =
  rv_user_name :: string
  rv_swap_timestamp :: "int option"
  rv_op_user_pid :: principal
  rv_user_avatar :: string
  rv_fomo_idx :: int
  rv_buy_sell_op :: string
  rv_icp_amount :: int
  rv_fomo_ticker :: string

record launcher_context =
  ctx_owner :: principal
  ctx_icp_addr :: principal
  last_create_fomo :: CreateFomoSignalVo
  last_buy_sell_op :: RecordSignalVo
  god_of_wells_idx :: int
  fomo_canister_template :: blob

record UserEditObj =
  ue_user_name :: "string option"
  ue_avatar :: "string option"

record UserProfile =
  user_name :: string
  user_pid :: principal
  user_points :: "int option"
  user_pre_reward_points :: "int option"
  last_change_time :: int
  user_all_spend_points :: "int option"
  avatar :: string

section \<open>The project canister\<close>

record candid_account =
  acc_owner :: principal
  acc_subaccount :: "blob option"

record Comments =
  user_star :: "principal list"
  comment_user_pid :: principal
  content :: string
  image_url :: "string option"
  comment_fomo_idx :: string
  comment_create_time :: int
  comment_idx :: int
  extended :: "(string \<times> string) list"

record CommentsCreate =
  cc_content :: string
  cc_image_url :: "string option"
  cc_extended :: "(string \<times> string) list"

record CommentsVo =
  cv_start_idx :: int
  cv_end_idx :: int
  cv_fomo_vec :: "Comments list"

record HolderInfo =
  holder_type :: string
  holder_account :: candid_account
  holder_amount :: int
  holder_percent :: jsnum

section \<open>The ledgers\<close>

record ApproveArgs =
  ap_fee :: "int option"
  ap_memo :: "blob option"
  ap_from_subaccount :: "blob option"
  ap_created_at_time :: "int option"
  ap_amount :: int
  ap_expected_allowance :: "int option"
  ap_expires_at :: "int option"
  ap_spender :: candid_account

record TransferArg =
  ta_to :: candid_account
  ta_fee :: "int option"
  ta_memo :: "blob option"
  ta_from_subaccount :: "blob option"
  ta_created_at_time :: "int option"
  ta_amount :: int

datatype TransferError =
    GenericError string int
  | TemporarilyUnavailable
  | BadBurn int
  | Duplicate int
  | BadFee int
  | CreatedInFuture int
  | TooOld
  | InsufficientFunds int

record ledger_TransferArgs =
  la_to :: string
  la_fee :: int
  la_memo :: int
  la_from_subaccount :: "blob option"
  la_created_at_time :: "int option"
  la_amount :: int

datatype ledger_TransferError =
    LTxTooOld int
  | LBadFee int
  | LTxDuplicate int
  | LTxCreatedInFuture
  | LInsufficientFunds int

datatype MetadataValue = MInt int | MNat int | MBlob blob | MText string

record WithdrawArgs =
  wa_amount :: int
  wa_from_subaccount :: "blob option"
  wa_to :: principal
  wa_created_at_time :: "int option"

record DepositArgs =
  da_to :: candid_account
  da_memo :: "blob option"

record WithdrawFromArgs =
  wf_to :: principal
  wf_spender_subaccount :: "blob option"
  wf_from :: candid_account
  wf_created_at_time :: "int option"
  wf_amount :: int

section \<open>The exchange\<close>

datatype TransactionStatus =
    TxFailed | TxSucceeded | TxBaseTrans | TxQuoteTrans | TxRollback | TxPending

record SwapTxRecord =
  tx_status :: TransactionStatus
  input_amount :: "jsnum option"
  receive_amount :: "jsnum option"
  swap_hash :: int
  fail_msg :: "string option"

datatype RState = ROne | RAboveOne | RBelowOne

datatype PoolStatus =
    CREATE_BASE_INPUT | CREATE_QUOTE_INPUT | OFFLINE | ROLLBACK_UNDONE | CREATED | ROLLBACK_DONE | ONLINE

record PoolInfo =
  pl_i :: int
  pl_k :: int
  base_reserve :: int
  pl_owner :: principal
  block_timestamp_last :: int
  pool_addr :: principal
  lp_amount :: int
  pool_type :: string
  lp_lock :: int
  quote_user :: int
  lp_fee_rate :: int
  base_token_decimals :: jsnum
  quote_token_decimals :: jsnum
  base_user :: int
  quote_token :: principal
  base_price_cumulative_last :: int
  quote_reserve :: int
  base_token :: principal
  pool_status :: PoolStatus
  mt_fee_rate :: int
  is_single_pool :: bool
  total_supply :: int
  is_my_pool :: bool

end
