(* ===== verification/Idl.thy ===== *)
theory Idl
  imports Candid
begin

text \<open>
  The interface language of the canisters. The files \<open>canisters/*/*.did.js\<close> and
  \<open>did/nns.idl.js\<close> are functions of the combinators \<open>IDL.Record\<close>, \<open>IDL.Func\<close> and so on; here
  they are values of the types \<open>idl\<close> and \<open>service\<close>. \<open>typed\<close> is Candid's typing of values, which
  the agent checks before it encodes an argument. A codec is the way between a TypeScript type
  and the values of an interface type; the combinators build the codec of a record or a variant
  from those of its fields, and keep its laws.
\<close>

section \<open>Types and values\<close>

text \<open>\<open>IRef\<close> is a type made by \<open>IDL.Rec()\<close>, filled later.\<close>

datatype idl =
    INull | IBool | INat | INat8 | INat16 | INat32 | INat64 | IInt | IFloat32 | IFloat64 | IText
  | IPrincipal
  | IOpt idl
  | IVec idl
  | ITuple "idl list"
  | IRecord "(string \<times> idl) list"
  | IVariant "(string \<times> idl) list"
  | IFunc "idl list" "idl list" "string list"
  | IRef string

record idl_func =
  fn_args :: "idl list"
  fn_rets :: "idl list"
  fn_modes :: "string list"

record service =
  sv_refs :: "(string \<times> idl) list"
  sv_methods :: "(string \<times> idl_func) list"

definition func :: "idl list \<Rightarrow> idl list \<Rightarrow> string list \<Rightarrow> idl_func" where
  "func as rs ms = \<lparr> fn_args = as, fn_rets = rs, fn_modes = ms \<rparr>"

datatype cval =
    CNull
  | CBool bool
  | CInt int
  | CFloat jsnum
  | CText string
  | CPrin principal
  | COpt "cval option"
  | CVec "cval list"
  | CTuple "cval list"
  | CRecord "(string \<times> cval) list"
  | CVariant string cval
  | CFuncRef principal string

definition resolve :: "(string \<times> idl) list \<Rightarrow> idl \<Rightarrow> idl" where
  "resolve E t = (case t of IRef x \<Rightarrow> (case map_of E x of Some u \<Rightarrow> u | None \<Rightarrow> t) | _ \<Rightarrow> t)"

lemma resolve_simps [simp]:
  "resolve E INull = INull" "resolve E IBool = IBool" "resolve E INat = INat" "resolve E INat8 = INat8"
  "resolve E INat16 = INat16" "resolve E INat32 = INat32" "resolve E INat64 = INat64"
  "resolve E IInt = IInt" "resolve E IFloat32 = IFloat32" "resolve E IFloat64 = IFloat64"
  "resolve E IText = IText" "resolve E IPrincipal = IPrincipal" "resolve E (IOpt t) = IOpt t"
  "resolve E (IVec t) = IVec t" "resolve E (ITuple ts) = ITuple ts" "resolve E (IRecord fs) = IRecord fs"
  "resolve E (IVariant fs) = IVariant fs" "resolve E (IFunc as rs ms) = IFunc as rs ms"
  by (simp_all add: resolve_def)

text \<open>The numbers of a numeric type.\<close>

fun int_fits :: "idl \<Rightarrow> int \<Rightarrow> bool" where
  "int_fits INat n = (0 \<le> n)"
| "int_fits INat8 n = (0 \<le> n \<and> n < 2 ^ 8)"
| "int_fits INat16 n = (0 \<le> n \<and> n < 2 ^ 16)"
| "int_fits INat32 n = (0 \<le> n \<and> n < 2 ^ 32)"
| "int_fits INat64 n = (0 \<le> n \<and> n < 2 ^ 64)"
| "int_fits IInt n = True"
| "int_fits _ n = False"

text \<open>A record value has every field of its type; others are ignored. A variant has one of the
  cases of its type.\<close>

definition fields_fit :: "(string \<times> (idl \<Rightarrow> bool)) list \<Rightarrow> (string \<times> idl) list \<Rightarrow> bool" where
  "fields_fit ps ts = list_all (\<lambda>(k, u). case map_of ps k of None \<Rightarrow> False | Some p \<Rightarrow> p u) ts"

primrec typed :: "(string \<times> idl) list \<Rightarrow> cval \<Rightarrow> idl \<Rightarrow> bool" where
  "typed E CNull = (\<lambda>t. resolve E t = INull)"
| "typed E (CBool b) = (\<lambda>t. resolve E t = IBool)"
| "typed E (CInt n) = (\<lambda>t. int_fits (resolve E t) n)"
| "typed E (CFloat x) = (\<lambda>t. resolve E t = IFloat32 \<or> resolve E t = IFloat64)"
| "typed E (CText s) = (\<lambda>t. resolve E t = IText)"
| "typed E (CPrin p) = (\<lambda>t. resolve E t = IPrincipal)"
| "typed E (COpt x) = (\<lambda>t. case resolve E t of
     IOpt u \<Rightarrow> (case map_option (typed E) x of None \<Rightarrow> True | Some p \<Rightarrow> p u) | _ \<Rightarrow> False)"
| "typed E (CVec vs) = (\<lambda>t. case resolve E t of
     IVec u \<Rightarrow> list_all (\<lambda>p. p u) (map (typed E) vs) | _ \<Rightarrow> False)"
| "typed E (CTuple vs) = (\<lambda>t. case resolve E t of
     ITuple ts \<Rightarrow> list_all2 (\<lambda>p u. p u) (map (typed E) vs) ts | _ \<Rightarrow> False)"
| "typed E (CRecord fs) = (\<lambda>t. case resolve E t of
     IRecord ts \<Rightarrow> fields_fit (map (map_prod id (typed E)) fs) ts | _ \<Rightarrow> False)"
| "typed E (CVariant k v) = (\<lambda>t. case resolve E t of
     IVariant ts \<Rightarrow> (case map_of ts k of None \<Rightarrow> False | Some u \<Rightarrow> typed E v u) | _ \<Rightarrow> False)"
| "typed E (CFuncRef p m) = (\<lambda>t. \<exists>as rs ms. resolve E t = IFunc as rs ms)"

text \<open>What a service takes, and how a method of it is called.\<close>

definition accepts :: "service \<Rightarrow> string \<Rightarrow> cval list \<Rightarrow> bool" where
  "accepts S m vs = (case map_of (sv_methods S) m of
     None \<Rightarrow> False | Some f \<Rightarrow> list_all2 (typed (sv_refs S)) vs (fn_args f))"

definition is_query :: "service \<Rightarrow> string \<Rightarrow> bool" where
  "is_query S m = (case map_of (sv_methods S) m of
     None \<Rightarrow> False | Some f \<Rightarrow> ''query'' \<in> set (fn_modes f))"

definition answers :: "service \<Rightarrow> string \<Rightarrow> cval list \<Rightarrow> bool" where
  "answers S m vs = (case map_of (sv_methods S) m of
     None \<Rightarrow> False | Some f \<Rightarrow> list_all2 (typed (sv_refs S)) vs (fn_rets f))"

section \<open>Codecs\<close>

record 'a codec =
  cd_type :: idl
  cd_ok :: "'a \<Rightarrow> bool"
  enc :: "'a \<Rightarrow> cval"
  dec :: "cval \<Rightarrow> 'a option"

text \<open>The laws: an encoded value has the type exactly if it is in range, then decodes to itself,
  and whatever has the type decodes to a value in range.\<close>

definition lawful :: "(string \<times> idl) list \<Rightarrow> 'a codec \<Rightarrow> bool" where
  "lawful E c = (
     (\<forall>a. typed E (enc c a) (cd_type c) = cd_ok c a) \<and>
     (\<forall>a. cd_ok c a \<longrightarrow> dec c (enc c a) = Some a) \<and>
     (\<forall>v. typed E v (cd_type c) \<longrightarrow> (\<exists>a. dec c v = Some a \<and> cd_ok c a)))"

lemma lawfulI:
  assumes "\<And>a. typed E (enc c a) (cd_type c) = cd_ok c a"
    and "\<And>a. cd_ok c a \<Longrightarrow> dec c (enc c a) = Some a"
    and "\<And>v. typed E v (cd_type c) \<Longrightarrow> \<exists>a. dec c v = Some a \<and> cd_ok c a"
  shows "lawful E c"
  using assms by (simp add: lawful_def)

lemma lawfulD:
  assumes "lawful E c"
  shows "typed E (enc c a) (cd_type c) = cd_ok c a"
    and "cd_ok c a \<Longrightarrow> dec c (enc c a) = Some a"
    and "typed E v (cd_type c) \<Longrightarrow> \<exists>a. dec c v = Some a \<and> cd_ok c a"
  using assms by (simp_all add: lawful_def)

named_theorems codec_laws \<open>the codecs that keep the laws\<close>

subsection \<open>Primitive types\<close>

definition int_c :: "idl \<Rightarrow> int codec" where
  "int_c t = \<lparr> cd_type = t, cd_ok = int_fits t, enc = CInt,
     dec = (\<lambda>v. case v of CInt n \<Rightarrow> Some n | _ \<Rightarrow> None) \<rparr>"

definition text_c :: "string codec" where
  "text_c = \<lparr> cd_type = IText, cd_ok = (\<lambda>s. True), enc = CText,
     dec = (\<lambda>v. case v of CText s \<Rightarrow> Some s | _ \<Rightarrow> None) \<rparr>"

definition prin_c :: "principal codec" where
  "prin_c = \<lparr> cd_type = IPrincipal, cd_ok = (\<lambda>s. True), enc = CPrin,
     dec = (\<lambda>v. case v of CPrin s \<Rightarrow> Some s | _ \<Rightarrow> None) \<rparr>"

definition bool_c :: "bool codec" where
  "bool_c = \<lparr> cd_type = IBool, cd_ok = (\<lambda>s. True), enc = CBool,
     dec = (\<lambda>v. case v of CBool s \<Rightarrow> Some s | _ \<Rightarrow> None) \<rparr>"

definition null_c :: "unit codec" where
  "null_c = \<lparr> cd_type = INull, cd_ok = (\<lambda>s. True), enc = (\<lambda>_. CNull),
     dec = (\<lambda>v. case v of CNull \<Rightarrow> Some () | _ \<Rightarrow> None) \<rparr>"

definition float_c :: "jsnum codec" where
  "float_c = \<lparr> cd_type = IFloat64, cd_ok = (\<lambda>s. True), enc = CFloat,
     dec = (\<lambda>v. case v of CFloat s \<Rightarrow> Some s | _ \<Rightarrow> None) \<rparr>"

text \<open>A byte of a blob, and a small number the library gives as a JavaScript number.\<close>

definition byte_c :: "nat codec" where
  "byte_c = \<lparr> cd_type = INat8, cd_ok = (\<lambda>n. n < 2 ^ 8), enc = (\<lambda>n. CInt (int n)),
     dec = (\<lambda>v. case v of CInt n \<Rightarrow> Some (nat n) | _ \<Rightarrow> None) \<rparr>"

definition num8_c :: "jsnum codec" where
  "num8_c = \<lparr> cd_type = INat8, cd_ok = (\<lambda>x. \<exists>n. x = Fin (of_int n) \<and> 0 \<le> n \<and> n < 2 ^ 8),
     enc = (\<lambda>x. case x of Fin r \<Rightarrow> if of_int \<lfloor>r\<rfloor> = r then CInt \<lfloor>r\<rfloor> else CFloat x | _ \<Rightarrow> CFloat x),
     dec = (\<lambda>v. case v of CInt n \<Rightarrow> Some (Fin (of_int n)) | _ \<Rightarrow> None) \<rparr>"

lemma typed_int: "t \<in> {INat, INat8, INat16, INat32, INat64, IInt} \<Longrightarrow>
    typed E v t \<longleftrightarrow> (\<exists>n. v = CInt n \<and> int_fits t n)"
  by (cases v) (auto simp: resolve_def split: option.splits)

lemma typed_prim:
  "typed E v IText \<longleftrightarrow> (\<exists>s. v = CText s)" "typed E v IPrincipal \<longleftrightarrow> (\<exists>s. v = CPrin s)"
  "typed E v IBool \<longleftrightarrow> (\<exists>s. v = CBool s)" "typed E v INull \<longleftrightarrow> v = CNull"
  "typed E v IFloat64 \<longleftrightarrow> (\<exists>s. v = CFloat s)"
  by (cases v; simp split: option.splits)+

lemma int_c_lawful [codec_laws]:
  "lawful E (int_c INat)" "lawful E (int_c INat64)" "lawful E (int_c INat32)" "lawful E (int_c IInt)"
  by (rule lawfulI; auto simp: int_c_def typed_int)+

lemma prim_lawful [codec_laws]:
  "lawful E text_c" "lawful E prin_c" "lawful E bool_c" "lawful E null_c" "lawful E float_c"
  by (rule lawfulI; auto simp: text_c_def prin_c_def bool_c_def null_c_def float_c_def typed_prim)+

lemma byte_lawful [codec_laws]: "lawful E byte_c"
  by (rule lawfulI) (auto simp: byte_c_def typed_int)

lemma num8_lawful [codec_laws]: "lawful E num8_c"
proof (rule lawfulI)
  fix a
  show "typed E (enc num8_c a) (cd_type num8_c) = cd_ok num8_c a"
  proof (cases a)
    case (Fin r)
    have "(\<exists>n. r = of_int n \<and> 0 \<le> n \<and> n < 256) = (of_int \<lfloor>r\<rfloor> = r \<and> 0 \<le> \<lfloor>r\<rfloor> \<and> \<lfloor>r\<rfloor> < 256)"
      by (metis floor_of_int)
    then show ?thesis using Fin by (simp add: num8_c_def)
  qed (simp_all add: num8_c_def)
next
  fix v
  assume "typed E v (cd_type num8_c)"
  then show "\<exists>a. dec num8_c v = Some a \<and> cd_ok num8_c a" by (auto simp: num8_c_def typed_int)
qed (auto simp: num8_c_def)

subsection \<open>Options, vectors, pairs\<close>

definition opt_c :: "'a codec \<Rightarrow> 'a option codec" where
  "opt_c c = \<lparr> cd_type = IOpt (cd_type c), cd_ok = (\<lambda>x. case x of None \<Rightarrow> True | Some a \<Rightarrow> cd_ok c a),
     enc = (\<lambda>x. COpt (map_option (enc c) x)),
     dec = (\<lambda>v. case v of COpt None \<Rightarrow> Some None | COpt (Some u) \<Rightarrow> map_option Some (dec c u) | _ \<Rightarrow> None) \<rparr>"

fun dec_all :: "(cval \<Rightarrow> 'a option) \<Rightarrow> cval list \<Rightarrow> 'a list option" where
  "dec_all d [] = Some []"
| "dec_all d (v # vs) = (case (d v, dec_all d vs) of (Some a, Some as) \<Rightarrow> Some (a # as) | _ \<Rightarrow> None)"

definition vec_c :: "'a codec \<Rightarrow> 'a list codec" where
  "vec_c c = \<lparr> cd_type = IVec (cd_type c), cd_ok = list_all (cd_ok c), enc = (\<lambda>xs. CVec (map (enc c) xs)),
     dec = (\<lambda>v. case v of CVec vs \<Rightarrow> dec_all (dec c) vs | _ \<Rightarrow> None) \<rparr>"

definition pair_c :: "'a codec \<Rightarrow> 'b codec \<Rightarrow> ('a \<times> 'b) codec" where
  "pair_c c d = \<lparr> cd_type = ITuple [cd_type c, cd_type d], cd_ok = (\<lambda>(a, b). cd_ok c a \<and> cd_ok d b),
     enc = (\<lambda>(a, b). CTuple [enc c a, enc d b]),
     dec = (\<lambda>v. case v of CTuple [u, w] \<Rightarrow>
              (case (dec c u, dec d w) of (Some a, Some b) \<Rightarrow> Some (a, b) | _ \<Rightarrow> None) | _ \<Rightarrow> None) \<rparr>"

lemma typed_opt: "typed E v (IOpt t) \<longleftrightarrow> v = COpt None \<or> (\<exists>u. v = COpt (Some u) \<and> typed E u t)"
  by (cases v) (auto split: option.splits)

lemma typed_vec: "typed E v (IVec t) \<longleftrightarrow> (\<exists>vs. v = CVec vs \<and> list_all (\<lambda>u. typed E u t) vs)"
  by (cases v) (auto simp: list_all_iff)

lemma typed_pair:
  "typed E v (ITuple [t, t']) \<longleftrightarrow> (\<exists>u u'. v = CTuple [u, u'] \<and> typed E u t \<and> typed E u' t')"
  by (cases v) (auto simp: list_all2_Cons2)

lemma opt_lawful [codec_laws]:
  assumes "lawful E c"
  shows "lawful E (opt_c c)"
  by (rule lawfulI) (use assms in \<open>force simp: opt_c_def typed_opt lawful_def split: option.splits\<close>)+

lemma dec_all_enc: "lawful E c \<Longrightarrow> list_all (cd_ok c) xs \<Longrightarrow> dec_all (dec c) (map (enc c) xs) = Some xs"
  by (induction xs) (auto dest: lawfulD(2))

lemma dec_all_typed:
  "lawful E c \<Longrightarrow> list_all (\<lambda>u. typed E u (cd_type c)) vs \<Longrightarrow>
   \<exists>xs. dec_all (dec c) vs = Some xs \<and> list_all (cd_ok c) xs"
  by (induction vs) (fastforce dest: lawfulD(3))+

lemma vec_lawful [codec_laws]:
  assumes "lawful E c"
  shows "lawful E (vec_c c)"
  by (rule lawfulI) (use assms in \<open>auto simp: vec_c_def typed_vec list.pred_map o_def lawfulD(1)
      dec_all_enc dec_all_typed\<close>)

lemma pair_lawful [codec_laws]:
  assumes "lawful E c" "lawful E d"
  shows "lawful E (pair_c c d)"
proof (rule lawfulI)
  fix v
  assume "typed E v (cd_type (pair_c c d))"
  then show "\<exists>a. dec (pair_c c d) v = Some a \<and> cd_ok (pair_c c d) a"
    by (auto simp: pair_c_def typed_pair dest!: lawfulD(3) [OF assms(1)] lawfulD(3) [OF assms(2)])
qed (use assms in \<open>auto simp: pair_c_def typed_pair lawfulD(1,2)\<close>)

subsection \<open>Records\<close>

text \<open>The fields of a record, as nested pairs ending in \<open>()\<close>.\<close>

record 'a fcodec =
  fd_types :: "(string \<times> idl) list"
  fd_ok :: "'a \<Rightarrow> bool"
  fenc :: "'a \<Rightarrow> (string \<times> cval) list"
  fdec :: "(string \<times> cval) list \<Rightarrow> 'a option"

definition fnil :: "unit fcodec" where
  "fnil = \<lparr> fd_types = [], fd_ok = (\<lambda>_. True), fenc = (\<lambda>_. []), fdec = (\<lambda>_. Some ()) \<rparr>"

definition field :: "string \<Rightarrow> 'a codec \<Rightarrow> 'b fcodec \<Rightarrow> ('a \<times> 'b) fcodec" where
  "field k c f = \<lparr> fd_types = (k, cd_type c) # fd_types f, fd_ok = (\<lambda>(a, b). cd_ok c a \<and> fd_ok f b),
     fenc = (\<lambda>(a, b). (k, enc c a) # fenc f b),
     fdec = (\<lambda>fs. case map_of fs k of None \<Rightarrow> None
        | Some v \<Rightarrow> (case (dec c v, fdec f fs) of (Some a, Some b) \<Rightarrow> Some (a, b) | _ \<Rightarrow> None)) \<rparr>"

definition record_c :: "('r \<Rightarrow> 'a) \<Rightarrow> ('a \<Rightarrow> 'r) \<Rightarrow> 'a fcodec \<Rightarrow> 'r codec" where
  "record_c tup untup f = \<lparr> cd_type = IRecord (fd_types f), cd_ok = (\<lambda>r. fd_ok f (tup r)),
     enc = (\<lambda>r. CRecord (fenc f (tup r))),
     dec = (\<lambda>v. case v of CRecord fs \<Rightarrow> map_option untup (fdec f fs) | _ \<Rightarrow> None) \<rparr>"

definition fit :: "(string \<times> idl) list \<Rightarrow> (string \<times> cval) list \<Rightarrow> (string \<times> idl) list \<Rightarrow> bool" where
  "fit E fs ts = list_all (\<lambda>(k, u). case map_of fs k of None \<Rightarrow> False | Some v \<Rightarrow> typed E v u) ts"

lemma fit_typed: "fields_fit (map (map_prod id (typed E)) fs) ts = fit E fs ts"
  by (auto simp: fields_fit_def fit_def list_all_iff map_prod_def id_def map_of_map split: option.splits
      simp del: map_of_eq_None_iff)

lemma typed_record: "typed E v (IRecord ts) \<longleftrightarrow> (\<exists>fs. v = CRecord fs \<and> fit E fs ts)"
  by (cases v) (auto simp: fit_typed)

definition same_fields :: "string list \<Rightarrow> (string \<times> cval) list \<Rightarrow> (string \<times> cval) list \<Rightarrow> bool" where
  "same_fields ks fs gs = (\<forall>k \<in> set ks. map_of fs k = map_of gs k)"

definition lawful_fields :: "(string \<times> idl) list \<Rightarrow> 'a fcodec \<Rightarrow> bool" where
  "lawful_fields E f = (
     (\<forall>fs a. same_fields (map fst (fd_types f)) fs (fenc f a) \<longrightarrow>
        fit E fs (fd_types f) = fd_ok f a \<and> (fd_ok f a \<longrightarrow> fdec f fs = Some a)) \<and>
     (\<forall>fs. fit E fs (fd_types f) \<longrightarrow> (\<exists>a. fdec f fs = Some a \<and> fd_ok f a)))"

lemma fnil_lawful [codec_laws]: "lawful_fields E fnil"
  by (simp add: lawful_fields_def fnil_def fit_def)

lemma field_lawful [codec_laws]:
  assumes "lawful E c" "lawful_fields E f" "k \<notin> fst ` set (fd_types f)"
  shows "lawful_fields E (field k c f)"
proof -
  have s: "map_of fs k = Some (enc c a) \<and> same_fields (map fst (fd_types f)) fs (fenc f b)"
    if "same_fields (map fst (fd_types (field k c f))) fs (fenc (field k c f) (a, b))" for fs a b
    using that assms(3) by (auto simp: same_fields_def field_def split: if_splits)
  have t: "fit E fs (fd_types (field k c f)) \<longleftrightarrow>
      (\<exists>v. map_of fs k = Some v \<and> typed E v (cd_type c)) \<and> fit E fs (fd_types f)" for fs
    by (auto simp: fit_def field_def split: option.splits)
  show ?thesis
    unfolding lawful_fields_def
  proof (intro conjI allI impI)
    fix fs a
    assume m: "same_fields (map fst (fd_types (field k c f))) fs (fenc (field k c f) a)"
    obtain x y where a: "a = (x, y)" by (cases a)
    note m' = s [OF m [unfolded a]]
    have f: "fit E fs (fd_types f) = fd_ok f y" "fd_ok f y \<Longrightarrow> fdec f fs = Some y"
      using assms(2) m' by (auto simp: lawful_fields_def)
    show "fit E fs (fd_types (field k c f)) = fd_ok (field k c f) a"
      using m' f lawfulD(1) [OF assms(1)] by (simp add: t a) (simp add: field_def)
    assume "fd_ok (field k c f) a"
    then have "cd_ok c x" "fd_ok f y" by (simp_all add: a field_def)
    then show "fdec (field k c f) fs = Some a"
      using m' f lawfulD(2) [OF assms(1)] by (simp add: a field_def)
  next
    fix fs
    assume "fit E fs (fd_types (field k c f))"
    then obtain v where v: "map_of fs k = Some v" "typed E v (cd_type c)" "fit E fs (fd_types f)"
      using t by blast
    obtain x where "dec c v = Some x" "cd_ok c x" using lawfulD(3) [OF assms(1) v(2)] by blast
    moreover obtain y where "fdec f fs = Some y" "fd_ok f y"
      using assms(2) v(3) by (auto simp: lawful_fields_def)
    ultimately show "\<exists>a. fdec (field k c f) fs = Some a \<and> fd_ok (field k c f) a"
      using v(1) by (simp add: field_def)
  qed
qed

lemma record_lawful:
  assumes "lawful_fields E f" "\<And>r. untup (tup r) = r" "\<And>a. tup (untup a) = a"
  shows "lawful E (record_c tup untup f)"
proof (rule lawfulI)
  fix r
  have "same_fields (map fst (fd_types f)) (fenc f (tup r)) (fenc f (tup r))" by (simp add: same_fields_def)
  then show "typed E (enc (record_c tup untup f) r) (cd_type (record_c tup untup f)) = cd_ok (record_c tup untup f) r"
    "cd_ok (record_c tup untup f) r \<Longrightarrow> dec (record_c tup untup f) (enc (record_c tup untup f) r) = Some r"
    using assms by (simp_all add: record_c_def fit_typed lawful_fields_def)
next
  fix v
  assume "typed E v (cd_type (record_c tup untup f))"
  then show "\<exists>a. dec (record_c tup untup f) v = Some a \<and> cd_ok (record_c tup untup f) a"
    using assms by (auto simp: record_c_def typed_record lawful_fields_def simp del: typed.simps)
qed

subsection \<open>Variants\<close>

record 'a vcodec =
  vd_types :: "(string \<times> idl) list"
  vd_ok :: "'a \<Rightarrow> bool"
  venc :: "'a \<Rightarrow> string \<times> cval"
  vdec :: "string \<Rightarrow> cval \<Rightarrow> 'a option"

definition vlast :: "string \<Rightarrow> 'a codec \<Rightarrow> 'a vcodec" where
  "vlast k c = \<lparr> vd_types = [(k, cd_type c)], vd_ok = cd_ok c, venc = (\<lambda>a. (k, enc c a)),
     vdec = (\<lambda>j v. if j = k then dec c v else None) \<rparr>"

definition vcase :: "string \<Rightarrow> 'a codec \<Rightarrow> 'b vcodec \<Rightarrow> ('a + 'b) vcodec" where
  "vcase k c w = \<lparr> vd_types = (k, cd_type c) # vd_types w,
     vd_ok = (\<lambda>x. case x of Inl a \<Rightarrow> cd_ok c a | Inr b \<Rightarrow> vd_ok w b),
     venc = (\<lambda>x. case x of Inl a \<Rightarrow> (k, enc c a) | Inr b \<Rightarrow> venc w b),
     vdec = (\<lambda>j v. if j = k then map_option Inl (dec c v) else map_option Inr (vdec w j v)) \<rparr>"

definition variant_c :: "('r \<Rightarrow> 'a) \<Rightarrow> ('a \<Rightarrow> 'r) \<Rightarrow> 'a vcodec \<Rightarrow> 'r codec" where
  "variant_c tup untup w = \<lparr> cd_type = IVariant (vd_types w), cd_ok = (\<lambda>r. vd_ok w (tup r)),
     enc = (\<lambda>r. CVariant (fst (venc w (tup r))) (snd (venc w (tup r)))),
     dec = (\<lambda>v. case v of CVariant k u \<Rightarrow> map_option untup (vdec w k u) | _ \<Rightarrow> None) \<rparr>"

definition fits_case :: "(string \<times> idl) list \<Rightarrow> (string \<times> idl) list \<Rightarrow> string \<Rightarrow> cval \<Rightarrow> bool" where
  "fits_case E ts k v = (case map_of ts k of None \<Rightarrow> False | Some u \<Rightarrow> typed E v u)"

definition lawful_cases :: "(string \<times> idl) list \<Rightarrow> 'a vcodec \<Rightarrow> bool" where
  "lawful_cases E w = (
     (\<forall>a. fst (venc w a) \<in> fst ` set (vd_types w) \<and>
        fits_case E (vd_types w) (fst (venc w a)) (snd (venc w a)) = vd_ok w a \<and>
        (vd_ok w a \<longrightarrow> vdec w (fst (venc w a)) (snd (venc w a)) = Some a)) \<and>
     (\<forall>k v. fits_case E (vd_types w) k v \<longrightarrow> (\<exists>a. vdec w k v = Some a \<and> vd_ok w a)))"

lemma fits_decodes:
  "lawful_cases E w \<Longrightarrow> fits_case E (vd_types w) k v \<Longrightarrow> \<exists>a. vdec w k v = Some a \<and> vd_ok w a"
  by (simp add: lawful_cases_def)

lemma vlast_lawful [codec_laws]: "lawful E c \<Longrightarrow> lawful_cases E (vlast k c)"
  by (auto simp: lawful_cases_def vlast_def fits_case_def lawfulD split: if_splits)

lemma vcase_lawful [codec_laws]:
  assumes "lawful E c" "lawful_cases E w" "k \<notin> fst ` set (vd_types w)"
  shows "lawful_cases E (vcase k c w)"
proof -
  have t: "fits_case E (vd_types (vcase k c w)) j v =
      (if j = k then typed E v (cd_type c) else fits_case E (vd_types w) j v)" for j v
    by (simp add: fits_case_def vcase_def)
  show ?thesis
    unfolding lawful_cases_def
  proof (intro conjI allI impI)
    fix x
    have n: "fst (venc w b) \<noteq> k" for b using assms(2,3) by (auto simp: lawful_cases_def)
    show "fst (venc (vcase k c w) x) \<in> fst ` set (vd_types (vcase k c w))"
      using assms(2) by (auto simp: vcase_def lawful_cases_def split: sum.splits)
    show "fits_case E (vd_types (vcase k c w)) (fst (venc (vcase k c w) x)) (snd (venc (vcase k c w) x)) =
        vd_ok (vcase k c w) x"
      using assms(2) n by (simp add: t) (auto simp: vcase_def lawful_cases_def lawfulD [OF assms(1)] split: sum.splits)
    show "vd_ok (vcase k c w) x \<Longrightarrow>
        vdec (vcase k c w) (fst (venc (vcase k c w) x)) (snd (venc (vcase k c w) x)) = Some x"
      using assms(2) n by (auto simp: vcase_def lawful_cases_def lawfulD [OF assms(1)] split: sum.splits)
  next
    fix j v
    assume f: "fits_case E (vd_types (vcase k c w)) j v"
    show "\<exists>a. vdec (vcase k c w) j v = Some a \<and> vd_ok (vcase k c w) a"
    proof (cases "j = k")
      case True
      then obtain a where "dec c v = Some a" "cd_ok c a" using f lawfulD(3) [OF assms(1)] by (auto simp: t)
      then show ?thesis using True by (simp add: vcase_def)
    next
      case False
      then obtain a where "vdec w j v = Some a" "vd_ok w a"
        using f fits_decodes [OF assms(2), of j v] by (auto simp: t)
      then show ?thesis using False by (simp add: vcase_def)
    qed
  qed
qed

lemma typed_variant: "typed E v (IVariant ts) \<longleftrightarrow> (\<exists>k u. v = CVariant k u \<and> fits_case E ts k u)"
  by (cases v) (simp_all add: fits_case_def)

lemma variant_lawful:
  assumes "lawful_cases E w" "\<And>r. untup (tup r) = r" "\<And>a. tup (untup a) = a"
  shows "lawful E (variant_c tup untup w)"
proof (rule lawfulI)
  fix r
  show "typed E (enc (variant_c tup untup w) r) (cd_type (variant_c tup untup w)) = cd_ok (variant_c tup untup w) r"
    "cd_ok (variant_c tup untup w) r \<Longrightarrow> dec (variant_c tup untup w) (enc (variant_c tup untup w) r) = Some r"
    using assms by (simp_all add: variant_c_def typed_variant lawful_cases_def del: typed.simps)
next
  fix v
  assume "typed E v (cd_type (variant_c tup untup w))"
  then obtain k u where "v = CVariant k u" "fits_case E (vd_types w) k u"
    by (auto simp: variant_c_def typed_variant simp del: typed.simps)
  then show "\<exists>a. dec (variant_c tup untup w) v = Some a \<and> cd_ok (variant_c tup untup w) a"
    using fits_decodes [OF assms(1), of k u] assms(3) by (auto simp: variant_c_def)
qed

text \<open>A variant whose cases carry nothing.\<close>

definition enum_c :: "(string \<times> 'a) list \<Rightarrow> 'a codec" where
  "enum_c xs = \<lparr> cd_type = IVariant (map (\<lambda>(k, _). (k, INull)) xs), cd_ok = (\<lambda>a. a \<in> snd ` set xs),
     enc = (\<lambda>a. CVariant (the_default [] (map_of (map prod.swap xs) a)) CNull),
     dec = (\<lambda>v. case v of CVariant k CNull \<Rightarrow> map_of xs k | _ \<Rightarrow> None) \<rparr>"

lemma map_of_fst: "map_of (map (\<lambda>(k, _). (k, INull)) xs) k = (if k \<in> fst ` set xs then Some INull else None)"
  by (induction xs) auto

lemma enum_lawful:
  assumes "distinct (map fst xs)" "distinct (map snd xs)" "[] \<notin> fst ` set xs"
  shows "lawful E (enum_c xs)"
proof (rule lawfulI)
  fix a
  have s: "map_of (map prod.swap xs) a = Some k \<Longrightarrow> (k, a) \<in> set xs" for k
    by (auto dest!: map_of_SomeD)
  have n: "map_of (map prod.swap xs) a = None \<longleftrightarrow> a \<notin> snd ` set xs"
    by (force simp: map_of_eq_None_iff)
  show "typed E (enc (enum_c xs) a) (cd_type (enum_c xs)) = cd_ok (enum_c xs) a"
    using s n assms(3) by (cases "map_of (map prod.swap xs) a") (force simp: enum_c_def map_of_fst)+
  show "cd_ok (enum_c xs) a \<Longrightarrow> dec (enum_c xs) (enc (enum_c xs) a) = Some a"
    using s n assms(1) by (cases "map_of (map prod.swap xs) a") (force simp: enum_c_def)+
next
  fix v
  assume "typed E v (cd_type (enum_c xs))"
  then obtain k where k: "v = CVariant k CNull" "k \<in> fst ` set xs"
    by (auto simp: enum_c_def typed_variant fits_case_def map_of_fst typed_prim split: if_splits simp del: typed.simps)
  then obtain a where "(k, a) \<in> set xs" by auto
  then show "\<exists>a. dec (enum_c xs) v = Some a \<and> cd_ok (enum_c xs) a"
    using assms(1) k by (force simp: enum_c_def)
qed

text \<open>The types of composed codecs.\<close>

lemma field_types [simp]:
  "fd_types (field k c f) = (k, cd_type c) # fd_types f" "fd_types fnil = []"
  "cd_type (record_c tup untup f) = IRecord (fd_types f)"
  "cd_type (opt_c c) = IOpt (cd_type c)" "cd_type (vec_c c) = IVec (cd_type c)"
  "cd_type (pair_c c d) = ITuple [cd_type c, cd_type d]"
  "cd_type (int_c t) = t" "cd_type text_c = IText" "cd_type prin_c = IPrincipal" "cd_type bool_c = IBool"
  "cd_type null_c = INull" "cd_type float_c = IFloat64" "cd_type byte_c = INat8" "cd_type num8_c = INat8"
  "vd_types (vcase k c w) = (k, cd_type c) # vd_types w" "vd_types (vlast k c) = [(k, cd_type c)]"
  "cd_type (variant_c tup' untup' w) = IVariant (vd_types w)"
  "cd_type (enum_c xs) = IVariant (map (\<lambda>(k, _). (k, INull)) xs)"
  by (simp_all add: field_def fnil_def record_c_def opt_c_def vec_c_def pair_c_def int_c_def text_c_def
      prin_c_def bool_c_def null_c_def float_c_def byte_c_def num8_c_def vcase_def vlast_def variant_c_def enum_c_def)

text \<open>The ranges of composed codecs.\<close>

lemma prim_ranges [simp]:
  "cd_ok (int_c t) = int_fits t" "cd_ok text_c s" "cd_ok prin_c s" "cd_ok bool_c b" "cd_ok null_c u"
  "cd_ok float_c x" "cd_ok byte_c = (\<lambda>n. n < 256)"
  by (simp_all add: int_c_def text_c_def prin_c_def bool_c_def null_c_def float_c_def byte_c_def)

lemma list_ranges [simp]:
  "cd_ok (vec_c c) = list_all (cd_ok c)" "cd_ok (pair_c c d) (a, b) = (cd_ok c a \<and> cd_ok d b)"
  "cd_ok (enum_c xs) y = (y \<in> snd ` set xs)"
  by (simp_all add: vec_c_def pair_c_def enum_c_def)

lemma field_ranges [simp]:
  "fd_ok (field k c f) (a, b) = (cd_ok c a \<and> fd_ok f b)" "fd_ok fnil u"
  by (simp_all add: field_def fnil_def)

lemma record_range [simp]: "cd_ok (record_c tup untup f) r = fd_ok f (tup r)"
  by (simp add: record_c_def)

lemma typed_enc: "lawful E c \<Longrightarrow> cd_type c = t \<Longrightarrow> typed E (enc c a) t = cd_ok c a"
  using lawfulD(1) [of E c a] by simp

text \<open>An interface is well formed: its methods have distinct names, the fields and the cases of its
  types too, and every recursive type is filled. A function whose caller does not wait returns nothing.\<close>

definition modes_ok :: "string list \<Rightarrow> idl list \<Rightarrow> bool" where
  "modes_ok ms rs = (ms = [] \<or> ms = [''query''] \<or> ms = [''oneway''] \<and> rs = [])"

fun wf_idl :: "string list \<Rightarrow> idl \<Rightarrow> bool" where
  "wf_idl R (IOpt t) = wf_idl R t"
| "wf_idl R (IVec t) = wf_idl R t"
| "wf_idl R (ITuple ts) = list_all (wf_idl R) ts"
| "wf_idl R (IRecord fs) = (distinct (map fst fs) \<and> list_all (\<lambda>(_, t). wf_idl R t) fs)"
| "wf_idl R (IVariant fs) = (fs \<noteq> [] \<and> distinct (map fst fs) \<and> list_all (\<lambda>(_, t). wf_idl R t) fs)"
| "wf_idl R (IFunc as rs ms) = (list_all (wf_idl R) as \<and> list_all (wf_idl R) rs \<and> modes_ok ms rs)"
| "wf_idl R (IRef x) = (x \<in> set R)"
| "wf_idl R _ = True"

definition wf_service :: "service \<Rightarrow> bool" where
  "wf_service S = (
     distinct (map fst (sv_methods S)) \<and> distinct (map fst (sv_refs S)) \<and>
     list_all (\<lambda>(_, t). wf_idl (map fst (sv_refs S)) t \<and> (case t of IRef _ \<Rightarrow> False | _ \<Rightarrow> True)) (sv_refs S) \<and>
     list_all (\<lambda>(_, f). list_all (wf_idl (map fst (sv_refs S))) (fn_args f) \<and>
        list_all (wf_idl (map fst (sv_refs S))) (fn_rets f) \<and> modes_ok (fn_modes f) (fn_rets f))
       (sv_methods S))"

lemma closed_resolve: "wf_idl [] t \<Longrightarrow> resolve E t = t"
  by (cases t) simp_all

text \<open>The typing at a type without names does not depend on what the names stand for.\<close>

lemma typed_closed: "wf_idl [] t \<Longrightarrow> typed E v t = typed E' v t"
proof (induction v arbitrary: t)
  case (COpt x)
  then show ?case by (cases x; cases t) auto
next
  case (CVec vs)
  then show ?case by (cases t) (auto simp: list_all_iff)
next
  case (CTuple vs)
  show ?case
  proof (cases t)
    case (ITuple ts)
    with CTuple.prems have "list_all (wf_idl []) ts" by simp
    with CTuple.IH have "list_all2 (\<lambda>v u. typed E v u) vs ts = list_all2 (\<lambda>v u. typed E' v u) vs ts"
      by (induction vs arbitrary: ts) (auto simp: list_all2_Cons1)
    with ITuple show ?thesis by (simp add: list_all2_map1)
  qed (use CTuple in auto)
next
  case (CRecord fs)
  show ?case
  proof (cases t)
    case (IRecord ts)
    have "typed E v u = typed E' v u" if "map_of fs k = Some v" "(k', u) \<in> set ts" for k k' v u
      using CRecord.IH [OF map_of_SomeD [OF that(1)]] CRecord.prems IRecord that(2) by (force simp: list_all_iff)
    then have "fit E fs ts = fit E' fs ts"
      unfolding fit_def by (auto simp: list_all_iff split: option.splits)
    with IRecord show ?thesis by (simp add: fit_typed)
  qed (use CRecord in auto)
next
  case (CVariant k v)
  then show ?case by (cases t) (auto simp: list_all_iff split: option.splits dest!: map_of_SomeD)
qed (simp_all add: closed_resolve)

text \<open>Two interfaces with the same description of a method take and give the same values.\<close>

definition closed_func :: "idl_func \<Rightarrow> bool" where
  "closed_func f = (list_all (wf_idl []) (fn_args f) \<and> list_all (wf_idl []) (fn_rets f))"

definition same_method :: "service \<Rightarrow> service \<Rightarrow> string \<Rightarrow> bool" where
  "same_method S T k = (case map_of (sv_methods S) k of
     None \<Rightarrow> False | Some f \<Rightarrow> map_of (sv_methods T) k = Some f \<and> closed_func f)"

lemma typed_all_closed:
  "list_all (wf_idl []) ts \<Longrightarrow> list_all2 (typed E) vs ts = list_all2 (typed E') vs ts"
  by (induction ts arbitrary: vs) (auto simp: list_all2_Cons2 typed_closed [of _ E _ E'])

lemma same_methodD:
  assumes "same_method S T k"
  shows "accepts S k vs = accepts T k vs" "answers S k vs = answers T k vs" "is_query S k = is_query T k"
proof -
  obtain f where f: "map_of (sv_methods S) k = Some f" "map_of (sv_methods T) k = Some f"
      "list_all (wf_idl []) (fn_args f)" "list_all (wf_idl []) (fn_rets f)"
    using assms by (auto simp: same_method_def closed_func_def split: option.splits)
  show "accepts S k vs = accepts T k vs"
    using typed_all_closed [OF f(3)] f(1,2) by (auto simp: accepts_def)
  show "answers S k vs = answers T k vs"
    using typed_all_closed [OF f(4)] f(1,2) by (auto simp: answers_def)
  show "is_query S k = is_query T k" using f(1,2) by (simp add: is_query_def)
qed

end
