(* ===== verification/LauncherIdl.thy ===== *)
theory LauncherIdl
  imports Idl
begin

text \<open>
  The interfaces of the launcher and the canister of a project: one definition for each
  constant of the file, and the service it returns. A type of \<open>IDL.Rec()\<close> is its name and the
  type it is filled with.
\<close>

section \<open>The launcher: \<open>canisters/fomowell_launcher/fomowell_launcher.did.js\<close>\<close>

definition launcher_AddrConfig :: idl where
  "launcher_AddrConfig = IRecord [(''router_addr'', IPrincipal), (''oracle_addr'', IPrincipal),
     (''tx_addr'', IPrincipal), (''backend_addr'', IPrincipal), (''icpl_addr'', IPrincipal)]"

definition launcher_FomoProjectCreate :: idl where
  "launcher_FomoProjectCreate = IRecord [(''twitter_link'', IText),
     (''sneed_dao_lock'', IOpt INat), (''ticker'', IText), (''img_url'', IText),
     (''dogmi_dao_lock'', IOpt INat), (''logo'', IText), (''name'', IText),
     (''description'', IText), (''telegram_link'', IText), (''website'', IText)]"

definition launcher_FomoProject :: idl where
  "launcher_FomoProject = IRecord [(''god_of_wells_time'', IOpt INat64),
     (''twitter_link'', IText), (''sneed_dao_lock'', IOpt INat), (''market_cap'', INat),
     (''recently_reply_time'', INat64), (''ticker'', IText), (''img_url'', IText),
     (''dogmi_dao_lock'', IOpt INat), (''name'', IText), (''recently_bump_time'', INat64),
     (''create_user_pid'', IPrincipal), (''description'', IText),
     (''pool_progress_done_time'', IOpt INat64), (''telegram_link'', IText),
     (''website'', IText), (''fomo_idx'', INat64), (''fomo_pid'', IPrincipal),
     (''create_time'', INat64), (''reply_count'', INat64), (''token_pid'', IPrincipal),
     (''pool_progress'', INat), (''pool_pid'', IPrincipal), (''god_of_wells_progress'', INat)]"

definition launcher_Result :: idl where
  "launcher_Result = IVariant [(''Ok'', launcher_FomoProject), (''Err'', IText)]"

definition launcher_UserEditObj :: idl where
  "launcher_UserEditObj = IRecord [(''user_name'', IOpt IText), (''avatar'', IOpt IText)]"

definition launcher_Result_1 :: idl where
  "launcher_Result_1 = IVariant [(''Ok'', IPrincipal), (''Err'', IText)]"

definition launcher_RecordSignalVo :: idl where
  "launcher_RecordSignalVo = IRecord [(''user_name'', IText), (''swap_timestamp'', IOpt INat64),
     (''op_user_pid'', IPrincipal), (''user_avatar'', IText), (''fomo_idx'', INat64),
     (''buy_sell_op'', IText), (''icp_amount'', INat), (''fomo_ticker'', IText)]"

definition launcher_Page :: idl where
  "launcher_Page = IRecord [(''limit'', INat64), (''start'', INat64)]"

definition launcher_FomoProjectVo :: idl where
  "launcher_FomoProjectVo = IRecord [(''start_idx'', INat64), (''end_idx'', INat64),
     (''fomo_vec'', IVec launcher_FomoProject)]"

definition launcher_CreateFomoSignalVo :: idl where
  "launcher_CreateFomoSignalVo = IRecord [(''user_name'', IText), (''op_user_pid'', IPrincipal),
     (''user_avatar'', IText), (''fomo_idx'', INat64), (''create_time'', INat64),
     (''token_logo'', IText), (''fomo_name'', IText)]"

definition launcher_Context :: idl where
  "launcher_Context = IRecord [(''owner'', IPrincipal), (''icp_addr'', IPrincipal),
     (''last_create_fomo'', launcher_CreateFomoSignalVo),
     (''last_buy_sell_op'', launcher_RecordSignalVo), (''god_of_wells_idx'', INat64),
     (''fomo_canister_template'', IVec INat8)]"

definition launcher_PointHistory :: idl where
  "launcher_PointHistory = IRecord [(''idx'', INat64), (''user_pid'', IPrincipal),
     (''time'', INat64), (''busi_name'', IText), (''op_type'', IText), (''amount'', IOpt INat)]"

definition launcher_UserProfile :: idl where
  "launcher_UserProfile = IRecord [(''user_name'', IText), (''user_pid'', IPrincipal),
     (''user_points'', IOpt INat), (''user_pre_reward_points'', IOpt INat),
     (''last_change_time'', INat64), (''user_all_spend_points'', IOpt INat),
     (''avatar'', IText)]"

definition launcher_OrderType :: idl where
  "launcher_OrderType = IVariant [(''ASC'', INull), (''DESC'', INull)]"

definition launcher_SortType :: idl where
  "launcher_SortType = IVariant [(''CreationTime'', INull), (''ReplyCount'', INull),
     (''BumpOrder'', INull), (''LastReply'', INull), (''MarketCap'', INull)]"

definition launcher_SearchParam :: idl where
  "launcher_SearchParam = IRecord [(''order'', launcher_OrderType),
     (''sort'', launcher_SortType), (''text'', IText), (''limit'', INat64), (''start'', INat64)]"

definition launcher_FomoProjectSearchVo :: idl where
  "launcher_FomoProjectSearchVo = IRecord [(''end'', INat64), (''start'', INat64),
     (''fomo_vec'', IVec launcher_FomoProject)]"

definition launcher_RecordSignal :: idl where
  "launcher_RecordSignal = IRecord [(''fomo_idx'', INat64), (''buy_sell_op'', IText),
     (''icp_amount'', INat), (''swap_hash'', INat64)]"

definition launcher_Result_2 :: idl where
  "launcher_Result_2 = IVariant [(''Ok'', INull), (''Err'', IText)]"

definition launcher_idlFactory :: service where
  "launcher_idlFactory = \<lparr> sv_refs = [],
     sv_methods =
     [(''create_fomo'', func [launcher_FomoProjectCreate] [launcher_Result] []),
      (''edit_user'', func [launcher_UserEditObj] [launcher_Result_1] []),
      (''get_addr_config'', func [] [launcher_AddrConfig] [''query'']),
      (''get_buy_or_sell'', func [] [launcher_RecordSignalVo] [''query'']),
      (''get_dogmi_dao_addr'', func [] [IPrincipal] []),
      (''get_fomo_by_create_user_pid'', func [IPrincipal] [IOpt (IVec launcher_FomoProject)] [''query'']),
      (''get_fomo_by_fomo_idx'', func [INat64] [IOpt launcher_FomoProject] [''query'']),
      (''get_fomo_by_fomo_pid'', func [IPrincipal] [IOpt launcher_FomoProject] [''query'']),
      (''get_fomo_by_index'', func [launcher_Page] [launcher_FomoProjectVo] [''query'']),
      (''get_fomo_context'', func [] [launcher_Context] [''query'']),
      (''get_god_of_wells'', func [] [IOpt launcher_FomoProject] [''query'']),
      (''get_points_history_by_index'', func [INat64, INat64] [IVec (ITuple [INat64,
            launcher_PointHistory])] [''query'']),
      (''get_sneed_dao_addr'', func [] [IPrincipal] []),
      (''get_user'', func [IPrincipal] [IOpt launcher_UserProfile] [''query'']),
      (''lock_pool'', func [IPrincipal] [] []),
      (''ownership_transfer'', func [IPrincipal, IOpt IPrincipal] [] []),
      (''search_fomos'', func [launcher_SearchParam] [launcher_FomoProjectSearchVo] [''query'']),
      (''set_buy_or_sell'', func [launcher_RecordSignal] [] []),
      (''spending_points'', func [IPrincipal, IText] [] []),
      (''topup_points'', func [INat] [launcher_Result_2] []),
      (''update_progress'', func [] [] [])] \<rparr>"

lemmas launcher_defs =
  launcher_AddrConfig_def launcher_FomoProjectCreate_def launcher_FomoProject_def
  launcher_Result_def launcher_UserEditObj_def launcher_Result_1_def
  launcher_RecordSignalVo_def launcher_Page_def launcher_FomoProjectVo_def
  launcher_CreateFomoSignalVo_def launcher_Context_def launcher_PointHistory_def
  launcher_UserProfile_def launcher_OrderType_def launcher_SortType_def
  launcher_SearchParam_def launcher_FomoProjectSearchVo_def launcher_RecordSignal_def
  launcher_Result_2_def launcher_idlFactory_def

section \<open>The canister of a project: \<open>canisters/fomowell_project/fomowell_project.did.js\<close>\<close>

definition project_CommentsCreate :: idl where
  "project_CommentsCreate = IRecord [(''content'', IText), (''image_url'', IOpt IText),
     (''extended'', IVec (ITuple [IText, IText]))]"

definition project_Result :: idl where
  "project_Result = IVariant [(''Ok'', INull), (''Err'', IText)]"

definition project_Page :: idl where
  "project_Page = IRecord [(''limit'', INat64), (''start'', INat64)]"

definition project_Comments :: idl where
  "project_Comments = IRecord [(''user_star'', IVec IPrincipal), (''user_pid'', IPrincipal),
     (''content'', IText), (''image_url'', IOpt IText), (''fomo_idx'', IText),
     (''create_time'', INat64), (''comment_idx'', INat64), (''extended'', IVec (ITuple [IText,
     IText]))]"

definition project_CommentsVo :: idl where
  "project_CommentsVo = IRecord [(''start_idx'', INat64), (''end_idx'', INat64),
     (''fomo_vec'', IVec project_Comments)]"

definition project_Account :: idl where
  "project_Account = IRecord [(''owner'', IPrincipal), (''subaccount'', IOpt (IVec INat8))]"

definition project_HolderInfo :: idl where
  "project_HolderInfo = IRecord [(''holder_type'', IText), (''account'', project_Account),
     (''amount'', INat), (''holder_percent'', IFloat64)]"

definition project_idlFactory :: service where
  "project_idlFactory = \<lparr> sv_refs = [],
     sv_methods =
     [(''add_comment'', func [project_CommentsCreate] [project_Result] []),
      (''cycles'', func [] [INat64] [''query'']),
      (''get_comments_by_index'', func [project_Page] [project_CommentsVo] [''query'']),
      (''get_comments_len'', func [] [INat] [''query'']),
      (''get_fomo_info'', func [] [IVec (ITuple [IText, IText])] [''query'']),
      (''get_top10_holders'', func [] [IVec project_HolderInfo] [''query''])] \<rparr>"

lemmas project_defs =
  project_CommentsCreate_def project_Result_def project_Page_def
  project_Comments_def project_CommentsVo_def project_Account_def
  project_HolderInfo_def project_idlFactory_def

end
