(* ===== verification/LedgerIdl.thy ===== *)
theory LedgerIdl
  imports Idl
begin

text \<open>
  The interfaces of the ICP ledger, the ledger of a token, the cycles ledger, and the ICP ledger as the wallet adapter knows it: one definition for each
  constant of the file, and the service it returns. A type of \<open>IDL.Rec()\<close> is its name and the
  type it is filled with.
\<close>

section \<open>The ICP ledger: \<open>canisters/ledger/ledger.did.js\<close>\<close>

definition ledger_AccountIdentifier :: idl where
  "ledger_AccountIdentifier = IVec INat8"

definition ledger_AccountBalanceArgs :: idl where
  "ledger_AccountBalanceArgs = IRecord [(''account'', ledger_AccountIdentifier)]"

definition ledger_Tokens :: idl where
  "ledger_Tokens = IRecord [(''e8s'', INat64)]"

definition ledger_Archive :: idl where
  "ledger_Archive = IRecord [(''canister_id'', IPrincipal)]"

definition ledger_Archives :: idl where
  "ledger_Archives = IRecord [(''archives'', IVec ledger_Archive)]"

definition ledger_BlockIndex :: idl where
  "ledger_BlockIndex = INat64"

definition ledger_GetBlocksArgs :: idl where
  "ledger_GetBlocksArgs = IRecord [(''start'', ledger_BlockIndex), (''length'', INat64)]"

definition ledger_Memo :: idl where
  "ledger_Memo = INat64"

definition ledger_Operation :: idl where
  "ledger_Operation = IVariant [(''Burn'', IRecord [(''from'', ledger_AccountIdentifier),
     (''amount'', ledger_Tokens)]), (''Mint'', IRecord [(''to'', ledger_AccountIdentifier),
     (''amount'', ledger_Tokens)]), (''Transfer'', IRecord [(''to'', ledger_AccountIdentifier),
     (''fee'', ledger_Tokens), (''from'', ledger_AccountIdentifier),
     (''amount'', ledger_Tokens)])]"

definition ledger_TimeStamp :: idl where
  "ledger_TimeStamp = IRecord [(''timestamp_nanos'', INat64)]"

definition ledger_Transaction :: idl where
  "ledger_Transaction = IRecord [(''memo'', ledger_Memo), (''operation'', IOpt ledger_Operation),
     (''created_at_time'', ledger_TimeStamp)]"

definition ledger_Block :: idl where
  "ledger_Block = IRecord [(''transaction'', ledger_Transaction),
     (''timestamp'', ledger_TimeStamp), (''parent_hash'', IOpt (IVec INat8))]"

definition ledger_BlockRange :: idl where
  "ledger_BlockRange = IRecord [(''blocks'', IVec ledger_Block)]"

definition ledger_QueryArchiveError :: idl where
  "ledger_QueryArchiveError =
     IVariant [(''BadFirstBlockIndex'', IRecord [(''requested_index'', ledger_BlockIndex),
     (''first_valid_index'', ledger_BlockIndex)]),
     (''Other'', IRecord [(''error_message'', IText), (''error_code'', INat64)])]"

definition ledger_QueryArchiveResult :: idl where
  "ledger_QueryArchiveResult = IVariant [(''Ok'', ledger_BlockRange),
     (''Err'', ledger_QueryArchiveError)]"

definition ledger_QueryArchiveFn :: idl where
  "ledger_QueryArchiveFn = IFunc [ledger_GetBlocksArgs] [ledger_QueryArchiveResult] [''query'']"

definition ledger_QueryBlocksResponse :: idl where
  "ledger_QueryBlocksResponse = IRecord [(''certificate'', IOpt (IVec INat8)),
     (''blocks'', IVec ledger_Block), (''chain_length'', INat64),
     (''first_block_index'', ledger_BlockIndex),
     (''archived_blocks'', IVec (IRecord [(''callback'', ledger_QueryArchiveFn),
     (''start'', ledger_BlockIndex), (''length'', INat64)]))]"

definition ledger_SubAccount :: idl where
  "ledger_SubAccount = IVec INat8"

definition ledger_TransferArgs :: idl where
  "ledger_TransferArgs = IRecord [(''to'', ledger_AccountIdentifier), (''fee'', ledger_Tokens),
     (''memo'', ledger_Memo), (''from_subaccount'', IOpt ledger_SubAccount),
     (''created_at_time'', IOpt ledger_TimeStamp), (''amount'', ledger_Tokens)]"

definition ledger_TransferError :: idl where
  "ledger_TransferError = IVariant [(''TxTooOld'', IRecord [(''allowed_window_nanos'', INat64)]),
     (''BadFee'', IRecord [(''expected_fee'', ledger_Tokens)]),
     (''TxDuplicate'', IRecord [(''duplicate_of'', ledger_BlockIndex)]),
     (''TxCreatedInFuture'', INull),
     (''InsufficientFunds'', IRecord [(''balance'', ledger_Tokens)])]"

definition ledger_TransferResult :: idl where
  "ledger_TransferResult = IVariant [(''Ok'', ledger_BlockIndex),
     (''Err'', ledger_TransferError)]"

definition ledger_TransferFeeArg :: idl where
  "ledger_TransferFeeArg = IRecord []"

definition ledger_TransferFee :: idl where
  "ledger_TransferFee = IRecord [(''transfer_fee'', ledger_Tokens)]"

definition ledger_idlFactory :: service where
  "ledger_idlFactory = \<lparr> sv_refs = [],
     sv_methods =
     [(''account_balance'', func [ledger_AccountBalanceArgs] [ledger_Tokens] [''query'']),
      (''archives'', func [] [ledger_Archives] [''query'']),
      (''decimals'', func [] [IRecord [(''decimals'', INat32)]] [''query'']),
      (''name'', func [] [IRecord [(''name'', IText)]] [''query'']),
      (''query_blocks'', func [ledger_GetBlocksArgs] [ledger_QueryBlocksResponse] [''query'']),
      (''symbol'', func [] [IRecord [(''symbol'', IText)]] [''query'']),
      (''transfer'', func [ledger_TransferArgs] [ledger_TransferResult] []),
      (''transfer_fee'', func [ledger_TransferFeeArg] [ledger_TransferFee] [''query''])] \<rparr>"

lemmas ledger_defs =
  ledger_AccountIdentifier_def ledger_AccountBalanceArgs_def ledger_Tokens_def
  ledger_Archive_def ledger_Archives_def ledger_BlockIndex_def
  ledger_GetBlocksArgs_def ledger_Memo_def ledger_Operation_def
  ledger_TimeStamp_def ledger_Transaction_def ledger_Block_def
  ledger_BlockRange_def ledger_QueryArchiveError_def ledger_QueryArchiveResult_def
  ledger_QueryArchiveFn_def ledger_QueryBlocksResponse_def ledger_SubAccount_def
  ledger_TransferArgs_def ledger_TransferError_def ledger_TransferResult_def
  ledger_TransferFeeArg_def ledger_TransferFee_def ledger_idlFactory_def

section \<open>The ledger of a token: \<open>canisters/icrc2_ledger/icrc2_ledger.did.js\<close>\<close>

definition icrc2_Value :: idl where
  "icrc2_Value = IRef ''Value''"

definition icrc2_Vec :: idl where
  "icrc2_Vec = IRef ''Vec''"

definition icrc2_MetadataValue :: idl where
  "icrc2_MetadataValue = IVariant [(''Int'', IInt), (''Nat'', INat), (''Blob'', IVec INat8),
     (''Text'', IText)]"

definition icrc2_Account :: idl where
  "icrc2_Account = IRecord [(''owner'', IPrincipal), (''subaccount'', IOpt (IVec INat8))]"

definition icrc2_ChangeFeeCollector :: idl where
  "icrc2_ChangeFeeCollector = IVariant [(''SetTo'', icrc2_Account), (''Unset'', INull)]"

definition icrc2_FeatureFlags :: idl where
  "icrc2_FeatureFlags = IRecord [(''icrc2'', IBool)]"

definition icrc2_UpgradeArgs :: idl where
  "icrc2_UpgradeArgs = IRecord [(''burn_fee'', IOpt INat), (''token_symbol'', IOpt IText),
     (''transfer_fee'', IOpt INat),
     (''metadata'', IOpt (IVec (ITuple [IText, icrc2_MetadataValue]))),
     (''maximum_number_of_accounts'', IOpt INat64),
     (''accounts_overflow_trim_quantity'', IOpt INat64),
     (''change_fee_collector'', IOpt icrc2_ChangeFeeCollector), (''burn_fee_rate'', IOpt INat),
     (''max_memo_length'', IOpt INat16), (''token_name'', IOpt IText),
     (''feature_flags'', IOpt icrc2_FeatureFlags), (''transfer_fee_rate'', IOpt INat)]"

definition icrc2_ArchiveOptions :: idl where
  "icrc2_ArchiveOptions = IRecord [(''num_blocks_to_archive'', INat64),
     (''max_transactions_per_response'', IOpt INat64), (''trigger_threshold'', INat64),
     (''more_controller_ids'', IOpt (IVec IPrincipal)),
     (''max_message_size_bytes'', IOpt INat64), (''cycles_for_archive_creation'', IOpt INat64),
     (''node_max_memory_size_bytes'', IOpt INat64), (''controller_id'', IPrincipal)]"

definition icrc2_InitArgs :: idl where
  "icrc2_InitArgs = IRecord [(''burn_fee'', INat), (''decimals'', IOpt INat8),
     (''token_symbol'', IText), (''transfer_fee'', INat),
     (''metadata'', IVec (ITuple [IText, icrc2_MetadataValue])),
     (''minting_account'', icrc2_Account), (''initial_balances'', IVec (ITuple [icrc2_Account,
     INat])), (''maximum_number_of_accounts'', IOpt INat64),
     (''accounts_overflow_trim_quantity'', IOpt INat64),
     (''fee_collector_account'', IOpt icrc2_Account), (''burn_fee_rate'', INat),
     (''archive_options'', icrc2_ArchiveOptions), (''max_memo_length'', IOpt INat16),
     (''token_name'', IText), (''feature_flags'', IOpt icrc2_FeatureFlags),
     (''transfer_fee_rate'', INat)]"

definition icrc2_LedgerArgument :: idl where
  "icrc2_LedgerArgument = IVariant [(''Upgrade'', IOpt icrc2_UpgradeArgs),
     (''Init'', icrc2_InitArgs)]"

definition icrc2_ArchiveInfo :: idl where
  "icrc2_ArchiveInfo = IRecord [(''block_range_end'', INat), (''canister_id'', IPrincipal),
     (''block_range_start'', INat)]"

definition icrc2_GetBlocksRequest :: idl where
  "icrc2_GetBlocksRequest = IRecord [(''start'', INat), (''length'', INat)]"

definition icrc2_Vec_fill :: idl where
  "icrc2_Vec_fill = IVec (IVariant [(''Int'', IInt),
     (''Map'', IVec (ITuple [IText, icrc2_Value])), (''Nat'', INat), (''Nat64'', INat64),
     (''Blob'', IVec INat8), (''Text'', IText), (''Array'', icrc2_Vec)])"

definition icrc2_Value_fill :: idl where
  "icrc2_Value_fill = IVariant [(''Int'', IInt), (''Map'', IVec (ITuple [IText, icrc2_Value])),
     (''Nat'', INat), (''Nat64'', INat64), (''Blob'', IVec INat8), (''Text'', IText),
     (''Array'', icrc2_Vec)]"

definition icrc2_BlockRange :: idl where
  "icrc2_BlockRange = IRecord [(''blocks'', IVec icrc2_Value)]"

definition icrc2_ArchivedRange :: idl where
  "icrc2_ArchivedRange =
     IRecord [(''callback'', IFunc [icrc2_GetBlocksRequest] [icrc2_BlockRange] [''query'']),
     (''start'', INat), (''length'', INat)]"

definition icrc2_GetBlocksResponse :: idl where
  "icrc2_GetBlocksResponse = IRecord [(''certificate'', IOpt (IVec INat8)),
     (''first_index'', INat), (''blocks'', IVec icrc2_Value), (''chain_length'', INat64),
     (''archived_blocks'', IVec icrc2_ArchivedRange)]"

definition icrc2_DataCertificate :: idl where
  "icrc2_DataCertificate = IRecord [(''certificate'', IOpt (IVec INat8)),
     (''hash_tree'', IVec INat8)]"

definition icrc2_Burn :: idl where
  "icrc2_Burn = IRecord [(''from'', icrc2_Account), (''memo'', IOpt (IVec INat8)),
     (''created_at_time'', IOpt INat64), (''amount'', INat), (''spender'', IOpt icrc2_Account)]"

definition icrc2_Mint :: idl where
  "icrc2_Mint = IRecord [(''to'', icrc2_Account), (''memo'', IOpt (IVec INat8)),
     (''created_at_time'', IOpt INat64), (''amount'', INat)]"

definition icrc2_Approve :: idl where
  "icrc2_Approve = IRecord [(''fee'', IOpt INat), (''from'', icrc2_Account),
     (''memo'', IOpt (IVec INat8)), (''created_at_time'', IOpt INat64), (''amount'', INat),
     (''expected_allowance'', IOpt INat), (''expires_at'', IOpt INat64),
     (''spender'', icrc2_Account)]"

definition icrc2_Transfer :: idl where
  "icrc2_Transfer = IRecord [(''to'', icrc2_Account), (''fee'', IOpt INat),
     (''from'', icrc2_Account), (''memo'', IOpt (IVec INat8)),
     (''created_at_time'', IOpt INat64), (''amount'', INat), (''spender'', IOpt icrc2_Account)]"

definition icrc2_Transaction :: idl where
  "icrc2_Transaction = IRecord [(''burn'', IOpt icrc2_Burn), (''kind'', IText),
     (''mint'', IOpt icrc2_Mint), (''approve'', IOpt icrc2_Approve), (''timestamp'', INat64),
     (''transfer'', IOpt icrc2_Transfer)]"

definition icrc2_TransactionRange :: idl where
  "icrc2_TransactionRange = IRecord [(''transactions'', IVec icrc2_Transaction)]"

definition icrc2_ArchivedRange_1 :: idl where
  "icrc2_ArchivedRange_1 =
     IRecord [(''callback'', IFunc [icrc2_GetBlocksRequest] [icrc2_TransactionRange] [''query'']),
     (''start'', INat), (''length'', INat)]"

definition icrc2_GetTransactionsResponse :: idl where
  "icrc2_GetTransactionsResponse = IRecord [(''first_index'', INat), (''log_length'', INat),
     (''transactions'', IVec icrc2_Transaction),
     (''archived_transactions'', IVec icrc2_ArchivedRange_1)]"

definition icrc2_StandardRecord :: idl where
  "icrc2_StandardRecord = IRecord [(''url'', IText), (''name'', IText)]"

definition icrc2_TransferArg :: idl where
  "icrc2_TransferArg = IRecord [(''to'', icrc2_Account), (''fee'', IOpt INat),
     (''memo'', IOpt (IVec INat8)), (''from_subaccount'', IOpt (IVec INat8)),
     (''created_at_time'', IOpt INat64), (''amount'', INat)]"

definition icrc2_TransferError :: idl where
  "icrc2_TransferError = IVariant [(''GenericError'', IRecord [(''message'', IText),
     (''error_code'', INat)]), (''TemporarilyUnavailable'', INull),
     (''BadBurn'', IRecord [(''min_burn_amount'', INat)]),
     (''Duplicate'', IRecord [(''duplicate_of'', INat)]),
     (''BadFee'', IRecord [(''expected_fee'', INat)]),
     (''CreatedInFuture'', IRecord [(''ledger_time'', INat64)]), (''TooOld'', INull),
     (''InsufficientFunds'', IRecord [(''balance'', INat)])]"

definition icrc2_Result :: idl where
  "icrc2_Result = IVariant [(''Ok'', INat), (''Err'', icrc2_TransferError)]"

definition icrc2_AllowanceArgs :: idl where
  "icrc2_AllowanceArgs = IRecord [(''account'', icrc2_Account), (''spender'', icrc2_Account)]"

definition icrc2_Allowance :: idl where
  "icrc2_Allowance = IRecord [(''allowance'', INat), (''expires_at'', IOpt INat64)]"

definition icrc2_ApproveArgs :: idl where
  "icrc2_ApproveArgs = IRecord [(''fee'', IOpt INat), (''memo'', IOpt (IVec INat8)),
     (''from_subaccount'', IOpt (IVec INat8)), (''created_at_time'', IOpt INat64),
     (''amount'', INat), (''expected_allowance'', IOpt INat), (''expires_at'', IOpt INat64),
     (''spender'', icrc2_Account)]"

definition icrc2_ApproveError :: idl where
  "icrc2_ApproveError = IVariant [(''GenericError'', IRecord [(''message'', IText),
     (''error_code'', INat)]), (''TemporarilyUnavailable'', INull),
     (''Duplicate'', IRecord [(''duplicate_of'', INat)]),
     (''BadFee'', IRecord [(''expected_fee'', INat)]),
     (''AllowanceChanged'', IRecord [(''current_allowance'', INat)]),
     (''CreatedInFuture'', IRecord [(''ledger_time'', INat64)]), (''TooOld'', INull),
     (''Expired'', IRecord [(''ledger_time'', INat64)]),
     (''InsufficientFunds'', IRecord [(''balance'', INat)])]"

definition icrc2_Result_1 :: idl where
  "icrc2_Result_1 = IVariant [(''Ok'', INat), (''Err'', icrc2_ApproveError)]"

definition icrc2_TransferFromArgs :: idl where
  "icrc2_TransferFromArgs = IRecord [(''to'', icrc2_Account), (''fee'', IOpt INat),
     (''spender_subaccount'', IOpt (IVec INat8)), (''from'', icrc2_Account),
     (''memo'', IOpt (IVec INat8)), (''created_at_time'', IOpt INat64), (''amount'', INat)]"

definition icrc2_TransferFromError :: idl where
  "icrc2_TransferFromError = IVariant [(''GenericError'', IRecord [(''message'', IText),
     (''error_code'', INat)]), (''TemporarilyUnavailable'', INull),
     (''InsufficientAllowance'', IRecord [(''allowance'', INat)]),
     (''BadBurn'', IRecord [(''min_burn_amount'', INat)]),
     (''Duplicate'', IRecord [(''duplicate_of'', INat)]),
     (''BadFee'', IRecord [(''expected_fee'', INat)]),
     (''CreatedInFuture'', IRecord [(''ledger_time'', INat64)]), (''TooOld'', INull),
     (''InsufficientFunds'', IRecord [(''balance'', INat)])]"

definition icrc2_Result_2 :: idl where
  "icrc2_Result_2 = IVariant [(''Ok'', INat), (''Err'', icrc2_TransferFromError)]"

definition icrc2_FeeInfo :: idl where
  "icrc2_FeeInfo = IRecord [(''burn_fee'', INat), (''decimals'', INat),
     (''transfer_fee'', INat)]"

definition icrc2_HoldersBalances :: idl where
  "icrc2_HoldersBalances = IRecord [(''max_length'', INat),
     (''balances'', IVec (ITuple [icrc2_Account, INat]))]"

definition icrc2_Result_3 :: idl where
  "icrc2_Result_3 = IVariant [(''Ok'', INull), (''Err'', IText)]"

definition icrc2_idlFactory :: service where
  "icrc2_idlFactory = \<lparr> sv_refs = [(''Value'', icrc2_Value_fill), (''Vec'', icrc2_Vec_fill)],
     sv_methods =
     [(''archives'', func [] [IVec icrc2_ArchiveInfo] [''query'']),
      (''get_blocks'', func [icrc2_GetBlocksRequest] [icrc2_GetBlocksResponse] [''query'']),
      (''get_data_certificate'', func [] [icrc2_DataCertificate] [''query'']),
      (''get_transactions'', func [icrc2_GetBlocksRequest] [icrc2_GetTransactionsResponse] [''query'']),
      (''icrc1_balance_of'', func [icrc2_Account] [INat] [''query'']),
      (''icrc1_decimals'', func [] [INat8] [''query'']),
      (''icrc1_fee'', func [] [INat] [''query'']),
      (''icrc1_metadata'', func [] [IVec (ITuple [IText, icrc2_MetadataValue])] [''query'']),
      (''icrc1_minting_account'', func [] [IOpt icrc2_Account] [''query'']),
      (''icrc1_name'', func [] [IText] [''query'']),
      (''icrc1_supported_standards'', func [] [IVec icrc2_StandardRecord] [''query'']),
      (''icrc1_symbol'', func [] [IText] [''query'']),
      (''icrc1_total_supply'', func [] [INat] [''query'']),
      (''icrc1_transfer'', func [icrc2_TransferArg] [icrc2_Result] []),
      (''icrc2_allowance'', func [icrc2_AllowanceArgs] [icrc2_Allowance] [''query'']),
      (''icrc2_approve'', func [icrc2_ApproveArgs] [icrc2_Result_1] []),
      (''icrc2_transfer_from'', func [icrc2_TransferFromArgs] [icrc2_Result_2] []),
      (''icrc_plus_cycles'', func [] [INat] [''query'']),
      (''icrc_plus_fee_info'', func [] [icrc2_FeeInfo] [''query'']),
      (''icrc_plus_holders_balance'', func [INat64, INat64] [icrc2_HoldersBalances] [''query'']),
      (''icrc_plus_holders_count'', func [] [INat] [''query'']),
      (''icrc_plus_set_minting_account'', func [icrc2_Account] [icrc2_Result_3] [])] \<rparr>"

lemmas icrc2_defs =
  icrc2_Value_def icrc2_Vec_def icrc2_MetadataValue_def
  icrc2_Account_def icrc2_ChangeFeeCollector_def icrc2_FeatureFlags_def
  icrc2_UpgradeArgs_def icrc2_ArchiveOptions_def icrc2_InitArgs_def
  icrc2_LedgerArgument_def icrc2_ArchiveInfo_def icrc2_GetBlocksRequest_def
  icrc2_Vec_fill_def icrc2_Value_fill_def icrc2_BlockRange_def
  icrc2_ArchivedRange_def icrc2_GetBlocksResponse_def icrc2_DataCertificate_def
  icrc2_Burn_def icrc2_Mint_def icrc2_Approve_def
  icrc2_Transfer_def icrc2_Transaction_def icrc2_TransactionRange_def
  icrc2_ArchivedRange_1_def icrc2_GetTransactionsResponse_def icrc2_StandardRecord_def
  icrc2_TransferArg_def icrc2_TransferError_def icrc2_Result_def
  icrc2_AllowanceArgs_def icrc2_Allowance_def icrc2_ApproveArgs_def
  icrc2_ApproveError_def icrc2_Result_1_def icrc2_TransferFromArgs_def
  icrc2_TransferFromError_def icrc2_Result_2_def icrc2_FeeInfo_def
  icrc2_HoldersBalances_def icrc2_Result_3_def icrc2_idlFactory_def

section \<open>The cycles ledger: \<open>canisters/cycles_ledger/cycles_ledger.did.js\<close>\<close>

definition cycles_GetBlocksResult :: idl where
  "cycles_GetBlocksResult = IRef ''GetBlocksResult''"

definition cycles_Value :: idl where
  "cycles_Value = IRef ''Value''"

definition cycles_SubnetFilter :: idl where
  "cycles_SubnetFilter = IRecord [(''subnet_type'', IOpt IText)]"

definition cycles_SubnetSelection :: idl where
  "cycles_SubnetSelection = IVariant [(''Filter'', cycles_SubnetFilter),
     (''Subnet'', IRecord [(''subnet'', IPrincipal)])]"

definition cycles_CanisterSettings :: idl where
  "cycles_CanisterSettings = IRecord [(''freezing_threshold'', IOpt INat),
     (''controllers'', IOpt (IVec IPrincipal)), (''reserved_cycles_limit'', IOpt INat),
     (''memory_allocation'', IOpt INat), (''compute_allocation'', IOpt INat)]"

definition cycles_CmcCreateCanisterArgs :: idl where
  "cycles_CmcCreateCanisterArgs = IRecord [(''subnet_selection'', IOpt cycles_SubnetSelection),
     (''settings'', IOpt cycles_CanisterSettings)]"

definition cycles_CreateCanisterArgs :: idl where
  "cycles_CreateCanisterArgs = IRecord [(''from_subaccount'', IOpt (IVec INat8)),
     (''created_at_time'', IOpt INat64), (''amount'', INat),
     (''creation_args'', IOpt cycles_CmcCreateCanisterArgs)]"

definition cycles_BlockIndex :: idl where
  "cycles_BlockIndex = INat"

definition cycles_CreateCanisterSuccess :: idl where
  "cycles_CreateCanisterSuccess = IRecord [(''block_id'', cycles_BlockIndex),
     (''canister_id'', IPrincipal)]"

definition cycles_CreateCanisterError :: idl where
  "cycles_CreateCanisterError = IVariant [(''GenericError'', IRecord [(''message'', IText),
     (''error_code'', INat)]), (''TemporarilyUnavailable'', INull),
     (''Duplicate'', IRecord [(''duplicate_of'', INat), (''canister_id'', IOpt IPrincipal)]),
     (''CreatedInFuture'', IRecord [(''ledger_time'', INat64)]),
     (''FailedToCreate'', IRecord [(''error'', IText),
     (''refund_block'', IOpt cycles_BlockIndex), (''fee_block'', IOpt cycles_BlockIndex)]),
     (''TooOld'', INull), (''InsufficientFunds'', IRecord [(''balance'', INat)])]"

definition cycles_Account :: idl where
  "cycles_Account = IRecord [(''owner'', IPrincipal), (''subaccount'', IOpt (IVec INat8))]"

definition cycles_CreateCanisterFromArgs :: idl where
  "cycles_CreateCanisterFromArgs = IRecord [(''spender_subaccount'', IOpt (IVec INat8)),
     (''from'', cycles_Account), (''created_at_time'', IOpt INat64), (''amount'', INat),
     (''creation_args'', IOpt cycles_CmcCreateCanisterArgs)]"

definition cycles_RejectionCode :: idl where
  "cycles_RejectionCode = IVariant [(''NoError'', INull), (''CanisterError'', INull),
     (''SysTransient'', INull), (''DestinationInvalid'', INull), (''Unknown'', INull),
     (''SysFatal'', INull), (''CanisterReject'', INull)]"

definition cycles_CreateCanisterFromError :: idl where
  "cycles_CreateCanisterFromError =
     IVariant [(''FailedToCreateFrom'', IRecord [(''create_from_block'', IOpt cycles_BlockIndex),
     (''rejection_code'', cycles_RejectionCode), (''refund_block'', IOpt cycles_BlockIndex),
     (''approval_refund_block'', IOpt cycles_BlockIndex), (''rejection_reason'', IText)]),
     (''GenericError'', IRecord [(''message'', IText), (''error_code'', INat)]),
     (''TemporarilyUnavailable'', INull),
     (''InsufficientAllowance'', IRecord [(''allowance'', INat)]),
     (''Duplicate'', IRecord [(''duplicate_of'', INat), (''canister_id'', IOpt IPrincipal)]),
     (''CreatedInFuture'', IRecord [(''ledger_time'', INat64)]), (''TooOld'', INull),
     (''InsufficientFunds'', IRecord [(''balance'', INat)])]"

definition cycles_DepositArgs :: idl where
  "cycles_DepositArgs = IRecord [(''to'', cycles_Account), (''memo'', IOpt (IVec INat8))]"

definition cycles_DepositResult :: idl where
  "cycles_DepositResult = IRecord [(''balance'', INat), (''block_index'', cycles_BlockIndex)]"

definition cycles_HttpRequest :: idl where
  "cycles_HttpRequest = IRecord [(''url'', IText), (''method'', IText), (''body'', IVec INat8),
     (''headers'', IVec (ITuple [IText, IText]))]"

definition cycles_HttpResponse :: idl where
  "cycles_HttpResponse = IRecord [(''body'', IVec INat8), (''headers'', IVec (ITuple [IText,
     IText])), (''status_code'', INat16)]"

definition cycles_MetadataValue :: idl where
  "cycles_MetadataValue = IVariant [(''Int'', IInt), (''Nat'', INat), (''Blob'', IVec INat8),
     (''Text'', IText)]"

definition cycles_SupportedStandard :: idl where
  "cycles_SupportedStandard = IRecord [(''url'', IText), (''name'', IText)]"

definition cycles_TransferArgs :: idl where
  "cycles_TransferArgs = IRecord [(''to'', cycles_Account), (''fee'', IOpt INat),
     (''memo'', IOpt (IVec INat8)), (''from_subaccount'', IOpt (IVec INat8)),
     (''created_at_time'', IOpt INat64), (''amount'', INat)]"

definition cycles_TransferError :: idl where
  "cycles_TransferError = IVariant [(''GenericError'', IRecord [(''message'', IText),
     (''error_code'', INat)]), (''TemporarilyUnavailable'', INull),
     (''BadBurn'', IRecord [(''min_burn_amount'', INat)]),
     (''Duplicate'', IRecord [(''duplicate_of'', INat)]),
     (''BadFee'', IRecord [(''expected_fee'', INat)]),
     (''CreatedInFuture'', IRecord [(''ledger_time'', INat64)]), (''TooOld'', INull),
     (''InsufficientFunds'', IRecord [(''balance'', INat)])]"

definition cycles_AllowanceArgs :: idl where
  "cycles_AllowanceArgs = IRecord [(''account'', cycles_Account), (''spender'', cycles_Account)]"

definition cycles_Allowance :: idl where
  "cycles_Allowance = IRecord [(''allowance'', INat), (''expires_at'', IOpt INat64)]"

definition cycles_ApproveArgs :: idl where
  "cycles_ApproveArgs = IRecord [(''fee'', IOpt INat), (''memo'', IOpt (IVec INat8)),
     (''from_subaccount'', IOpt (IVec INat8)), (''created_at_time'', IOpt INat64),
     (''amount'', INat), (''expected_allowance'', IOpt INat), (''expires_at'', IOpt INat64),
     (''spender'', cycles_Account)]"

definition cycles_ApproveError :: idl where
  "cycles_ApproveError = IVariant [(''GenericError'', IRecord [(''message'', IText),
     (''error_code'', INat)]), (''TemporarilyUnavailable'', INull),
     (''Duplicate'', IRecord [(''duplicate_of'', INat)]),
     (''BadFee'', IRecord [(''expected_fee'', INat)]),
     (''AllowanceChanged'', IRecord [(''current_allowance'', INat)]),
     (''CreatedInFuture'', IRecord [(''ledger_time'', INat64)]), (''TooOld'', INull),
     (''Expired'', IRecord [(''ledger_time'', INat64)]),
     (''InsufficientFunds'', IRecord [(''balance'', INat)])]"

definition cycles_TransferFromArgs :: idl where
  "cycles_TransferFromArgs = IRecord [(''to'', cycles_Account), (''fee'', IOpt INat),
     (''spender_subaccount'', IOpt (IVec INat8)), (''from'', cycles_Account),
     (''memo'', IOpt (IVec INat8)), (''created_at_time'', IOpt INat64), (''amount'', INat)]"

definition cycles_TransferFromError :: idl where
  "cycles_TransferFromError = IVariant [(''GenericError'', IRecord [(''message'', IText),
     (''error_code'', INat)]), (''TemporarilyUnavailable'', INull),
     (''InsufficientAllowance'', IRecord [(''allowance'', INat)]),
     (''BadBurn'', IRecord [(''min_burn_amount'', INat)]),
     (''Duplicate'', IRecord [(''duplicate_of'', INat)]),
     (''BadFee'', IRecord [(''expected_fee'', INat)]),
     (''CreatedInFuture'', IRecord [(''ledger_time'', INat64)]), (''TooOld'', INull),
     (''InsufficientFunds'', IRecord [(''balance'', INat)])]"

definition cycles_GetArchivesArgs :: idl where
  "cycles_GetArchivesArgs = IRecord [(''from'', IOpt IPrincipal)]"

definition cycles_GetArchivesResult :: idl where
  "cycles_GetArchivesResult = IVec (IRecord [(''end'', INat), (''canister_id'', IPrincipal),
     (''start'', INat)])"

definition cycles_GetBlocksArgs :: idl where
  "cycles_GetBlocksArgs = IVec (IRecord [(''start'', INat), (''length'', INat)])"

definition cycles_Value_fill :: idl where
  "cycles_Value_fill = IVariant [(''Int'', IInt), (''Map'', IVec (ITuple [IText, cycles_Value])),
     (''Nat'', INat), (''Nat64'', INat64), (''Blob'', IVec INat8), (''Text'', IText),
     (''Array'', IVec cycles_Value)]"

definition cycles_GetBlocksResult_fill :: idl where
  "cycles_GetBlocksResult_fill = IRecord [(''log_length'', INat),
     (''blocks'', IVec (IRecord [(''id'', INat), (''block'', cycles_Value)])),
     (''archived_blocks'', IVec (IRecord [(''args'', cycles_GetBlocksArgs),
     (''callback'', IFunc [cycles_GetBlocksArgs] [cycles_GetBlocksResult] [''query''])]))]"

definition cycles_DataCertificate :: idl where
  "cycles_DataCertificate = IRecord [(''certificate'', IVec INat8), (''hash_tree'', IVec INat8)]"

definition cycles_SupportedBlockType :: idl where
  "cycles_SupportedBlockType = IRecord [(''url'', IText), (''block_type'', IText)]"

definition cycles_WithdrawArgs :: idl where
  "cycles_WithdrawArgs = IRecord [(''to'', IPrincipal), (''from_subaccount'', IOpt (IVec INat8)),
     (''created_at_time'', IOpt INat64), (''amount'', INat)]"

definition cycles_WithdrawError :: idl where
  "cycles_WithdrawError =
     IVariant [(''FailedToWithdraw'', IRecord [(''rejection_code'', cycles_RejectionCode),
     (''fee_block'', IOpt INat), (''rejection_reason'', IText)]),
     (''GenericError'', IRecord [(''message'', IText), (''error_code'', INat)]),
     (''TemporarilyUnavailable'', INull), (''Duplicate'', IRecord [(''duplicate_of'', INat)]),
     (''BadFee'', IRecord [(''expected_fee'', INat)]),
     (''InvalidReceiver'', IRecord [(''receiver'', IPrincipal)]),
     (''CreatedInFuture'', IRecord [(''ledger_time'', INat64)]), (''TooOld'', INull),
     (''InsufficientFunds'', IRecord [(''balance'', INat)])]"

definition cycles_WithdrawFromArgs :: idl where
  "cycles_WithdrawFromArgs = IRecord [(''to'', IPrincipal),
     (''spender_subaccount'', IOpt (IVec INat8)), (''from'', cycles_Account),
     (''created_at_time'', IOpt INat64), (''amount'', INat)]"

definition cycles_WithdrawFromError :: idl where
  "cycles_WithdrawFromError = IVariant [(''GenericError'', IRecord [(''message'', IText),
     (''error_code'', INat)]), (''TemporarilyUnavailable'', INull),
     (''InsufficientAllowance'', IRecord [(''allowance'', INat)]),
     (''Duplicate'', IRecord [(''duplicate_of'', cycles_BlockIndex)]),
     (''InvalidReceiver'', IRecord [(''receiver'', IPrincipal)]),
     (''CreatedInFuture'', IRecord [(''ledger_time'', INat64)]), (''TooOld'', INull),
     (''FailedToWithdrawFrom'', IRecord [(''withdraw_from_block'', IOpt INat),
     (''rejection_code'', cycles_RejectionCode), (''refund_block'', IOpt INat),
     (''approval_refund_block'', IOpt INat), (''rejection_reason'', IText)]),
     (''InsufficientFunds'', IRecord [(''balance'', INat)])]"

definition cycles_idlFactory :: service where
  "cycles_idlFactory = \<lparr> sv_refs = [(''GetBlocksResult'', cycles_GetBlocksResult_fill), (''Value'', cycles_Value_fill)],
     sv_methods =
     [(''create_canister'', func [cycles_CreateCanisterArgs] [IVariant [(''Ok'', cycles_CreateCanisterSuccess),
            (''Err'', cycles_CreateCanisterError)]] []),
      (''create_canister_from'', func [cycles_CreateCanisterFromArgs] [IVariant [(''Ok'', cycles_CreateCanisterSuccess),
            (''Err'', cycles_CreateCanisterFromError)]] []),
      (''deposit'', func [cycles_DepositArgs] [cycles_DepositResult] []),
      (''http_request'', func [cycles_HttpRequest] [cycles_HttpResponse] [''query'']),
      (''icrc1_balance_of'', func [cycles_Account] [INat] [''query'']),
      (''icrc1_decimals'', func [] [INat8] [''query'']),
      (''icrc1_fee'', func [] [INat] [''query'']),
      (''icrc1_metadata'', func [] [IVec (ITuple [IText, cycles_MetadataValue])] [''query'']),
      (''icrc1_minting_account'', func [] [IOpt cycles_Account] [''query'']),
      (''icrc1_name'', func [] [IText] [''query'']),
      (''icrc1_supported_standards'', func [] [IVec cycles_SupportedStandard] [''query'']),
      (''icrc1_symbol'', func [] [IText] [''query'']),
      (''icrc1_total_supply'', func [] [INat] [''query'']),
      (''icrc1_transfer'', func [cycles_TransferArgs] [IVariant [(''Ok'', cycles_BlockIndex),
            (''Err'', cycles_TransferError)]] []),
      (''icrc2_allowance'', func [cycles_AllowanceArgs] [cycles_Allowance] [''query'']),
      (''icrc2_approve'', func [cycles_ApproveArgs] [IVariant [(''Ok'', INat),
            (''Err'', cycles_ApproveError)]] []),
      (''icrc2_transfer_from'', func [cycles_TransferFromArgs] [IVariant [(''Ok'', INat),
            (''Err'', cycles_TransferFromError)]] []),
      (''icrc3_get_archives'', func [cycles_GetArchivesArgs] [cycles_GetArchivesResult] [''query'']),
      (''icrc3_get_blocks'', func [cycles_GetBlocksArgs] [cycles_GetBlocksResult] [''query'']),
      (''icrc3_get_tip_certificate'', func [] [IOpt cycles_DataCertificate] [''query'']),
      (''icrc3_supported_block_types'', func [] [IVec cycles_SupportedBlockType] [''query'']),
      (''withdraw'', func [cycles_WithdrawArgs] [IVariant [(''Ok'', cycles_BlockIndex),
            (''Err'', cycles_WithdrawError)]] []),
      (''withdraw_from'', func [cycles_WithdrawFromArgs] [IVariant [(''Ok'', cycles_BlockIndex),
            (''Err'', cycles_WithdrawFromError)]] [])] \<rparr>"

lemmas cycles_defs =
  cycles_GetBlocksResult_def cycles_Value_def cycles_SubnetFilter_def
  cycles_SubnetSelection_def cycles_CanisterSettings_def cycles_CmcCreateCanisterArgs_def
  cycles_CreateCanisterArgs_def cycles_BlockIndex_def cycles_CreateCanisterSuccess_def
  cycles_CreateCanisterError_def cycles_Account_def cycles_CreateCanisterFromArgs_def
  cycles_RejectionCode_def cycles_CreateCanisterFromError_def cycles_DepositArgs_def
  cycles_DepositResult_def cycles_HttpRequest_def cycles_HttpResponse_def
  cycles_MetadataValue_def cycles_SupportedStandard_def cycles_TransferArgs_def
  cycles_TransferError_def cycles_AllowanceArgs_def cycles_Allowance_def
  cycles_ApproveArgs_def cycles_ApproveError_def cycles_TransferFromArgs_def
  cycles_TransferFromError_def cycles_GetArchivesArgs_def cycles_GetArchivesResult_def
  cycles_GetBlocksArgs_def cycles_Value_fill_def cycles_GetBlocksResult_fill_def
  cycles_DataCertificate_def cycles_SupportedBlockType_def cycles_WithdrawArgs_def
  cycles_WithdrawError_def cycles_WithdrawFromArgs_def cycles_WithdrawFromError_def
  cycles_idlFactory_def

section \<open>The ICP ledger of the wallet adapter: \<open>did/nns.idl.js\<close>\<close>

definition nns_Account :: idl where
  "nns_Account = IRecord [(''owner'', IPrincipal), (''subaccount'', IOpt (IVec INat8))]"

definition nns_FeatureFlags :: idl where
  "nns_FeatureFlags = IRecord [(''icrc2'', IBool)]"

definition nns_UpgradeArgs :: idl where
  "nns_UpgradeArgs = IRecord [(''maximum_number_of_accounts'', IOpt INat64),
     (''icrc1_minting_account'', IOpt nns_Account), (''feature_flags'', IOpt nns_FeatureFlags)]"

definition nns_Tokens :: idl where
  "nns_Tokens = IRecord [(''e8s'', INat64)]"

definition nns_Duration :: idl where
  "nns_Duration = IRecord [(''secs'', INat64), (''nanos'', INat32)]"

definition nns_ArchiveOptions :: idl where
  "nns_ArchiveOptions = IRecord [(''num_blocks_to_archive'', INat64),
     (''max_transactions_per_response'', IOpt INat64), (''trigger_threshold'', INat64),
     (''max_message_size_bytes'', IOpt INat64), (''cycles_for_archive_creation'', IOpt INat64),
     (''node_max_memory_size_bytes'', IOpt INat64), (''controller_id'', IPrincipal)]"

definition nns_InitArgs :: idl where
  "nns_InitArgs = IRecord [(''send_whitelist'', IVec IPrincipal), (''token_symbol'', IOpt IText),
     (''transfer_fee'', IOpt nns_Tokens), (''minting_account'', IText),
     (''maximum_number_of_accounts'', IOpt INat64),
     (''accounts_overflow_trim_quantity'', IOpt INat64),
     (''transaction_window'', IOpt nns_Duration), (''max_message_size_bytes'', IOpt INat64),
     (''icrc1_minting_account'', IOpt nns_Account),
     (''archive_options'', IOpt nns_ArchiveOptions), (''initial_values'', IVec (ITuple [IText,
     nns_Tokens])), (''token_name'', IOpt IText), (''feature_flags'', IOpt nns_FeatureFlags)]"

definition nns_LedgerCanisterPayload :: idl where
  "nns_LedgerCanisterPayload = IVariant [(''Upgrade'', IOpt nns_UpgradeArgs),
     (''Init'', nns_InitArgs)]"

definition nns_BinaryAccountBalanceArgs :: idl where
  "nns_BinaryAccountBalanceArgs = IRecord [(''account'', IVec INat8)]"

definition nns_AccountBalanceArgs :: idl where
  "nns_AccountBalanceArgs = IRecord [(''account'', IText)]"

definition nns_ArchiveInfo :: idl where
  "nns_ArchiveInfo = IRecord [(''canister_id'', IPrincipal)]"

definition nns_Archives :: idl where
  "nns_Archives = IRecord [(''archives'', IVec nns_ArchiveInfo)]"

definition nns_Decimals :: idl where
  "nns_Decimals = IRecord [(''decimals'', INat32)]"

definition nns_MetadataValue :: idl where
  "nns_MetadataValue = IVariant [(''Int'', IInt), (''Nat'', INat), (''Blob'', IVec INat8),
     (''Text'', IText)]"

definition nns_StandardRecord :: idl where
  "nns_StandardRecord = IRecord [(''url'', IText), (''name'', IText)]"

definition nns_TransferArg :: idl where
  "nns_TransferArg = IRecord [(''to'', nns_Account), (''fee'', IOpt INat),
     (''memo'', IOpt (IVec INat8)), (''from_subaccount'', IOpt (IVec INat8)),
     (''created_at_time'', IOpt INat64), (''amount'', INat)]"

definition nns_TransferError :: idl where
  "nns_TransferError = IVariant [(''GenericError'', IRecord [(''message'', IText),
     (''error_code'', INat)]), (''TemporarilyUnavailable'', INull),
     (''BadBurn'', IRecord [(''min_burn_amount'', INat)]),
     (''Duplicate'', IRecord [(''duplicate_of'', INat)]),
     (''BadFee'', IRecord [(''expected_fee'', INat)]),
     (''CreatedInFuture'', IRecord [(''ledger_time'', INat64)]), (''TooOld'', INull),
     (''InsufficientFunds'', IRecord [(''balance'', INat)])]"

definition nns_Result :: idl where
  "nns_Result = IVariant [(''Ok'', INat), (''Err'', nns_TransferError)]"

definition nns_AllowanceArgs :: idl where
  "nns_AllowanceArgs = IRecord [(''account'', nns_Account), (''spender'', nns_Account)]"

definition nns_Allowance :: idl where
  "nns_Allowance = IRecord [(''allowance'', INat), (''expires_at'', IOpt INat64)]"

definition nns_ApproveArgs :: idl where
  "nns_ApproveArgs = IRecord [(''fee'', IOpt INat), (''memo'', IOpt (IVec INat8)),
     (''from_subaccount'', IOpt (IVec INat8)), (''created_at_time'', IOpt INat64),
     (''amount'', INat), (''expected_allowance'', IOpt INat), (''expires_at'', IOpt INat64),
     (''spender'', nns_Account)]"

definition nns_ApproveError :: idl where
  "nns_ApproveError = IVariant [(''GenericError'', IRecord [(''message'', IText),
     (''error_code'', INat)]), (''TemporarilyUnavailable'', INull),
     (''Duplicate'', IRecord [(''duplicate_of'', INat)]),
     (''BadFee'', IRecord [(''expected_fee'', INat)]),
     (''AllowanceChanged'', IRecord [(''current_allowance'', INat)]),
     (''CreatedInFuture'', IRecord [(''ledger_time'', INat64)]), (''TooOld'', INull),
     (''Expired'', IRecord [(''ledger_time'', INat64)]),
     (''InsufficientFunds'', IRecord [(''balance'', INat)])]"

definition nns_Result_1 :: idl where
  "nns_Result_1 = IVariant [(''Ok'', INat), (''Err'', nns_ApproveError)]"

definition nns_TransferFromArgs :: idl where
  "nns_TransferFromArgs = IRecord [(''to'', nns_Account), (''fee'', IOpt INat),
     (''spender_subaccount'', IOpt (IVec INat8)), (''from'', nns_Account),
     (''memo'', IOpt (IVec INat8)), (''created_at_time'', IOpt INat64), (''amount'', INat)]"

definition nns_TransferFromError :: idl where
  "nns_TransferFromError = IVariant [(''GenericError'', IRecord [(''message'', IText),
     (''error_code'', INat)]), (''TemporarilyUnavailable'', INull),
     (''InsufficientAllowance'', IRecord [(''allowance'', INat)]),
     (''BadBurn'', IRecord [(''min_burn_amount'', INat)]),
     (''Duplicate'', IRecord [(''duplicate_of'', INat)]),
     (''BadFee'', IRecord [(''expected_fee'', INat)]),
     (''CreatedInFuture'', IRecord [(''ledger_time'', INat64)]), (''TooOld'', INull),
     (''InsufficientFunds'', IRecord [(''balance'', INat)])]"

definition nns_Result_2 :: idl where
  "nns_Result_2 = IVariant [(''Ok'', INat), (''Err'', nns_TransferFromError)]"

definition nns_Name :: idl where
  "nns_Name = IRecord [(''name'', IText)]"

definition nns_GetBlocksArgs :: idl where
  "nns_GetBlocksArgs = IRecord [(''start'', INat64), (''length'', INat64)]"

definition nns_TimeStamp :: idl where
  "nns_TimeStamp = IRecord [(''timestamp_nanos'', INat64)]"

definition nns_CandidOperation :: idl where
  "nns_CandidOperation = IVariant [(''Approve'', IRecord [(''fee'', nns_Tokens),
     (''from'', IVec INat8), (''allowance_e8s'', IInt), (''allowance'', nns_Tokens),
     (''expected_allowance'', IOpt nns_Tokens), (''expires_at'', IOpt nns_TimeStamp),
     (''spender'', IVec INat8)]), (''Burn'', IRecord [(''from'', IVec INat8),
     (''amount'', nns_Tokens), (''spender'', IOpt (IVec INat8))]),
     (''Mint'', IRecord [(''to'', IVec INat8), (''amount'', nns_Tokens)]),
     (''Transfer'', IRecord [(''to'', IVec INat8), (''fee'', nns_Tokens), (''from'', IVec INat8),
     (''amount'', nns_Tokens), (''spender'', IOpt (IVec INat8))])]"

definition nns_CandidTransaction :: idl where
  "nns_CandidTransaction = IRecord [(''memo'', INat64), (''icrc1_memo'', IOpt (IVec INat8)),
     (''operation'', IOpt nns_CandidOperation), (''created_at_time'', nns_TimeStamp)]"

definition nns_CandidBlock :: idl where
  "nns_CandidBlock = IRecord [(''transaction'', nns_CandidTransaction),
     (''timestamp'', nns_TimeStamp), (''parent_hash'', IOpt (IVec INat8))]"

definition nns_BlockRange :: idl where
  "nns_BlockRange = IRecord [(''blocks'', IVec nns_CandidBlock)]"

definition nns_GetBlocksError :: idl where
  "nns_GetBlocksError =
     IVariant [(''BadFirstBlockIndex'', IRecord [(''requested_index'', INat64),
     (''first_valid_index'', INat64)]), (''Other'', IRecord [(''error_message'', IText),
     (''error_code'', INat64)])]"

definition nns_Result_3 :: idl where
  "nns_Result_3 = IVariant [(''Ok'', nns_BlockRange), (''Err'', nns_GetBlocksError)]"

definition nns_ArchivedBlocksRange :: idl where
  "nns_ArchivedBlocksRange =
     IRecord [(''callback'', IFunc [nns_GetBlocksArgs] [nns_Result_3] [''query'']),
     (''start'', INat64), (''length'', INat64)]"

definition nns_QueryBlocksResponse :: idl where
  "nns_QueryBlocksResponse = IRecord [(''certificate'', IOpt (IVec INat8)),
     (''blocks'', IVec nns_CandidBlock), (''chain_length'', INat64),
     (''first_block_index'', INat64), (''archived_blocks'', IVec nns_ArchivedBlocksRange)]"

definition nns_Result_4 :: idl where
  "nns_Result_4 = IVariant [(''Ok'', IVec (IVec INat8)), (''Err'', nns_GetBlocksError)]"

definition nns_ArchivedEncodedBlocksRange :: idl where
  "nns_ArchivedEncodedBlocksRange =
     IRecord [(''callback'', IFunc [nns_GetBlocksArgs] [nns_Result_4] [''query'']),
     (''start'', INat64), (''length'', INat64)]"

definition nns_QueryEncodedBlocksResponse :: idl where
  "nns_QueryEncodedBlocksResponse = IRecord [(''certificate'', IOpt (IVec INat8)),
     (''blocks'', IVec (IVec INat8)), (''chain_length'', INat64),
     (''first_block_index'', INat64),
     (''archived_blocks'', IVec nns_ArchivedEncodedBlocksRange)]"

definition nns_SendArgs :: idl where
  "nns_SendArgs = IRecord [(''to'', IText), (''fee'', nns_Tokens), (''memo'', INat64),
     (''from_subaccount'', IOpt (IVec INat8)), (''created_at_time'', IOpt nns_TimeStamp),
     (''amount'', nns_Tokens)]"

definition nns_Symbol :: idl where
  "nns_Symbol = IRecord [(''symbol'', IText)]"

definition nns_TransferArgs :: idl where
  "nns_TransferArgs = IRecord [(''to'', IVec INat8), (''fee'', nns_Tokens), (''memo'', INat64),
     (''from_subaccount'', IOpt (IVec INat8)), (''created_at_time'', IOpt nns_TimeStamp),
     (''amount'', nns_Tokens)]"

definition nns_TransferError_1 :: idl where
  "nns_TransferError_1 = IVariant [(''TxTooOld'', IRecord [(''allowed_window_nanos'', INat64)]),
     (''BadFee'', IRecord [(''expected_fee'', nns_Tokens)]),
     (''TxDuplicate'', IRecord [(''duplicate_of'', INat64)]), (''TxCreatedInFuture'', INull),
     (''InsufficientFunds'', IRecord [(''balance'', nns_Tokens)])]"

definition nns_Result_5 :: idl where
  "nns_Result_5 = IVariant [(''Ok'', INat64), (''Err'', nns_TransferError_1)]"

definition nns_TransferFee :: idl where
  "nns_TransferFee = IRecord [(''transfer_fee'', nns_Tokens)]"

definition nns_idlFactory :: service where
  "nns_idlFactory = \<lparr> sv_refs = [],
     sv_methods =
     [(''account_balance'', func [nns_BinaryAccountBalanceArgs] [nns_Tokens] [''query'']),
      (''account_balance_dfx'', func [nns_AccountBalanceArgs] [nns_Tokens] [''query'']),
      (''account_identifier'', func [nns_Account] [IVec INat8] [''query'']),
      (''archives'', func [] [nns_Archives] [''query'']),
      (''decimals'', func [] [nns_Decimals] [''query'']),
      (''icrc1_balance_of'', func [nns_Account] [INat] [''query'']),
      (''icrc1_decimals'', func [] [INat8] [''query'']),
      (''icrc1_fee'', func [] [INat] [''query'']),
      (''icrc1_metadata'', func [] [IVec (ITuple [IText, nns_MetadataValue])] [''query'']),
      (''icrc1_minting_account'', func [] [IOpt nns_Account] [''query'']),
      (''icrc1_name'', func [] [IText] [''query'']),
      (''icrc1_supported_standards'', func [] [IVec nns_StandardRecord] [''query'']),
      (''icrc1_symbol'', func [] [IText] [''query'']),
      (''icrc1_total_supply'', func [] [INat] [''query'']),
      (''icrc1_transfer'', func [nns_TransferArg] [nns_Result] []),
      (''icrc2_allowance'', func [nns_AllowanceArgs] [nns_Allowance] [''query'']),
      (''icrc2_approve'', func [nns_ApproveArgs] [nns_Result_1] []),
      (''icrc2_transfer_from'', func [nns_TransferFromArgs] [nns_Result_2] []),
      (''name'', func [] [nns_Name] [''query'']),
      (''query_blocks'', func [nns_GetBlocksArgs] [nns_QueryBlocksResponse] [''query'']),
      (''query_encoded_blocks'', func [nns_GetBlocksArgs] [nns_QueryEncodedBlocksResponse] [''query'']),
      (''send_dfx'', func [nns_SendArgs] [INat64] []),
      (''symbol'', func [] [nns_Symbol] [''query'']),
      (''transfer'', func [nns_TransferArgs] [nns_Result_5] []),
      (''transfer_fee'', func [IRecord []] [nns_TransferFee] [''query''])] \<rparr>"

lemmas nns_defs =
  nns_Account_def nns_FeatureFlags_def nns_UpgradeArgs_def
  nns_Tokens_def nns_Duration_def nns_ArchiveOptions_def
  nns_InitArgs_def nns_LedgerCanisterPayload_def nns_BinaryAccountBalanceArgs_def
  nns_AccountBalanceArgs_def nns_ArchiveInfo_def nns_Archives_def
  nns_Decimals_def nns_MetadataValue_def nns_StandardRecord_def
  nns_TransferArg_def nns_TransferError_def nns_Result_def
  nns_AllowanceArgs_def nns_Allowance_def nns_ApproveArgs_def
  nns_ApproveError_def nns_Result_1_def nns_TransferFromArgs_def
  nns_TransferFromError_def nns_Result_2_def nns_Name_def
  nns_GetBlocksArgs_def nns_TimeStamp_def nns_CandidOperation_def
  nns_CandidTransaction_def nns_CandidBlock_def nns_BlockRange_def
  nns_GetBlocksError_def nns_Result_3_def nns_ArchivedBlocksRange_def
  nns_QueryBlocksResponse_def nns_Result_4_def nns_ArchivedEncodedBlocksRange_def
  nns_QueryEncodedBlocksResponse_def nns_SendArgs_def nns_Symbol_def
  nns_TransferArgs_def nns_TransferError_1_def nns_Result_5_def
  nns_TransferFee_def nns_idlFactory_def

end
