(* ===== verification/ExchangeIdl.thy ===== *)
theory ExchangeIdl
  imports Idl
begin

text \<open>
  The interfaces of the exchange router, the record of transactions and the pools: one definition for each
  constant of the file, and the service it returns. A type of \<open>IDL.Rec()\<close> is its name and the
  type it is filled with.
\<close>

section \<open>The router: \<open>canisters/icpex_router/icpl_router.did.js\<close>\<close>

definition router_TransactionStatus :: idl where
  "router_TransactionStatus = IVariant [(''Failed'', INull), (''Succeeded'', INull),
     (''BaseTrans'', INull), (''QuoteTrans'', INull), (''Rollback'', INull),
     (''Pending'', INull)]"

definition router_Operation :: idl where
  "router_Operation = IVariant [(''AddLiquidity'', INull), (''Approve'', INull),
     (''RemoveTokenController'', INull), (''CreateToken'', INull), (''Burn'', INull),
     (''Mint'', INull), (''Swap'', INull), (''CanisterCreated'', INull), (''CreatePool'', INull),
     (''CanisterCalled'', INull), (''Transfer'', INull), (''TransferFrom'', INull),
     (''RemoveLiquidity'', INull)]"

definition router_PoolTxRecord :: idl where
  "router_PoolTxRecord = IRecord [(''to'', IPrincipal), (''status'', router_TransactionStatus),
     (''base_reserve'', IOpt IFloat64), (''pool'', IOpt IPrincipal), (''quote_price'', IFloat64),
     (''base_price'', IFloat64), (''quote_token'', IPrincipal),
     (''operation'', router_Operation), (''timestamp'', INat64),
     (''base_price_cumulative_last'', IOpt IFloat64), (''quote_reserve'', IOpt IFloat64),
     (''base_token'', IPrincipal), (''quote_amount'', IFloat64), (''caller'', IOpt IPrincipal),
     (''base_amount'', IFloat64), (''tx_hash'', INat64), (''tx_hash_str'', IText),
     (''fail_msg'', IText)]"

definition router_IToken :: idl where
  "router_IToken = IRecord [(''cid'', IPrincipal)]"

definition router_Router :: idl where
  "router_Router = IRecord [(''fee_token'', router_IToken), (''owner'', IPrincipal),
     (''user_pools'', IVec (ITuple [IPrincipal, IVec IPrincipal])), (''icpex_wasm'', IVec INat8),
     (''default_mt_fee_rate'', INat)]"

definition router_AddrConfig :: idl where
  "router_AddrConfig = IRecord [(''router_addr'', IPrincipal), (''oracle_addr'', IPrincipal),
     (''tx_addr'', IPrincipal), (''backend_addr'', IPrincipal), (''icpl_addr'', IPrincipal)]"

definition router_RState :: idl where
  "router_RState = IVariant [(''ONE'', INull), (''AboveOne'', INull), (''BelowOne'', INull)]"

definition router_PoolStatus :: idl where
  "router_PoolStatus = IVariant [(''CREATE_BASE_INPUT'', INull), (''CREATE_QUOTE_INPUT'', INull),
     (''OFFLINE'', INull), (''ROLLBACK_UNDONE'', INull), (''CREATED'', INull),
     (''ROLLBACK_DONE'', INull), (''ONLINE'', INull)]"

definition router_PPool :: idl where
  "router_PPool = IRecord [(''i'', INat), (''k'', INat), (''r_state'', router_RState),
     (''base_reserve'', INat), (''owner'', IPrincipal), (''block_timestamp_last'', INat64),
     (''pool_addr'', IPrincipal), (''lp_fee_rate'', INat), (''quote_target'', INat),
     (''base_target'', INat), (''quote_token'', router_IToken),
     (''base_price_cumulative_last'', INat), (''quote_reserve'', INat),
     (''base_token'', router_IToken), (''base_decimals'', INat8),
     (''pool_status'', router_PoolStatus), (''mt_fee_rate'', INat), (''quote_decimals'', INat8)]"

definition router_DIP20 :: idl where
  "router_DIP20 = IRecord [(''decimals'', INat8), (''flat_fee'', IBool),
     (''fee_to'', IPrincipal), (''owner'', IPrincipal), (''logo'', IText), (''name'', IText),
     (''mint_on'', IBool), (''burn_rate'', INat), (''fee_rate'', INat), (''burn_on'', IBool),
     (''allowances'', IVec (ITuple [IPrincipal, IVec (ITuple [IPrincipal, INat])])),
     (''flat_burn_fee'', IBool), (''total_supply'', INat), (''symbol'', IText),
     (''balances'', IVec (ITuple [IPrincipal, INat]))]"

definition router_CPool :: idl where
  "router_CPool = IRecord [(''i'', INat), (''k'', INat), (''base_reserve'', INat),
     (''owner'', IPrincipal), (''block_timestamp_last'', INat64), (''pool_addr'', IPrincipal),
     (''lp_fee_rate'', INat), (''shares_ledger'', router_DIP20),
     (''quote_token'', router_IToken), (''expired_lock_ledger'', IVec (ITuple [IPrincipal, INat,
     INat64])), (''base_price_cumulative_last'', INat), (''quote_reserve'', INat),
     (''base_token'', router_IToken), (''base_decimals'', INat8),
     (''pool_status'', router_PoolStatus), (''mt_fee_rate'', INat), (''quote_decimals'', INat8)]"

definition router_StablePool :: idl where
  "router_StablePool = IRecord [(''i'', INat), (''k'', INat), (''r_state'', router_RState),
     (''base_reserve'', INat), (''owner'', IPrincipal), (''block_timestamp_last'', INat64),
     (''pool_addr'', IPrincipal), (''lp_fee_rate'', INat), (''quote_target'', INat),
     (''shares_ledger'', router_DIP20), (''base_target'', INat),
     (''quote_token'', router_IToken), (''expired_lock_ledger'', IVec (ITuple [IPrincipal, INat,
     INat64])), (''base_price_cumulative_last'', INat), (''quote_reserve'', INat),
     (''base_token'', router_IToken), (''base_decimals'', INat8),
     (''pool_status'', router_PoolStatus), (''mt_fee_rate'', INat), (''quote_decimals'', INat8)]"

definition router_PoolExecuteType :: idl where
  "router_PoolExecuteType = IVariant [(''PPOOL'', router_PPool), (''UNKNOWN'', INull),
     (''CPOOL'', router_CPool), (''SPOOL'', router_StablePool)]"

definition router_Result :: idl where
  "router_Result = IVariant [(''Ok'', ITuple [IPrincipal, INat]), (''Err'', IText)]"

definition router_PoolInfoConfig :: idl where
  "router_PoolInfoConfig = IRecord [(''i'', INat), (''k'', INat), (''r_state'', IText),
     (''base_reserve'', INat), (''owner'', IPrincipal), (''block_timestamp_last'', INat64),
     (''pool_addr'', IPrincipal), (''pool_type'', IText), (''lp_fee_rate'', INat),
     (''quote_target'', INat), (''base_target'', INat), (''quote_token'', IPrincipal),
     (''base_price_cumulative_last'', INat), (''quote_reserve'', INat),
     (''base_token'', IPrincipal), (''base_decimals'', INat8), (''pool_status'', IText),
     (''mt_fee_rate'', INat), (''quote_decimals'', INat8),
     (''balances'', IVec (ITuple [IPrincipal, INat]))]"

definition router_PoolInfo :: idl where
  "router_PoolInfo = IRecord [(''i'', INat), (''k'', INat), (''base_reserve'', INat),
     (''owner'', IPrincipal), (''block_timestamp_last'', INat64), (''pool_addr'', IPrincipal),
     (''lp_amount'', INat), (''pool_type'', IText), (''lp_lock'', INat), (''quote_user'', INat),
     (''lp_fee_rate'', INat), (''base_token_decimals'', INat8),
     (''quote_token_decimals'', INat8), (''base_user'', INat), (''quote_token'', IPrincipal),
     (''base_price_cumulative_last'', INat), (''quote_reserve'', INat),
     (''base_token'', IPrincipal), (''pool_status'', router_PoolStatus), (''mt_fee_rate'', INat),
     (''is_single_pool'', IBool), (''total_supply'', INat), (''is_my_pool'', IBool)]"

definition router_PoolAmountInfo :: idl where
  "router_PoolAmountInfo = IRecord [(''base_token_price'', INat), (''lp_amount'', INat),
     (''lp_lock'', INat), (''lp_fee_rate'', INat), (''base_token_decimals'', INat),
     (''quote_token_decimals'', INat), (''quote_token'', IPrincipal),
     (''base_token'', IPrincipal), (''quote_token_price'', INat), (''quote_amount'', INat),
     (''base_amount'', INat), (''pool_address'', IPrincipal), (''mt_fee_rate'', INat),
     (''total_supply'', INat)]"

definition router_Account :: idl where
  "router_Account = IRecord [(''owner'', IPrincipal), (''subaccount'', IOpt (IVec INat8))]"

definition router_Result_1 :: idl where
  "router_Result_1 = IVariant [(''Ok'', IFloat32), (''Err'', IText)]"

definition router_PoolOrder :: idl where
  "router_PoolOrder = IRecord [(''i'', INat), (''k'', INat), (''base_in_amount'', INat),
     (''quote_in_amount'', INat), (''deadline'', INat64), (''fee_rate'', INat),
     (''quote_token_addr'', IPrincipal), (''caller'', IPrincipal),
     (''base_token_addr'', IPrincipal)]"

definition router_SwapOrder :: idl where
  "router_SwapOrder = IRecord [(''base_from_token'', IPrincipal), (''base_from_amount'', INat),
     (''directions'', INat64), (''swap_caller'', IPrincipal), (''deadline'', INat64),
     (''base_min_return_amount'', INat), (''base_to_token'', IPrincipal),
     (''pairs'', IVec IPrincipal)]"

definition router_Result_2 :: idl where
  "router_Result_2 = IVariant [(''Ok'', INull), (''Err'', IText)]"

definition router_Result_3 :: idl where
  "router_Result_3 = IVariant [(''Ok'', ITuple [INat, IVec IPrincipal, INat8, INat, INat]),
     (''Err'', IText)]"

definition router_Result_4 :: idl where
  "router_Result_4 = IVariant [(''Ok'', INat64), (''Err'', IText)]"

definition router_idlFactory :: service where
  "router_idlFactory = \<lparr> sv_refs = [],
     sv_methods =
     [(''addInnerLiquidity'', func [IPrincipal, INat, INat, INat, INat64,
            router_PoolTxRecord] [INat, INat, INat] []),
      (''addLiquidity'', func [IPrincipal, INat, INat, INat, INat64] [INat, INat, INat] []),
      (''addPrivateLiquidity'', func [IPrincipal, INat, INat, INat64] [INat, INat] []),
      (''addStableLiquidity'', func [IPrincipal, INat, INat, INat, INat64] [INat, INat, INat] []),
      (''adminData'', func [] [router_Router, router_AddrConfig, IVec (ITuple [IPrincipal,
            router_PoolExecuteType])] [''query'']),
      (''adminUpdateCanister'', func [] [] [''query'']),
      (''adminUpdateLp'', func [IPrincipal, INat, IPrincipal] [] []),
      (''adminUpdatePoolParam'', func [IPrincipal, INat, INat] [] []),
      (''adminUpdateTokenCache'', func [IPrincipal] [] []),
      (''createCommonPool'', func [IPrincipal, IPrincipal, INat, INat, INat, INat, INat,
            INat64] [router_Result] []),
      (''createPrivatePool'', func [IPrincipal, IPrincipal, INat, INat, INat, INat, INat,
            INat64] [router_Result] []),
      (''createStablePool'', func [IPrincipal, IPrincipal, INat, INat, INat, INat, INat,
            INat64] [router_Result] []),
      (''cycles'', func [] [INat64] [''query'']),
      (''getAllPoolInfo'', func [] [IVec router_PoolInfoConfig] [''query'']),
      (''getLp'', func [IPrincipal, IPrincipal] [INat, INat, INat, INat, INat, INat] [''query'']),
      (''getMidPrice'', func [IPrincipal] [INat] [''query'']),
      (''getPoolInfo'', func [IPrincipal, IPrincipal] [router_PoolInfo] [''query'']),
      (''getPoolsAmountInfo'', func [] [IVec router_PoolAmountInfo, INat64] [''query'']),
      (''getPoolsAmountInfoUncache'', func [] [IVec router_PoolAmountInfo, INat64] []),
      (''getPoolsInfo'', func [IPrincipal] [IVec router_PoolInfo] [''query'']),
      (''getSubaccount'', func [] [router_Account] [''query'']),
      (''getSubaccountAdmin'', func [IPrincipal] [router_Account] [''query'']),
      (''getTimePrice'', func [IPrincipal] [INat] [''query'']),
      (''get_deviation_rate'', func [INat, INat, IPrincipal, INat64] [router_Result_1] [''query'']),
      (''initAddrConfig'', func [IPrincipal, IPrincipal] [] []),
      (''innerAddPrivateLiquidity'', func [IPrincipal, INat, INat, INat64,
            router_PoolTxRecord] [INat, INat] []),
      (''innerAddStableLiquidity'', func [IPrincipal, INat, INat, INat, INat64,
            router_PoolTxRecord] [INat, INat, INat] []),
      (''innerCreateCommonPool'', func [router_PoolOrder, router_PoolTxRecord] [IPrincipal,
            INat] []),
      (''innerCreatePrivatePool'', func [router_PoolOrder, router_PoolTxRecord] [IPrincipal,
            INat] []),
      (''innerCreateStablePool'', func [router_PoolOrder, router_PoolTxRecord] [IPrincipal,
            INat] []),
      (''innerSellShares'', func [INat, IPrincipal, INat, INat, INat, INat64,
            router_PoolTxRecord] [INat, INat] []),
      (''innerSwapTokenToToken'', func [router_SwapOrder] [INat] []),
      (''lockLiquidity'', func [IPrincipal, INat, INat64] [router_Result_2] []),
      (''markIcrc1SubWallet'', func [IPrincipal, IPrincipal] [] []),
      (''platformWithdraw'', func [INat, IPrincipal, IPrincipal] [router_Result_2] []),
      (''queryAddShareBase'', func [INat, IPrincipal] [INat, INat, INat, INat] [''query'']),
      (''queryAddShareQuote'', func [INat, IPrincipal] [INat, INat, INat, INat] [''query'']),
      (''querySellBase'', func [IPrincipal, INat] [INat, INat, INat, router_RState,
            INat] [''query'']),
      (''querySellQuote'', func [IPrincipal, INat] [INat, INat, INat, router_RState,
            INat] [''query'']),
      (''querySellShares'', func [INat, IPrincipal, IPrincipal] [INat, INat, INat,
            INat] [''query'']),
      (''quote'', func [IPrincipal, IPrincipal, INat, INat64] [router_Result_3] [''query'']),
      (''resetParamPrivatePool'', func [IPrincipal, INat, INat, INat] [] []),
      (''routerPoolInfo'', func [] [IVec (ITuple [IPrincipal, IVec IPrincipal])] [''query'']),
      (''sellShares'', func [INat, IPrincipal, INat, INat, INat, INat64] [INat, INat] []),
      (''setFeeToken'', func [IPrincipal] [] []),
      (''setTxBucket'', func [IPrincipal] [] []),
      (''swapTokenToToken'', func [IPrincipal, IPrincipal, INat, INat, IVec IPrincipal, INat64,
            INat64] [router_Result_4] []),
      (''transferOwnShip'', func [IPrincipal] [] []),
      (''updatePool'', func [IPrincipal] [INat] []),
      (''updatePoolControllers'', func [IPrincipal, IPrincipal] [] []),
      (''withdrawPoolToken'', func [IPrincipal, IPrincipal, IPrincipal, INat] [] []),
      (''withdrawSubAccountToken'', func [IPrincipal, INat] [router_Result_2] [])] \<rparr>"

lemmas router_defs =
  router_TransactionStatus_def router_Operation_def router_PoolTxRecord_def
  router_IToken_def router_Router_def router_AddrConfig_def
  router_RState_def router_PoolStatus_def router_PPool_def
  router_DIP20_def router_CPool_def router_StablePool_def
  router_PoolExecuteType_def router_Result_def router_PoolInfoConfig_def
  router_PoolInfo_def router_PoolAmountInfo_def router_Account_def
  router_Result_1_def router_PoolOrder_def router_SwapOrder_def
  router_Result_2_def router_Result_3_def router_Result_4_def
  router_idlFactory_def

section \<open>The record of transactions: \<open>canisters/icpex_transactions/icpl_transactions.did.js\<close>\<close>

definition txs_TransactionStatus :: idl where
  "txs_TransactionStatus = IVariant [(''Failed'', INull), (''Succeeded'', INull),
     (''BaseTrans'', INull), (''QuoteTrans'', INull), (''Rollback'', INull),
     (''Pending'', INull)]"

definition txs_Operation :: idl where
  "txs_Operation = IVariant [(''AddLiquidity'', INull), (''Approve'', INull),
     (''RemoveTokenController'', INull), (''CreateToken'', INull), (''Burn'', INull),
     (''Mint'', INull), (''Swap'', INull), (''CanisterCreated'', INull), (''CreatePool'', INull),
     (''CanisterCalled'', INull), (''Transfer'', INull), (''TransferFrom'', INull),
     (''RemoveLiquidity'', INull)]"

definition txs_PoolTxRecord :: idl where
  "txs_PoolTxRecord = IRecord [(''to'', IPrincipal), (''status'', txs_TransactionStatus),
     (''base_reserve'', IOpt IFloat64), (''pool'', IOpt IPrincipal), (''quote_price'', IFloat64),
     (''base_price'', IFloat64), (''quote_token'', IPrincipal), (''operation'', txs_Operation),
     (''timestamp'', INat64), (''base_price_cumulative_last'', IOpt IFloat64),
     (''quote_reserve'', IOpt IFloat64), (''base_token'', IPrincipal),
     (''quote_amount'', IFloat64), (''caller'', IOpt IPrincipal), (''base_amount'', IFloat64),
     (''tx_hash'', INat64), (''tx_hash_str'', IText), (''fail_msg'', IText)]"

definition txs_TokenTxRecord :: idl where
  "txs_TokenTxRecord = IRecord [(''to'', IPrincipal), (''fee'', IFloat64),
     (''status'', txs_TransactionStatus), (''token'', IPrincipal), (''from'', IPrincipal),
     (''operation'', txs_Operation), (''timestamp'', INat64), (''caller'', IOpt IPrincipal),
     (''amount'', IFloat64)]"

definition txs_SwapTxRecord :: idl where
  "txs_SwapTxRecord = IRecord [(''to_token'', IOpt IPrincipal),
     (''status'', txs_TransactionStatus), (''input_amount'', IOpt IFloat64),
     (''from_token'', IOpt IPrincipal), (''directions'', IOpt INat64),
     (''base_reserve'', IOpt IFloat64), (''lp_fee_volumn'', IOpt IFloat64),
     (''swap_hash_str'', IText), (''volumn'', IOpt IFloat64),
     (''receive_amount'', IOpt IFloat64), (''quote_token_decimals'', IOpt INat),
     (''mt_fee_volumn'', IOpt IFloat64), (''base_min_return_amount'', IOpt IFloat64),
     (''timestamp'', INat64), (''base_price_cumulative_last'', IOpt IFloat64),
     (''quote_reserve'', IOpt IFloat64), (''lp_fee_amount'', IOpt IFloat64),
     (''caller'', IOpt IPrincipal), (''pairs'', IOpt (IVec IPrincipal)),
     (''price'', IOpt IFloat64), (''swap_hash'', INat64), (''fail_msg'', IOpt IText),
     (''mt_fee_amount'', IOpt IFloat64)]"

definition txs_TX :: idl where
  "txs_TX = IVariant [(''PoolTx'', txs_PoolTxRecord), (''TokenTx'', txs_TokenTxRecord),
     (''SwapTx'', txs_SwapTxRecord)]"

definition txs_OutTx :: idl where
  "txs_OutTx = IRecord [(''tx'', txs_TX), (''index'', INat64)]"

definition txs_TransactionIndex :: idl where
  "txs_TransactionIndex = IRecord [(''start_idx'', INat64), (''end_idx'', INat64)]"

definition txs_idlFactory :: service where
  "txs_idlFactory = \<lparr> sv_refs = [],
     sv_methods =
     [(''addTx'', func [txs_TX] [] []),
      (''cycles'', func [] [INat64] [''query'']),
      (''getLastTransactionsByIndex'', func [INat64, INat64] [IVec (ITuple [INat64,
            txs_TX])] [''query'']),
      (''getLastTransactionsTxByIndex'', func [INat64, INat64] [IVec txs_OutTx] [''query'']),
      (''get_transaction_idx'', func [] [txs_TransactionIndex] [''query'']),
      (''querySwapStatus'', func [INat64] [IVec txs_SwapTxRecord] [''query'']),
      (''querySwapStatusStr'', func [IText] [IVec txs_SwapTxRecord] [''query''])] \<rparr>"

lemmas txs_defs =
  txs_TransactionStatus_def txs_Operation_def txs_PoolTxRecord_def
  txs_TokenTxRecord_def txs_SwapTxRecord_def txs_TX_def
  txs_OutTx_def txs_TransactionIndex_def txs_idlFactory_def

section \<open>A pool: \<open>canisters/icpex_pool/icpex_pool.did.js\<close>\<close>

definition pool_UnlockableInfo :: idl where
  "pool_UnlockableInfo = IRecord [(''user_pid'', IPrincipal), (''unlock_time'', INat64),
     (''unlock_lp'', INat)]"

definition pool_UserLpInfo :: idl where
  "pool_UserLpInfo = IRecord [(''user_base_amount'', INat), (''base_reserve'', INat),
     (''user_quote_amount'', INat), (''user_lp'', INat), (''quote_reserve'', INat),
     (''total_supply'', INat)]"

definition pool_PoolStatus :: idl where
  "pool_PoolStatus = IVariant [(''CREATE_BASE_INPUT'', INull), (''CREATE_QUOTE_INPUT'', INull),
     (''OFFLINE'', INull), (''ROLLBACK_UNDONE'', INull), (''CREATED'', INull),
     (''ROLLBACK_DONE'', INull), (''ONLINE'', INull)]"

definition pool_PoolInfo :: idl where
  "pool_PoolInfo = IRecord [(''i'', INat), (''k'', INat), (''base_reserve'', INat),
     (''owner'', IPrincipal), (''block_timestamp_last'', INat64), (''pool_addr'', IPrincipal),
     (''lp_amount'', INat), (''pool_type'', IText), (''lp_lock'', INat), (''quote_user'', INat),
     (''lp_fee_rate'', INat), (''base_token_decimals'', INat8),
     (''quote_token_decimals'', INat8), (''base_user'', INat), (''quote_token'', IPrincipal),
     (''base_price_cumulative_last'', INat), (''quote_reserve'', INat),
     (''base_token'', IPrincipal), (''pool_status'', pool_PoolStatus), (''mt_fee_rate'', INat),
     (''is_single_pool'', IBool), (''total_supply'', INat), (''is_my_pool'', IBool)]"

definition pool_idlFactory :: service where
  "pool_idlFactory = \<lparr> sv_refs = [],
     sv_methods =
     [(''cycles'', func [] [INat64] [''query'']),
      (''get_unlockable_lock_info'', func [] [IVec pool_UnlockableInfo] [''query'']),
      (''get_user_lp_info'', func [IPrincipal] [pool_UserLpInfo] [''query'']),
      (''pool_info'', func [] [pool_PoolInfo] [''query'']),
      (''transfer'', func [IPrincipal, IPrincipal, INat] [] [])] \<rparr>"

lemmas pool_defs =
  pool_UnlockableInfo_def pool_UserLpInfo_def pool_PoolStatus_def
  pool_PoolInfo_def pool_idlFactory_def

end
