(* ===== verification/Codecs.thy ===== *)
theory Codecs
  imports LauncherIdl LedgerIdl ExchangeIdl
begin

text \<open>
  How the declared types of \<open>canisters/*/*.did.d.ts\<close> (the records and datatypes of \<open>Candid\<close>) and
  the types of the interfaces correspond: a codec for each type the front end sends or reads, made
  of the codecs of its fields. The lemmas show that each codec keeps the laws and has the type of
  the interface.
\<close>

abbreviation "nat_c \<equiv> int_c INat"
abbreviation "nat64_c \<equiv> int_c INat64"
abbreviation "blob_c \<equiv> vec_c byte_c"

section \<open>The launcher\<close>

definition FomoProjectCreate_c :: "FomoProjectCreate codec" where
  "FomoProjectCreate_c = record_c
     (\<lambda>r. (fc_twitter_link r, fc_sneed_dao_lock r, fc_ticker r, fc_img_url r,
           fc_dogmi_dao_lock r, fc_logo r, fc_name r, fc_description r, fc_telegram_link r,
           fc_website r, ()))
     (\<lambda>(x1, x2, x3, x4, x5, x6, x7, x8, x9, x10, _).
        \<lparr> fc_twitter_link = x1, fc_sneed_dao_lock = x2, fc_ticker = x3, fc_img_url = x4,
          fc_dogmi_dao_lock = x5, fc_logo = x6, fc_name = x7, fc_description = x8,
          fc_telegram_link = x9, fc_website = x10 \<rparr>)
     (field ''twitter_link'' text_c
     (field ''sneed_dao_lock'' (opt_c nat_c)
     (field ''ticker'' text_c
     (field ''img_url'' text_c
     (field ''dogmi_dao_lock'' (opt_c nat_c)
     (field ''logo'' text_c
     (field ''name'' text_c
     (field ''description'' text_c
     (field ''telegram_link'' text_c
     (field ''website'' text_c fnil))))))))))"

lemma FomoProjectCreate_lawful [codec_laws]: "lawful E FomoProjectCreate_c"
  unfolding FomoProjectCreate_c_def by (rule record_lawful) (auto intro!: codec_laws)

lemma FomoProjectCreate_type [simp]: "cd_type FomoProjectCreate_c = launcher_FomoProjectCreate"
  by (simp add: FomoProjectCreate_c_def launcher_FomoProjectCreate_def)

definition FomoProject_c :: "FomoProject codec" where
  "FomoProject_c = record_c
     (\<lambda>r. (god_of_wells_time r, twitter_link r, sneed_dao_lock r, market_cap r,
           recently_reply_time r, ticker r, img_url r, dogmi_dao_lock r, project_name r,
           recently_bump_time r, create_user_pid r, description r, pool_progress_done_time r,
           telegram_link r, website r, fomo_idx r, fomo_pid r, create_time r, reply_count r,
           token_pid r, pool_progress r, pool_pid r, god_of_wells_progress r, ()))
     (\<lambda>(x1, x2, x3, x4, x5, x6, x7, x8, x9, x10, x11, x12, x13, x14, x15, x16, x17, x18, x19,
        x20, x21, x22, x23, _).
        \<lparr> god_of_wells_time = x1, twitter_link = x2, sneed_dao_lock = x3, market_cap = x4,
          recently_reply_time = x5, ticker = x6, img_url = x7, dogmi_dao_lock = x8,
          project_name = x9, recently_bump_time = x10, create_user_pid = x11, description = x12,
          pool_progress_done_time = x13, telegram_link = x14, website = x15, fomo_idx = x16,
          fomo_pid = x17, create_time = x18, reply_count = x19, token_pid = x20,
          pool_progress = x21, pool_pid = x22, god_of_wells_progress = x23 \<rparr>)
     (field ''god_of_wells_time'' (opt_c nat64_c)
     (field ''twitter_link'' text_c
     (field ''sneed_dao_lock'' (opt_c nat_c)
     (field ''market_cap'' nat_c
     (field ''recently_reply_time'' nat64_c
     (field ''ticker'' text_c
     (field ''img_url'' text_c
     (field ''dogmi_dao_lock'' (opt_c nat_c)
     (field ''name'' text_c
     (field ''recently_bump_time'' nat64_c
     (field ''create_user_pid'' prin_c
     (field ''description'' text_c
     (field ''pool_progress_done_time'' (opt_c nat64_c)
     (field ''telegram_link'' text_c
     (field ''website'' text_c
     (field ''fomo_idx'' nat64_c
     (field ''fomo_pid'' prin_c
     (field ''create_time'' nat64_c
     (field ''reply_count'' nat64_c
     (field ''token_pid'' prin_c
     (field ''pool_progress'' nat_c
     (field ''pool_pid'' prin_c
     (field ''god_of_wells_progress'' nat_c fnil)))))))))))))))))))))))"

lemma FomoProject_lawful [codec_laws]: "lawful E FomoProject_c"
  unfolding FomoProject_c_def by (rule record_lawful) (auto intro!: codec_laws)

lemma FomoProject_type [simp]: "cd_type FomoProject_c = launcher_FomoProject"
  by (simp add: FomoProject_c_def launcher_FomoProject_def)

definition FomoProjectVo_c :: "FomoProjectVo codec" where
  "FomoProjectVo_c = record_c
     (\<lambda>r. (start_idx r, end_idx r, vo_fomo_vec r, ()))
     (\<lambda>(x1, x2, x3, _).
        \<lparr> start_idx = x1, end_idx = x2, vo_fomo_vec = x3 \<rparr>)
     (field ''start_idx'' nat64_c
     (field ''end_idx'' nat64_c
     (field ''fomo_vec'' (vec_c FomoProject_c) fnil)))"

lemma FomoProjectVo_lawful [codec_laws]: "lawful E FomoProjectVo_c"
  unfolding FomoProjectVo_c_def by (rule record_lawful) (auto intro!: codec_laws)

lemma FomoProjectVo_type [simp]: "cd_type FomoProjectVo_c = launcher_FomoProjectVo"
  by (simp add: FomoProjectVo_c_def launcher_FomoProjectVo_def)

definition FomoProjectSearchVo_c :: "FomoProjectSearchVo codec" where
  "FomoProjectSearchVo_c = record_c
     (\<lambda>r. (sv_end r, sv_start r, sv_fomo_vec r, ()))
     (\<lambda>(x1, x2, x3, _).
        \<lparr> sv_end = x1, sv_start = x2, sv_fomo_vec = x3 \<rparr>)
     (field ''end'' nat64_c
     (field ''start'' nat64_c
     (field ''fomo_vec'' (vec_c FomoProject_c) fnil)))"

lemma FomoProjectSearchVo_lawful [codec_laws]: "lawful E FomoProjectSearchVo_c"
  unfolding FomoProjectSearchVo_c_def by (rule record_lawful) (auto intro!: codec_laws)

lemma FomoProjectSearchVo_type [simp]: "cd_type FomoProjectSearchVo_c = launcher_FomoProjectSearchVo"
  by (simp add: FomoProjectSearchVo_c_def launcher_FomoProjectSearchVo_def)

definition OrderType_c :: "OrderType codec" where
  "OrderType_c = enum_c
    [(''ASC'', ASC), (''DESC'', DESC)]"

lemma OrderType_lawful [codec_laws]: "lawful E OrderType_c"
  unfolding OrderType_c_def by (rule enum_lawful) simp_all

lemma OrderType_type [simp]: "cd_type OrderType_c = launcher_OrderType"
  by (simp add: OrderType_c_def launcher_OrderType_def)

definition SortType_c :: "SortType codec" where
  "SortType_c = enum_c
    [(''CreationTime'', CreationTime), (''ReplyCount'', ReplyCount), (''BumpOrder'', BumpOrder),
     (''LastReply'', LastReply), (''MarketCap'', MarketCap)]"

lemma SortType_lawful [codec_laws]: "lawful E SortType_c"
  unfolding SortType_c_def by (rule enum_lawful) simp_all

lemma SortType_type [simp]: "cd_type SortType_c = launcher_SortType"
  by (simp add: SortType_c_def launcher_SortType_def)

definition SearchParam_c :: "SearchParam codec" where
  "SearchParam_c = record_c
     (\<lambda>r. (sp_order r, sp_sort r, sp_text r, sp_limit r, sp_start r, ()))
     (\<lambda>(x1, x2, x3, x4, x5, _).
        \<lparr> sp_order = x1, sp_sort = x2, sp_text = x3, sp_limit = x4, sp_start = x5 \<rparr>)
     (field ''order'' OrderType_c
     (field ''sort'' SortType_c
     (field ''text'' text_c
     (field ''limit'' nat64_c
     (field ''start'' nat64_c fnil)))))"

lemma SearchParam_lawful [codec_laws]: "lawful E SearchParam_c"
  unfolding SearchParam_c_def by (rule record_lawful) (auto intro!: codec_laws)

lemma SearchParam_type [simp]: "cd_type SearchParam_c = launcher_SearchParam"
  by (simp add: SearchParam_c_def launcher_SearchParam_def)

definition launcher_page_c :: "launcher_page codec" where
  "launcher_page_c = record_c
     (\<lambda>r. (page_limit r, page_start r, ()))
     (\<lambda>(x1, x2, _).
        \<lparr> page_limit = x1, page_start = x2 \<rparr>)
     (field ''limit'' nat64_c
     (field ''start'' nat64_c fnil))"

lemma launcher_page_lawful [codec_laws]: "lawful E launcher_page_c"
  unfolding launcher_page_c_def by (rule record_lawful) (auto intro!: codec_laws)

lemma launcher_page_type [simp]: "cd_type launcher_page_c = launcher_Page"
  by (simp add: launcher_page_c_def launcher_Page_def)

lemma launcher_page_agrees [simp]: "project_Page = launcher_Page"
  by (simp_all add: launcher_Page_def project_Page_def)

definition CreateFomoSignalVo_c :: "CreateFomoSignalVo codec" where
  "CreateFomoSignalVo_c = record_c
     (\<lambda>r. (cf_user_name r, cf_op_user_pid r, cf_user_avatar r, cf_fomo_idx r, cf_create_time r,
           cf_token_logo r, cf_fomo_name r, ()))
     (\<lambda>(x1, x2, x3, x4, x5, x6, x7, _).
        \<lparr> cf_user_name = x1, cf_op_user_pid = x2, cf_user_avatar = x3, cf_fomo_idx = x4,
          cf_create_time = x5, cf_token_logo = x6, cf_fomo_name = x7 \<rparr>)
     (field ''user_name'' text_c
     (field ''op_user_pid'' prin_c
     (field ''user_avatar'' text_c
     (field ''fomo_idx'' nat64_c
     (field ''create_time'' nat64_c
     (field ''token_logo'' text_c
     (field ''fomo_name'' text_c fnil)))))))"

lemma CreateFomoSignalVo_lawful [codec_laws]: "lawful E CreateFomoSignalVo_c"
  unfolding CreateFomoSignalVo_c_def by (rule record_lawful) (auto intro!: codec_laws)

lemma CreateFomoSignalVo_type [simp]: "cd_type CreateFomoSignalVo_c = launcher_CreateFomoSignalVo"
  by (simp add: CreateFomoSignalVo_c_def launcher_CreateFomoSignalVo_def)

definition RecordSignal_c :: "RecordSignal codec" where
  "RecordSignal_c = record_c
     (\<lambda>r. (rs_fomo_idx r, rs_buy_sell_op r, rs_icp_amount r, rs_swap_hash r, ()))
     (\<lambda>(x1, x2, x3, x4, _).
        \<lparr> rs_fomo_idx = x1, rs_buy_sell_op = x2, rs_icp_amount = x3, rs_swap_hash = x4 \<rparr>)
     (field ''fomo_idx'' nat64_c
     (field ''buy_sell_op'' text_c
     (field ''icp_amount'' nat_c
     (field ''swap_hash'' nat64_c fnil))))"

lemma RecordSignal_lawful [codec_laws]: "lawful E RecordSignal_c"
  unfolding RecordSignal_c_def by (rule record_lawful) (auto intro!: codec_laws)

lemma RecordSignal_type [simp]: "cd_type RecordSignal_c = launcher_RecordSignal"
  by (simp add: RecordSignal_c_def launcher_RecordSignal_def)

definition RecordSignalVo_c :: "RecordSignalVo codec" where
  "RecordSignalVo_c = record_c
     (\<lambda>r. (rv_user_name r, rv_swap_timestamp r, rv_op_user_pid r, rv_user_avatar r,
           rv_fomo_idx r, rv_buy_sell_op r, rv_icp_amount r, rv_fomo_ticker r, ()))
     (\<lambda>(x1, x2, x3, x4, x5, x6, x7, x8, _).
        \<lparr> rv_user_name = x1, rv_swap_timestamp = x2, rv_op_user_pid = x3, rv_user_avatar = x4,
          rv_fomo_idx = x5, rv_buy_sell_op = x6, rv_icp_amount = x7,
          rv_fomo_ticker = x8 \<rparr>)
     (field ''user_name'' text_c
     (field ''swap_timestamp'' (opt_c nat64_c)
     (field ''op_user_pid'' prin_c
     (field ''user_avatar'' text_c
     (field ''fomo_idx'' nat64_c
     (field ''buy_sell_op'' text_c
     (field ''icp_amount'' nat_c
     (field ''fomo_ticker'' text_c fnil))))))))"

lemma RecordSignalVo_lawful [codec_laws]: "lawful E RecordSignalVo_c"
  unfolding RecordSignalVo_c_def by (rule record_lawful) (auto intro!: codec_laws)

lemma RecordSignalVo_type [simp]: "cd_type RecordSignalVo_c = launcher_RecordSignalVo"
  by (simp add: RecordSignalVo_c_def launcher_RecordSignalVo_def)

definition launcher_context_c :: "launcher_context codec" where
  "launcher_context_c = record_c
     (\<lambda>r. (ctx_owner r, ctx_icp_addr r, last_create_fomo r, last_buy_sell_op r,
           god_of_wells_idx r, fomo_canister_template r, ()))
     (\<lambda>(x1, x2, x3, x4, x5, x6, _).
        \<lparr> ctx_owner = x1, ctx_icp_addr = x2, last_create_fomo = x3, last_buy_sell_op = x4,
          god_of_wells_idx = x5, fomo_canister_template = x6 \<rparr>)
     (field ''owner'' prin_c
     (field ''icp_addr'' prin_c
     (field ''last_create_fomo'' CreateFomoSignalVo_c
     (field ''last_buy_sell_op'' RecordSignalVo_c
     (field ''god_of_wells_idx'' nat64_c
     (field ''fomo_canister_template'' blob_c fnil))))))"

lemma launcher_context_lawful [codec_laws]: "lawful E launcher_context_c"
  unfolding launcher_context_c_def by (rule record_lawful) (auto intro!: codec_laws)

lemma launcher_context_type [simp]: "cd_type launcher_context_c = launcher_Context"
  by (simp add: launcher_context_c_def launcher_Context_def)

definition UserEditObj_c :: "UserEditObj codec" where
  "UserEditObj_c = record_c
     (\<lambda>r. (ue_user_name r, ue_avatar r, ()))
     (\<lambda>(x1, x2, _).
        \<lparr> ue_user_name = x1, ue_avatar = x2 \<rparr>)
     (field ''user_name'' (opt_c text_c)
     (field ''avatar'' (opt_c text_c) fnil))"

lemma UserEditObj_lawful [codec_laws]: "lawful E UserEditObj_c"
  unfolding UserEditObj_c_def by (rule record_lawful) (auto intro!: codec_laws)

lemma UserEditObj_type [simp]: "cd_type UserEditObj_c = launcher_UserEditObj"
  by (simp add: UserEditObj_c_def launcher_UserEditObj_def)

definition UserProfile_c :: "UserProfile codec" where
  "UserProfile_c = record_c
     (\<lambda>r. (user_name r, user_pid r, user_points r, user_pre_reward_points r, last_change_time r,
           user_all_spend_points r, avatar r, ()))
     (\<lambda>(x1, x2, x3, x4, x5, x6, x7, _).
        \<lparr> user_name = x1, user_pid = x2, user_points = x3, user_pre_reward_points = x4,
          last_change_time = x5, user_all_spend_points = x6, avatar = x7 \<rparr>)
     (field ''user_name'' text_c
     (field ''user_pid'' prin_c
     (field ''user_points'' (opt_c nat_c)
     (field ''user_pre_reward_points'' (opt_c nat_c)
     (field ''last_change_time'' nat64_c
     (field ''user_all_spend_points'' (opt_c nat_c)
     (field ''avatar'' text_c fnil)))))))"

lemma UserProfile_lawful [codec_laws]: "lawful E UserProfile_c"
  unfolding UserProfile_c_def by (rule record_lawful) (auto intro!: codec_laws)

lemma UserProfile_type [simp]: "cd_type UserProfile_c = launcher_UserProfile"
  by (simp add: UserProfile_c_def launcher_UserProfile_def)

section \<open>The canister of a project\<close>

definition candid_account_c :: "candid_account codec" where
  "candid_account_c = record_c
     (\<lambda>r. (acc_owner r, acc_subaccount r, ()))
     (\<lambda>(x1, x2, _).
        \<lparr> acc_owner = x1, acc_subaccount = x2 \<rparr>)
     (field ''owner'' prin_c
     (field ''subaccount'' (opt_c blob_c) fnil))"

lemma candid_account_lawful [codec_laws]: "lawful E candid_account_c"
  unfolding candid_account_c_def by (rule record_lawful) (auto intro!: codec_laws)

lemma candid_account_type [simp]: "cd_type candid_account_c = project_Account"
  by (simp add: candid_account_c_def project_Account_def)

lemma candid_account_agrees [simp]: "icrc2_Account = project_Account" "cycles_Account = project_Account"
  by (simp_all add: project_Account_def icrc2_Account_def cycles_Account_def)

definition CommentsCreate_c :: "CommentsCreate codec" where
  "CommentsCreate_c = record_c
     (\<lambda>r. (cc_content r, cc_image_url r, cc_extended r, ()))
     (\<lambda>(x1, x2, x3, _).
        \<lparr> cc_content = x1, cc_image_url = x2, cc_extended = x3 \<rparr>)
     (field ''content'' text_c
     (field ''image_url'' (opt_c text_c)
     (field ''extended'' (vec_c (pair_c text_c text_c)) fnil)))"

lemma CommentsCreate_lawful [codec_laws]: "lawful E CommentsCreate_c"
  unfolding CommentsCreate_c_def by (rule record_lawful) (auto intro!: codec_laws)

lemma CommentsCreate_type [simp]: "cd_type CommentsCreate_c = project_CommentsCreate"
  by (simp add: CommentsCreate_c_def project_CommentsCreate_def)

definition Comments_c :: "Comments codec" where
  "Comments_c = record_c
     (\<lambda>r. (user_star r, comment_user_pid r, content r, image_url r, comment_fomo_idx r,
           comment_create_time r, comment_idx r, extended r, ()))
     (\<lambda>(x1, x2, x3, x4, x5, x6, x7, x8, _).
        \<lparr> user_star = x1, comment_user_pid = x2, content = x3, image_url = x4,
          comment_fomo_idx = x5, comment_create_time = x6, comment_idx = x7,
          extended = x8 \<rparr>)
     (field ''user_star'' (vec_c prin_c)
     (field ''user_pid'' prin_c
     (field ''content'' text_c
     (field ''image_url'' (opt_c text_c)
     (field ''fomo_idx'' text_c
     (field ''create_time'' nat64_c
     (field ''comment_idx'' nat64_c
     (field ''extended'' (vec_c (pair_c text_c text_c)) fnil))))))))"

lemma Comments_lawful [codec_laws]: "lawful E Comments_c"
  unfolding Comments_c_def by (rule record_lawful) (auto intro!: codec_laws)

lemma Comments_type [simp]: "cd_type Comments_c = project_Comments"
  by (simp add: Comments_c_def project_Comments_def)

definition CommentsVo_c :: "CommentsVo codec" where
  "CommentsVo_c = record_c
     (\<lambda>r. (cv_start_idx r, cv_end_idx r, cv_fomo_vec r, ()))
     (\<lambda>(x1, x2, x3, _).
        \<lparr> cv_start_idx = x1, cv_end_idx = x2, cv_fomo_vec = x3 \<rparr>)
     (field ''start_idx'' nat64_c
     (field ''end_idx'' nat64_c
     (field ''fomo_vec'' (vec_c Comments_c) fnil)))"

lemma CommentsVo_lawful [codec_laws]: "lawful E CommentsVo_c"
  unfolding CommentsVo_c_def by (rule record_lawful) (auto intro!: codec_laws)

lemma CommentsVo_type [simp]: "cd_type CommentsVo_c = project_CommentsVo"
  by (simp add: CommentsVo_c_def project_CommentsVo_def)

definition HolderInfo_c :: "HolderInfo codec" where
  "HolderInfo_c = record_c
     (\<lambda>r. (holder_type r, holder_account r, holder_amount r, holder_percent r, ()))
     (\<lambda>(x1, x2, x3, x4, _).
        \<lparr> holder_type = x1, holder_account = x2, holder_amount = x3,
          holder_percent = x4 \<rparr>)
     (field ''holder_type'' text_c
     (field ''account'' candid_account_c
     (field ''amount'' nat_c
     (field ''holder_percent'' float_c fnil))))"

lemma HolderInfo_lawful [codec_laws]: "lawful E HolderInfo_c"
  unfolding HolderInfo_c_def by (rule record_lawful) (auto intro!: codec_laws)

lemma HolderInfo_type [simp]: "cd_type HolderInfo_c = project_HolderInfo"
  by (simp add: HolderInfo_c_def project_HolderInfo_def)

section \<open>The ledgers\<close>

definition ApproveArgs_c :: "ApproveArgs codec" where
  "ApproveArgs_c = record_c
     (\<lambda>r. (ap_fee r, ap_memo r, ap_from_subaccount r, ap_created_at_time r, ap_amount r,
           ap_expected_allowance r, ap_expires_at r, ap_spender r, ()))
     (\<lambda>(x1, x2, x3, x4, x5, x6, x7, x8, _).
        \<lparr> ap_fee = x1, ap_memo = x2, ap_from_subaccount = x3, ap_created_at_time = x4,
          ap_amount = x5, ap_expected_allowance = x6, ap_expires_at = x7,
          ap_spender = x8 \<rparr>)
     (field ''fee'' (opt_c nat_c)
     (field ''memo'' (opt_c blob_c)
     (field ''from_subaccount'' (opt_c blob_c)
     (field ''created_at_time'' (opt_c nat64_c)
     (field ''amount'' nat_c
     (field ''expected_allowance'' (opt_c nat_c)
     (field ''expires_at'' (opt_c nat64_c)
     (field ''spender'' candid_account_c fnil))))))))"

lemma ApproveArgs_lawful [codec_laws]: "lawful E ApproveArgs_c"
  unfolding ApproveArgs_c_def by (rule record_lawful) (auto intro!: codec_laws)

lemma ApproveArgs_type [simp]: "cd_type ApproveArgs_c = icrc2_ApproveArgs"
  by (simp add: ApproveArgs_c_def icrc2_ApproveArgs_def)

definition TransferArg_c :: "TransferArg codec" where
  "TransferArg_c = record_c
     (\<lambda>r. (ta_to r, ta_fee r, ta_memo r, ta_from_subaccount r, ta_created_at_time r, ta_amount r,
           ()))
     (\<lambda>(x1, x2, x3, x4, x5, x6, _).
        \<lparr> ta_to = x1, ta_fee = x2, ta_memo = x3, ta_from_subaccount = x4,
          ta_created_at_time = x5, ta_amount = x6 \<rparr>)
     (field ''to'' candid_account_c
     (field ''fee'' (opt_c nat_c)
     (field ''memo'' (opt_c blob_c)
     (field ''from_subaccount'' (opt_c blob_c)
     (field ''created_at_time'' (opt_c nat64_c)
     (field ''amount'' nat_c fnil))))))"

lemma TransferArg_lawful [codec_laws]: "lawful E TransferArg_c"
  unfolding TransferArg_c_def by (rule record_lawful) (auto intro!: codec_laws)

lemma TransferArg_type [simp]: "cd_type TransferArg_c = icrc2_TransferArg"
  by (simp add: TransferArg_c_def icrc2_TransferArg_def)

definition WithdrawArgs_c :: "WithdrawArgs codec" where
  "WithdrawArgs_c = record_c
     (\<lambda>r. (wa_to r, wa_from_subaccount r, wa_created_at_time r, wa_amount r, ()))
     (\<lambda>(x1, x2, x3, x4, _).
        \<lparr> wa_amount = x4, wa_from_subaccount = x2, wa_to = x1, wa_created_at_time = x3 \<rparr>)
     (field ''to'' prin_c
     (field ''from_subaccount'' (opt_c blob_c)
     (field ''created_at_time'' (opt_c nat64_c)
     (field ''amount'' nat_c fnil))))"

lemma WithdrawArgs_lawful [codec_laws]: "lawful E WithdrawArgs_c"
  unfolding WithdrawArgs_c_def by (rule record_lawful) (auto intro!: codec_laws)

lemma WithdrawArgs_type [simp]: "cd_type WithdrawArgs_c = cycles_WithdrawArgs"
  by (simp add: WithdrawArgs_c_def cycles_WithdrawArgs_def)

definition DepositArgs_c :: "DepositArgs codec" where
  "DepositArgs_c = record_c
     (\<lambda>r. (da_to r, da_memo r, ()))
     (\<lambda>(x1, x2, _).
        \<lparr> da_to = x1, da_memo = x2 \<rparr>)
     (field ''to'' candid_account_c
     (field ''memo'' (opt_c blob_c) fnil))"

lemma DepositArgs_lawful [codec_laws]: "lawful E DepositArgs_c"
  unfolding DepositArgs_c_def by (rule record_lawful) (auto intro!: codec_laws)

lemma DepositArgs_type [simp]: "cd_type DepositArgs_c = cycles_DepositArgs"
  by (simp add: DepositArgs_c_def cycles_DepositArgs_def)

definition WithdrawFromArgs_c :: "WithdrawFromArgs codec" where
  "WithdrawFromArgs_c = record_c
     (\<lambda>r. (wf_to r, wf_spender_subaccount r, wf_from r, wf_created_at_time r, wf_amount r, ()))
     (\<lambda>(x1, x2, x3, x4, x5, _).
        \<lparr> wf_to = x1, wf_spender_subaccount = x2, wf_from = x3, wf_created_at_time = x4,
          wf_amount = x5 \<rparr>)
     (field ''to'' prin_c
     (field ''spender_subaccount'' (opt_c blob_c)
     (field ''from'' candid_account_c
     (field ''created_at_time'' (opt_c nat64_c)
     (field ''amount'' nat_c fnil)))))"

lemma WithdrawFromArgs_lawful [codec_laws]: "lawful E WithdrawFromArgs_c"
  unfolding WithdrawFromArgs_c_def by (rule record_lawful) (auto intro!: codec_laws)

lemma WithdrawFromArgs_type [simp]: "cd_type WithdrawFromArgs_c = cycles_WithdrawFromArgs"
  by (simp add: WithdrawFromArgs_c_def cycles_WithdrawFromArgs_def)

definition PoolStatus_c :: "PoolStatus codec" where
  "PoolStatus_c = enum_c
    [(''CREATE_BASE_INPUT'', CREATE_BASE_INPUT), (''CREATE_QUOTE_INPUT'', CREATE_QUOTE_INPUT),
     (''OFFLINE'', OFFLINE), (''ROLLBACK_UNDONE'', ROLLBACK_UNDONE), (''CREATED'', CREATED),
     (''ROLLBACK_DONE'', ROLLBACK_DONE), (''ONLINE'', ONLINE)]"

lemma PoolStatus_lawful [codec_laws]: "lawful E PoolStatus_c"
  unfolding PoolStatus_c_def by (rule enum_lawful) simp_all

lemma PoolStatus_type [simp]: "cd_type PoolStatus_c = router_PoolStatus"
  by (simp add: PoolStatus_c_def router_PoolStatus_def)

definition RState_c :: "RState codec" where
  "RState_c = enum_c
    [(''ONE'', ROne), (''AboveOne'', RAboveOne), (''BelowOne'', RBelowOne)]"

lemma RState_lawful [codec_laws]: "lawful E RState_c"
  unfolding RState_c_def by (rule enum_lawful) simp_all

lemma RState_type [simp]: "cd_type RState_c = router_RState"
  by (simp add: RState_c_def router_RState_def)

definition TransactionStatus_c :: "TransactionStatus codec" where
  "TransactionStatus_c = enum_c
    [(''Failed'', TxFailed), (''Succeeded'', TxSucceeded), (''BaseTrans'', TxBaseTrans),
     (''QuoteTrans'', TxQuoteTrans), (''Rollback'', TxRollback), (''Pending'', TxPending)]"

lemma TransactionStatus_lawful [codec_laws]: "lawful E TransactionStatus_c"
  unfolding TransactionStatus_c_def by (rule enum_lawful) simp_all

lemma TransactionStatus_type [simp]: "cd_type TransactionStatus_c = txs_TransactionStatus"
  by (simp add: TransactionStatus_c_def txs_TransactionStatus_def)

section \<open>The exchange\<close>

definition PoolInfo_c :: "PoolInfo codec" where
  "PoolInfo_c = record_c
     (\<lambda>r. (pl_i r, pl_k r, base_reserve r, pl_owner r, block_timestamp_last r, pool_addr r,
           lp_amount r, pool_type r, lp_lock r, quote_user r, lp_fee_rate r,
           base_token_decimals r, quote_token_decimals r, base_user r, quote_token r,
           base_price_cumulative_last r, quote_reserve r, base_token r, pool_status r,
           mt_fee_rate r, is_single_pool r, total_supply r, is_my_pool r, ()))
     (\<lambda>(x1, x2, x3, x4, x5, x6, x7, x8, x9, x10, x11, x12, x13, x14, x15, x16, x17, x18, x19,
        x20, x21, x22, x23, _).
        \<lparr> pl_i = x1, pl_k = x2, base_reserve = x3, pl_owner = x4, block_timestamp_last = x5,
          pool_addr = x6, lp_amount = x7, pool_type = x8, lp_lock = x9, quote_user = x10,
          lp_fee_rate = x11, base_token_decimals = x12, quote_token_decimals = x13,
          base_user = x14, quote_token = x15, base_price_cumulative_last = x16,
          quote_reserve = x17, base_token = x18, pool_status = x19, mt_fee_rate = x20,
          is_single_pool = x21, total_supply = x22, is_my_pool = x23 \<rparr>)
     (field ''i'' nat_c
     (field ''k'' nat_c
     (field ''base_reserve'' nat_c
     (field ''owner'' prin_c
     (field ''block_timestamp_last'' nat64_c
     (field ''pool_addr'' prin_c
     (field ''lp_amount'' nat_c
     (field ''pool_type'' text_c
     (field ''lp_lock'' nat_c
     (field ''quote_user'' nat_c
     (field ''lp_fee_rate'' nat_c
     (field ''base_token_decimals'' num8_c
     (field ''quote_token_decimals'' num8_c
     (field ''base_user'' nat_c
     (field ''quote_token'' prin_c
     (field ''base_price_cumulative_last'' nat_c
     (field ''quote_reserve'' nat_c
     (field ''base_token'' prin_c
     (field ''pool_status'' PoolStatus_c
     (field ''mt_fee_rate'' nat_c
     (field ''is_single_pool'' bool_c
     (field ''total_supply'' nat_c
     (field ''is_my_pool'' bool_c fnil)))))))))))))))))))))))"

lemma PoolInfo_lawful [codec_laws]: "lawful E PoolInfo_c"
  unfolding PoolInfo_c_def by (rule record_lawful) (auto intro!: codec_laws)

lemma PoolInfo_type [simp]: "cd_type PoolInfo_c = router_PoolInfo"
  by (simp add: PoolInfo_c_def router_PoolInfo_def)

text \<open>A recorded swap with all its fields; the pages read those of \<open>SwapTxRecord\<close>.\<close>

record SwapTx = SwapTxRecord +
  sw_to_token :: "principal option"
  sw_from_token :: "principal option"
  sw_directions :: "int option"
  sw_base_reserve :: "jsnum option"
  sw_lp_fee_volumn :: "jsnum option"
  sw_swap_hash_str :: string
  sw_volumn :: "jsnum option"
  sw_quote_token_decimals :: "int option"
  sw_mt_fee_volumn :: "jsnum option"
  sw_base_min_return_amount :: "jsnum option"
  sw_timestamp :: int
  sw_base_price_cumulative_last :: "jsnum option"
  sw_quote_reserve :: "jsnum option"
  sw_lp_fee_amount :: "jsnum option"
  sw_caller :: "principal option"
  sw_pairs :: "principal list option"
  sw_price :: "jsnum option"
  sw_mt_fee_amount :: "jsnum option"

definition SwapTx_c :: "SwapTx codec" where
  "SwapTx_c = record_c
     (\<lambda>r. (sw_to_token r, tx_status r, input_amount r, sw_from_token r, sw_directions r,
      sw_base_reserve r, sw_lp_fee_volumn r, sw_swap_hash_str r, sw_volumn r, receive_amount r,
      sw_quote_token_decimals r, sw_mt_fee_volumn r, sw_base_min_return_amount r,
      sw_timestamp r, sw_base_price_cumulative_last r, sw_quote_reserve r, sw_lp_fee_amount r,
      sw_caller r, sw_pairs r, sw_price r, swap_hash r, fail_msg r, sw_mt_fee_amount r, ()))
     (\<lambda>( x1, x2, x3, x4, x5, x6, x7, x8, x9, x10, x11, x12, x13, x14, x15, x16, x17,
      x18, x19, x20, x21, x22, x23, _).
        \<lparr> tx_status = x2, input_amount = x3, receive_amount = x10, swap_hash = x21,
         fail_msg = x22, sw_to_token = x1, sw_from_token = x4, sw_directions = x5,
         sw_base_reserve = x6, sw_lp_fee_volumn = x7, sw_swap_hash_str = x8, sw_volumn = x9,
         sw_quote_token_decimals = x11, sw_mt_fee_volumn = x12, sw_base_min_return_amount = x13,
         sw_timestamp = x14, sw_base_price_cumulative_last = x15, sw_quote_reserve = x16,
         sw_lp_fee_amount = x17, sw_caller = x18, sw_pairs = x19, sw_price = x20,
         sw_mt_fee_amount = x23 \<rparr>)
     (field ''to_token'' (opt_c prin_c)
     (field ''status'' TransactionStatus_c
     (field ''input_amount'' (opt_c float_c)
     (field ''from_token'' (opt_c prin_c)
     (field ''directions'' (opt_c nat64_c)
     (field ''base_reserve'' (opt_c float_c)
     (field ''lp_fee_volumn'' (opt_c float_c)
     (field ''swap_hash_str'' text_c
     (field ''volumn'' (opt_c float_c)
     (field ''receive_amount'' (opt_c float_c)
     (field ''quote_token_decimals'' (opt_c nat_c)
     (field ''mt_fee_volumn'' (opt_c float_c)
     (field ''base_min_return_amount'' (opt_c float_c)
     (field ''timestamp'' nat64_c
     (field ''base_price_cumulative_last'' (opt_c float_c)
     (field ''quote_reserve'' (opt_c float_c)
     (field ''lp_fee_amount'' (opt_c float_c)
     (field ''caller'' (opt_c prin_c)
     (field ''pairs'' (opt_c (vec_c prin_c))
     (field ''price'' (opt_c float_c)
     (field ''swap_hash'' nat64_c
     (field ''fail_msg'' (opt_c text_c)
     (field ''mt_fee_amount'' (opt_c float_c) fnil)))))))))))))))))))))))"

lemma SwapTx_lawful [codec_laws]: "lawful E SwapTx_c"
  unfolding SwapTx_c_def by (rule record_lawful) (auto intro!: codec_laws)

lemma SwapTx_type [simp]: "cd_type SwapTx_c = txs_SwapTxRecord"
  by (simp add: SwapTx_c_def txs_SwapTxRecord_def)

section \<open>Variants with contents\<close>

definition MetadataValue_c :: "MetadataValue codec" where
  "MetadataValue_c = variant_c
     (\<lambda>m. case m of MInt n \<Rightarrow> Inl n | MNat n \<Rightarrow> Inr (Inl n) | MBlob b \<Rightarrow> Inr (Inr (Inl b))
        | MText t \<Rightarrow> Inr (Inr (Inr t)))
     (case_sum MInt (case_sum MNat (case_sum MBlob MText)))
     (vcase ''Int'' (int_c IInt) (vcase ''Nat'' nat_c (vcase ''Blob'' blob_c (vlast ''Text'' text_c))))"

lemma MetadataValue_lawful [codec_laws]: "lawful E MetadataValue_c"
  unfolding MetadataValue_c_def
  by (rule variant_lawful) (auto intro!: codec_laws split: MetadataValue.splits sum.splits)

lemma MetadataValue_type [simp]: "cd_type MetadataValue_c = icrc2_MetadataValue"
  by (simp add: MetadataValue_c_def icrc2_MetadataValue_def)

text \<open>\<open>{ Ok } | { Err }\<close>, and a number under a name.\<close>

definition result_c :: "'a codec \<Rightarrow> 'e codec \<Rightarrow> ('a, 'e) candid_result codec" where
  "result_c c e = variant_c (\<lambda>r. case r of COk a \<Rightarrow> Inl a | CErr x \<Rightarrow> Inr x) (case_sum COk CErr)
     (vcase ''Ok'' c (vlast ''Err'' e))"

lemma result_lawful [codec_laws]: "lawful E c \<Longrightarrow> lawful E e \<Longrightarrow> lawful E (result_c c e)"
  unfolding result_c_def
  by (rule variant_lawful) (auto intro!: codec_laws split: candid_result.splits sum.splits)

lemma result_type [simp]: "cd_type (result_c c e) = IVariant [(''Ok'', cd_type c), (''Err'', cd_type e)]"
  by (simp add: result_c_def)

definition named_c :: "string \<Rightarrow> 'a codec \<Rightarrow> 'a codec" where
  "named_c k c = record_c (\<lambda>a. (a, ())) fst (field k c fnil)"

lemma named_lawful [codec_laws]: "lawful E c \<Longrightarrow> lawful E (named_c k c)"
  unfolding named_c_def by (rule record_lawful) (auto intro!: codec_laws)

lemma named_type [simp]: "cd_type (named_c k c) = IRecord [(k, cd_type c)]"
  by (simp add: named_c_def)

lemma named_range [simp]: "cd_ok (named_c k c) a = cd_ok c a"
  by (simp add: named_c_def)

definition pairs_c :: "(string \<times> 'a codec) \<Rightarrow> (string \<times> 'b codec) \<Rightarrow> ('a \<times> 'b) codec" where
  "pairs_c p q = record_c (\<lambda>(a, b). (a, b, ())) (\<lambda>(a, b, _). (a, b))
     (field (fst p) (snd p) (field (fst q) (snd q) fnil))"

lemma pairs_lawful [codec_laws]:
  "lawful E c \<Longrightarrow> lawful E d \<Longrightarrow> k \<noteq> j \<Longrightarrow> lawful E (pairs_c (k, c) (j, d))"
  unfolding pairs_c_def by (rule record_lawful) (auto intro!: codec_laws)

lemma pairs_type [simp]: "cd_type (pairs_c (k, c) (j, d)) = IRecord [(k, cd_type c), (j, cd_type d)]"
  by (simp add: pairs_c_def)

text \<open>Why a transfer failed, for the ledger of a token and for the ICP ledger.\<close>

definition TransferError_c :: "TransferError codec" where
  "TransferError_c = variant_c
     (\<lambda>x. case x of GenericError t n \<Rightarrow> Inl (t, n) | TemporarilyUnavailable \<Rightarrow> Inr (Inl ())
        | BadBurn n \<Rightarrow> Inr (Inr (Inl n)) | Duplicate n \<Rightarrow> Inr (Inr (Inr (Inl n)))
        | BadFee n \<Rightarrow> Inr (Inr (Inr (Inr (Inl n)))) | CreatedInFuture n \<Rightarrow> Inr (Inr (Inr (Inr (Inr (Inl n)))))
        | TooOld \<Rightarrow> Inr (Inr (Inr (Inr (Inr (Inr (Inl ()))))))
        | InsufficientFunds n \<Rightarrow> Inr (Inr (Inr (Inr (Inr (Inr (Inr n)))))))
     (case_sum (\<lambda>(t, n). GenericError t n) (case_sum (\<lambda>_. TemporarilyUnavailable) (case_sum BadBurn
       (case_sum Duplicate (case_sum BadFee (case_sum CreatedInFuture (case_sum (\<lambda>_. TooOld)
         InsufficientFunds)))))))
     (vcase ''GenericError'' (pairs_c (''message'', text_c) (''error_code'', nat_c))
     (vcase ''TemporarilyUnavailable'' null_c
     (vcase ''BadBurn'' (named_c ''min_burn_amount'' nat_c)
     (vcase ''Duplicate'' (named_c ''duplicate_of'' nat_c)
     (vcase ''BadFee'' (named_c ''expected_fee'' nat_c)
     (vcase ''CreatedInFuture'' (named_c ''ledger_time'' nat64_c)
     (vcase ''TooOld'' null_c
     (vlast ''InsufficientFunds'' (named_c ''balance'' nat_c)))))))))"

lemma TransferError_lawful [codec_laws]: "lawful E TransferError_c"
  unfolding TransferError_c_def
  by (rule variant_lawful) (auto intro!: codec_laws split: TransferError.splits sum.splits)

lemma TransferError_type [simp]: "cd_type TransferError_c = icrc2_TransferError"
  by (simp add: TransferError_c_def icrc2_TransferError_def)

definition ledger_TransferError_c :: "ledger_TransferError codec" where
  "ledger_TransferError_c = variant_c
     (\<lambda>x. case x of LTxTooOld n \<Rightarrow> Inl n | LBadFee n \<Rightarrow> Inr (Inl n) | LTxDuplicate n \<Rightarrow> Inr (Inr (Inl n))
        | LTxCreatedInFuture \<Rightarrow> Inr (Inr (Inr (Inl ()))) | LInsufficientFunds n \<Rightarrow> Inr (Inr (Inr (Inr n))))
     (case_sum LTxTooOld (case_sum LBadFee (case_sum LTxDuplicate (case_sum (\<lambda>_. LTxCreatedInFuture)
       LInsufficientFunds))))
     (vcase ''TxTooOld'' (named_c ''allowed_window_nanos'' nat64_c)
     (vcase ''BadFee'' (named_c ''expected_fee'' (named_c ''e8s'' nat64_c))
     (vcase ''TxDuplicate'' (named_c ''duplicate_of'' nat64_c)
     (vcase ''TxCreatedInFuture'' null_c
     (vlast ''InsufficientFunds'' (named_c ''balance'' (named_c ''e8s'' nat64_c)))))))"

lemma ledger_TransferError_lawful [codec_laws]: "lawful E ledger_TransferError_c"
  unfolding ledger_TransferError_c_def
  by (rule variant_lawful) (auto intro!: codec_laws split: ledger_TransferError.splits sum.splits)

lemma ledger_TransferError_type [simp]: "cd_type ledger_TransferError_c = ledger_TransferError"
  by (simp add: ledger_TransferError_c_def ledger_TransferError_def ledger_Tokens_def ledger_BlockIndex_def)

end
