(* ===== verification/StandardIdl.thy ===== *)
theory StandardIdl
  imports Idl
begin

text \<open>
  The interfaces the wallet adapter offers its users besides that of the ICP ledger, and the one of
  the canister that serves the front end; no page calls them.
\<close>

section \<open>The ICP ledger with the ICRC-1 standard: \<open>ICRC1_IDL\<close> of \<open>did/icrc1.idl.js\<close>\<close>

definition icrc1_std_Tokens :: idl where
  "icrc1_std_Tokens = IRecord [(''e8s'', INat64)]"

definition icrc1_std_Duration :: idl where
  "icrc1_std_Duration = IRecord [(''secs'', INat64), (''nanos'', INat32)]"

definition icrc1_std_Account :: idl where
  "icrc1_std_Account = IRecord [(''owner'', IPrincipal), (''subaccount'', IOpt (IVec INat8))]"

definition icrc1_std_ArchiveOptions :: idl where
  "icrc1_std_ArchiveOptions = IRecord [(''num_blocks_to_archive'', INat64),
     (''max_transactions_per_response'', IOpt INat64), (''trigger_threshold'', INat64),
     (''max_message_size_bytes'', IOpt INat64), (''cycles_for_archive_creation'', IOpt INat64),
     (''node_max_memory_size_bytes'', IOpt INat64), (''controller_id'', IPrincipal)]"

definition icrc1_std_LedgerCanisterInitPayload :: idl where
  "icrc1_std_LedgerCanisterInitPayload = IRecord [(''send_whitelist'', IVec IPrincipal),
     (''token_symbol'', IOpt IText), (''transfer_fee'', IOpt icrc1_std_Tokens),
     (''minting_account'', IText), (''transaction_window'', IOpt icrc1_std_Duration),
     (''max_message_size_bytes'', IOpt INat64),
     (''icrc1_minting_account'', IOpt icrc1_std_Account),
     (''archive_options'', IOpt icrc1_std_ArchiveOptions),
     (''initial_values'', IVec (ITuple [IText, icrc1_std_Tokens])),
     (''token_name'', IOpt IText)]"

definition icrc1_std_BinaryAccountBalanceArgs :: idl where
  "icrc1_std_BinaryAccountBalanceArgs = IRecord [(''account'', IVec INat8)]"

definition icrc1_std_AccountBalanceArgs :: idl where
  "icrc1_std_AccountBalanceArgs = IRecord [(''account'', IText)]"

definition icrc1_std_ArchiveInfo :: idl where
  "icrc1_std_ArchiveInfo = IRecord [(''canister_id'', IPrincipal)]"

definition icrc1_std_Archives :: idl where
  "icrc1_std_Archives = IRecord [(''archives'', IVec icrc1_std_ArchiveInfo)]"

definition icrc1_std_Decimals :: idl where
  "icrc1_std_Decimals = IRecord [(''decimals'', INat32)]"

definition icrc1_std_MetadataValue :: idl where
  "icrc1_std_MetadataValue = IVariant [(''Int'', IInt), (''Nat'', INat), (''Blob'', IVec INat8),
     (''Text'', IText)]"

definition icrc1_std_StandardRecord :: idl where
  "icrc1_std_StandardRecord = IRecord [(''url'', IText), (''name'', IText)]"

definition icrc1_std_TransferArg :: idl where
  "icrc1_std_TransferArg = IRecord [(''to'', icrc1_std_Account), (''fee'', IOpt INat),
     (''memo'', IOpt (IVec INat8)), (''from_subaccount'', IOpt (IVec INat8)),
     (''created_at_time'', IOpt INat64), (''amount'', INat)]"

definition icrc1_std_TransferError :: idl where
  "icrc1_std_TransferError = IVariant [(''GenericError'', IRecord [(''message'', IText),
     (''error_code'', INat)]), (''TemporarilyUnavailable'', INull),
     (''BadBurn'', IRecord [(''min_burn_amount'', INat)]),
     (''Duplicate'', IRecord [(''duplicate_of'', INat)]),
     (''BadFee'', IRecord [(''expected_fee'', INat)]),
     (''CreatedInFuture'', IRecord [(''ledger_time'', INat64)]), (''TooOld'', INull),
     (''InsufficientFunds'', IRecord [(''balance'', INat)])]"

definition icrc1_std_Result :: idl where
  "icrc1_std_Result = IVariant [(''Ok'', INat), (''Err'', icrc1_std_TransferError)]"

definition icrc1_std_Name :: idl where
  "icrc1_std_Name = IRecord [(''name'', IText)]"

definition icrc1_std_GetBlocksArgs :: idl where
  "icrc1_std_GetBlocksArgs = IRecord [(''start'', INat64), (''length'', INat64)]"

definition icrc1_std_TimeStamp :: idl where
  "icrc1_std_TimeStamp = IRecord [(''timestamp_nanos'', INat64)]"

definition icrc1_std_CandidOperation :: idl where
  "icrc1_std_CandidOperation = IVariant [(''Approve'', IRecord [(''fee'', icrc1_std_Tokens),
     (''from'', IVec INat8), (''allowance_e8s'', IInt),
     (''expires_at'', IOpt icrc1_std_TimeStamp), (''spender'', IVec INat8)]),
     (''Burn'', IRecord [(''from'', IVec INat8), (''amount'', icrc1_std_Tokens)]),
     (''Mint'', IRecord [(''to'', IVec INat8), (''amount'', icrc1_std_Tokens)]),
     (''Transfer'', IRecord [(''to'', IVec INat8), (''fee'', icrc1_std_Tokens),
     (''from'', IVec INat8), (''amount'', icrc1_std_Tokens)]),
     (''TransferFrom'', IRecord [(''to'', IVec INat8), (''fee'', icrc1_std_Tokens),
     (''from'', IVec INat8), (''amount'', icrc1_std_Tokens), (''spender'', IVec INat8)])]"

definition icrc1_std_CandidTransaction :: idl where
  "icrc1_std_CandidTransaction = IRecord [(''memo'', INat64),
     (''icrc1_memo'', IOpt (IVec INat8)), (''operation'', IOpt icrc1_std_CandidOperation),
     (''created_at_time'', icrc1_std_TimeStamp)]"

definition icrc1_std_CandidBlock :: idl where
  "icrc1_std_CandidBlock = IRecord [(''transaction'', icrc1_std_CandidTransaction),
     (''timestamp'', icrc1_std_TimeStamp), (''parent_hash'', IOpt (IVec INat8))]"

definition icrc1_std_BlockRange :: idl where
  "icrc1_std_BlockRange = IRecord [(''blocks'', IVec icrc1_std_CandidBlock)]"

definition icrc1_std_GetBlocksError :: idl where
  "icrc1_std_GetBlocksError =
     IVariant [(''BadFirstBlockIndex'', IRecord [(''requested_index'', INat64),
     (''first_valid_index'', INat64)]), (''Other'', IRecord [(''error_message'', IText),
     (''error_code'', INat64)])]"

definition icrc1_std_ArchivedBlocksRange :: idl where
  "icrc1_std_ArchivedBlocksRange =
     IRecord [(''callback'', IFunc [icrc1_std_GetBlocksArgs] [IVariant [(''Ok'', icrc1_std_BlockRange),
     (''Err'', icrc1_std_GetBlocksError)]] [''query'']), (''start'', INat64),
     (''length'', INat64)]"

definition icrc1_std_QueryBlocksResponse :: idl where
  "icrc1_std_QueryBlocksResponse = IRecord [(''certificate'', IOpt (IVec INat8)),
     (''blocks'', IVec icrc1_std_CandidBlock), (''chain_length'', INat64),
     (''first_block_index'', INat64), (''archived_blocks'', IVec icrc1_std_ArchivedBlocksRange)]"

definition icrc1_std_SendArgs :: idl where
  "icrc1_std_SendArgs = IRecord [(''to'', IText), (''fee'', icrc1_std_Tokens),
     (''memo'', INat64), (''from_subaccount'', IOpt (IVec INat8)),
     (''created_at_time'', IOpt icrc1_std_TimeStamp), (''amount'', icrc1_std_Tokens)]"

definition icrc1_std_Symbol :: idl where
  "icrc1_std_Symbol = IRecord [(''symbol'', IText)]"

definition icrc1_std_TransferArgs :: idl where
  "icrc1_std_TransferArgs = IRecord [(''to'', IVec INat8), (''fee'', icrc1_std_Tokens),
     (''memo'', INat64), (''from_subaccount'', IOpt (IVec INat8)),
     (''created_at_time'', IOpt icrc1_std_TimeStamp), (''amount'', icrc1_std_Tokens)]"

definition icrc1_std_TransferError_1 :: idl where
  "icrc1_std_TransferError_1 =
     IVariant [(''TxTooOld'', IRecord [(''allowed_window_nanos'', INat64)]),
     (''BadFee'', IRecord [(''expected_fee'', icrc1_std_Tokens)]),
     (''TxDuplicate'', IRecord [(''duplicate_of'', INat64)]), (''TxCreatedInFuture'', INull),
     (''InsufficientFunds'', IRecord [(''balance'', icrc1_std_Tokens)])]"

definition icrc1_std_Result_1 :: idl where
  "icrc1_std_Result_1 = IVariant [(''Ok'', INat64), (''Err'', icrc1_std_TransferError_1)]"

definition icrc1_std_TransferFee :: idl where
  "icrc1_std_TransferFee = IRecord [(''transfer_fee'', icrc1_std_Tokens)]"

definition icrc1_std_idlFactory :: service where
  "icrc1_std_idlFactory = \<lparr> sv_refs = [],
     sv_methods =
     [(''account_balance'', func [icrc1_std_BinaryAccountBalanceArgs] [icrc1_std_Tokens] [''query'']),
      (''account_balance_dfx'', func [icrc1_std_AccountBalanceArgs] [icrc1_std_Tokens] [''query'']),
      (''archives'', func [] [icrc1_std_Archives] [''query'']),
      (''decimals'', func [] [icrc1_std_Decimals] [''query'']),
      (''icrc1_balance_of'', func [icrc1_std_Account] [INat] [''query'']),
      (''icrc1_decimals'', func [] [INat8] [''query'']),
      (''icrc1_fee'', func [] [INat] [''query'']),
      (''icrc1_metadata'', func [] [IVec (ITuple [IText, icrc1_std_MetadataValue])] [''query'']),
      (''icrc1_minting_account'', func [] [IOpt icrc1_std_Account] [''query'']),
      (''icrc1_name'', func [] [IText] [''query'']),
      (''icrc1_supported_standards'', func [] [IVec icrc1_std_StandardRecord] [''query'']),
      (''icrc1_symbol'', func [] [IText] [''query'']),
      (''icrc1_total_supply'', func [] [INat] [''query'']),
      (''icrc1_transfer'', func [icrc1_std_TransferArg] [icrc1_std_Result] []),
      (''name'', func [] [icrc1_std_Name] [''query'']),
      (''query_blocks'', func [icrc1_std_GetBlocksArgs] [icrc1_std_QueryBlocksResponse] [''query'']),
      (''send_dfx'', func [icrc1_std_SendArgs] [INat64] []),
      (''symbol'', func [] [icrc1_std_Symbol] [''query'']),
      (''transfer'', func [icrc1_std_TransferArgs] [icrc1_std_Result_1] []),
      (''transfer_fee'', func [IRecord []] [icrc1_std_TransferFee] [''query''])] \<rparr>"

lemmas icrc1_std_defs =
  icrc1_std_Tokens_def icrc1_std_Duration_def icrc1_std_Account_def
  icrc1_std_ArchiveOptions_def icrc1_std_LedgerCanisterInitPayload_def icrc1_std_BinaryAccountBalanceArgs_def
  icrc1_std_AccountBalanceArgs_def icrc1_std_ArchiveInfo_def icrc1_std_Archives_def
  icrc1_std_Decimals_def icrc1_std_MetadataValue_def icrc1_std_StandardRecord_def
  icrc1_std_TransferArg_def icrc1_std_TransferError_def icrc1_std_Result_def
  icrc1_std_Name_def icrc1_std_GetBlocksArgs_def icrc1_std_TimeStamp_def
  icrc1_std_CandidOperation_def icrc1_std_CandidTransaction_def icrc1_std_CandidBlock_def
  icrc1_std_BlockRange_def icrc1_std_GetBlocksError_def icrc1_std_ArchivedBlocksRange_def
  icrc1_std_QueryBlocksResponse_def icrc1_std_SendArgs_def icrc1_std_Symbol_def
  icrc1_std_TransferArgs_def icrc1_std_TransferError_1_def icrc1_std_Result_1_def
  icrc1_std_TransferFee_def icrc1_std_idlFactory_def

section \<open>The same with ICRC-2: \<open>ICRC2_IDL\<close> of \<open>did/icrc1.idl.js\<close>\<close>

definition icrc2_std_Account :: idl where
  "icrc2_std_Account = IRecord [(''owner'', IPrincipal), (''subaccount'', IOpt (IVec INat8))]"

definition icrc2_std_FeatureFlags :: idl where
  "icrc2_std_FeatureFlags = IRecord [(''icrc2'', IBool)]"

definition icrc2_std_UpgradeArgs :: idl where
  "icrc2_std_UpgradeArgs = IRecord [(''maximum_number_of_accounts'', IOpt INat64),
     (''icrc1_minting_account'', IOpt icrc2_std_Account),
     (''feature_flags'', IOpt icrc2_std_FeatureFlags)]"

definition icrc2_std_Tokens :: idl where
  "icrc2_std_Tokens = IRecord [(''e8s'', INat64)]"

definition icrc2_std_Duration :: idl where
  "icrc2_std_Duration = IRecord [(''secs'', INat64), (''nanos'', INat32)]"

definition icrc2_std_ArchiveOptions :: idl where
  "icrc2_std_ArchiveOptions = IRecord [(''num_blocks_to_archive'', INat64),
     (''max_transactions_per_response'', IOpt INat64), (''trigger_threshold'', INat64),
     (''max_message_size_bytes'', IOpt INat64), (''cycles_for_archive_creation'', IOpt INat64),
     (''node_max_memory_size_bytes'', IOpt INat64), (''controller_id'', IPrincipal)]"

definition icrc2_std_InitArgs :: idl where
  "icrc2_std_InitArgs = IRecord [(''send_whitelist'', IVec IPrincipal),
     (''token_symbol'', IOpt IText), (''transfer_fee'', IOpt icrc2_std_Tokens),
     (''minting_account'', IText), (''maximum_number_of_accounts'', IOpt INat64),
     (''accounts_overflow_trim_quantity'', IOpt INat64),
     (''transaction_window'', IOpt icrc2_std_Duration),
     (''max_message_size_bytes'', IOpt INat64),
     (''icrc1_minting_account'', IOpt icrc2_std_Account),
     (''archive_options'', IOpt icrc2_std_ArchiveOptions),
     (''initial_values'', IVec (ITuple [IText, icrc2_std_Tokens])), (''token_name'', IOpt IText),
     (''feature_flags'', IOpt icrc2_std_FeatureFlags)]"

definition icrc2_std_LedgerCanisterPayload :: idl where
  "icrc2_std_LedgerCanisterPayload = IVariant [(''Upgrade'', IOpt icrc2_std_UpgradeArgs),
     (''Init'', icrc2_std_InitArgs)]"

definition icrc2_std_BinaryAccountBalanceArgs :: idl where
  "icrc2_std_BinaryAccountBalanceArgs = IRecord [(''account'', IVec INat8)]"

definition icrc2_std_AccountBalanceArgs :: idl where
  "icrc2_std_AccountBalanceArgs = IRecord [(''account'', IText)]"

definition icrc2_std_ArchiveInfo :: idl where
  "icrc2_std_ArchiveInfo = IRecord [(''canister_id'', IPrincipal)]"

definition icrc2_std_Archives :: idl where
  "icrc2_std_Archives = IRecord [(''archives'', IVec icrc2_std_ArchiveInfo)]"

definition icrc2_std_Decimals :: idl where
  "icrc2_std_Decimals = IRecord [(''decimals'', INat32)]"

definition icrc2_std_MetadataValue :: idl where
  "icrc2_std_MetadataValue = IVariant [(''Int'', IInt), (''Nat'', INat), (''Blob'', IVec INat8),
     (''Text'', IText)]"

definition icrc2_std_StandardRecord :: idl where
  "icrc2_std_StandardRecord = IRecord [(''url'', IText), (''name'', IText)]"

definition icrc2_std_TransferArg :: idl where
  "icrc2_std_TransferArg = IRecord [(''to'', icrc2_std_Account), (''fee'', IOpt INat),
     (''memo'', IOpt (IVec INat8)), (''from_subaccount'', IOpt (IVec INat8)),
     (''created_at_time'', IOpt INat64), (''amount'', INat)]"

definition icrc2_std_TransferError :: idl where
  "icrc2_std_TransferError = IVariant [(''GenericError'', IRecord [(''message'', IText),
     (''error_code'', INat)]), (''TemporarilyUnavailable'', INull),
     (''BadBurn'', IRecord [(''min_burn_amount'', INat)]),
     (''Duplicate'', IRecord [(''duplicate_of'', INat)]),
     (''BadFee'', IRecord [(''expected_fee'', INat)]),
     (''CreatedInFuture'', IRecord [(''ledger_time'', INat64)]), (''TooOld'', INull),
     (''InsufficientFunds'', IRecord [(''balance'', INat)])]"

definition icrc2_std_Result :: idl where
  "icrc2_std_Result = IVariant [(''Ok'', INat), (''Err'', icrc2_std_TransferError)]"

definition icrc2_std_AllowanceArgs :: idl where
  "icrc2_std_AllowanceArgs = IRecord [(''account'', icrc2_std_Account),
     (''spender'', icrc2_std_Account)]"

definition icrc2_std_Allowance :: idl where
  "icrc2_std_Allowance = IRecord [(''allowance'', INat), (''expires_at'', IOpt INat64)]"

definition icrc2_std_ApproveArgs :: idl where
  "icrc2_std_ApproveArgs = IRecord [(''fee'', IOpt INat), (''memo'', IOpt (IVec INat8)),
     (''from_subaccount'', IOpt (IVec INat8)), (''created_at_time'', IOpt INat64),
     (''amount'', INat), (''expected_allowance'', IOpt INat), (''expires_at'', IOpt INat64),
     (''spender'', icrc2_std_Account)]"

definition icrc2_std_ApproveError :: idl where
  "icrc2_std_ApproveError = IVariant [(''GenericError'', IRecord [(''message'', IText),
     (''error_code'', INat)]), (''TemporarilyUnavailable'', INull),
     (''Duplicate'', IRecord [(''duplicate_of'', INat)]),
     (''BadFee'', IRecord [(''expected_fee'', INat)]),
     (''AllowanceChanged'', IRecord [(''current_allowance'', INat)]),
     (''CreatedInFuture'', IRecord [(''ledger_time'', INat64)]), (''TooOld'', INull),
     (''Expired'', IRecord [(''ledger_time'', INat64)]),
     (''InsufficientFunds'', IRecord [(''balance'', INat)])]"

definition icrc2_std_Result_1 :: idl where
  "icrc2_std_Result_1 = IVariant [(''Ok'', INat), (''Err'', icrc2_std_ApproveError)]"

definition icrc2_std_TransferFromArgs :: idl where
  "icrc2_std_TransferFromArgs = IRecord [(''to'', icrc2_std_Account), (''fee'', IOpt INat),
     (''spender_subaccount'', IOpt (IVec INat8)), (''from'', icrc2_std_Account),
     (''memo'', IOpt (IVec INat8)), (''created_at_time'', IOpt INat64), (''amount'', INat)]"

definition icrc2_std_TransferFromError :: idl where
  "icrc2_std_TransferFromError = IVariant [(''GenericError'', IRecord [(''message'', IText),
     (''error_code'', INat)]), (''TemporarilyUnavailable'', INull),
     (''InsufficientAllowance'', IRecord [(''allowance'', INat)]),
     (''BadBurn'', IRecord [(''min_burn_amount'', INat)]),
     (''Duplicate'', IRecord [(''duplicate_of'', INat)]),
     (''BadFee'', IRecord [(''expected_fee'', INat)]),
     (''CreatedInFuture'', IRecord [(''ledger_time'', INat64)]), (''TooOld'', INull),
     (''InsufficientFunds'', IRecord [(''balance'', INat)])]"

definition icrc2_std_Result_2 :: idl where
  "icrc2_std_Result_2 = IVariant [(''Ok'', INat), (''Err'', icrc2_std_TransferFromError)]"

definition icrc2_std_Name :: idl where
  "icrc2_std_Name = IRecord [(''name'', IText)]"

definition icrc2_std_GetBlocksArgs :: idl where
  "icrc2_std_GetBlocksArgs = IRecord [(''start'', INat64), (''length'', INat64)]"

definition icrc2_std_TimeStamp :: idl where
  "icrc2_std_TimeStamp = IRecord [(''timestamp_nanos'', INat64)]"

definition icrc2_std_CandidOperation :: idl where
  "icrc2_std_CandidOperation = IVariant [(''Approve'', IRecord [(''fee'', icrc2_std_Tokens),
     (''from'', IVec INat8), (''allowance_e8s'', IInt), (''allowance'', icrc2_std_Tokens),
     (''expected_allowance'', IOpt icrc2_std_Tokens), (''expires_at'', IOpt icrc2_std_TimeStamp),
     (''spender'', IVec INat8)]), (''Burn'', IRecord [(''from'', IVec INat8),
     (''amount'', icrc2_std_Tokens), (''spender'', IOpt (IVec INat8))]),
     (''Mint'', IRecord [(''to'', IVec INat8), (''amount'', icrc2_std_Tokens)]),
     (''Transfer'', IRecord [(''to'', IVec INat8), (''fee'', icrc2_std_Tokens),
     (''from'', IVec INat8), (''amount'', icrc2_std_Tokens), (''spender'', IOpt (IVec INat8))])]"

definition icrc2_std_CandidTransaction :: idl where
  "icrc2_std_CandidTransaction = IRecord [(''memo'', INat64),
     (''icrc1_memo'', IOpt (IVec INat8)), (''operation'', IOpt icrc2_std_CandidOperation),
     (''created_at_time'', icrc2_std_TimeStamp)]"

definition icrc2_std_CandidBlock :: idl where
  "icrc2_std_CandidBlock = IRecord [(''transaction'', icrc2_std_CandidTransaction),
     (''timestamp'', icrc2_std_TimeStamp), (''parent_hash'', IOpt (IVec INat8))]"

definition icrc2_std_BlockRange :: idl where
  "icrc2_std_BlockRange = IRecord [(''blocks'', IVec icrc2_std_CandidBlock)]"

definition icrc2_std_GetBlocksError :: idl where
  "icrc2_std_GetBlocksError =
     IVariant [(''BadFirstBlockIndex'', IRecord [(''requested_index'', INat64),
     (''first_valid_index'', INat64)]), (''Other'', IRecord [(''error_message'', IText),
     (''error_code'', INat64)])]"

definition icrc2_std_Result_3 :: idl where
  "icrc2_std_Result_3 = IVariant [(''Ok'', icrc2_std_BlockRange),
     (''Err'', icrc2_std_GetBlocksError)]"

definition icrc2_std_ArchivedBlocksRange :: idl where
  "icrc2_std_ArchivedBlocksRange =
     IRecord [(''callback'', IFunc [icrc2_std_GetBlocksArgs] [icrc2_std_Result_3] [''query'']),
     (''start'', INat64), (''length'', INat64)]"

definition icrc2_std_QueryBlocksResponse :: idl where
  "icrc2_std_QueryBlocksResponse = IRecord [(''certificate'', IOpt (IVec INat8)),
     (''blocks'', IVec icrc2_std_CandidBlock), (''chain_length'', INat64),
     (''first_block_index'', INat64), (''archived_blocks'', IVec icrc2_std_ArchivedBlocksRange)]"

definition icrc2_std_Result_4 :: idl where
  "icrc2_std_Result_4 = IVariant [(''Ok'', IVec (IVec INat8)),
     (''Err'', icrc2_std_GetBlocksError)]"

definition icrc2_std_ArchivedEncodedBlocksRange :: idl where
  "icrc2_std_ArchivedEncodedBlocksRange =
     IRecord [(''callback'', IFunc [icrc2_std_GetBlocksArgs] [icrc2_std_Result_4] [''query'']),
     (''start'', INat64), (''length'', INat64)]"

definition icrc2_std_QueryEncodedBlocksResponse :: idl where
  "icrc2_std_QueryEncodedBlocksResponse = IRecord [(''certificate'', IOpt (IVec INat8)),
     (''blocks'', IVec (IVec INat8)), (''chain_length'', INat64),
     (''first_block_index'', INat64),
     (''archived_blocks'', IVec icrc2_std_ArchivedEncodedBlocksRange)]"

definition icrc2_std_SendArgs :: idl where
  "icrc2_std_SendArgs = IRecord [(''to'', IText), (''fee'', icrc2_std_Tokens),
     (''memo'', INat64), (''from_subaccount'', IOpt (IVec INat8)),
     (''created_at_time'', IOpt icrc2_std_TimeStamp), (''amount'', icrc2_std_Tokens)]"

definition icrc2_std_Symbol :: idl where
  "icrc2_std_Symbol = IRecord [(''symbol'', IText)]"

definition icrc2_std_TransferArgs :: idl where
  "icrc2_std_TransferArgs = IRecord [(''to'', IVec INat8), (''fee'', icrc2_std_Tokens),
     (''memo'', INat64), (''from_subaccount'', IOpt (IVec INat8)),
     (''created_at_time'', IOpt icrc2_std_TimeStamp), (''amount'', icrc2_std_Tokens)]"

definition icrc2_std_TransferError_1 :: idl where
  "icrc2_std_TransferError_1 =
     IVariant [(''TxTooOld'', IRecord [(''allowed_window_nanos'', INat64)]),
     (''BadFee'', IRecord [(''expected_fee'', icrc2_std_Tokens)]),
     (''TxDuplicate'', IRecord [(''duplicate_of'', INat64)]), (''TxCreatedInFuture'', INull),
     (''InsufficientFunds'', IRecord [(''balance'', icrc2_std_Tokens)])]"

definition icrc2_std_Result_5 :: idl where
  "icrc2_std_Result_5 = IVariant [(''Ok'', INat64), (''Err'', icrc2_std_TransferError_1)]"

definition icrc2_std_TransferFee :: idl where
  "icrc2_std_TransferFee = IRecord [(''transfer_fee'', icrc2_std_Tokens)]"

definition icrc2_std_idlFactory :: service where
  "icrc2_std_idlFactory = \<lparr> sv_refs = [],
     sv_methods =
     [(''account_balance'', func [icrc2_std_BinaryAccountBalanceArgs] [icrc2_std_Tokens] [''query'']),
      (''account_balance_dfx'', func [icrc2_std_AccountBalanceArgs] [icrc2_std_Tokens] [''query'']),
      (''account_identifier'', func [icrc2_std_Account] [IVec INat8] [''query'']),
      (''archives'', func [] [icrc2_std_Archives] [''query'']),
      (''decimals'', func [] [icrc2_std_Decimals] [''query'']),
      (''icrc1_balance_of'', func [icrc2_std_Account] [INat] [''query'']),
      (''icrc1_decimals'', func [] [INat8] [''query'']),
      (''icrc1_fee'', func [] [INat] [''query'']),
      (''icrc1_metadata'', func [] [IVec (ITuple [IText, icrc2_std_MetadataValue])] [''query'']),
      (''icrc1_minting_account'', func [] [IOpt icrc2_std_Account] [''query'']),
      (''icrc1_name'', func [] [IText] [''query'']),
      (''icrc1_supported_standards'', func [] [IVec icrc2_std_StandardRecord] [''query'']),
      (''icrc1_symbol'', func [] [IText] [''query'']),
      (''icrc1_total_supply'', func [] [INat] [''query'']),
      (''icrc1_transfer'', func [icrc2_std_TransferArg] [icrc2_std_Result] []),
      (''icrc2_allowance'', func [icrc2_std_AllowanceArgs] [icrc2_std_Allowance] [''query'']),
      (''icrc2_approve'', func [icrc2_std_ApproveArgs] [icrc2_std_Result_1] []),
      (''icrc2_transfer_from'', func [icrc2_std_TransferFromArgs] [icrc2_std_Result_2] []),
      (''name'', func [] [icrc2_std_Name] [''query'']),
      (''query_blocks'', func [icrc2_std_GetBlocksArgs] [icrc2_std_QueryBlocksResponse] [''query'']),
      (''query_encoded_blocks'', func [icrc2_std_GetBlocksArgs] [icrc2_std_QueryEncodedBlocksResponse] [''query'']),
      (''send_dfx'', func [icrc2_std_SendArgs] [INat64] []),
      (''symbol'', func [] [icrc2_std_Symbol] [''query'']),
      (''transfer'', func [icrc2_std_TransferArgs] [icrc2_std_Result_5] []),
      (''transfer_fee'', func [IRecord []] [icrc2_std_TransferFee] [''query''])] \<rparr>"

lemmas icrc2_std_defs =
  icrc2_std_Account_def icrc2_std_FeatureFlags_def icrc2_std_UpgradeArgs_def
  icrc2_std_Tokens_def icrc2_std_Duration_def icrc2_std_ArchiveOptions_def
  icrc2_std_InitArgs_def icrc2_std_LedgerCanisterPayload_def icrc2_std_BinaryAccountBalanceArgs_def
  icrc2_std_AccountBalanceArgs_def icrc2_std_ArchiveInfo_def icrc2_std_Archives_def
  icrc2_std_Decimals_def icrc2_std_MetadataValue_def icrc2_std_StandardRecord_def
  icrc2_std_TransferArg_def icrc2_std_TransferError_def icrc2_std_Result_def
  icrc2_std_AllowanceArgs_def icrc2_std_Allowance_def icrc2_std_ApproveArgs_def
  icrc2_std_ApproveError_def icrc2_std_Result_1_def icrc2_std_TransferFromArgs_def
  icrc2_std_TransferFromError_def icrc2_std_Result_2_def icrc2_std_Name_def
  icrc2_std_GetBlocksArgs_def icrc2_std_TimeStamp_def icrc2_std_CandidOperation_def
  icrc2_std_CandidTransaction_def icrc2_std_CandidBlock_def icrc2_std_BlockRange_def
  icrc2_std_GetBlocksError_def icrc2_std_Result_3_def icrc2_std_ArchivedBlocksRange_def
  icrc2_std_QueryBlocksResponse_def icrc2_std_Result_4_def icrc2_std_ArchivedEncodedBlocksRange_def
  icrc2_std_QueryEncodedBlocksResponse_def icrc2_std_SendArgs_def icrc2_std_Symbol_def
  icrc2_std_TransferArgs_def icrc2_std_TransferError_1_def icrc2_std_Result_5_def
  icrc2_std_TransferFee_def icrc2_std_idlFactory_def

section \<open>A DIP-20 token: \<open>did/dip20.idl.js\<close>\<close>

definition dip20_TxReceipt :: idl where
  "dip20_TxReceipt = IVariant [(''Ok'', INat),
     (''Err'', IVariant [(''InsufficientAllowance'', INull), (''InsufficientBalance'', INull),
     (''ErrorOperationStyle'', INull), (''Unauthorized'', INull), (''LedgerTrap'', INull),
     (''ErrorTo'', INull), (''Other'', IText), (''BlockUsed'', INull),
     (''AmountTooSmall'', INull)])]"

definition dip20_Metadata :: idl where
  "dip20_Metadata = IRecord [(''fee'', INat), (''decimals'', INat8), (''owner'', IPrincipal),
     (''logo'', IText), (''name'', IText), (''totalSupply'', INat), (''symbol'', IText)]"

definition dip20_Time :: idl where
  "dip20_Time = IInt"

definition dip20_TokenInfo :: idl where
  "dip20_TokenInfo = IRecord [(''holderNumber'', INat), (''deployTime'', dip20_Time),
     (''metadata'', dip20_Metadata), (''historySize'', INat), (''cycles'', INat),
     (''feeTo'', IPrincipal)]"

definition dip20_idlFactory :: service where
  "dip20_idlFactory = \<lparr> sv_refs = [],
     sv_methods =
     [(''allowance'', func [IPrincipal, IPrincipal] [INat] [''query'']),
      (''approve'', func [IPrincipal, INat] [dip20_TxReceipt] []),
      (''balanceOf'', func [IPrincipal] [INat] [''query'']),
      (''burn'', func [INat] [dip20_TxReceipt] []),
      (''decimals'', func [] [INat8] [''query'']),
      (''getAllowanceSize'', func [] [INat] [''query'']),
      (''getHolders'', func [INat, INat] [IVec (ITuple [IPrincipal, INat])] [''query'']),
      (''getMetadata'', func [] [dip20_Metadata] [''query'']),
      (''getTokenFee'', func [] [INat] [''query'']),
      (''getTokenInfo'', func [] [dip20_TokenInfo] [''query'']),
      (''getUserApprovals'', func [IPrincipal] [IVec (ITuple [IPrincipal, INat])] [''query'']),
      (''historySize'', func [] [INat] [''query'']),
      (''logo'', func [] [IText] [''query'']),
      (''mint'', func [IPrincipal, INat] [dip20_TxReceipt] []),
      (''name'', func [] [IText] [''query'']),
      (''setFee'', func [INat] [] [''oneway'']),
      (''setFeeTo'', func [IPrincipal] [] [''oneway'']),
      (''setLogo'', func [IText] [] [''oneway'']),
      (''setName'', func [IText] [] [''oneway'']),
      (''setOwner'', func [IPrincipal] [] [''oneway'']),
      (''symbol'', func [] [IText] [''query'']),
      (''totalSupply'', func [] [INat] [''query'']),
      (''transfer'', func [IPrincipal, INat] [dip20_TxReceipt] []),
      (''transferFrom'', func [IPrincipal, IPrincipal, INat] [dip20_TxReceipt] [])] \<rparr>"

lemmas dip20_defs =
  dip20_TxReceipt_def dip20_Metadata_def dip20_Time_def
  dip20_TokenInfo_def dip20_idlFactory_def

section \<open>The Sonic exchange: \<open>did/sonixswap.idl.js\<close>\<close>

definition sonic_TxReceipt :: idl where
  "sonic_TxReceipt = IVariant [(''ok'', INat), (''err'', IText)]"

definition sonic_TokenInfoExt :: idl where
  "sonic_TokenInfoExt = IRecord [(''id'', IText), (''fee'', INat), (''decimals'', INat8),
     (''name'', IText), (''totalSupply'', INat), (''symbol'', IText)]"

definition sonic_PairInfoExt :: idl where
  "sonic_PairInfoExt = IRecord [(''id'', IText), (''price0CumulativeLast'', INat),
     (''creator'', IPrincipal), (''reserve0'', INat), (''reserve1'', INat), (''lptoken'', IText),
     (''totalSupply'', INat), (''token0'', IText), (''token1'', IText),
     (''price1CumulativeLast'', INat), (''kLast'', INat), (''blockTimestampLast'', IInt)]"

definition sonic_Time :: idl where
  "sonic_Time = IInt"

definition sonic_DepositSubAccounts :: idl where
  "sonic_DepositSubAccounts = IRecord [(''depositAId'', IText), (''subaccount'', IVec INat8),
     (''created_at'', sonic_Time), (''transactionOwner'', IPrincipal)]"

definition sonic_TokenInfoWithType :: idl where
  "sonic_TokenInfoWithType = IRecord [(''id'', IText), (''fee'', INat), (''decimals'', INat8),
     (''name'', IText), (''totalSupply'', INat), (''tokenType'', IText), (''symbol'', IText)]"

definition sonic_SwapInfo :: idl where
  "sonic_SwapInfo = IRecord [(''owner'', IPrincipal), (''cycles'', INat),
     (''tokens'', IVec sonic_TokenInfoExt), (''pairs'', IVec sonic_PairInfoExt)]"

definition sonic_TokenAnalyticsInfo :: idl where
  "sonic_TokenAnalyticsInfo = IRecord [(''fee'', INat), (''decimals'', INat8), (''name'', IText),
     (''totalSupply'', INat), (''symbol'', IText)]"

definition sonic_UserInfo :: idl where
  "sonic_UserInfo = IRecord [(''lpBalances'', IVec (ITuple [IText, INat])),
     (''balances'', IVec (ITuple [IText, INat]))]"

definition sonic_UserInfoPage :: idl where
  "sonic_UserInfoPage = IRecord [(''lpBalances'', ITuple [IVec (ITuple [IText, INat]), INat]),
     (''balances'', ITuple [IVec (ITuple [IText, INat]), INat])]"

definition sonic_idlFactory :: service where
  "sonic_idlFactory = \<lparr> sv_refs = [],
     sv_methods =
     [(''addAuth'', func [IPrincipal] [IBool] []),
      (''addLiquidity'', func [IPrincipal, IPrincipal, INat, INat, INat, INat,
            IInt] [sonic_TxReceipt] []),
      (''addToken'', func [IPrincipal, IText] [sonic_TxReceipt] []),
      (''allowance'', func [IText, IPrincipal, IPrincipal] [INat] [''query'']),
      (''approve'', func [IText, IPrincipal, INat] [IBool] []),
      (''balanceOf'', func [IText, IPrincipal] [INat] [''query'']),
      (''burn'', func [IText, INat] [IBool] []),
      (''createPair'', func [IPrincipal, IPrincipal] [sonic_TxReceipt] []),
      (''decimals'', func [IText] [INat8] [''query'']),
      (''deposit'', func [IPrincipal, INat] [sonic_TxReceipt] []),
      (''depositTo'', func [IPrincipal, IPrincipal, INat] [sonic_TxReceipt] []),
      (''exportBalances'', func [IText] [IOpt (IVec (ITuple [IPrincipal, INat]))] [''query'']),
      (''exportLPTokens'', func [] [IVec sonic_TokenInfoExt] [''query'']),
      (''exportPairs'', func [] [IVec sonic_PairInfoExt] [''query'']),
      (''exportSubAccounts'', func [] [IVec (ITuple [IPrincipal, sonic_DepositSubAccounts])] []),
      (''exportTokenTypes'', func [] [IVec (ITuple [IText, IText])] [''query'']),
      (''exportTokens'', func [] [IVec sonic_TokenInfoExt] [''query'']),
      (''getAllPairs'', func [] [IVec sonic_PairInfoExt] [''query'']),
      (''getBalance'', func [IPrincipal, IText] [INat] []),
      (''getHolders'', func [IText] [INat] [''query'']),
      (''getLPTokenId'', func [IPrincipal, IPrincipal] [IText] [''query'']),
      (''getNumPairs'', func [] [INat] [''query'']),
      (''getPair'', func [IPrincipal, IPrincipal] [IOpt sonic_PairInfoExt] [''query'']),
      (''getPairs'', func [INat, INat] [IVec sonic_PairInfoExt, INat] [''query'']),
      (''getSupportedTokenList'', func [] [IVec sonic_TokenInfoWithType] [''query'']),
      (''getSupportedTokenListByName'', func [IText, INat, INat] [IVec sonic_TokenInfoExt,
            INat] [''query'']),
      (''getSupportedTokenListSome'', func [INat, INat] [IVec sonic_TokenInfoExt, INat] [''query'']),
      (''getSwapInfo'', func [] [sonic_SwapInfo] [''query'']),
      (''getTokenMetadata'', func [IText] [sonic_TokenAnalyticsInfo] [''query'']),
      (''getUserBalances'', func [IPrincipal] [IVec (ITuple [IText, INat])] [''query'']),
      (''getUserInfo'', func [IPrincipal] [sonic_UserInfo] [''query'']),
      (''getUserInfoAbove'', func [IPrincipal, INat, INat] [sonic_UserInfo] [''query'']),
      (''getUserInfoByNamePageAbove'', func [IPrincipal, IInt, IText, INat, INat, IInt, IText, INat,
            INat] [sonic_UserInfoPage] [''query'']),
      (''getUserLPBalances'', func [IPrincipal] [IVec (ITuple [IText, INat])] [''query'']),
      (''getUserLPBalancesAbove'', func [IPrincipal, INat] [IVec (ITuple [IText,
            INat])] [''query'']),
      (''historySize'', func [] [INat] []),
      (''initateTransfer'', func [] [IText] []),
      (''initiateICRC1Transfer'', func [] [IVec INat8] []),
      (''name'', func [IText] [IText] [''query'']),
      (''removeAuth'', func [IPrincipal] [IBool] []),
      (''removeLiquidity'', func [IPrincipal, IPrincipal, INat, INat, INat, IPrincipal,
            IInt] [sonic_TxReceipt] []),
      (''setFeeForToken'', func [IText, INat] [IBool] []),
      (''setFeeOn'', func [IBool] [IBool] []),
      (''setFeeTo'', func [IPrincipal] [IBool] []),
      (''setGlobalTokenFee'', func [INat] [IBool] []),
      (''setMaxTokens'', func [INat] [IBool] []),
      (''setOwner'', func [IPrincipal] [IBool] []),
      (''setPairSupply'', func [IText, INat] [IBool] []),
      (''setPermissionless'', func [IBool] [IBool] []),
      (''swapExactTokensForTokens'', func [INat, INat, IVec IText, IPrincipal,
            IInt] [sonic_TxReceipt] []),
      (''swapTokensForExactTokens'', func [INat, INat, IVec IText, IPrincipal,
            IInt] [sonic_TxReceipt] []),
      (''symbol'', func [IText] [IText] [''query'']),
      (''totalSupply'', func [IText] [INat] [''query'']),
      (''transfer'', func [IText, IPrincipal, INat] [IBool] []),
      (''transferFrom'', func [IText, IPrincipal, IPrincipal, INat] [IBool] []),
      (''updateAllTokenMetadata'', func [] [IBool] []),
      (''updateTokenFees'', func [] [IBool] []),
      (''updateTokenMetadata'', func [IText] [IBool] []),
      (''withdraw'', func [IPrincipal, INat] [sonic_TxReceipt] []),
      (''withdrawTo'', func [IPrincipal, IPrincipal, INat] [sonic_TxReceipt] [])] \<rparr>"

lemmas sonic_defs =
  sonic_TxReceipt_def sonic_TokenInfoExt_def sonic_PairInfoExt_def
  sonic_Time_def sonic_DepositSubAccounts_def sonic_TokenInfoWithType_def
  sonic_SwapInfo_def sonic_TokenAnalyticsInfo_def sonic_UserInfo_def
  sonic_UserInfoPage_def sonic_idlFactory_def

section \<open>The canister of the front end itself: \<open>canisters/fomowell_starter_assets/fomowell_starter_assets.did.js\<close>\<close>

definition assets_ClearArguments :: idl where
  "assets_ClearArguments = IRecord []"

definition assets_BatchId :: idl where
  "assets_BatchId = INat"

definition assets_Key :: idl where
  "assets_Key = IText"

definition assets_HeaderField :: idl where
  "assets_HeaderField = ITuple [IText, IText]"

definition assets_SetAssetPropertiesArguments :: idl where
  "assets_SetAssetPropertiesArguments = IRecord [(''key'', assets_Key),
     (''headers'', IOpt (IOpt (IVec assets_HeaderField))), (''is_aliased'', IOpt (IOpt IBool)),
     (''allow_raw_access'', IOpt (IOpt IBool)), (''max_age'', IOpt (IOpt INat64))]"

definition assets_CreateAssetArguments :: idl where
  "assets_CreateAssetArguments = IRecord [(''key'', assets_Key), (''content_type'', IText),
     (''headers'', IOpt (IVec assets_HeaderField)), (''allow_raw_access'', IOpt IBool),
     (''max_age'', IOpt INat64), (''enable_aliasing'', IOpt IBool)]"

definition assets_UnsetAssetContentArguments :: idl where
  "assets_UnsetAssetContentArguments = IRecord [(''key'', assets_Key),
     (''content_encoding'', IText)]"

definition assets_DeleteAssetArguments :: idl where
  "assets_DeleteAssetArguments = IRecord [(''key'', assets_Key)]"

definition assets_ChunkId :: idl where
  "assets_ChunkId = INat"

definition assets_SetAssetContentArguments :: idl where
  "assets_SetAssetContentArguments = IRecord [(''key'', assets_Key),
     (''sha256'', IOpt (IVec INat8)), (''chunk_ids'', IVec assets_ChunkId),
     (''content_encoding'', IText)]"

definition assets_BatchOperationKind :: idl where
  "assets_BatchOperationKind =
     IVariant [(''SetAssetProperties'', assets_SetAssetPropertiesArguments),
     (''CreateAsset'', assets_CreateAssetArguments),
     (''UnsetAssetContent'', assets_UnsetAssetContentArguments),
     (''DeleteAsset'', assets_DeleteAssetArguments),
     (''SetAssetContent'', assets_SetAssetContentArguments), (''Clear'', assets_ClearArguments)]"

definition assets_CommitBatchArguments :: idl where
  "assets_CommitBatchArguments = IRecord [(''batch_id'', assets_BatchId),
     (''operations'', IVec assets_BatchOperationKind)]"

definition assets_CommitProposedBatchArguments :: idl where
  "assets_CommitProposedBatchArguments = IRecord [(''batch_id'', assets_BatchId),
     (''evidence'', IVec INat8)]"

definition assets_ComputeEvidenceArguments :: idl where
  "assets_ComputeEvidenceArguments = IRecord [(''batch_id'', assets_BatchId),
     (''max_iterations'', IOpt INat16)]"

definition assets_ConfigureArguments :: idl where
  "assets_ConfigureArguments = IRecord [(''max_batches'', IOpt (IOpt INat64)),
     (''max_bytes'', IOpt (IOpt INat64)), (''max_chunks'', IOpt (IOpt INat64))]"

definition assets_DeleteBatchArguments :: idl where
  "assets_DeleteBatchArguments = IRecord [(''batch_id'', assets_BatchId)]"

definition assets_ConfigurationResponse :: idl where
  "assets_ConfigurationResponse = IRecord [(''max_batches'', IOpt INat64),
     (''max_bytes'', IOpt INat64), (''max_chunks'', IOpt INat64)]"

definition assets_Permission :: idl where
  "assets_Permission = IVariant [(''Prepare'', INull), (''ManagePermissions'', INull),
     (''Commit'', INull)]"

definition assets_GrantPermission :: idl where
  "assets_GrantPermission = IRecord [(''permission'', assets_Permission),
     (''to_principal'', IPrincipal)]"

definition assets_HttpRequest :: idl where
  "assets_HttpRequest = IRecord [(''url'', IText), (''method'', IText), (''body'', IVec INat8),
     (''headers'', IVec assets_HeaderField), (''certificate_version'', IOpt INat16)]"

definition assets_StreamingCallbackToken :: idl where
  "assets_StreamingCallbackToken = IRecord [(''key'', assets_Key),
     (''sha256'', IOpt (IVec INat8)), (''index'', INat), (''content_encoding'', IText)]"

definition assets_StreamingCallbackHttpResponse :: idl where
  "assets_StreamingCallbackHttpResponse =
     IRecord [(''token'', IOpt assets_StreamingCallbackToken), (''body'', IVec INat8)]"

definition assets_StreamingStrategy :: idl where
  "assets_StreamingStrategy =
     IVariant [(''Callback'', IRecord [(''token'', assets_StreamingCallbackToken),
     (''callback'', IFunc [assets_StreamingCallbackToken] [IOpt assets_StreamingCallbackHttpResponse] [''query''])])]"

definition assets_HttpResponse :: idl where
  "assets_HttpResponse = IRecord [(''body'', IVec INat8), (''headers'', IVec assets_HeaderField),
     (''streaming_strategy'', IOpt assets_StreamingStrategy), (''status_code'', INat16)]"

definition assets_Time :: idl where
  "assets_Time = IInt"

definition assets_ListPermitted :: idl where
  "assets_ListPermitted = IRecord [(''permission'', assets_Permission)]"

definition assets_RevokePermission :: idl where
  "assets_RevokePermission = IRecord [(''permission'', assets_Permission),
     (''of_principal'', IPrincipal)]"

definition assets_ValidationResult :: idl where
  "assets_ValidationResult = IVariant [(''Ok'', IText), (''Err'', IText)]"

definition assets_idlFactory :: service where
  "assets_idlFactory = \<lparr> sv_refs = [],
     sv_methods =
     [(''api_version'', func [] [INat16] [''query'']),
      (''authorize'', func [IPrincipal] [] []),
      (''certified_tree'', func [IRecord []] [IRecord [(''certificate'', IVec INat8),
            (''tree'', IVec INat8)]] [''query'']),
      (''clear'', func [assets_ClearArguments] [] []),
      (''commit_batch'', func [assets_CommitBatchArguments] [] []),
      (''commit_proposed_batch'', func [assets_CommitProposedBatchArguments] [] []),
      (''compute_evidence'', func [assets_ComputeEvidenceArguments] [IOpt (IVec INat8)] []),
      (''configure'', func [assets_ConfigureArguments] [] []),
      (''create_asset'', func [assets_CreateAssetArguments] [] []),
      (''create_batch'', func [IRecord []] [IRecord [(''batch_id'', assets_BatchId)]] []),
      (''create_chunk'', func [IRecord [(''content'', IVec INat8),
            (''batch_id'', assets_BatchId)]] [IRecord [(''chunk_id'', assets_ChunkId)]] []),
      (''deauthorize'', func [IPrincipal] [] []),
      (''delete_asset'', func [assets_DeleteAssetArguments] [] []),
      (''delete_batch'', func [assets_DeleteBatchArguments] [] []),
      (''get'', func [IRecord [(''key'', assets_Key),
            (''accept_encodings'', IVec IText)]] [IRecord [(''content'', IVec INat8),
            (''sha256'', IOpt (IVec INat8)), (''content_type'', IText), (''content_encoding'', IText),
            (''total_length'', INat)]] [''query'']),
      (''get_asset_properties'', func [assets_Key] [IRecord [(''headers'', IOpt (IVec assets_HeaderField)),
            (''is_aliased'', IOpt IBool), (''allow_raw_access'', IOpt IBool),
            (''max_age'', IOpt INat64)]] [''query'']),
      (''get_chunk'', func [IRecord [(''key'', assets_Key), (''sha256'', IOpt (IVec INat8)),
            (''index'', INat),
            (''content_encoding'', IText)]] [IRecord [(''content'', IVec INat8)]] [''query'']),
      (''get_configuration'', func [] [assets_ConfigurationResponse] []),
      (''grant_permission'', func [assets_GrantPermission] [] []),
      (''http_request'', func [assets_HttpRequest] [assets_HttpResponse] [''query'']),
      (''http_request_streaming_callback'', func [assets_StreamingCallbackToken] [IOpt assets_StreamingCallbackHttpResponse] [''query'']),
      (''list'', func [IRecord []] [IVec (IRecord [(''key'', assets_Key),
            (''encodings'', IVec (IRecord [(''modified'', assets_Time), (''sha256'', IOpt (IVec INat8)),
            (''length'', INat), (''content_encoding'', IText)])),
            (''content_type'', IText)])] [''query'']),
      (''list_authorized'', func [] [IVec IPrincipal] [''query'']),
      (''list_permitted'', func [assets_ListPermitted] [IVec IPrincipal] [''query'']),
      (''propose_commit_batch'', func [assets_CommitBatchArguments] [] []),
      (''revoke_permission'', func [assets_RevokePermission] [] []),
      (''set_asset_content'', func [assets_SetAssetContentArguments] [] []),
      (''set_asset_properties'', func [assets_SetAssetPropertiesArguments] [] []),
      (''store'', func [IRecord [(''key'', assets_Key), (''content'', IVec INat8),
            (''sha256'', IOpt (IVec INat8)), (''content_type'', IText),
            (''content_encoding'', IText)]] [] []),
      (''take_ownership'', func [] [] []),
      (''unset_asset_content'', func [assets_UnsetAssetContentArguments] [] []),
      (''validate_commit_proposed_batch'', func [assets_CommitProposedBatchArguments] [assets_ValidationResult] []),
      (''validate_configure'', func [assets_ConfigureArguments] [assets_ValidationResult] []),
      (''validate_grant_permission'', func [assets_GrantPermission] [assets_ValidationResult] []),
      (''validate_revoke_permission'', func [assets_RevokePermission] [assets_ValidationResult] []),
      (''validate_take_ownership'', func [] [assets_ValidationResult] [])] \<rparr>"

lemmas assets_defs =
  assets_ClearArguments_def assets_BatchId_def assets_Key_def
  assets_HeaderField_def assets_SetAssetPropertiesArguments_def assets_CreateAssetArguments_def
  assets_UnsetAssetContentArguments_def assets_DeleteAssetArguments_def assets_ChunkId_def
  assets_SetAssetContentArguments_def assets_BatchOperationKind_def assets_CommitBatchArguments_def
  assets_CommitProposedBatchArguments_def assets_ComputeEvidenceArguments_def assets_ConfigureArguments_def
  assets_DeleteBatchArguments_def assets_ConfigurationResponse_def assets_Permission_def
  assets_GrantPermission_def assets_HttpRequest_def assets_StreamingCallbackToken_def
  assets_StreamingCallbackHttpResponse_def assets_StreamingStrategy_def assets_HttpResponse_def
  assets_Time_def assets_ListPermitted_def assets_RevokePermission_def
  assets_ValidationResult_def assets_idlFactory_def

end
