(* ===== verification/Ledgers.thy ===== *)
theory Ledgers
  imports LedgerIdl StandardIdl
begin

text \<open>
  The ledgers described by the interfaces compared. The canister of ICP is described three times,
  by the front end and twice by the wallet adapter, and every token and the cycles ledger keep the
  standards ICRC-1 and ICRC-2. The lemmas show on which methods the descriptions agree.
\<close>

definition icrc_methods :: "string list" where
  "icrc_methods = [''icrc1_balance_of'', ''icrc1_decimals'', ''icrc1_fee'', ''icrc1_metadata'',
     ''icrc1_minting_account'', ''icrc1_name'', ''icrc1_supported_standards'', ''icrc1_symbol'',
     ''icrc1_total_supply'', ''icrc1_transfer'', ''icrc2_allowance'', ''icrc2_approve'',
     ''icrc2_transfer_from'']"

definition icp_methods :: "string list" where
  "icp_methods = [''account_balance'', ''archives'', ''decimals'', ''name'', ''symbol'', ''transfer'', ''transfer_fee'']"

lemma icrc_same:
  "list_all (same_method cycles_idlFactory icrc2_idlFactory) icrc_methods"
  "list_all (same_method nns_idlFactory icrc2_idlFactory) icrc_methods"
  "list_all (same_method icrc2_std_idlFactory icrc2_idlFactory) icrc_methods"
  by code_simp+

lemma icp_same:
  "list_all (same_method nns_idlFactory ledger_idlFactory) icp_methods"
  "list_all (same_method icrc1_std_idlFactory ledger_idlFactory) icp_methods"
  "list_all (same_method icrc2_std_idlFactory ledger_idlFactory) icp_methods"
  by code_simp+

lemma icp_methods_all: "list_all (\<lambda>(k, f). k \<in> set icp_methods \<or> k = ''query_blocks'') (sv_methods ledger_idlFactory)"
  by code_simp

text \<open>C40. The descriptions of the ledgers agree. A call of a method of the token standards is taken by
  the cycles ledger, by the ICP ledger as the wallet adapter describes it and by the adapter's
  generic interface exactly if a token's ledger takes it, and is answered alike, so the functions
  written for tokens work on all of them; and the adapter's three descriptions of the ICP ledger
  agree with the one of the front end on every method of it but \<open>query_blocks\<close>.\<close>

theorem ledgers_agree:
  assumes "S \<in> {cycles_idlFactory, nns_idlFactory, icrc2_std_idlFactory}" "k \<in> set icrc_methods"
    and "T \<in> {nns_idlFactory, icrc1_std_idlFactory, icrc2_std_idlFactory}"
      "map_of (sv_methods ledger_idlFactory) j \<noteq> None" "j \<noteq> ''query_blocks''"
  shows "accepts S k vs = accepts icrc2_idlFactory k vs \<and> answers S k vs = answers icrc2_idlFactory k vs \<and>
    is_query S k = is_query icrc2_idlFactory k \<and>
    accepts T j vs = accepts ledger_idlFactory j vs \<and> answers T j vs = answers ledger_idlFactory j vs \<and>
    is_query T j = is_query ledger_idlFactory j"
proof -
  have "same_method S icrc2_idlFactory k" using assms(1,2) icrc_same unfolding list_all_iff by blast
  moreover obtain f where "map_of (sv_methods ledger_idlFactory) j = Some f" using assms(4) by auto
  then have "j \<in> set icp_methods"
    using icp_methods_all assms(5) by (auto simp: list_all_iff dest!: map_of_SomeD)
  then have "same_method T ledger_idlFactory j" using assms(3) icp_same unfolding list_all_iff by blast
  ultimately show ?thesis by (simp add: same_methodD)
qed

theorem ledgers_agree_witness:
  "\<forall>vs. accepts cycles_idlFactory ''icrc1_balance_of'' vs = accepts icrc2_idlFactory ''icrc1_balance_of'' vs \<and>
   answers nns_idlFactory ''transfer'' vs = answers ledger_idlFactory ''transfer'' vs"
proof -
  have "map_of (sv_methods ledger_idlFactory) ''transfer'' \<noteq> None"
    by (simp add: ledger_idlFactory_def)
  then show ?thesis
    using ledgers_agree [of cycles_idlFactory "''icrc1_balance_of''" nns_idlFactory "''transfer''"]
    by (simp add: icrc_methods_def)
qed

end
