(* ===== verification/Stores.thy ===== *)
theory Stores
  imports Candid
begin

text \<open>
  The shared state of the front end: the MobX application store (\<open>store/app.ts\<close>), the token
  store (\<open>store/token.ts\<close>), browser local storage, the price feeds of \<open>utils/common.ts\<close>, and
  the Redux slices (\<open>store/app/appSlice.ts\<close>, \<open>features/counterSlice.ts\<close>,
  \<open>features/user/userSlice.ts\<close>). An operation takes the world and returns it updated; one that
  can throw returns a result.
\<close>

section \<open>The application store\<close>

type_synonym local_storage = "string \<Rightarrow> string option"

record app_store =
  userId :: string
  connectType :: string
  accountId :: string
  verified :: bool
  userName :: string
  useImg :: string
  buyorsell :: string
  icpAccount :: jsval
  userToken :: jsval
  lockToken :: jsval
  transferAccount :: "candid_account option"
  curBtnFomoIcpInfo :: "(string \<times> jsval) list option"
  observers :: "nat list"

text \<open>The token store's \<open>tokenMap\<close> is never written; its entries are not modelled.\<close>

record token_store =
  pinTokens :: "string list"
  addTokens :: "string list"
  dollar2ICP :: jsval

text \<open>The world: both stores, local storage, and the calls made to observers.\<close>

record world =
  app :: app_store
  tokens :: token_store
  storage :: local_storage
  notified :: "(nat \<times> string) list"

definition new_app_store :: app_store where
  "new_app_store = \<lparr> userId = [], connectType = [], accountId = [], verified = False,
     userName = [], useImg = [], buyorsell = [], icpAccount = JStr [], userToken = JNull,
     lockToken = JNull, transferAccount = None, curBtnFomoIcpInfo = None, observers = [] \<rparr>"

definition new_token_store :: token_store where
  "new_token_store = \<lparr> pinTokens = [], addTokens = [], dollar2ICP = JStr ''0.1898085'' \<rparr>"

definition new_world :: world where
  "new_world = \<lparr> app = new_app_store, tokens = new_token_store, storage = (\<lambda>_. None), notified = [] \<rparr>"

definition ls_set :: "string \<Rightarrow> string \<Rightarrow> world \<Rightarrow> world" where
  "ls_set k v w = w\<lparr> storage := (storage w)(k := Some v) \<rparr>"

definition ls_remove :: "string \<Rightarrow> world \<Rightarrow> world" where
  "ls_remove k w = w\<lparr> storage := (storage w)(k := None) \<rparr>"

definition ls_clear :: "world \<Rightarrow> world" where
  "ls_clear w = w\<lparr> storage := (\<lambda>_. None) \<rparr>"

definition on_app :: "(app_store \<Rightarrow> app_store) \<Rightarrow> world \<Rightarrow> world" where
  "on_app f w = w\<lparr> app := f (app w) \<rparr>"

text \<open>An observer set keeps insertion order and has no duplicates.\<close>

definition addObserver :: "nat \<Rightarrow> world \<Rightarrow> world" where
  "addObserver ob = on_app (\<lambda>a. a\<lparr> observers := (if ob \<in> set (observers a) then observers a
                                             else observers a @ [ob]) \<rparr>)"

definition removeObserver :: "nat \<Rightarrow> world \<Rightarrow> world" where
  "removeObserver ob = on_app (\<lambda>a. a\<lparr> observers := filter (\<lambda>x. x \<noteq> ob) (observers a) \<rparr>)"

definition notifyObservers :: "world \<Rightarrow> world" where
  "notifyObservers w =
     w\<lparr> notified := notified w @ map (\<lambda>ob. (ob, userId (app w))) (observers (app w)) \<rparr>"

definition store_setVerified :: "bool \<Rightarrow> world \<Rightarrow> world" where
  "store_setVerified b = on_app (\<lambda>a. a\<lparr> verified := b \<rparr>)"

definition store_setUserId :: "string \<Rightarrow> world \<Rightarrow> world" where
  "store_setUserId uid w =
     notifyObservers (ls_set ''userId'' uid (on_app (\<lambda>a. a\<lparr> userId := uid \<rparr>) w))"

definition store_setbuyorsell :: "string \<Rightarrow> world \<Rightarrow> world" where
  "store_setbuyorsell s = on_app (\<lambda>a. a\<lparr> buyorsell := s \<rparr>)"

text \<open>\<open>AccountIdentifier.fromPrincipal\<close> is the ledger library's: \<open>acct_hex\<close> is its hex text.\<close>

definition store_setAccountId ::
  "(string \<Rightarrow> bool) \<Rightarrow> (principal \<Rightarrow> string) \<Rightarrow> string \<Rightarrow> world \<Rightarrow> world res" where
  "store_setAccountId valid acct_hex uid w =
     res_bind (from_text valid uid) (\<lambda>p. Inr (on_app (\<lambda>a. a\<lparr> accountId := acct_hex p \<rparr>) w))"

definition store_setUserName :: "string \<Rightarrow> world \<Rightarrow> world" where
  "store_setUserName n w = ls_set ''userName'' n (on_app (\<lambda>a. a\<lparr> userName := n \<rparr>) w)"

definition store_setUserImg :: "string \<Rightarrow> world \<Rightarrow> world" where
  "store_setUserImg i w = ls_set ''userImg'' i (on_app (\<lambda>a. a\<lparr> useImg := i \<rparr>) w)"

definition store_setusertoken :: "jsval \<Rightarrow> world \<Rightarrow> world" where
  "store_setusertoken n = on_app (\<lambda>a. a\<lparr> userToken := n \<rparr>)"

definition store_setlockToken :: "jsval \<Rightarrow> world \<Rightarrow> world" where
  "store_setlockToken n = on_app (\<lambda>a. a\<lparr> lockToken := n \<rparr>)"

definition store_setConnectType :: "string \<Rightarrow> world \<Rightarrow> world" where
  "store_setConnectType t = on_app (\<lambda>a. a\<lparr> connectType := t \<rparr>)"

definition store_seticpAccount :: "jsval \<Rightarrow> world \<Rightarrow> world" where
  "store_seticpAccount v = on_app (\<lambda>a. a\<lparr> icpAccount := v \<rparr>)"

text \<open>\<open>getItem\<close> of a missing key is \<open>null\<close>, which the template literal prints.\<close>

definition ls_get :: "string \<Rightarrow> world \<Rightarrow> jsval" where
  "ls_get k w = (case storage w k of None \<Rightarrow> JNull | Some s \<Rightarrow> JStr s)"

definition store_getUserImg :: "world \<Rightarrow> string" where
  "store_getUserImg w =
     ''https://image.fomowell.com/api/files/download/'' @ val_String (ls_get ''userImg'' w)"

definition store_getUserName :: "world \<Rightarrow> jsval" where
  "store_getUserName = ls_get ''userName''"

definition store_getUserId :: "world \<Rightarrow> jsval" where
  "store_getUserId = ls_get ''userId''"

text \<open>\<open>setTransferAccount\<close> stores what \<open>getSubaccount\<close> (\<open>utils/account.ts\<close>) resolves to; that
  function only logs, so it resolves to \<open>undefined\<close>.\<close>

definition getSubaccount :: "candid_account option" where
  "getSubaccount = None"

definition store_setTransferAccount :: "world \<Rightarrow> world" where
  "store_setTransferAccount = on_app (\<lambda>a. a\<lparr> transferAccount := getSubaccount \<rparr>)"

text \<open>\<open>JSON.stringify\<close> of a flat object of strings and numbers.\<close>

definition hex_digit :: "nat \<Rightarrow> char" where
  "hex_digit d = (if d < 10 then char_of (48 + d) else char_of (87 + d))"

definition json_char :: "char \<Rightarrow> string" where
  "json_char c = (let n = (of_char c :: nat) in
     if n = 34 then [char_of (92::nat), c]
     else if n = 92 then [c, c]
     else if n = 8 then [char_of (92::nat), CHR ''b'']
     else if n = 9 then [char_of (92::nat), CHR ''t'']
     else if n = 10 then [char_of (92::nat), CHR ''n'']
     else if n = 12 then [char_of (92::nat), CHR ''f'']
     else if n = 13 then [char_of (92::nat), CHR ''r'']
     else if n < 32 then char_of (92::nat) # ''u00'' @ [hex_digit (n div 16), hex_digit (n mod 16)]
     else [c])"

definition json_string :: "string \<Rightarrow> string" where
  "json_string s = CHR 0x22 # concat (map json_char s) @ [CHR 0x22]"

fun json_val :: "jsval \<Rightarrow> string" where
  "json_val (JStr s) = json_string s"
| "json_val (JNum (Fin x)) = js_toString (Fin x)"
| "json_val _ = ''null''"

fun join :: "string \<Rightarrow> string list \<Rightarrow> string" where
  "join sep [] = []"
| "join sep [x] = x"
| "join sep (x # y # r) = x @ sep @ join sep (y # r)"

definition json_object :: "(string \<times> jsval) list \<Rightarrow> string" where
  "json_object kvs = ''{'' @ join '','' (map (\<lambda>(k, v). json_string k @ '':'' @ json_val v)
     (filter (\<lambda>(k, v). v \<noteq> JUndef) kvs)) @ ''}''"

definition store_setCurBtnFomoIcpInfo :: "(string \<times> jsval) list \<Rightarrow> world \<Rightarrow> world" where
  "store_setCurBtnFomoIcpInfo p w =
     on_app (\<lambda>a. a\<lparr> curBtnFomoIcpInfo := Some p \<rparr>) (ls_set ''BtnFomoIcpInfo'' (json_object p) w)"

definition store_getCurBtnFomoIcpInfo :: "world \<Rightarrow> jsval" where
  "store_getCurBtnFomoIcpInfo = ls_get ''BtnFomoIcpInfo''"

text \<open>The exported setters check their argument.\<close>

definition setAppConnect :: "string \<Rightarrow> world \<Rightarrow> world" where
  "setAppConnect p w = (if length p > 0 then store_setUserId p w else w)"

definition setAccountId ::
  "(string \<Rightarrow> bool) \<Rightarrow> (principal \<Rightarrow> string) \<Rightarrow> string \<Rightarrow> world \<Rightarrow> world res" where
  "setAccountId valid acct_hex a w =
     (if length a > 0 then store_setAccountId valid acct_hex a w else Inr w)"

definition setAppConnectType :: "string \<Rightarrow> string \<Rightarrow> world \<Rightarrow> world" where
  "setAppConnectType p t w = (if length p > 0 then store_setConnectType t w else w)"

definition setAppDisconnect :: "world \<Rightarrow> world" where
  "setAppDisconnect w =
     store_setUserId [] (ls_remove ''principalId'' (ls_remove ''walletType'' w))"

section \<open>The token store\<close>

text \<open>\<open>[...new Set(xs)]\<close>: the first occurrences, in order.\<close>

fun uniq_acc :: "'a list \<Rightarrow> 'a list \<Rightarrow> 'a list" where
  "uniq_acc seen [] = rev seen"
| "uniq_acc seen (x # xs) = (if x \<in> set seen then uniq_acc seen xs else uniq_acc (x # seen) xs)"

definition js_uniq :: "'a list \<Rightarrow> 'a list" where
  "js_uniq xs = uniq_acc [] xs"

definition on_tokens :: "(token_store \<Rightarrow> token_store) \<Rightarrow> world \<Rightarrow> world" where
  "on_tokens f w = w\<lparr> tokens := f (tokens w) \<rparr>"

definition addPinToken :: "string \<Rightarrow> token_store \<Rightarrow> token_store" where
  "addPinToken t s =
     (if t \<in> set (pinTokens s) then s\<lparr> pinTokens := filter (\<lambda>i. i \<noteq> t) (pinTokens s) \<rparr>
      else s\<lparr> pinTokens := js_uniq (t # pinTokens s) \<rparr>)"

definition addUserToken :: "string \<Rightarrow> token_store \<Rightarrow> token_store" where
  "addUserToken t s =
     (if t \<in> set (addTokens s) then s\<lparr> addTokens := filter (\<lambda>i. i \<noteq> t) (addTokens s) \<rparr>
      else s\<lparr> addTokens := js_uniq (t # addTokens s) \<rparr>)"

definition setDollar2ICP :: "jsval \<Rightarrow> token_store \<Rightarrow> token_store" where
  "setDollar2ICP v s = s\<lparr> dollar2ICP := v \<rparr>"

section \<open>The price feeds\<close>

definition STORE_ICP_PRICE :: string where
  "STORE_ICP_PRICE = ''ICP_Price''"

text \<open>\<open>transferToNumber(1 / +p)\<close>.\<close>

definition icp_per_dollar :: "jsval \<Rightarrow> jsval" where
  "icp_per_dollar p = transferToNumber (JNum (js_div (Fin 1) (val_Number p)))"

text \<open>A message of the ticker socket; \<open>price_a\<close> is the field \<open>a\<close> of the parsed object. The
  stored price is looked up with \<open>getItem\<close>, which is never \<open>undefined\<close>.\<close>

definition ws_message :: "jsval \<Rightarrow> world \<Rightarrow> world" where
  "ws_message price_a w =
     (let w1 = (if price_a \<noteq> JUndef
                then on_tokens (setDollar2ICP (icp_per_dollar price_a)) w else w)
      in if price_a \<noteq> JUndef
         then on_tokens (setDollar2ICP (icp_per_dollar price_a))
                (ls_set STORE_ICP_PRICE (val_String (icp_per_dollar price_a)) w1)
         else if ls_get STORE_ICP_PRICE w1 \<noteq> JUndef
         then on_tokens (setDollar2ICP (JNum (val_Number (ls_get STORE_ICP_PRICE w1)))) w1
         else w1)"

text \<open>The reply of the price request: an error, or a status with the amount. Errors are
  caught and logged.\<close>

definition coinbase_icp_price :: "(nat \<times> jsval) res \<Rightarrow> world \<Rightarrow> world" where
  "coinbase_icp_price reply w = (case reply of
       Inl _ \<Rightarrow> w
     | Inr (status, amount) \<Rightarrow>
         if status = 200
         then on_tokens (setDollar2ICP (icp_per_dollar amount))
                (ls_set STORE_ICP_PRICE (val_String (icp_per_dollar amount)) w)
         else w)"

section \<open>The Redux slices\<close>

record redux_app =
  ra_userId :: string
  ra_connectType :: string
  ra_accountId :: string
  ra_verified :: bool
  ra_userName :: string
  ra_useImg :: string
  ra_transferAccount :: "candid_account option"
  ra_curBtnFomoIcpInfo :: "(string \<times> jsval) list option"

datatype app_action =
    ASetVerified bool
  | ASetUserId string
  | ASetAccountId string
  | ASetUserName string
  | ASetUserImg string
  | ASetConnectType string
  | ASetCurBtnFomoIcpInfo "(string \<times> jsval) list"
  | ASetAppDisconnect
  | ATransferFulfilled "candid_account option"

definition redux_init :: redux_app where
  "redux_init = \<lparr> ra_userId = [], ra_connectType = [], ra_accountId = [], ra_verified = False,
     ra_userName = [], ra_useImg = [], ra_transferAccount = None,
     ra_curBtnFomoIcpInfo = None \<rparr>"

text \<open>A reducer runs on a draft that is dropped when it throws; the local storage writes come
  after the assignments.\<close>

fun app_reduce :: "(string \<Rightarrow> bool) \<Rightarrow> (principal \<Rightarrow> string) \<Rightarrow> redux_app \<Rightarrow> local_storage \<Rightarrow>
    app_action \<Rightarrow> (redux_app \<times> local_storage) res" where
  "app_reduce valid acct_hex s ls (ASetVerified b) = Inr (s\<lparr> ra_verified := b \<rparr>, ls)"
| "app_reduce valid acct_hex s ls (ASetUserId i) =
     Inr (s\<lparr> ra_userId := i \<rparr>, ls(''testuserId'' := Some i))"
| "app_reduce valid acct_hex s ls (ASetAccountId t) =
     res_bind (from_text valid t) (\<lambda>p. Inr (s\<lparr> ra_accountId := acct_hex p \<rparr>, ls))"
| "app_reduce valid acct_hex s ls (ASetUserName n) =
     Inr (s\<lparr> ra_userName := n \<rparr>, ls(''userName'' := Some n))"
| "app_reduce valid acct_hex s ls (ASetUserImg i) =
     Inr (s\<lparr> ra_useImg := i \<rparr>, ls(''userImg'' := Some i))"
| "app_reduce valid acct_hex s ls (ASetConnectType t) = Inr (s\<lparr> ra_connectType := t \<rparr>, ls)"
| "app_reduce valid acct_hex s ls (ASetCurBtnFomoIcpInfo p) =
     Inr (s\<lparr> ra_curBtnFomoIcpInfo := Some p \<rparr>, ls(''BtnFomoIcpInfo'' := Some (json_object p)))"
| "app_reduce valid acct_hex s ls ASetAppDisconnect =
     Inr (s\<lparr> ra_userId := [] \<rparr>, ls(''walletType'' := None, ''principalId'' := None))"
| "app_reduce valid acct_hex s ls (ATransferFulfilled r) = Inr (s\<lparr> ra_transferAccount := r \<rparr>, ls)"

datatype counter_action = Increment jsnum | Decrement jsnum

fun counter_reduce :: "jsnum \<Rightarrow> counter_action \<Rightarrow> jsnum" where
  "counter_reduce c (Increment n) = js_add c n"
| "counter_reduce c (Decrement n) = js_sub c n"

text \<open>The slice \<open>user\<close>: its mode starts as the stored one, otherwise as the system's.\<close>

record ('t, 'u) user_slice =
  us_token :: "'t option"
  us_user :: "'u option"
  us_mode :: string

definition user_init :: "local_storage \<Rightarrow> bool \<Rightarrow> ('t, 'u) user_slice" where
  "user_init ls prefers_dark =
     \<lparr> us_token = None, us_user = None,
       us_mode = (case ls ''mode'' of
           Some m \<Rightarrow> if m \<noteq> [] then m else if prefers_dark then ''dark'' else ''light''
         | None \<Rightarrow> if prefers_dark then ''dark'' else ''light'') \<rparr>"

datatype ('t, 'u) user_action =
  SetCredentials "'t option" "'u option" | SetToken "'t option" | ChangeMode

fun user_reduce :: "('t, 'u) user_slice \<Rightarrow> local_storage \<Rightarrow> ('t, 'u) user_action \<Rightarrow>
    ('t, 'u) user_slice \<times> local_storage" where
  "user_reduce s ls (SetCredentials t u) = (s\<lparr> us_token := t, us_user := u \<rparr>, ls)"
| "user_reduce s ls (SetToken t) = (s\<lparr> us_token := t \<rparr>, ls)"
| "user_reduce s ls ChangeMode =
     (if us_mode s = ''light''
      then (s\<lparr> us_mode := ''dark'' \<rparr>, ls(''mode'' := Some ''dark''))
      else (s\<lparr> us_mode := ''light'' \<rparr>, ls(''mode'' := Some ''light'')))"

text \<open>The header of \<open>app/api/apiSlice.ts\<close>: an authorization only where there is a token.\<close>

definition prepare_headers :: "string option \<Rightarrow> (string \<Rightarrow> string option) \<Rightarrow> string \<Rightarrow> string option"
where
  "prepare_headers token h = (case token of
       Some t \<Rightarrow> if t \<noteq> [] then h(''Authorization'' := Some (''Bearer '' @ t)) else h
     | None \<Rightarrow> h)"

section \<open>Lemmas\<close>

subsection \<open>Toggled lists\<close>

text \<open>What both token lists promise: toggling an absent item adds it, toggling a present one
  removes it, and no item is listed twice.\<close>

locale toggle_list =
  fixes toggle :: "'a \<Rightarrow> 's \<Rightarrow> 's"
    and items :: "'s \<Rightarrow> 'a list"
  assumes add: "x \<notin> set (items s) \<Longrightarrow> set (items (toggle x s)) = insert x (set (items s))"
    and rem: "x \<in> set (items s) \<Longrightarrow> set (items (toggle x s)) = set (items s) - {x}"
    and keep: "distinct (items s) \<Longrightarrow> distinct (items (toggle x s))"
begin

lemma toggled_member: "y \<in> set (items (toggle x s)) \<longleftrightarrow> (y \<in> set (items s)) \<noteq> (y = x)"
  using add [of x s] rem [of x s] by (cases "x \<in> set (items s)") auto

lemma toggled_member_fold:
  "y \<in> set (items (fold toggle xs s)) \<longleftrightarrow> (y \<in> set (items s)) \<noteq> odd (count_list xs y)"
  by (induction xs arbitrary: s) (auto simp: toggled_member)

lemma toggled_distinct_fold: "distinct (items s) \<Longrightarrow> distinct (items (fold toggle xs s))"
  by (induction xs arbitrary: s) (auto simp: keep)

end

lemma uniq_acc_set: "set (uniq_acc seen xs) = set seen \<union> set xs"
  by (induction seen xs rule: uniq_acc.induct) auto

lemma uniq_acc_distinct: "distinct seen \<Longrightarrow> distinct (uniq_acc seen xs)"
  by (induction seen xs rule: uniq_acc.induct) auto

lemma js_uniq_set [simp]: "set (js_uniq xs) = set xs"
  by (simp add: js_uniq_def uniq_acc_set)

lemma js_uniq_distinct [simp, intro]: "distinct (js_uniq xs)"
  by (simp add: js_uniq_def uniq_acc_distinct)

lemma uniq_acc_id: "distinct (rev seen @ xs) \<Longrightarrow> uniq_acc seen xs = rev seen @ xs"
  by (induction seen xs rule: uniq_acc.induct) auto

lemma js_uniq_id: "distinct xs \<Longrightarrow> js_uniq xs = xs"
  by (simp add: js_uniq_def uniq_acc_id)

interpretation pins: toggle_list addPinToken pinTokens
  by unfold_locales (auto simp: addPinToken_def)

interpretation adds: toggle_list addUserToken addTokens
  by unfold_locales (auto simp: addUserToken_def)

subsection \<open>The world\<close>

lemma world_proj [simp]:
  "app (on_app f w) = f (app w)" "storage (on_app f w) = storage w"
  "tokens (on_app f w) = tokens w" "notified (on_app f w) = notified w"
  "app (ls_set k v w) = app w" "tokens (ls_set k v w) = tokens w"
  "app (ls_remove k w) = app w" "tokens (ls_remove k w) = tokens w"
  "notified (ls_set k v w) = notified w" "notified (ls_remove k w) = notified w"
  "storage (ls_set k v w) = (storage w)(k := Some v)"
  "storage (ls_remove k w) = (storage w)(k := None)"
  "tokens (on_tokens g w) = g (tokens w)" "app (on_tokens g w) = app w"
  "storage (on_tokens g w) = storage w"
  by (simp_all add: on_app_def ls_set_def ls_remove_def on_tokens_def)

lemma notifyObservers_proj [simp]:
  "app (notifyObservers w) = app w" "storage (notifyObservers w) = storage w"
  "tokens (notifyObservers w) = tokens w"
  by (simp_all add: notifyObservers_def)

lemma setUserId_effect [simp]:
  "userId (app (store_setUserId u w)) = u"
  "storage (store_setUserId u w) = (storage w)(''userId'' := Some u)"
  "notified (store_setUserId u w) = notified w @ map (\<lambda>ob. (ob, u)) (observers (app w))"
  by (simp_all add: store_setUserId_def) (simp add: notifyObservers_def)

lemma ls_get_set: "ls_get k (ls_set k v w) = JStr v"
  by (simp add: ls_get_def)

lemma disconnect_effect:
  "userId (app (setAppDisconnect w)) = []"
  "storage (setAppDisconnect w) ''principalId'' = None"
  "storage (setAppDisconnect w) ''walletType'' = None"
  by (simp_all add: setAppDisconnect_def)

lemma ws_message_no_price:
  assumes "storage w STORE_ICP_PRICE = None"
  shows "dollar2ICP (tokens (ws_message JUndef w)) = JNum (Fin 0)"
  using assms by (simp add: ws_message_def ls_get_def setDollar2ICP_def)

lemma mode_toggle:
  assumes "us_mode s \<in> {''light'', ''dark''}"
  shows "us_mode (fst (user_reduce (fst (user_reduce s ls ChangeMode)) ls' ChangeMode)) = us_mode s"
  using assms by auto

lemma other_list_kept [simp]:
  "addTokens (addPinToken t s) = addTokens s" "pinTokens (addUserToken t s) = pinTokens s"
  by (simp_all add: addPinToken_def addUserToken_def)

text \<open>What a user does to the token store: pin or unpin, add or remove.\<close>

datatype token_toggle = Pin string | Add string

fun toggle_token :: "token_toggle \<Rightarrow> token_store \<Rightarrow> token_store" where
  "toggle_token (Pin t) = addPinToken t"
| "toggle_token (Add t) = addUserToken t"

lemma toggled_lists:
  "t \<in> set (pinTokens (fold toggle_token ts s)) \<longleftrightarrow>
     (t \<in> set (pinTokens s)) \<noteq> odd (count_list ts (Pin t))"
  "t \<in> set (addTokens (fold toggle_token ts s)) \<longleftrightarrow>
     (t \<in> set (addTokens s)) \<noteq> odd (count_list ts (Add t))"
proof (induction ts arbitrary: s)
  case (Cons c ts)
  { case 1 show ?case by (cases c) (auto simp: Cons.IH(1) pins.toggled_member) }
  { case 2 show ?case by (cases c) (auto simp: Cons.IH(2) adds.toggled_member) }
qed simp_all

lemma toggled_distinct:
  assumes "distinct (pinTokens s)" "distinct (addTokens s)"
  shows "distinct (pinTokens (fold toggle_token ts s))" "distinct (addTokens (fold toggle_token ts s))"
proof -
  have "distinct (pinTokens (fold toggle_token ts s)) \<and> distinct (addTokens (fold toggle_token ts s))"
    using assms
  proof (induction ts arbitrary: s)
    case (Cons c ts)
    then show ?case by (cases c) (simp_all add: pins.keep adds.keep)
  qed simp
  then show "distinct (pinTokens (fold toggle_token ts s))"
    "distinct (addTokens (fold toggle_token ts s))" by simp_all
qed

text \<open>C16. The token lists are toggled sets. After any sequence of pins and additions, in any
  interleaving, a token is pinned exactly when it was toggled an odd number of times, added
  exactly when that list was toggled an odd number of times, and neither list repeats a token.\<close>

theorem token_lists_are_sets:
  "let s = fold toggle_token ts new_token_store in
     (t \<in> set (pinTokens s) \<longleftrightarrow> odd (count_list ts (Pin t))) \<and>
     (t \<in> set (addTokens s) \<longleftrightarrow> odd (count_list ts (Add t))) \<and>
     distinct (pinTokens s) \<and> distinct (addTokens s)"
  using toggled_lists [of t ts new_token_store] toggled_distinct [of new_token_store ts]
  by (simp add: new_token_store_def Let_def)

end
