(* ===== verification/ActorApi.thy ===== *)
theory ActorApi
  imports Stores
begin

text \<open>
  The access layer to the canisters: the environment (\<open>config/env.ts\<close>, \<open>utils/env.ts\<close>), the
  choice of the actor (\<open>utils/agent/create-actor.ts\<close>) and the functions of \<open>api/*.ts\<close>. A call
  is a value that says which actor carries it (the anonymous agent or the connected wallet),
  to which canister, and which method with which arguments; pages emit these values and
  receive the replies as arguments. The project API keeps a cache of actors, which is state.
\<close>

section \<open>The environment\<close>

type_synonym environment = "string \<Rightarrow> string option"

type_synonym canister_config = "(string \<times> (string \<times> string) list) list"

definition network_of :: "environment \<Rightarrow> string" where
  "network_of env = (case env ''DFX_NETWORK'' of None \<Rightarrow> ''local'' | Some n \<Rightarrow> n)"

definition config_of :: "environment \<Rightarrow> canister_config \<Rightarrow> canister_config \<Rightarrow> canister_config" where
  "config_of env dev prd = (if network_of env = ''local'' then dev else prd)"

definition upper_char :: "char \<Rightarrow> char" where
  "upper_char c = (if 97 \<le> (of_char c :: nat) \<and> (of_char c :: nat) \<le> 122
                   then char_of ((of_char c :: nat) - 32) else c)"

text \<open>A missing network prints as \<open>undefined\<close> in the template literal.\<close>

definition detail :: "(string \<times> string) list \<Rightarrow> string \<Rightarrow> string" where
  "detail d net = (case map_of d net of None \<Rightarrow> ''undefined'' | Some i \<Rightarrow> i)"

text \<open>The object built by \<open>reduce\<close>: a later key of the same name wins.\<close>

definition initCanisterEnv :: "environment \<Rightarrow> canister_config \<Rightarrow> canister_config \<Rightarrow>
    string \<Rightarrow> string option" where
  "initCanisterEnv env dev prd =
     foldl (\<lambda>prev (name, d).
       prev(''process.env.CANISTER_ID_'' @ map upper_char name \<mapsto>
              json_string (detail d (network_of env))))
       Map.empty (config_of env dev prd)"

definition getCanisters :: "environment \<Rightarrow> canister_config \<Rightarrow> canister_config \<Rightarrow> string option list"
where
  "getCanisters env dev prd =
     map (\<lambda>(name, d). map_of d (network_of env)) (config_of env dev prd)"

definition isProduction :: "environment \<Rightarrow> bool" where
  "isProduction env = (env ''DFX_NETWORK'' = Some ''ic'')"

definition host :: "environment \<Rightarrow> string" where
  "host env = (if isProduction env then ''https://icp-api.io'' else ''http://localhost:8000'')"

text \<open>The module-level choice of a canister id: the first variable that is set and not empty.\<close>

definition env_truthy :: "environment \<Rightarrow> string \<Rightarrow> string option" where
  "env_truthy env k = (case env k of None \<Rightarrow> None | Some s \<Rightarrow> if s \<noteq> [] then Some s else None)"

definition pick_canister :: "environment \<Rightarrow> string \<Rightarrow> string \<Rightarrow> string option" where
  "pick_canister env a b = (case env_truthy env a of Some i \<Rightarrow> Some i | None \<Rightarrow> env_truthy env b)"

definition launcher_canister :: "environment \<Rightarrow> string option" where
  "launcher_canister env =
     pick_canister env ''CANISTER_ID_FOMOWELL_LAUNCHER'' ''FOMOWELL_LAUNCHER_CANISTER_ID''"

definition router_canister :: "environment \<Rightarrow> string option" where
  "router_canister env = pick_canister env ''CANISTER_ID_ICPL_ROUTER'' ''ICPL_ROUTER_CANISTER_ID''"

definition cycles_canister :: "environment \<Rightarrow> string option" where
  "cycles_canister env =
     pick_canister env ''CANISTER_ID_CYCLES_LEDGER'' ''CYCLES_LEDGER_CANISTER_ID''"

definition icrc2_canister :: "environment \<Rightarrow> string option" where
  "icrc2_canister env =
     pick_canister env ''CANISTER_ID_ICRC2_LEDGER'' ''ICRC1_LEDGER_CANISTER_ID''"

definition tx_canister :: "environment \<Rightarrow> string option" where
  "tx_canister env =
     pick_canister env ''CANISTER_ID_ICPL_TRANSACTIONS'' ''ICPL_TRANSACTIONS_CANISTER_ID''"

definition icp_ledger :: string where
  "icp_ledger = ''ryjl3-tyaaa-aaaaa-aaaba-cai''"

section \<open>Actors and calls\<close>

text \<open>\<open>createActor\<close>: the given agent, or a new one on the host; off the main network the root
  key is fetched; both an agent and agent options draw a warning.\<close>

datatype agent = GivenAgent nat | NewAgent string

record actor_made =
  am_agent :: agent
  am_canister :: "string option"
  am_fetch_root :: bool
  am_warned :: bool

definition createActor :: "environment \<Rightarrow> string option \<Rightarrow> nat option \<Rightarrow> bool \<Rightarrow> actor_made" where
  "createActor env cid given has_agentOptions =
     \<lparr> am_agent = (case given of Some a \<Rightarrow> GivenAgent a | None \<Rightarrow> NewAgent (host env)),
       am_canister = cid,
       am_fetch_root = (env ''DFX_NETWORK'' \<noteq> Some ''ic''),
       am_warned = (given \<noteq> None \<and> has_agentOptions) \<rparr>"

datatype actor_kind = Anonymous | Wallet

datatype canister_method =
    \<comment> \<open>launcher\<close>
    Get_user principal
  | Edit_user UserEditObj
  | Create_fomo FomoProjectCreate
  | Get_fomo_by_index launcher_page
  | Get_god_of_wells
  | Get_fomo_context
  | Search_fomos SearchParam
  | Get_fomo_by_fomo_idx int
  | Get_fomo_by_fomo_pid principal
  | Set_buy_or_sell RecordSignal
  | Get_fomo_by_create_user_pid principal
  | Topup_points int
  | Ownership_transfer principal "principal option"
    \<comment> \<open>project\<close>
  | Get_comments_len
  | Get_comments_by_index launcher_page
  | Add_comment CommentsCreate
  | Get_top10_holders
  | Cycles
    \<comment> \<open>router and transactions\<close>
  | SwapTokenToToken principal principal int int "principal list" int int
  | GetPoolInfo principal principal
  | GetMidPrice principal
  | QuerySellQuote principal int
  | QuerySellBase principal int
  | QuerySwapStatusStr string
    \<comment> \<open>ledgers\<close>
  | Icrc1_metadata
  | Icrc1_symbol
  | Icrc1_decimals
  | Icrc1_balance_of candid_account
  | Icrc_plus_cycles
  | Icrc1_transfer TransferArg
  | Icrc1_fee
  | Icrc2_approve ApproveArgs
  | Ledger_transfer ledger_TransferArgs
  | Ledger_transfer_fee
  | Ledger_decimals
  | Ledger_account_balance string
  | Cycles_deposit DepositArgs
  | Cycles_withdraw WithdrawArgs
  | Cycles_withdraw_from WithdrawFromArgs

record api_call =
  via :: actor_kind
  target :: "string option"
  call_method :: canister_method

definition query_of :: "string option \<Rightarrow> canister_method \<Rightarrow> api_call" where
  "query_of cid m = \<lparr> via = Anonymous, target = cid, call_method = m \<rparr>"

definition update_of :: "string option \<Rightarrow> canister_method \<Rightarrow> api_call" where
  "update_of cid m = \<lparr> via = Wallet, target = cid, call_method = m \<rparr>"

subsection \<open>Launcher\<close>

definition getBaseUserInfo :: "(string \<Rightarrow> bool) \<Rightarrow> environment \<Rightarrow> string \<Rightarrow> api_call res" where
  "getBaseUserInfo valid env uid =
     res_bind (from_text valid uid) (\<lambda>p. Inr (query_of (launcher_canister env) (Get_user p)))"

definition getFomoUserInfo :: "environment \<Rightarrow> principal \<Rightarrow> api_call" where
  "getFomoUserInfo env p = query_of (launcher_canister env) (Get_user p)"

definition setUserInfo :: "environment \<Rightarrow> string \<Rightarrow> UserEditObj \<Rightarrow> api_call" where
  "setUserInfo env uid info = update_of (launcher_canister env) (Edit_user info)"

definition createFomo :: "environment \<Rightarrow> string \<Rightarrow> FomoProjectCreate \<Rightarrow> api_call" where
  "createFomo env uid info = update_of (launcher_canister env) (Create_fomo info)"

definition get_fomo_by_index :: "environment \<Rightarrow> launcher_page \<Rightarrow> api_call" where
  "get_fomo_by_index env p = query_of (launcher_canister env) (Get_fomo_by_index p)"

definition get_god_of_wells :: "environment \<Rightarrow> api_call" where
  "get_god_of_wells env = query_of (launcher_canister env) Get_god_of_wells"

definition get_fomo_context :: "environment \<Rightarrow> api_call" where
  "get_fomo_context env = query_of (launcher_canister env) Get_fomo_context"

definition search_fomos :: "environment \<Rightarrow> SearchParam \<Rightarrow> api_call" where
  "search_fomos env p = query_of (launcher_canister env) (Search_fomos p)"

definition get_fomo_by_fomo_idx :: "environment \<Rightarrow> int \<Rightarrow> api_call" where
  "get_fomo_by_fomo_idx env i = query_of (launcher_canister env) (Get_fomo_by_fomo_idx i)"

definition get_fomo_by_fomo_pid :: "environment \<Rightarrow> principal \<Rightarrow> api_call" where
  "get_fomo_by_fomo_pid env p = query_of (launcher_canister env) (Get_fomo_by_fomo_pid p)"

definition set_buy_or_sell :: "environment \<Rightarrow> RecordSignal \<Rightarrow> api_call" where
  "set_buy_or_sell env r = update_of (launcher_canister env) (Set_buy_or_sell r)"

definition get_fomo_by_create_user_pid :: "environment \<Rightarrow> principal \<Rightarrow> api_call" where
  "get_fomo_by_create_user_pid env p =
     query_of (launcher_canister env) (Get_fomo_by_create_user_pid p)"

definition topup_points :: "environment \<Rightarrow> int \<Rightarrow> api_call" where
  "topup_points env n = update_of (launcher_canister env) (Topup_points n)"

definition ownership_transfer :: "environment \<Rightarrow> principal \<Rightarrow> principal option \<Rightarrow> api_call" where
  "ownership_transfer env p q = update_of (launcher_canister env) (Ownership_transfer p q)"

subsection \<open>Exchange\<close>

record swap_params =
  base_from_token :: principal
  base_to_token :: principal
  base_min_return_amount :: int
  base_from_amount :: "int option"
  pairs :: "principal list"
  directions :: int
  deadline :: int

text \<open>The deadline argument is overwritten: \<open>BigInt((now + 10 ** 14) * 10 ** 5)\<close> from the clock
  in milliseconds. An empty amount is \<open>BigInt('')\<close>, which is \<open>0\<close>.\<close>

definition swap_deadline :: "int \<Rightarrow> int res" where
  "swap_deadline now =
     bigint_of_num (js_mul (js_add (num_of_int now) (pow10 14)) (pow10 5))"

definition swapTokenToToken :: "environment \<Rightarrow> int \<Rightarrow> swap_params \<Rightarrow> api_call res" where
  "swapTokenToToken env now p =
     res_bind (swap_deadline now) (\<lambda>d.
       Inr (update_of (router_canister env)
         (SwapTokenToToken (base_from_token p) (base_to_token p)
            (case base_from_amount p of None \<Rightarrow> 0 | Some a \<Rightarrow> a) (base_min_return_amount p)
            (pairs p) (directions p) d)))"

definition getPoolInfo :: "environment \<Rightarrow> principal \<Rightarrow> principal \<Rightarrow> api_call" where
  "getPoolInfo env p q = query_of (router_canister env) (GetPoolInfo p q)"

definition getMidPrice :: "environment \<Rightarrow> principal \<Rightarrow> api_call" where
  "getMidPrice env p = query_of (router_canister env) (GetMidPrice p)"

definition querySellQuote :: "environment \<Rightarrow> principal \<Rightarrow> int \<Rightarrow> api_call" where
  "querySellQuote env p n = query_of (router_canister env) (QuerySellQuote p n)"

definition querySellBase :: "environment \<Rightarrow> principal \<Rightarrow> int \<Rightarrow> api_call" where
  "querySellBase env p n = query_of (router_canister env) (QuerySellBase p n)"

definition querySwapStatusStr :: "environment \<Rightarrow> string \<Rightarrow> api_call" where
  "querySwapStatusStr env s = query_of (tx_canister env) (QuerySwapStatusStr s)"

definition icpex_pool_cycles :: "string \<Rightarrow> api_call" where
  "icpex_pool_cycles cid = query_of (Some cid) Cycles"

subsection \<open>Ledgers\<close>

text \<open>An optional canister id, where the empty string counts as none.\<close>

definition ledger_target :: "environment \<Rightarrow> string option \<Rightarrow> string option" where
  "ledger_target env cid = (case cid of
     Some c \<Rightarrow> if c \<noteq> [] then Some c else icrc2_canister env | None \<Rightarrow> icrc2_canister env)"

definition icrc1_metadata :: "environment \<Rightarrow> string option \<Rightarrow> api_call" where
  "icrc1_metadata env cid = query_of (ledger_target env cid) Icrc1_metadata"

definition icrc1_symbol :: "environment \<Rightarrow> string option \<Rightarrow> api_call" where
  "icrc1_symbol env cid = query_of (ledger_target env cid) Icrc1_symbol"

definition icrc1_decimals :: "environment \<Rightarrow> api_call" where
  "icrc1_decimals env = query_of (icrc2_canister env) Icrc1_decimals"

definition icrc1balance :: "environment \<Rightarrow> candid_account \<Rightarrow> string option \<Rightarrow> api_call" where
  "icrc1balance env a cid = query_of (ledger_target env cid) (Icrc1_balance_of a)"

definition icrc_plus_cycles :: "string \<Rightarrow> api_call" where
  "icrc_plus_cycles cid = query_of (Some cid) Icrc_plus_cycles"

definition icrc1_transfer :: "string \<Rightarrow> TransferArg \<Rightarrow> api_call" where
  "icrc1_transfer cid a = update_of (Some cid) (Icrc1_transfer a)"

definition icrc1_fee :: "string \<Rightarrow> api_call" where
  "icrc1_fee cid = query_of (Some cid) Icrc1_fee"

definition icrc1_decimals_token :: "string \<Rightarrow> api_call" where
  "icrc1_decimals_token cid = query_of (Some cid) Icrc1_decimals"

definition ledger_transfer :: "ledger_TransferArgs \<Rightarrow> api_call" where
  "ledger_transfer a = update_of (Some icp_ledger) (Ledger_transfer a)"

definition transfer_fee :: api_call where
  "transfer_fee = query_of (Some icp_ledger) Ledger_transfer_fee"

definition decimals :: api_call where
  "decimals = query_of (Some icp_ledger) Ledger_decimals"

definition account_balance :: "string \<Rightarrow> api_call" where
  "account_balance acct = query_of (Some icp_ledger) (Ledger_account_balance acct)"

definition cycles_icrc1_balance_of :: "environment \<Rightarrow> candid_account \<Rightarrow> api_call" where
  "cycles_icrc1_balance_of env a = query_of (cycles_canister env) (Icrc1_balance_of a)"

definition cycles_deposit :: "environment \<Rightarrow> DepositArgs \<Rightarrow> api_call" where
  "cycles_deposit env a = update_of (cycles_canister env) (Cycles_deposit a)"

definition cycles_withdraw :: "environment \<Rightarrow> WithdrawArgs \<Rightarrow> api_call" where
  "cycles_withdraw env a = update_of (cycles_canister env) (Cycles_withdraw a)"

definition cycles_icrc1_fee :: "environment \<Rightarrow> api_call" where
  "cycles_icrc1_fee env = query_of (cycles_canister env) Icrc1_fee"

definition cycles_withdraw_from :: "environment \<Rightarrow> WithdrawFromArgs \<Rightarrow> api_call" where
  "cycles_withdraw_from env a = update_of (cycles_canister env) (Cycles_withdraw_from a)"

subsection \<open>Project canisters and the cache of their actors\<close>

type_synonym actor_cache = "string \<Rightarrow> actor_kind option"

text \<open>The read functions use the cached actor, or cache an anonymous one.\<close>

definition cached_actor :: "string \<Rightarrow> actor_cache \<Rightarrow> actor_kind \<times> actor_cache" where
  "cached_actor cid c = (case c cid of
     Some k \<Rightarrow> (k, c) | None \<Rightarrow> (Anonymous, c(cid \<mapsto> Anonymous)))"

definition project_read :: "canister_method \<Rightarrow> string \<Rightarrow> actor_cache \<Rightarrow> api_call \<times> actor_cache" where
  "project_read m cid c = (let (k, c') = cached_actor cid c
     in (\<lparr> via = k, target = Some cid, call_method = m \<rparr>, c'))"

definition get_comments_len :: "string \<Rightarrow> actor_cache \<Rightarrow> api_call \<times> actor_cache" where
  "get_comments_len = project_read Get_comments_len"

definition get_comments_by_index ::
  "string \<Rightarrow> launcher_page \<Rightarrow> actor_cache \<Rightarrow> api_call \<times> actor_cache" where
  "get_comments_by_index cid p = project_read (Get_comments_by_index p) cid"

definition get_top10_holders :: "string \<Rightarrow> actor_cache \<Rightarrow> api_call \<times> actor_cache" where
  "get_top10_holders = project_read Get_top10_holders"

definition add_comment ::
  "string \<Rightarrow> CommentsCreate \<Rightarrow> actor_cache \<Rightarrow> api_call \<times> actor_cache" where
  "add_comment cid a c =
     (update_of (Some cid) (Add_comment a), c(cid \<mapsto> Wallet))"

definition project_cycles :: "string \<Rightarrow> api_call" where
  "project_cycles cid = query_of (Some cid) Cycles"

section \<open>Lemmas\<close>

text \<open>The methods that change a canister's state or move funds.\<close>

fun is_update :: "canister_method \<Rightarrow> bool" where
  "is_update (Edit_user _) = True"
| "is_update (Create_fomo _) = True"
| "is_update (Set_buy_or_sell _) = True"
| "is_update (Topup_points _) = True"
| "is_update (Ownership_transfer _ _) = True"
| "is_update (Add_comment _) = True"
| "is_update (SwapTokenToToken _ _ _ _ _ _ _) = True"
| "is_update (Icrc1_transfer _) = True"
| "is_update (Icrc2_approve _) = True"
| "is_update (Ledger_transfer _) = True"
| "is_update (Cycles_deposit _) = True"
| "is_update (Cycles_withdraw _) = True"
| "is_update (Cycles_withdraw_from _) = True"
| "is_update _ = False"

lemma query_of_sel [simp]:
  "via (query_of c m) = Anonymous" "target (query_of c m) = c" "call_method (query_of c m) = m"
  by (simp_all add: query_of_def)

lemma update_of_sel [simp]:
  "via (update_of c m) = Wallet" "target (update_of c m) = c" "call_method (update_of c m) = m"
  by (simp_all add: update_of_def)

lemma pick_canister_nonempty: "pick_canister env a b = Some i \<Longrightarrow> i \<noteq> []"
  by (auto simp: pick_canister_def env_truthy_def split: option.splits if_splits)

lemma cached_actor_stable: "c cid = Some k \<Longrightarrow> cached_actor cid c = (k, c)"
  by (simp add: cached_actor_def)

lemma cached_actor_cached: "snd (cached_actor cid c) cid = Some (fst (cached_actor cid c))"
  by (auto simp: cached_actor_def split: option.splits)

lemma cached_actor_other: "cid' \<noteq> cid \<Longrightarrow> snd (cached_actor cid c) cid' = c cid'"
  by (auto simp: cached_actor_def split: option.splits)

lemma add_comment_then_read:
  "via (fst (project_read m cid (snd (add_comment cid a c)))) = Wallet"
  by (simp add: project_read_def add_comment_def cached_actor_def)

lemma pow10_small [simp]: "pow10 14 = Fin 100000000000000" "pow10 5 = Fin 100000"
  using pow10_exact [of 14] pow10_exact [of 5] by simp_all

lemma deadline_bounds_exact: "representable (10 ^ 19)" "representable (18 * 10 ^ 18)"
  using representable_dyadic [of "5 ^ 19" 19] representable_dyadic [of "9 * 5 ^ 18" 19]
  by simp_all

lemma swap_deadline_bounds:
  assumes "0 \<le> now" "now \<le> 8 * 10 ^ 12"
  shows "\<exists>d. swap_deadline now = Inr d \<and> 10 ^ 19 \<le> d \<and> d \<le> 18 * 10 ^ 18"
proof -
  have n: "num_of_int now = Fin (of_int now)" using assms by (intro num_of_int_exact) simp
  have s: "js_add (Fin (of_int now)) (Fin 100000000000000) = Fin (of_int (now + 100000000000000))"
    using fl_int [of "now + 100000000000000"] assms by simp
  let ?x = "rat_of_int (now + 100000000000000) * 100000"
  have lo: "10 ^ 19 \<le> ?x" and hi: "?x \<le> 18 * 10 ^ 18" using assms by simp_all
  obtain r where r: "fl ?x = Fin r" "10 ^ 19 \<le> r" "r \<le> 18 * 10 ^ 18"
    using fl_between [OF lo hi] deadline_bounds_exact by auto
  obtain d where d: "r = of_int d" using fl_integral [of ?x r] lo r(1) by auto
  have "rat_of_int (10 ^ 19) \<le> of_int d" "rat_of_int d \<le> of_int (18 * 10 ^ 18)"
    using r(2,3) unfolding d by simp_all
  then have "10 ^ 19 \<le> d" "d \<le> 18 * 10 ^ 18" by (simp_all only: of_int_le_iff)
  then show ?thesis using r(1) d n s by (auto simp: swap_deadline_def)
qed

text \<open>Every swap has a deadline the router can take. Whatever deadline the order has, the one sent
  is computed from the clock: for the next two hundred years it is a time in nanoseconds after the
  year 2286 that fits the sixty-four bits of the router's interface, the rounding of the number it
  passes through included.\<close>

lemma swap_deadline_fits:
  assumes "0 \<le> now" "now \<le> 8 * 10 ^ 12"
  shows "\<exists>d. swapTokenToToken env now p = Inr (update_of (router_canister env)
      (SwapTokenToToken (base_from_token p) (base_to_token p)
        (case base_from_amount p of None \<Rightarrow> 0 | Some a \<Rightarrow> a) (base_min_return_amount p)
        (pairs p) (directions p) d)) \<and>
    now * 10 ^ 6 < d \<and> 10 ^ 19 \<le> d \<and> d < 2 ^ 64"
proof -
  obtain d where d: "swap_deadline now = Inr d" "10 ^ 19 \<le> d" "d \<le> 18 * 10 ^ 18"
    using swap_deadline_bounds [OF assms] by blast
  then show ?thesis using assms(2) by (intro exI [of _ d]) (simp add: swapTokenToToken_def)
qed

end
