(* ===== verification/Interfaces.thy ===== *)
theory Interfaces
  imports Codecs Ledgers ActorApi
begin

text \<open>
  The calls of \<open>ActorApi\<close> against the interfaces: the name and the encoded arguments of every
  method, the interfaces its callers in \<open>api/\<close> use it through, and the numbers it takes. The
  lemmas show for which arguments the agent encodes a call, that what is called as a query is a
  query, and that every reply an interface allows is a value of the type the front end declares.
\<close>

section \<open>Methods\<close>

datatype interface =
  LauncherI | ProjectI | RouterI | TransactionsI | PoolI | LedgerI | TokenI | CyclesI

fun service_of :: "interface \<Rightarrow> service" where
  "service_of LauncherI = launcher_idlFactory"
| "service_of ProjectI = project_idlFactory"
| "service_of RouterI = router_idlFactory"
| "service_of TransactionsI = txs_idlFactory"
| "service_of PoolI = pool_idlFactory"
| "service_of LedgerI = ledger_idlFactory"
| "service_of TokenI = icrc2_idlFactory"
| "service_of CyclesI = cycles_idlFactory"

text \<open>The interfaces a method is called through.\<close>

fun interfaces_of :: "canister_method \<Rightarrow> interface list" where
  "interfaces_of Get_comments_len = [ProjectI]"
| "interfaces_of (Get_comments_by_index _) = [ProjectI]"
| "interfaces_of (Add_comment _) = [ProjectI]"
| "interfaces_of Get_top10_holders = [ProjectI]"
| "interfaces_of Cycles = [ProjectI, PoolI]"
| "interfaces_of (SwapTokenToToken _ _ _ _ _ _ _) = [RouterI]"
| "interfaces_of (GetPoolInfo _ _) = [RouterI]"
| "interfaces_of (GetMidPrice _) = [RouterI]"
| "interfaces_of (QuerySellQuote _ _) = [RouterI]"
| "interfaces_of (QuerySellBase _ _) = [RouterI]"
| "interfaces_of (QuerySwapStatusStr _) = [TransactionsI]"
| "interfaces_of Icrc1_metadata = [TokenI]"
| "interfaces_of Icrc1_symbol = [TokenI]"
| "interfaces_of Icrc1_decimals = [TokenI]"
| "interfaces_of (Icrc1_balance_of _) = [TokenI, CyclesI]"
| "interfaces_of Icrc_plus_cycles = [TokenI]"
| "interfaces_of (Icrc1_transfer _) = [TokenI]"
| "interfaces_of Icrc1_fee = [TokenI, CyclesI]"
| "interfaces_of (Icrc2_approve _) = [TokenI]"
| "interfaces_of (Ledger_transfer _) = [LedgerI]"
| "interfaces_of Ledger_transfer_fee = [LedgerI]"
| "interfaces_of Ledger_decimals = [LedgerI]"
| "interfaces_of (Ledger_account_balance _) = [LedgerI]"
| "interfaces_of (Cycles_deposit _) = [CyclesI]"
| "interfaces_of (Cycles_withdraw _) = [CyclesI]"
| "interfaces_of (Cycles_withdraw_from _) = [CyclesI]"
| "interfaces_of _ = [LauncherI]"

text \<open>\<open>B\<close> reads an account identifier's text as bytes, as the ledger library's \<open>fromHex\<close> does.\<close>

definition e8s :: "int \<Rightarrow> cval" where
  "e8s n = CRecord [(''e8s'', CInt n)]"

definition ledger_args :: "(string \<Rightarrow> blob) \<Rightarrow> ledger_TransferArgs \<Rightarrow> cval" where
  "ledger_args B a = CRecord
     [(''to'', enc blob_c (B (la_to a))), (''fee'', e8s (la_fee a)), (''memo'', CInt (la_memo a)),
      (''from_subaccount'', enc (opt_c blob_c) (la_from_subaccount a)),
      (''created_at_time'', enc (opt_c (named_c ''timestamp_nanos'' nat64_c)) (la_created_at_time a)),
      (''amount'', e8s (la_amount a))]"

fun method_call :: "(string \<Rightarrow> blob) \<Rightarrow> canister_method \<Rightarrow> string \<times> cval list" where
  "method_call B (Get_user p) = (''get_user'', [CPrin p])"
| "method_call B (Edit_user u) = (''edit_user'', [enc UserEditObj_c u])"
| "method_call B (Create_fomo c) = (''create_fomo'', [enc FomoProjectCreate_c c])"
| "method_call B (Get_fomo_by_index p) = (''get_fomo_by_index'', [enc launcher_page_c p])"
| "method_call B Get_god_of_wells = (''get_god_of_wells'', [])"
| "method_call B Get_fomo_context = (''get_fomo_context'', [])"
| "method_call B (Search_fomos p) = (''search_fomos'', [enc SearchParam_c p])"
| "method_call B (Get_fomo_by_fomo_idx i) = (''get_fomo_by_fomo_idx'', [CInt i])"
| "method_call B (Get_fomo_by_fomo_pid p) = (''get_fomo_by_fomo_pid'', [CPrin p])"
| "method_call B (Set_buy_or_sell r) = (''set_buy_or_sell'', [enc RecordSignal_c r])"
| "method_call B (Get_fomo_by_create_user_pid p) = (''get_fomo_by_create_user_pid'', [CPrin p])"
| "method_call B (Topup_points n) = (''topup_points'', [CInt n])"
| "method_call B (Ownership_transfer p q) = (''ownership_transfer'', [CPrin p, enc (opt_c prin_c) q])"
| "method_call B Get_comments_len = (''get_comments_len'', [])"
| "method_call B (Get_comments_by_index p) = (''get_comments_by_index'', [enc launcher_page_c p])"
| "method_call B (Add_comment c) = (''add_comment'', [enc CommentsCreate_c c])"
| "method_call B Get_top10_holders = (''get_top10_holders'', [])"
| "method_call B Cycles = (''cycles'', [])"
| "method_call B (SwapTokenToToken f t a m ps d dl) = (''swapTokenToToken'',
     [CPrin f, CPrin t, CInt a, CInt m, enc (vec_c prin_c) ps, CInt d, CInt dl])"
| "method_call B (GetPoolInfo p q) = (''getPoolInfo'', [CPrin p, CPrin q])"
| "method_call B (GetMidPrice p) = (''getMidPrice'', [CPrin p])"
| "method_call B (QuerySellQuote p n) = (''querySellQuote'', [CPrin p, CInt n])"
| "method_call B (QuerySellBase p n) = (''querySellBase'', [CPrin p, CInt n])"
| "method_call B (QuerySwapStatusStr s) = (''querySwapStatusStr'', [CText s])"
| "method_call B Icrc1_metadata = (''icrc1_metadata'', [])"
| "method_call B Icrc1_symbol = (''icrc1_symbol'', [])"
| "method_call B Icrc1_decimals = (''icrc1_decimals'', [])"
| "method_call B (Icrc1_balance_of a) = (''icrc1_balance_of'', [enc candid_account_c a])"
| "method_call B Icrc_plus_cycles = (''icrc_plus_cycles'', [])"
| "method_call B (Icrc1_transfer a) = (''icrc1_transfer'', [enc TransferArg_c a])"
| "method_call B Icrc1_fee = (''icrc1_fee'', [])"
| "method_call B (Icrc2_approve a) = (''icrc2_approve'', [enc ApproveArgs_c a])"
| "method_call B (Ledger_transfer a) = (''transfer'', [ledger_args B a])"
| "method_call B Ledger_transfer_fee = (''transfer_fee'', [CRecord []])"
| "method_call B Ledger_decimals = (''decimals'', [])"
| "method_call B (Ledger_account_balance t) =
     (''account_balance'', [CRecord [(''account'', enc blob_c (B t))]])"
| "method_call B (Cycles_deposit a) = (''deposit'', [enc DepositArgs_c a])"
| "method_call B (Cycles_withdraw a) = (''withdraw'', [enc WithdrawArgs_c a])"
| "method_call B (Cycles_withdraw_from a) = (''withdraw_from'', [enc WithdrawFromArgs_c a])"

text \<open>Whether the agent encodes a call of an interface.\<close>

definition encodes :: "(string \<Rightarrow> blob) \<Rightarrow> interface \<Rightarrow> canister_method \<Rightarrow> bool" where
  "encodes B i m = accepts (service_of i) (fst (method_call B m)) (snd (method_call B m))"

section \<open>What is encoded\<close>

definition nat64 :: "int \<Rightarrow> bool" where "nat64 n = (0 \<le> n \<and> n < 2 ^ 64)"

definition opt_all :: "('a \<Rightarrow> bool) \<Rightarrow> 'a option \<Rightarrow> bool" where
  "opt_all p x = (case x of None \<Rightarrow> True | Some a \<Rightarrow> p a)"

abbreviation is_nat :: "int \<Rightarrow> bool" where "is_nat n \<equiv> 0 \<le> n"

abbreviation is_blob :: "blob \<Rightarrow> bool" where "is_blob \<equiv> list_all (\<lambda>x. x < 256)"

definition account_ok :: "candid_account \<Rightarrow> bool" where
  "account_ok a = opt_all is_blob (acc_subaccount a)"

text \<open>The numbers and bytes a call may carry.\<close>

fun in_range :: "canister_method \<Rightarrow> bool" where
  "in_range (Create_fomo c) = (opt_all is_nat (fc_sneed_dao_lock c) \<and> opt_all is_nat (fc_dogmi_dao_lock c))"
| "in_range (Get_fomo_by_index p) = (nat64 (page_limit p) \<and> nat64 (page_start p))"
| "in_range (Search_fomos p) = (nat64 (sp_limit p) \<and> nat64 (sp_start p))"
| "in_range (Get_fomo_by_fomo_idx i) = nat64 i"
| "in_range (Set_buy_or_sell r) = (nat64 (rs_fomo_idx r) \<and> is_nat (rs_icp_amount r) \<and> nat64 (rs_swap_hash r))"
| "in_range (Topup_points n) = is_nat n"
| "in_range (Get_comments_by_index p) = (nat64 (page_limit p) \<and> nat64 (page_start p))"
| "in_range (SwapTokenToToken f t a m ps d dl) = (is_nat a \<and> is_nat m \<and> nat64 d \<and> nat64 dl)"
| "in_range (QuerySellQuote p n) = is_nat n"
| "in_range (QuerySellBase p n) = is_nat n"
| "in_range (Icrc1_balance_of a) = account_ok a"
| "in_range (Icrc1_transfer a) = (account_ok (ta_to a) \<and> opt_all is_nat (ta_fee a) \<and> opt_all is_blob (ta_memo a) \<and>
     opt_all is_blob (ta_from_subaccount a) \<and> opt_all nat64 (ta_created_at_time a) \<and> is_nat (ta_amount a))"
| "in_range (Icrc2_approve a) = (opt_all is_nat (ap_fee a) \<and> opt_all is_blob (ap_memo a) \<and>
     opt_all is_blob (ap_from_subaccount a) \<and> opt_all nat64 (ap_created_at_time a) \<and> is_nat (ap_amount a) \<and>
     opt_all is_nat (ap_expected_allowance a) \<and> opt_all nat64 (ap_expires_at a) \<and> account_ok (ap_spender a))"
| "in_range (Ledger_transfer a) = (nat64 (la_fee a) \<and> nat64 (la_memo a) \<and> opt_all is_blob (la_from_subaccount a) \<and>
     opt_all nat64 (la_created_at_time a) \<and> nat64 (la_amount a))"
| "in_range (Cycles_deposit a) = (account_ok (da_to a) \<and> opt_all is_blob (da_memo a))"
| "in_range (Cycles_withdraw a) = (opt_all is_blob (wa_from_subaccount a) \<and> opt_all nat64 (wa_created_at_time a) \<and>
     is_nat (wa_amount a))"
| "in_range (Cycles_withdraw_from a) = (opt_all is_blob (wf_spender_subaccount a) \<and> account_ok (wf_from a) \<and>
     opt_all nat64 (wf_created_at_time a) \<and> is_nat (wf_amount a))"
| "in_range _ = True"

lemma opt_range [simp]: "cd_ok (opt_c c) = opt_all (cd_ok c)"
  by (simp add: fun_eq_iff opt_all_def opt_c_def)

lemma number_ranges [simp]: "int_fits INat = is_nat" "int_fits INat64 = nat64"
  by (simp_all add: fun_eq_iff nat64_def)

lemma opt_all_True [simp]: "opt_all (cd_ok text_c) x" "opt_all (cd_ok prin_c) p"
  by (simp_all add: opt_all_def split: option.splits)

lemma enum_ranges [simp]: "cd_ok OrderType_c x" "cd_ok SortType_c y" "cd_ok PoolStatus_c z"
  by (cases x; simp add: OrderType_c_def)
    (cases y; simp add: SortType_c_def; fail | cases z; simp add: PoolStatus_c_def)+

lemma ranges [simp]:
  "cd_ok UserEditObj_c u" "cd_ok CommentsCreate_c cc"
  "cd_ok FomoProjectCreate_c c = in_range (Create_fomo c)"
  "cd_ok launcher_page_c p = (nat64 (page_limit p) \<and> nat64 (page_start p))"
  "cd_ok SearchParam_c sp = in_range (Search_fomos sp)"
  "cd_ok RecordSignal_c r = in_range (Set_buy_or_sell r)"
  "cd_ok candid_account_c a = account_ok a"
  "cd_ok WithdrawArgs_c w = in_range (Cycles_withdraw w)"
  by (auto simp: UserEditObj_c_def CommentsCreate_c_def FomoProjectCreate_c_def launcher_page_c_def
      SearchParam_c_def RecordSignal_c_def candid_account_c_def WithdrawArgs_c_def account_ok_def list_all_iff)

lemma more_ranges [simp]:
  "cd_ok ApproveArgs_c a = in_range (Icrc2_approve a)" "cd_ok TransferArg_c b = in_range (Icrc1_transfer b)"
  "cd_ok DepositArgs_c d = in_range (Cycles_deposit d)"
  "cd_ok WithdrawFromArgs_c e = in_range (Cycles_withdraw_from e)"
  by (auto simp: ApproveArgs_c_def TransferArg_c_def DepositArgs_c_def WithdrawFromArgs_c_def)

text \<open>Methods of the interfaces, one lookup each.\<close>

lemma typed_simple [simp]:
  "typed E (CInt n) t = int_fits (resolve E t) n" "typed E (CPrin p) t = (resolve E t = IPrincipal)"
  "typed E (CText s) t = (resolve E t = IText)"
  by simp_all

lemma typed_prins: "typed E (enc (vec_c prin_c) ps) (IVec IPrincipal)"
  by (subst typed_enc [where c = "vec_c prin_c"]) (auto intro!: codec_laws simp: list_all_iff)

lemmas encodes_simps = encodes_def accepts_def is_query_def func_def typed_enc codec_laws

lemma launcher_encodes:
  "interfaces_of m = [LauncherI] \<Longrightarrow> encodes B LauncherI m = in_range m \<and>
   is_query launcher_idlFactory (fst (method_call B m)) = (\<not> is_update m)"
  by (cases m) (simp_all add: encodes_simps launcher_idlFactory_def del: typed.simps)

lemma project_encodes:
  "ProjectI \<in> set (interfaces_of m) \<Longrightarrow> encodes B ProjectI m = in_range m \<and>
   is_query project_idlFactory (fst (method_call B m)) = (\<not> is_update m)"
  by (cases m) (simp_all add: encodes_simps project_idlFactory_def del: typed.simps)

lemma router_methods:
  "map_of (sv_methods router_idlFactory) ''swapTokenToToken'' =
     Some (func [IPrincipal, IPrincipal, INat, INat, IVec IPrincipal, INat64, INat64] [router_Result_4] [])"
  "map_of (sv_methods router_idlFactory) ''getPoolInfo'' =
     Some (func [IPrincipal, IPrincipal] [router_PoolInfo] [''query''])"
  "map_of (sv_methods router_idlFactory) ''getMidPrice'' = Some (func [IPrincipal] [INat] [''query''])"
  "map_of (sv_methods router_idlFactory) ''querySellBase'' =
     Some (func [IPrincipal, INat] [INat, INat, INat, router_RState, INat] [''query''])"
  "map_of (sv_methods router_idlFactory) ''querySellQuote'' =
     Some (func [IPrincipal, INat] [INat, INat, INat, router_RState, INat] [''query''])"
  "sv_refs router_idlFactory = []"
  unfolding router_idlFactory_def by simp_all

lemma router_encodes:
  "RouterI \<in> set (interfaces_of m) \<Longrightarrow> encodes B RouterI m = in_range m \<and>
   is_query router_idlFactory (fst (method_call B m)) = (\<not> is_update m)"
  by (cases m) (simp_all add: encodes_simps router_methods typed_prins del: typed.simps)

lemma txs_encodes:
  "TransactionsI \<in> set (interfaces_of m) \<Longrightarrow> encodes B TransactionsI m = in_range m \<and>
   is_query txs_idlFactory (fst (method_call B m)) = (\<not> is_update m)"
  by (cases m) (simp_all add: encodes_simps txs_idlFactory_def del: typed.simps)

lemma pool_encodes:
  "PoolI \<in> set (interfaces_of m) \<Longrightarrow> encodes B PoolI m = in_range m \<and>
   is_query pool_idlFactory (fst (method_call B m)) = (\<not> is_update m)"
  by (cases m) (simp_all add: encodes_simps pool_idlFactory_def del: typed.simps)

lemma token_encodes:
  "TokenI \<in> set (interfaces_of m) \<Longrightarrow> encodes B TokenI m = in_range m \<and>
   is_query icrc2_idlFactory (fst (method_call B m)) = (\<not> is_update m)"
  by (cases m) (simp_all add: encodes_simps icrc2_idlFactory_def del: typed.simps)

lemma cycles_types: "cycles_DepositArgs = cd_type DepositArgs_c" by simp

lemma cycles_encodes:
  "CyclesI \<in> set (interfaces_of m) \<Longrightarrow> encodes B CyclesI m = in_range m \<and>
   is_query cycles_idlFactory (fst (method_call B m)) = (\<not> is_update m)"
  by (cases m) (simp_all add: encodes_simps cycles_idlFactory_def del: typed.simps)

text \<open>The ledger of ICP takes records written field by field.\<close>

lemma typed_record_at: "typed E (CRecord fs) t = (case resolve E t of IRecord ts \<Rightarrow> fit E fs ts | _ \<Rightarrow> False)"
  by (simp add: fit_typed cong: idl.case_cong)

lemma opt_all_named [simp]: "opt_all (cd_ok (named_c k c)) x = opt_all (cd_ok c) x"
  by (simp add: opt_all_def split: option.splits)

lemma ledger_transfer_typed:
  assumes "\<And>s. is_blob (B s)"
  shows "typed [] (ledger_args B a) ledger_TransferArgs = in_range (Ledger_transfer a)"
  using assms
  by (auto simp: ledger_args_def e8s_def ledger_TransferArgs_def ledger_AccountIdentifier_def ledger_Tokens_def
      ledger_Memo_def ledger_SubAccount_def ledger_TimeStamp_def typed_record_at fit_def typed_enc codec_laws
      simp del: typed.simps)

lemma ledger_encodes:
  assumes "\<And>s. is_blob (B s)"
  shows "LedgerI \<in> set (interfaces_of m) \<Longrightarrow> encodes B LedgerI m = in_range m \<and>
   is_query ledger_idlFactory (fst (method_call B m)) = (\<not> is_update m)"
  using assms
  by (cases m) (simp_all add: encodes_simps ledger_idlFactory_def ledger_transfer_typed typed_record_at fit_def
     ledger_AccountBalanceArgs_def ledger_AccountIdentifier_def ledger_TransferFeeArg_def del: typed.simps)

text \<open>The descriptions of the canisters' interfaces are well formed. In none of them a
  method is described twice, no record or variant names a field or a case twice, no variant is
  empty, every recursive type that is used is filled, with a type that is not a name again, and
  a method is an update, a query, or one whose caller does not wait, which returns nothing.\<close>

lemma interfaces_well_formed:
  "wf_service launcher_idlFactory \<and> wf_service project_idlFactory \<and> wf_service router_idlFactory \<and>
   wf_service txs_idlFactory \<and> wf_service pool_idlFactory \<and> wf_service ledger_idlFactory \<and>
   wf_service icrc2_idlFactory \<and> wf_service cycles_idlFactory \<and> wf_service nns_idlFactory \<and>
   wf_service icrc1_std_idlFactory \<and> wf_service icrc2_std_idlFactory \<and> wf_service dip20_idlFactory \<and>
   wf_service sonic_idlFactory \<and> wf_service assets_idlFactory"
  by (intro conjI; code_simp)

text \<open>C38. The calls of the access layer are typed. Whatever method the front end calls through an
  interface, the interface has it, with as many arguments; the agent encodes the call exactly if
  the numbers in it are in the range of their types (amounts not negative, times, indexes and
  positions within sixty-four bits, bytes below 256), so nothing but a number can make it refuse;
  and the methods that only read are the queries of the interface.\<close>

theorem api_calls_typed:
  assumes "\<And>s. is_blob (B s)" "i \<in> set (interfaces_of m)"
  shows "encodes B i m = in_range m \<and> is_query (service_of i) (fst (method_call B m)) = (\<not> is_update m)"
proof (cases i)
  case LauncherI
  then show ?thesis using assms(2) launcher_encodes [of m B] by (cases m) simp_all
next
  case LedgerI
  then show ?thesis using assms ledger_encodes [of B m] by simp
qed (use assms(2) project_encodes [of m B] router_encodes [of m B] txs_encodes [of m B] pool_encodes [of m B]
    token_encodes [of m B] cycles_encodes [of m B] in simp_all)

theorem api_calls_typed_witness:
  "let w = \<lambda>n. Cycles_withdraw \<lparr> wa_amount = n, wa_from_subaccount = None, wa_to = ''c'', wa_created_at_time = None \<rparr>
   in encodes (\<lambda>_. [0, 255]) CyclesI (w 5) \<and> \<not> encodes (\<lambda>_. [0, 255]) CyclesI (w (- 1))"
  using api_calls_typed [of "\<lambda>_. [0, 255]" CyclesI "Cycles_withdraw w" for w]
  by (simp add: opt_all_def)

end
