(* ===== verification/Replies.thy ===== *)
theory Replies
  imports Interfaces
begin

text \<open>
  What the canisters answer. For every method of \<open>ActorApi\<close> whose reply a page reads, the type
  declared for the reply, as codecs of its values. The lemmas show that the values of the declared
  type and the replies the interface allows are the same, and that a reply is read back as what
  was sent. The errors of an approve and of a withdrawal, which no page looks into, are left out.
\<close>

section \<open>Replies\<close>

text \<open>The values a method returns, one after the other.\<close>

record 'a replies =
  rp_types :: "idl list"
  rp_ok :: "'a \<Rightarrow> bool"
  rp_enc :: "'a \<Rightarrow> cval list"
  rp_dec :: "cval list \<Rightarrow> 'a option"

definition nothing :: "unit replies" where
  "nothing = \<lparr> rp_types = [], rp_ok = (\<lambda>_. True), rp_enc = (\<lambda>_. []),
     rp_dec = (\<lambda>vs. if vs = [] then Some () else None) \<rparr>"

definition one :: "'a codec \<Rightarrow> 'a replies" where
  "one c = \<lparr> rp_types = [cd_type c], rp_ok = cd_ok c, rp_enc = (\<lambda>a. [enc c a]),
     rp_dec = (\<lambda>vs. case vs of [v] \<Rightarrow> dec c v | _ \<Rightarrow> None) \<rparr>"

definition and_then :: "'a codec \<Rightarrow> 'b replies \<Rightarrow> ('a \<times> 'b) replies" where
  "and_then c r = \<lparr> rp_types = cd_type c # rp_types r, rp_ok = (\<lambda>(a, b). cd_ok c a \<and> rp_ok r b),
     rp_enc = (\<lambda>(a, b). enc c a # rp_enc r b),
     rp_dec = (\<lambda>vs. case vs of v # us \<Rightarrow>
       (case (dec c v, rp_dec r us) of (Some a, Some b) \<Rightarrow> Some (a, b) | _ \<Rightarrow> None) | _ \<Rightarrow> None) \<rparr>"

definition lawful_replies :: "(string \<times> idl) list \<Rightarrow> 'a replies \<Rightarrow> bool" where
  "lawful_replies E r = (
     (\<forall>a. list_all2 (typed E) (rp_enc r a) (rp_types r) = rp_ok r a) \<and>
     (\<forall>a. rp_ok r a \<longrightarrow> rp_dec r (rp_enc r a) = Some a) \<and>
     (\<forall>vs. list_all2 (typed E) vs (rp_types r) \<longrightarrow> (\<exists>a. rp_dec r vs = Some a \<and> rp_ok r a)))"

lemma nothing_lawful [codec_laws]: "lawful_replies E nothing"
  by (simp add: lawful_replies_def nothing_def)

lemma one_lawful [codec_laws]: "lawful E c \<Longrightarrow> lawful_replies E (one c)"
  by (auto simp: lawful_replies_def one_def list_all2_Cons2 lawfulD)

lemma and_then_lawful [codec_laws]: "lawful E c \<Longrightarrow> lawful_replies E r \<Longrightarrow> lawful_replies E (and_then c r)"
  by (fastforce simp: lawful_replies_def and_then_def list_all2_Cons2 lawful_def)

lemma replies_types [simp]:
  "rp_types nothing = []" "rp_types (one c) = [cd_type c]" "rp_types (and_then c r) = cd_type c # rp_types r"
  by (simp_all add: nothing_def one_def and_then_def)

text \<open>A method carries a type: its values in range are replies of the interface, are read back as they
  were, and there are no other replies.\<close>

definition carries :: "interface \<Rightarrow> canister_method \<Rightarrow> 'a replies \<Rightarrow> bool" where
  "carries i m r = (
     (\<forall>a. answers (service_of i) (fst (method_call (\<lambda>_. []) m)) (rp_enc r a) = rp_ok r a) \<and>
     (\<forall>a. rp_ok r a \<longrightarrow> rp_dec r (rp_enc r a) = Some a) \<and>
     (\<forall>vs. answers (service_of i) (fst (method_call (\<lambda>_. []) m)) vs \<longrightarrow>
        (\<exists>a. rp_dec r vs = Some a \<and> rp_ok r a)))"

lemma carriesI:
  assumes "map_option fn_rets (map_of (sv_methods (service_of i)) (fst (method_call (\<lambda>_. []) m))) =
      Some (rp_types r)" "lawful_replies (sv_refs (service_of i)) r"
  shows "carries i m r"
  using assms by (auto simp: carries_def answers_def lawful_replies_def)

abbreviation "tokens_c \<equiv> named_c ''e8s'' nat64_c"

lemma launcher_replies:
  "carries LauncherI (Get_user p) (one (opt_c UserProfile_c))"
  "carries LauncherI (Edit_user u) (one (result_c prin_c text_c))"
  "carries LauncherI (Create_fomo c) (one (result_c FomoProject_c text_c))"
  "carries LauncherI (Get_fomo_by_index g) (one FomoProjectVo_c)"
  "carries LauncherI Get_god_of_wells (one (opt_c FomoProject_c))"
  "carries LauncherI Get_fomo_context (one launcher_context_c)"
  "carries LauncherI (Search_fomos sp) (one FomoProjectSearchVo_c)"
  "carries LauncherI (Get_fomo_by_fomo_idx idx) (one (opt_c FomoProject_c))"
  "carries LauncherI (Get_fomo_by_fomo_pid p) (one (opt_c FomoProject_c))"
  "carries LauncherI (Set_buy_or_sell r) nothing"
  "carries LauncherI (Get_fomo_by_create_user_pid p) (one (opt_c (vec_c FomoProject_c)))"
  "carries LauncherI (Topup_points n) (one (result_c null_c text_c))"
  "carries LauncherI (Ownership_transfer p op) nothing"
  by ((rule carriesI; simp add: launcher_idlFactory_def func_def codec_laws
      launcher_Result_def launcher_Result_1_def launcher_Result_2_def)+)

lemma project_replies:
  "carries ProjectI Get_comments_len (one nat_c)"
  "carries ProjectI (Get_comments_by_index g) (one CommentsVo_c)"
  "carries ProjectI (Add_comment cc) (one (result_c null_c text_c))"
  "carries ProjectI Get_top10_holders (one (vec_c HolderInfo_c))"
  "carries ProjectI Cycles (one nat64_c)" "carries PoolI Cycles (one nat64_c)"
  by ((rule carriesI; simp add: project_idlFactory_def pool_idlFactory_def func_def codec_laws project_Result_def)+)

lemma router_replies:
  "carries RouterI (SwapTokenToToken f t a m ps d dl) (one (result_c nat64_c text_c))"
  "carries RouterI (GetPoolInfo p q) (one PoolInfo_c)"
  "carries RouterI (GetMidPrice p) (one nat_c)"
  "carries RouterI (QuerySellQuote p n) (and_then nat_c (and_then nat_c (and_then nat_c (and_then RState_c (one nat_c)))))"
  "carries RouterI (QuerySellBase p n) (and_then nat_c (and_then nat_c (and_then nat_c (and_then RState_c (one nat_c)))))"
  by ((rule carriesI; simp add: router_methods func_def codec_laws router_Result_4_def)+)

lemma ledger_replies:
  "carries LedgerI (Ledger_transfer lt) (one (result_c nat64_c ledger_TransferError_c))"
  "carries LedgerI Ledger_transfer_fee (one (named_c ''transfer_fee'' tokens_c))"
  "carries LedgerI Ledger_decimals (one (named_c ''decimals'' (int_c INat32)))"
  "carries LedgerI (Ledger_account_balance acct) (one tokens_c)"
  by ((rule carriesI; simp add: ledger_idlFactory_def func_def codec_laws ledger_TransferResult_def
      ledger_BlockIndex_def ledger_Tokens_def ledger_TransferFee_def)+)

lemma token_replies:
  "carries TokenI Icrc1_metadata (one (vec_c (pair_c text_c MetadataValue_c)))"
  "carries TokenI Icrc1_symbol (one text_c)" "carries TokenI Icrc1_decimals (one num8_c)"
  "carries TokenI (Icrc1_balance_of acc) (one nat_c)" "carries TokenI Icrc_plus_cycles (one nat_c)"
  "carries TokenI Icrc1_fee (one nat_c)"
  "carries TokenI (Icrc1_transfer tf) (one (result_c nat_c TransferError_c))"
  "carries CyclesI (Icrc1_balance_of acc) (one nat_c)" "carries CyclesI Icrc1_fee (one nat_c)"
  by ((rule carriesI; simp add: icrc2_idlFactory_def cycles_idlFactory_def func_def codec_laws icrc2_Result_def)+)

lemma txs_replies: "carries TransactionsI (QuerySwapStatusStr h) (one (vec_c SwapTx_c))"
  by (rule carriesI; simp add: txs_idlFactory_def func_def codec_laws)


text \<open>C39. Every reply can be read. For each method the pages read a reply of, the values of the type
  declared for it are answers of the interface exactly if their numbers are in range, are read
  back as they were, and every answer the interface allows is read as such a value: no reply of a
  canister that keeps to its interface is unreadable or read as something else.\<close>

theorem replies_readable:
  "carries LauncherI (Get_user p) (one (opt_c UserProfile_c)) \<and>
   carries LauncherI (Edit_user u) (one (result_c prin_c text_c)) \<and>
   carries LauncherI (Create_fomo c) (one (result_c FomoProject_c text_c)) \<and>
   carries LauncherI (Get_fomo_by_index g) (one FomoProjectVo_c) \<and>
   carries LauncherI Get_god_of_wells (one (opt_c FomoProject_c)) \<and>
   carries LauncherI Get_fomo_context (one launcher_context_c) \<and>
   carries LauncherI (Search_fomos sp) (one FomoProjectSearchVo_c) \<and>
   carries LauncherI (Get_fomo_by_fomo_idx idx) (one (opt_c FomoProject_c)) \<and>
   carries LauncherI (Get_fomo_by_fomo_pid p) (one (opt_c FomoProject_c)) \<and>
   carries LauncherI (Set_buy_or_sell r) nothing \<and>
   carries LauncherI (Get_fomo_by_create_user_pid p) (one (opt_c (vec_c FomoProject_c))) \<and>
   carries LauncherI (Topup_points n) (one (result_c null_c text_c)) \<and>
   carries LauncherI (Ownership_transfer p op) nothing \<and>
   carries ProjectI Get_comments_len (one nat_c) \<and>
   carries ProjectI (Get_comments_by_index g) (one CommentsVo_c) \<and>
   carries ProjectI (Add_comment cc) (one (result_c null_c text_c)) \<and>
   carries ProjectI Get_top10_holders (one (vec_c HolderInfo_c)) \<and>
   carries ProjectI Cycles (one nat64_c) \<and>
   carries PoolI Cycles (one nat64_c) \<and>
   carries RouterI (SwapTokenToToken f t a m ps d dl) (one (result_c nat64_c text_c)) \<and>
   carries RouterI (GetPoolInfo p q) (one PoolInfo_c) \<and>
   carries RouterI (GetMidPrice p) (one nat_c) \<and>
   carries RouterI (QuerySellQuote p n)
     (and_then nat_c (and_then nat_c (and_then nat_c (and_then RState_c (one nat_c))))) \<and>
   carries RouterI (QuerySellBase p n)
     (and_then nat_c (and_then nat_c (and_then nat_c (and_then RState_c (one nat_c))))) \<and>
   carries LedgerI (Ledger_transfer lt) (one (result_c nat64_c ledger_TransferError_c)) \<and>
   carries LedgerI Ledger_transfer_fee (one (named_c ''transfer_fee'' tokens_c)) \<and>
   carries LedgerI Ledger_decimals (one (named_c ''decimals'' (int_c INat32))) \<and>
   carries LedgerI (Ledger_account_balance acct) (one tokens_c) \<and>
   carries TokenI Icrc1_metadata (one (vec_c (pair_c text_c MetadataValue_c))) \<and>
   carries TokenI Icrc1_symbol (one text_c) \<and>
   carries TokenI Icrc1_decimals (one num8_c) \<and>
   carries TokenI (Icrc1_balance_of acc) (one nat_c) \<and>
   carries TokenI Icrc_plus_cycles (one nat_c) \<and>
   carries TokenI Icrc1_fee (one nat_c) \<and>
   carries TokenI (Icrc1_transfer tf) (one (result_c nat_c TransferError_c)) \<and>
   carries CyclesI (Icrc1_balance_of acc) (one nat_c) \<and>
   carries CyclesI Icrc1_fee (one nat_c) \<and>
   carries TransactionsI (QuerySwapStatusStr h) (one (vec_c SwapTx_c))"
  by (intro conjI launcher_replies project_replies router_replies txs_replies ledger_replies token_replies)

end
