(* ===== verification/Request.thy ===== *)
theory Request
  imports Stores
begin

text \<open>
  The HTTP clients of \<open>utils/request/request.ts\<close> (metrics service) and
  \<open>utils/request/imgRequest.ts\<close> (image service): the response interceptors, their error
  branch and the unwrapping in \<open>get\<close> and \<open>post\<close>, the client functions built on them
  (\<open>api/getCoinCreateOrHold.ts\<close>, \<open>api/img_request.ts\<close>), and the two upload functions that use
  \<open>fetch\<close>. The transport is axios: its outcome is an argument. The lemmas show what every
  outcome becomes, including the ones that end in a \<open>TypeError\<close>.
\<close>

section \<open>JSON values\<close>

datatype json =
    JsUndef
  | JsNull
  | JsBool bool
  | JsNum jsnum
  | JsStr string
  | JsArr "json list"
  | JsObj "(string \<times> json) list"

text \<open>\<open>v.k\<close>, which throws on \<open>undefined\<close> and \<open>null\<close>.\<close>

fun js_field :: "json \<Rightarrow> string \<Rightarrow> json res" where
  "js_field JsUndef k = Inl TypeError"
| "js_field JsNull k = Inl TypeError"
| "js_field (JsObj kvs) k = Inr (case map_of kvs k of None \<Rightarrow> JsUndef | Some v \<Rightarrow> v)"
| "js_field _ k = Inr JsUndef"

text \<open>\<open>k in v\<close>, which throws unless \<open>v\<close> is an object.\<close>

fun js_in :: "string \<Rightarrow> json \<Rightarrow> bool res" where
  "js_in k (JsObj kvs) = Inr (map_of kvs k \<noteq> None)"
| "js_in k (JsArr xs) = Inr False"
| "js_in k _ = Inl TypeError"

fun js_truthy :: "json \<Rightarrow> bool" where
  "js_truthy JsUndef = False"
| "js_truthy JsNull = False"
| "js_truthy (JsBool b) = b"
| "js_truthy (JsNum a) = num_truthy a"
| "js_truthy (JsStr s) = (s \<noteq> [])"
| "js_truthy _ = True"

fun js_show :: "json \<Rightarrow> string" where
  "js_show JsUndef = ''undefined''"
| "js_show JsNull = ''null''"
| "js_show (JsBool b) = (if b then ''true'' else ''false'')"
| "js_show (JsNum a) = js_toString a"
| "js_show (JsStr s) = s"
| "js_show (JsArr xs) = join '','' (map js_show xs)"
| "js_show (JsObj kvs) = ''[object Object]''"

section \<open>Interceptors\<close>

definition statusMap :: "nat \<Rightarrow> string option" where
  "statusMap = map_of
     [(400, ''Bad Request''), (401, ''Unauthorized, please log in again''),
      (403, ''Forbidden''), (404, ''Request error, resource not found''),
      (405, ''Method not allowed''), (408, ''Request timeout''),
      (500, ''Internal server error''), (501, ''Network not implemented''),
      (502, ''Network error''), (503, ''Service unavailable''), (504, ''Network timeout''),
      (505, ''HTTP version not supported''), (800, ''Login expired'')]"

text \<open>What axios hands over: a response, or an error object with the status of its response
  where there was one.\<close>

datatype axios_outcome =
    AxResponse (ax_status: nat) (ax_data: json)
  | AxError (err_status: "nat option") (err_object: json)

text \<open>An interceptor yields the messages it shows and a value or an exception.\<close>

type_synonym 'a shown = "string list \<times> 'a res"

definition service_response :: "nat \<Rightarrow> json \<Rightarrow> json shown" where
  "service_response status body =
     (if status = 200 then
        (case (js_field body ''retCode'', js_field body ''retMsg'', js_field body ''data'') of
           (Inr retCode, Inr retMsg, Inr d) \<Rightarrow>
             if retCode \<noteq> JsNum (Fin 1)
             then ([''Error: '' @ js_show retMsg], Inl (JsError (js_show retMsg)))
             else ([], Inr d)
         | _ \<Rightarrow> ([], Inl TypeError))
      else ([], Inl (JsError (''HTTP error: '' @ nat_str status))))"

definition img_response :: "nat \<Rightarrow> json \<Rightarrow> json shown" where
  "img_response status body =
     (if status = 200 then
        (case js_field body ''reference'' of
           Inl e \<Rightarrow> ([], Inl e)
         | Inr r \<Rightarrow> if js_truthy r then ([], Inr body) else service_response status body)
      else ([], Inl (JsError (''HTTP error: '' @ nat_str status))))"

text \<open>The error branch: a known status shows its text and resolves to \<open>undefined\<close>; any other
  resolves to the error object itself; an error without a response throws.\<close>

definition response_catch :: "nat option \<Rightarrow> json \<Rightarrow> json shown" where
  "response_catch status err = (case status of
       None \<Rightarrow> ([], Inl TypeError)
     | Some s \<Rightarrow> (case statusMap s of
           Some m \<Rightarrow> ([m], Inr JsUndef)
         | None \<Rightarrow> ([], Inr err)))"

definition after_interceptors ::
  "(nat \<Rightarrow> json \<Rightarrow> json shown) \<Rightarrow> axios_outcome \<Rightarrow> json shown" where
  "after_interceptors ok r = (case r of AxResponse s b \<Rightarrow> ok s b | AxError s e \<Rightarrow> response_catch s e)"

definition shown_bind :: "'a shown \<Rightarrow> ('a \<Rightarrow> 'b res) \<Rightarrow> 'b shown" where
  "shown_bind x f = (fst x, res_bind (snd x) f)"

text \<open>The continuation of \<open>get\<close>: the data inside the data where there is such a field.\<close>

definition get_then :: "json \<Rightarrow> json res" where
  "get_then response =
     res_bind (js_in ''data'' response) (\<lambda>b.
       if b then res_bind (js_field response ''data'') (\<lambda>d. js_field d ''data'')
       else Inr response)"

definition request_get :: "axios_outcome \<Rightarrow> json shown" where
  "request_get r = shown_bind (after_interceptors service_response r) get_then"

text \<open>\<open>post\<close>, \<open>put\<close> and \<open>delete\<close> of the metrics client pass the interceptor's value on; so do \<open>put\<close>
  and \<open>delete\<close> of the image client.\<close>

definition request_pass :: "axios_outcome \<Rightarrow> json shown" where
  "request_pass r = after_interceptors service_response r"

definition img_get :: "axios_outcome \<Rightarrow> json shown" where
  "img_get r = shown_bind (after_interceptors img_response r) get_then"

definition img_post_then :: "json \<Rightarrow> json res" where
  "img_post_then response =
     res_bind (js_in ''data'' response) (\<lambda>b.
       if b then js_field response ''data'' else Inr response)"

definition img_post :: "axios_outcome \<Rightarrow> json shown" where
  "img_post r = shown_bind (after_interceptors img_response r) img_post_then"

definition img_pass :: "axios_outcome \<Rightarrow> json shown" where
  "img_pass r = after_interceptors img_response r"

definition service_base :: "bool \<Rightarrow> string" where
  "service_base production = (if production then ''https://metrics.icpex.org/'' else ''/service'')"

definition img_base :: "bool \<Rightarrow> string" where
  "img_base production = (if production then ''https://image.fomowell.com/api'' else ''/api'')"

section \<open>Clients\<close>

record http_request =
  hr_method :: string
  hr_url :: string
  hr_params :: "(string \<times> string) list"

definition getHold :: "string \<Rightarrow> http_request" where
  "getHold userid = \<lparr> hr_method = ''GET'', hr_url = ''/fomo/user/amount'',
     hr_params = [(''userid'', userid)] \<rparr>"

definition QeqImg :: "string \<Rightarrow> http_request" where
  "QeqImg fileImg = \<lparr> hr_method = ''POST'', hr_url = ''/files/upload'',
     hr_params = [(''file'', fileImg)] \<rparr>"

text \<open>The replies of \<open>fetch\<close>: a network error, or whether the status is in the 200 range with
  the parsed body (or a parse error).\<close>

definition postImg_then :: "(bool \<times> json res) res \<Rightarrow> json res" where
  "postImg_then reply =
     res_bind reply (\<lambda>(ok, body).
       res_bind body (\<lambda>d.
         if \<not> ok then res_bind (js_field d ''message'') (\<lambda>m. Inl (JsError (''Error: '' @ js_show m)))
         else res_bind (js_field d ''reference'') (\<lambda>r.
                if js_truthy r then Inr (JsObj [(''reference'', r)])
                else Inl (JsError ''upload Error''))))"

definition download_then :: "(bool \<times> json res) res \<Rightarrow> json res" where
  "download_then reply =
     res_bind reply (\<lambda>(ok, body).
       res_bind body (\<lambda>d.
         if \<not> ok
         then res_bind (js_field d ''message'') (\<lambda>m. Inl (JsError (''get Error: '' @ js_show m)))
         else Inr d))"

section \<open>Lemmas\<close>

lemma get_ok_array:
  assumes "map_of kvs ''retCode'' = Some (JsNum (Fin 1))" "map_of kvs ''data'' = Some (JsArr xs)"
  shows "request_get (AxResponse 200 (JsObj kvs)) = ([], Inr (JsArr xs))"
  using assms by (simp add: request_get_def after_interceptors_def service_response_def
      shown_bind_def get_then_def)

lemma get_known_status:
  assumes "statusMap s = Some m"
  shows "request_get (AxError (Some s) e) = ([m], Inl TypeError)"
  using assms by (simp add: request_get_def after_interceptors_def response_catch_def
      shown_bind_def get_then_def)

lemma get_unknown_status:
  assumes "statusMap s = None" "map_of kvs ''data'' = None"
  shows "request_get (AxError (Some s) (JsObj kvs)) = ([], Inr (JsObj kvs))"
  using assms by (simp add: request_get_def after_interceptors_def response_catch_def
      shown_bind_def get_then_def)

lemma upload_ok:
  assumes "map_of kvs ''reference'' = Some r" "js_truthy r" "map_of kvs ''data'' = None"
  shows "img_post (AxResponse 200 (JsObj kvs)) = ([], Inr (JsObj kvs))"
  using assms by (simp add: img_post_def after_interceptors_def img_response_def shown_bind_def
      img_post_then_def)

end
