(* ===== verification/Page.thy ===== *)
theory Page
  imports ActorApi Request
begin

text \<open>
  What the page components share: the effects a handler has outside its component, the form
  of a handler's outcome, and the parameters of a page. A handler is a function of the
  snapshot of the component it closed over (React closures keep the values of their render)
  and of the current state; it yields the new state, the effects in order, and the pending
  work it leaves: timers, polls and the continuations of the calls it awaits.
\<close>

datatype page_proc =
    ProcBuyMetadataThenUserBalance
  | ProcMetadataThenBuyBalance
  | ProcTop10Holders
  | ProcSearchFomos
  | ProcGodOfWells
  | ProcPoolInfo
  | ProcStatus
  | ProcComments int
  | ProcUserName principal
  | ProcCyclesBalance
  | ProcMetadata
  | ProcBalanceOf FomoProject
  | ProcConnect string
  | ProcUserInfo string
  | ProcVerify
  | ProcDisconnect

datatype effect =
    MsgError string
  | MsgSuccess string
  | MsgWarning string
  | Snack string bool
  | SnackProgress bool
  | SelectWell bool
  | ScrollTo jsnum
  | Call api_call
  | Upload string
  | Fetch http_request
  | Navigate string
  | NavigateBack
  | OpenUrl string
  | WellModal bool
  | RouteMessage bool string
  | CopyText string
  | StoreWrite "world \<Rightarrow> world"
  | Start page_proc
  | Uncaught js_exn

type_synonym ('s, 't) outcome = "'s \<times> effect list \<times> 't list"

record 'b page_env =
  pe_env :: environment
  pe_valid :: "string \<Rightarrow> bool"
  pe_acct :: "principal \<Rightarrow> string"
  pe_big :: "'b bigjs"
  pe_icrc2 :: string

definition plain :: "'s \<Rightarrow> ('s, 't) outcome" where
  "plain s = (s, [], [])"

definition emits :: "'s \<Rightarrow> effect list \<Rightarrow> ('s, 't) outcome" where
  "emits s es = (s, es, [])"

definition throws :: "'s \<Rightarrow> js_exn \<Rightarrow> ('s, 't) outcome" where
  "throws s e = (s, [Uncaught e], [])"

definition st_of :: "('s, 't) outcome \<Rightarrow> 's" where
  "st_of r = fst r"

definition fx_of :: "('s, 't) outcome \<Rightarrow> effect list" where
  "fx_of r = fst (snd r)"

definition tasks_of :: "('s, 't) outcome \<Rightarrow> 't list" where
  "tasks_of r = snd (snd r)"

lemma outcome_sel [simp]:
  "st_of (s, es, ts) = s" "fx_of (s, es, ts) = es" "tasks_of (s, es, ts) = ts"
  "st_of (plain s) = s" "fx_of (plain s) = []" "tasks_of (plain s) = []"
  "st_of (emits s es) = s" "fx_of (emits s es) = es" "tasks_of (emits s es) = []"
  "st_of (throws s e) = s" "fx_of (throws s e) = [Uncaught e]" "tasks_of (throws s e) = []"
  by (simp_all add: st_of_def fx_of_def tasks_of_def plain_def emits_def throws_def)

text \<open>Sequencing two outcomes: effects and pending work in order.\<close>

definition then_do :: "('s, 't) outcome \<Rightarrow> ('s \<Rightarrow> ('s, 't) outcome) \<Rightarrow> ('s, 't) outcome" where
  "then_do r f = (st_of (f (st_of r)), fx_of r @ fx_of (f (st_of r)),
                  tasks_of r @ tasks_of (f (st_of r)))"

lemma then_do_sel [simp]:
  "st_of (then_do r f) = st_of (f (st_of r))"
  "fx_of (then_do r f) = fx_of r @ fx_of (f (st_of r))"
  "tasks_of (then_do r f) = tasks_of r @ tasks_of (f (st_of r))"
  by (simp_all add: then_do_def)

text \<open>\<open>10 ** d\<close> of a number of decimals, a whole number read from a ledger's metadata (NaN
  before it is known to be one).\<close>

fun ten_pow :: "jsnum \<Rightarrow> jsnum" where
  "ten_pow (Fin x) = (if of_int \<lfloor>x\<rfloor> = x \<and> 0 \<le> x then pow10 (nat \<lfloor>x\<rfloor>) else NaN)"
| "ten_pow _ = NaN"

lemma ten_pow_8 [simp]: "ten_pow (Fin 8) = Fin 100000000"
  using pow10_exact [of 8] by simp

section \<open>Ledger units and decimals\<close>

text \<open>\<open>new Big(10).pow(d)\<close> accepts whole exponents only.\<close>

fun pow_ten :: "'b bigjs \<Rightarrow> jsnum \<Rightarrow> 'b res" where
  "pow_ten B (Fin d) =
     (if of_int \<lfloor>d\<rfloor> = d then res_bind (big_num B (Fin 10)) (\<lambda>t. big_pow B t \<lfloor>d\<rfloor>)
      else Inl BigError)"
| "pow_ten B _ = Inl BigError"

text \<open>\<open>new Big(Number(n)).div(new Big(10).pow(Number(d)))\<close>, as a number and as a string.\<close>

definition units_big :: "'b bigjs \<Rightarrow> jsnum \<Rightarrow> int \<Rightarrow> 'b res" where
  "units_big B d n =
     res_bind (big_num B (num_of_int n)) (\<lambda>v. res_bind (pow_ten B d) (\<lambda>p. big_div B v p))"

definition units_number :: "'b bigjs \<Rightarrow> jsnum \<Rightarrow> int \<Rightarrow> jsnum res" where
  "units_number B d n = res_map (big_toNumber B) (units_big B d n)"

definition units_string :: "'b bigjs \<Rightarrow> jsnum \<Rightarrow> int \<Rightarrow> string res" where
  "units_string B d n = res_map (big_toString B) (units_big B d n)"

lemma pow_ten_exact:
  assumes "big_laws B val" "d \<le> 1000"
  shows "\<exists>c. pow_ten B (Fin (of_nat d)) = Inr c \<and> val c = 10 ^ d"
proof -
  obtain t where t: "big_num B (Fin (of_int 10)) = Inr t" "val t = of_int 10"
    using big_lawsD(1) [OF assms(1), of 10] by auto
  have f: "\<lfloor>of_nat d :: rat\<rfloor> = int d" by (metis floor_of_int of_int_of_nat_eq)
  obtain c where "big_pow B t (int d) = Inr c" "val c = val t ^ d"
    using big_laws_pow [OF assms(1), of "int d" t] assms(2) by auto
  then show ?thesis using t f by simp
qed

text \<open>A quotient by a power of ten of at most twenty digits is exact.\<close>

lemma round_half_up_of_int:
  assumes "x * 10 ^ dp = of_int k" shows "round_half_up_at dp x = x"
proof -
  have f: "\<lfloor>rat_of_int m + 1/2\<rfloor> = m" for m by linarith
  have x: "x = of_int k / 10 ^ dp" using assms by (simp add: field_simps)
  have "- x * 10 ^ dp = of_int (- k)" using assms by simp
  then have "round_half_up_at dp x = of_int k / 10 ^ dp"
    by (simp only: round_half_up_at_def assms f) simp
  then show ?thesis using x by simp
qed

lemma scaled_int:
  assumes "d \<le> m" shows "rat_of_int n / 10 ^ d * 10 ^ m = of_int (n * 10 ^ (m - d))"
proof -
  have p: "(10::rat) ^ m = 10 ^ d * 10 ^ (m - d)"
    using assms by (simp only: power_add [symmetric] le_add_diff_inverse)
  show ?thesis unfolding p by simp
qed

lemma round_half_up_exact:
  assumes "d \<le> 20" shows "round_half_up_at 20 (of_int n / 10 ^ d) = of_int n / 10 ^ d"
  by (rule round_half_up_of_int) (rule scaled_int [OF assms])

lemma round_down_exact:
  assumes "d \<le> dp" shows "round_down_at dp (of_int n / 10 ^ d) = of_int n / 10 ^ d"
proof -
  have t: "rat_trunc (of_int k) = k" for k by (simp add: rat_trunc_def)
  have "round_down_at dp (of_int n / 10 ^ d) = of_int (n * 10 ^ (dp - d)) / 10 ^ dp"
    unfolding round_down_at_def scaled_int [OF assms] t ..
  also have "\<dots> = of_int n / 10 ^ d" unfolding scaled_int [OF assms, symmetric] by simp
  finally show ?thesis .
qed

lemma units_big_exact:
  assumes "big_laws B val" "d \<le> 20" "\<bar>n\<bar> \<le> 2 ^ 53"
  shows "\<exists>q. units_big B (Fin (of_nat d)) n = Inr q \<and> val q = of_int n / 10 ^ d"
proof -
  obtain v where v: "big_num B (num_of_int n) = Inr v" "val v = of_int n"
    using big_lawsD(1) [OF assms(1,3)] num_of_int_exact [OF assms(3)] by auto
  have "d \<le> 1000" using assms(2) by simp
  then obtain c where c: "pow_ten B (Fin (of_nat d)) = Inr c" "val c = 10 ^ d"
    using pow_ten_exact [OF assms(1)] by blast
  have "val c \<noteq> 0" using c(2) by simp
  then obtain q where q: "big_div B v c = Inr q"
    using big_div_error [OF assms(1)] by blast
  have "val q = round_half_up_at 20 (of_int n / 10 ^ d)"
    using big_lawsD(7) [OF assms(1) q] unfolding v(2) c(2) .
  then show ?thesis
    unfolding units_big_def v(1) c(1) res_bind_simps q round_half_up_exact [OF assms(2)] by blast
qed

section \<open>Image files and error messages\<close>

record upload_file =
  f_name :: string
  f_size :: int
  f_type :: string

definition photo_types :: "string list" where
  "photo_types = [''JPG'', ''PNG'', ''GIF'', ''image/jpeg'', ''image/png'', ''image/gif'', ''image/jpg'']"

definition photo_error :: effect where
  "photo_error = MsgError ''Image must smaller than 5MB! and You can only upload JPG/PNG/GIF file!''"

text \<open>The checks the image inputs of the pages start with: the first file, or the effects of
  the refusal.\<close>

definition check_photo :: "upload_file list option \<Rightarrow> effect list + upload_file" where
  "check_photo files = (case files of
     None \<Rightarrow> Inl [MsgError ''file error'']
   | Some [] \<Rightarrow> Inl [Uncaught TypeError]
   | Some (f # _) \<Rightarrow>
       if f_size f > 5 * 1024 * 1024 then Inl [photo_error]
       else if f_type f \<notin> set photo_types then Inl [photo_error]
       else Inr f)"

lemma check_photo_ok:
  "check_photo files = Inr f \<Longrightarrow> f_size f \<le> 5242880 \<and> f_type f \<in> set photo_types"
  by (auto simp: check_photo_def split: option.splits list.splits if_splits)

text \<open>The message of an exception, and the match of \<open>/Reject text: (.*)/\<close> in it: up to the end of
  the line, from the first occurrence.\<close>

fun exn_message :: "js_exn \<Rightarrow> string" where
  "exn_message (JsError m) = m"
| "exn_message (CallError m _) = m"
| "exn_message TypeError = ''TypeError''"
| "exn_message RangeError = ''RangeError''"
| "exn_message SyntaxError = ''SyntaxError''"
| "exn_message BigError = ''[big.js]''"

fun reject_text :: "string \<Rightarrow> string option" where
  "reject_text [] = None"
| "reject_text (c # s) =
     (if starts_with ''Reject text: '' (c # s)
      then Some (takeWhile (\<lambda>d. of_char d \<noteq> (10::nat) \<and> of_char d \<noteq> (13::nat)) (drop 13 (c # s)))
      else reject_text s)"

text \<open>\<open>v.match(/Reject text: (.*)/)\<close> of the message, or a default where there is none or it is
  empty.\<close>

definition reject_or :: "string \<Rightarrow> js_exn \<Rightarrow> string" where
  "reject_or d e = (case reject_text (exn_message e) of
     Some t \<Rightarrow> if t \<noteq> [] then t else d | None \<Rightarrow> d)"

section \<open>The calls of an outcome\<close>

text \<open>The calls among the effects.\<close>

fun calls :: "effect list \<Rightarrow> api_call list" where
  "calls [] = []"
| "calls (Call c # es) = c # calls es"
| "calls (_ # es) = calls es"

lemma calls_append [simp]: "calls (a @ b) = calls a @ calls b"
  by (induction a rule: calls.induct) auto

definition called :: "effect list \<Rightarrow> canister_method list" where
  "called es = map call_method (calls es)"

lemma called_append [simp]: "called (a @ b) = called a @ called b"
  by (simp add: called_def)

lemma called_Cons [simp]:
  "called [] = []" "called (Call c # es) = call_method c # called es"
  "called (MsgWarning m # es) = called es" "called (Snack m b # es) = called es"
  "called (SnackProgress b # es) = called es" "called (SelectWell b # es) = called es"
  "called (ScrollTo x # es) = called es"
  "called (Fetch q # es) = called es" "called (MsgError m # es) = called es" "called (MsgSuccess m # es) = called es"
  "called (Upload u # es) = called es" "called (Navigate n # es) = called es"
  "called (NavigateBack # es) = called es" "called (OpenUrl u # es) = called es"
  "called (WellModal b # es) = called es" "called (RouteMessage b m # es) = called es"
  "called (CopyText t # es) = called es" "called (StoreWrite f # es) = called es"
  "called (Start p # es) = called es" "called (Uncaught e # es) = called es"
  by (simp_all add: called_def)

text \<open>The sign \<open>\<approx>\<close>, as its three UTF-8 bytes.\<close>

definition approx_sign :: string where
  "approx_sign = [char_of (226::nat), char_of (137::nat), char_of (136::nat)]"

section \<open>A sample page\<close>

text \<open>Concrete values the witnesses run on: a project, and a page with the exact decimal library
  and a router and a launcher in its environment.\<close>

definition sample_project :: FomoProject where
  "sample_project = \<lparr> god_of_wells_time = None, twitter_link = [], sneed_dao_lock = None,
     market_cap = 0, recently_reply_time = 0, ticker = ''T'', img_url = [], dogmi_dao_lock = None,
     project_name = ''Well'', recently_bump_time = 0, create_user_pid = ''u'', description = [],
     pool_progress_done_time = None, telegram_link = [], website = [], fomo_idx = 7,
     fomo_pid = ''f'', create_time = 0, reply_count = 0, token_pid = ''t'', pool_progress = 0,
     pool_pid = ''p'', god_of_wells_progress = 0 \<rparr>"

definition sample_env :: environment where
  "sample_env = (\<lambda>_. None)(''CANISTER_ID_ICPL_ROUTER'' := Some ''r'',
     ''CANISTER_ID_FOMOWELL_LAUNCHER'' := Some ''l'')"

definition sample_page :: "rat page_env" where
  "sample_page = \<lparr> pe_env = sample_env, pe_valid = (\<lambda>t. t \<noteq> []), pe_acct = (\<lambda>p. p),
     pe_big = rat_big, pe_icrc2 = ''i'' \<rparr>"

end
