(* ===== verification/Signals.thy ===== *)
theory Signals
  imports Page
begin

text \<open>
  The latest trade and the latest well, which the board (\<open>pages/Home/Home.tsx\<close>) and the header
  (\<open>layout/home/header.tsx\<close>) both show and shake when they change. Both components extend the
  state \<open>signal_view\<close>; the header also writes what it has seen to local storage. The lemmas
  show when a signal shakes and that every shake ends.
\<close>

record signal_view =
  FomContext :: "launcher_context option"
  last_buy_sell_op_img :: "string option"
  last_create_fomo_img :: "string option"
  buyShake :: bool
  createShake :: bool

text \<open>The marks of the render a request belongs to: the time of the last trade and of the last
  well it has seen, initially those of local storage.\<close>

type_synonym marks = "string \<times> string"

definition stored_marks :: "world \<Rightarrow> marks" where
  "stored_marks w =
     (the_default [] (storage w ''curbuyStateIdx''), the_default [] (storage w ''createShake''))"

datatype signal_task =
    WaitContext
  | WaitBuyFomo launcher_context
  | WaitCreateFomo launcher_context "FomoProject option"
  | TimerBuyShake
  | TimerCreateShake
  | WaitJump

definition getFomContext :: "environment \<Rightarrow> 'a signal_view_scheme \<Rightarrow>
    ('a signal_view_scheme, signal_task) outcome" where
  "getFomContext env s = (s, [Call (get_fomo_context env)], [WaitContext])"

text \<open>The context is a record, so the test for an \<open>Err\<close> in it fails.\<close>

definition on_context :: "environment \<Rightarrow> launcher_context res \<Rightarrow> 'a signal_view_scheme \<Rightarrow>
    ('a signal_view_scheme, signal_task) outcome" where
  "on_context env reply s = (case reply of
     Inl e \<Rightarrow> throws s e
   | Inr c \<Rightarrow> (s, [Call (get_fomo_by_fomo_idx env (rv_fomo_idx (last_buy_sell_op c)))], [WaitBuyFomo c]))"

definition on_buy_fomo :: "environment \<Rightarrow> launcher_context \<Rightarrow> FomoProject list res \<Rightarrow>
    'a signal_view_scheme \<Rightarrow> ('a signal_view_scheme, signal_task) outcome" where
  "on_buy_fomo env c reply s = (case reply of
     Inl e \<Rightarrow> throws s e
   | Inr ps \<Rightarrow> (s, [Call (get_fomo_by_fomo_idx env (cf_fomo_idx (last_create_fomo c)))],
               [WaitCreateFomo c (nth_opt ps 0)]))"

text \<open>\<open>String\<close> of the optional swap time, an array of at most one, and of the creation time.\<close>

definition buy_mark :: "launcher_context \<Rightarrow> string" where
  "buy_mark c = (case rv_swap_timestamp (last_buy_sell_op c) of None \<Rightarrow> [] | Some t \<Rightarrow> int_str t)"

definition create_mark :: "launcher_context \<Rightarrow> string" where
  "create_mark c = int_str (cf_create_time (last_create_fomo c))"

text \<open>The last reply: a signal whose mark is new shakes; \<open>persist\<close> writes the new marks.\<close>

definition on_create_fomo :: "bool \<Rightarrow> launcher_context \<Rightarrow> FomoProject option \<Rightarrow>
    FomoProject list res \<Rightarrow> marks \<Rightarrow> 'a signal_view_scheme \<Rightarrow>
    marks \<times> ('a signal_view_scheme, signal_task) outcome" where
  "on_create_fomo persist c p1 reply m s = (case reply of
     Inl e \<Rightarrow> (m, throws s e)
   | Inr ps \<Rightarrow>
       (let b = (fst m \<noteq> buy_mark c); d = (snd m \<noteq> create_mark c)
        in ((buy_mark c, create_mark c),
            emits (s\<lparr> buyShake := b, createShake := d, FomContext := Some c,
                      last_buy_sell_op_img := map_option img_url p1,
                      last_create_fomo_img := map_option img_url (nth_opt ps 0) \<rparr>)
              ((if persist \<and> b then [StoreWrite (ls_set ''curbuyStateIdx'' (buy_mark c))] else []) @
               (if persist \<and> d then [StoreWrite (ls_set ''createShake'' (create_mark c))] else [])))))"

text \<open>The effect on the two shakes: one timer at a time, the trade's first.\<close>

definition shake_effect :: "'a signal_view_scheme \<Rightarrow> signal_task list" where
  "shake_effect s = (if buyShake s then [TimerBuyShake]
                     else if createShake s then [TimerCreateShake] else [])"

fun shake_timer :: "signal_task \<Rightarrow> 'a signal_view_scheme \<Rightarrow> 'a signal_view_scheme option" where
  "shake_timer TimerBuyShake s = Some (s\<lparr> buyShake := False \<rparr>)"
| "shake_timer TimerCreateShake s = Some (s\<lparr> createShake := False \<rparr>)"
| "shake_timer _ s = None"

text \<open>A date in nanoseconds, printed by the date library.\<close>

definition handlTimeFn :: "(int \<Rightarrow> string \<Rightarrow> string) \<Rightarrow> int option \<Rightarrow> string" where
  "handlTimeFn fmt time = (case time of
     None \<Rightarrow> []
   | Some t \<Rightarrow> if t = 0 then []
              else fmt (if 0 \<le> t then t div 1000000 else - ((- t) div 1000000)) ''MM/DD/YY'')"

text \<open>The jump to a project by its index: \<open>BigInt\<close> of the text, then the project's address.\<close>

definition BtnLastBuySell :: "environment \<Rightarrow> string \<Rightarrow> 's \<Rightarrow> ('s, signal_task) outcome" where
  "BtnLastBuySell env pid s = (case js_BigInt pid of
     Inl e \<Rightarrow> throws s e
   | Inr i \<Rightarrow> (s, [Call (get_fomo_by_fomo_idx env i)], [WaitJump]))"

definition on_jump :: "FomoProject list res \<Rightarrow> 's \<Rightarrow> ('s, signal_task) outcome" where
  "on_jump reply s = (case reply of
     Inl e \<Rightarrow> throws s e
   | Inr ps \<Rightarrow> emits s [Navigate (''/'' @ (case nth_opt ps 0 of
                                       None \<Rightarrow> ''undefined'' | Some p \<Rightarrow> fomo_pid p))])"

text \<open>The pending work of a signal within a component's own.\<close>

definition tag_tasks :: "('t \<Rightarrow> 'u) \<Rightarrow> ('s, 't) outcome \<Rightarrow> ('s, 'u) outcome" where
  "tag_tasks f r = (st_of r, fx_of r, map f (tasks_of r))"

lemma tag_tasks_sel [simp]:
  "st_of (tag_tasks f r) = st_of r" "fx_of (tag_tasks f r) = fx_of r"
  "tasks_of (tag_tasks f r) = map f (tasks_of r)"
  by (simp_all add: tag_tasks_def)

section \<open>Lemmas\<close>

text \<open>One round: the effect's timer fires and the effect runs again.\<close>

fun run_shakes :: "nat \<Rightarrow> 'a signal_view_scheme \<Rightarrow> 'a signal_view_scheme" where
  "run_shakes 0 s = s"
| "run_shakes (Suc n) s = (case shake_effect s of
     [] \<Rightarrow> s | t # _ \<Rightarrow> (case shake_timer t s of None \<Rightarrow> s | Some s' \<Rightarrow> run_shakes n s'))"

lemma shakes_end:
  "\<not> buyShake (run_shakes 2 s) \<and> \<not> createShake (run_shakes 2 s)"
  by (simp add: numeral_2_eq_2 shake_effect_def)

lemma seen_is_still:
  "on_create_fomo persist c p1 (Inr ps) m s = (m', r) \<Longrightarrow>
   \<not> buyShake (st_of (snd (on_create_fomo persist c p1 (Inr ps) m' s'))) \<and>
   \<not> createShake (st_of (snd (on_create_fomo persist c p1 (Inr ps) m' s')))"
  by (auto simp: on_create_fomo_def Let_def)

text \<open>A signal shakes once and then rests. Whatever the reply finds new against the marks seen
  before, both shakes are over after at most two of the effect's timers, and a further reply with
  the same context, judged by the marks this one left, shakes nothing, whatever else has changed
  in between.\<close>

lemma signal_shakes_once:
  "let (m', r) = on_create_fomo persist c p1 (Inr ps) m s in
     buyShake (st_of r) = (fst m \<noteq> buy_mark c) \<and> createShake (st_of r) = (snd m \<noteq> create_mark c) \<and>
     shake_effect (run_shakes 2 (st_of r)) = [] \<and>
     shake_effect (st_of (snd (on_create_fomo persist' c p1' (Inr ps') m' s'))) = []"
proof -
  have "shake_effect (run_shakes 2 v) = []" for v :: "'a signal_view_scheme"
    using shakes_end [of v] by (simp add: shake_effect_def)
  then show ?thesis by (simp add: on_create_fomo_def Let_def shake_effect_def)
qed

end
