(* ===== verification/DataUrl.thy ===== *)
theory DataUrl
  imports Page
begin

text \<open>
  \<open>dataURLtoFile\<close> of \<open>layout/home/header.tsx\<close>: a file from the data URL of a canvas, with the
  standard \<open>atob\<close> it rests on. The reference encoder is the one a data URL is made with; the
  lemmas show that decoding undoes it.
\<close>

section \<open>Base64\<close>

definition b64_alphabet :: string where
  "b64_alphabet = ''ABCDEFGHIJKLMNOPQRSTUVWXYZabcdefghijklmnopqrstuvwxyz0123456789+/''"

fun index_in :: "char \<Rightarrow> string \<Rightarrow> nat option" where
  "index_in c [] = None"
| "index_in c (d # s) = (if c = d then Some 0 else map_option Suc (index_in c s))"

text \<open>Four digits are three bytes; the last group may have two or three digits.\<close>

fun decode_digits :: "nat list \<Rightarrow> nat list option" where
  "decode_digits [] = Some []"
| "decode_digits [a] = None"
| "decode_digits [a, b] = Some [4 * a + b div 16]"
| "decode_digits [a, b, c] = Some [4 * a + b div 16, 16 * (b mod 16) + c div 4]"
| "decode_digits (a # b # c # d # r) =
     map_option ((@) [4 * a + b div 16, 16 * (b mod 16) + c div 4, 64 * (c mod 4) + d])
       (decode_digits r)"

fun digits_of :: "string \<Rightarrow> nat list option" where
  "digits_of [] = Some []"
| "digits_of (c # s) = (case (index_in c b64_alphabet, digits_of s) of
     (Some d, Some ds) \<Rightarrow> Some (d # ds) | _ \<Rightarrow> None)"

text \<open>\<open>atob\<close>: white space is dropped, then at most two padding signs of a text whose length is a
  multiple of four.\<close>

definition drop_pad :: "string \<Rightarrow> string" where
  "drop_pad s =
     (if length s mod 4 = 0 \<and> s \<noteq> [] \<and> last s = CHR ''=''
      then (let t = butlast s in if t \<noteq> [] \<and> last t = CHR ''='' then butlast t else t)
      else s)"

definition atob_ws :: "char \<Rightarrow> bool" where
  "atob_ws c = ((of_char c :: nat) \<in> {9, 10, 12, 13, 32})"

definition atob :: "string \<Rightarrow> nat list res" where
  "atob s = (case digits_of (drop_pad (filter (\<lambda>c. \<not> atob_ws c) s)) of
     None \<Rightarrow> Inl (JsError ''InvalidCharacterError'')
   | Some ds \<Rightarrow> (case decode_digits ds of
         None \<Rightarrow> Inl (JsError ''InvalidCharacterError'') | Some bs \<Rightarrow> Inr bs))"

section \<open>The file\<close>

record file_data =
  fd_bytes :: "nat list"
  fd_name :: string
  fd_type :: string

text \<open>\<open>arr[0].match(/:(.*?);/)?.[1] || ""\<close>: from the first colon from which a semicolon comes
  before the end of the line, since the dot takes no line break.\<close>

definition line_break :: "char \<Rightarrow> bool" where
  "line_break c = ((of_char c :: nat) \<in> {10, 13})"

fun mime_of :: "string \<Rightarrow> string" where
  "mime_of [] = []"
| "mime_of (c # r) =
     (if c = CHR '':'' \<and> CHR '';'' \<in> set r \<and>
         list_all (\<lambda>x. \<not> line_break x) (takeWhile (\<lambda>x. x \<noteq> CHR '';'') r)
      then takeWhile (\<lambda>x. x \<noteq> CHR '';'') r else mime_of r)"

text \<open>The \<open>type\<close> of a \<open>File\<close>: empty for a text with characters other than the printable ones of
  ASCII, else in lower case.\<close>

definition printable :: "char \<Rightarrow> bool" where
  "printable c = (32 \<le> (of_char c :: nat) \<and> (of_char c :: nat) \<le> 126)"

definition ascii_lower :: "char \<Rightarrow> char" where
  "ascii_lower c = (if 65 \<le> (of_char c :: nat) \<and> (of_char c :: nat) \<le> 90
                    then char_of ((of_char c :: nat) + 32) else c)"

definition file_type :: "string \<Rightarrow> string" where
  "file_type t = (if list_all printable t then map ascii_lower t else [])"

text \<open>A URL without a comma hands \<open>undefined\<close> to \<open>atob\<close>, which converts it to a text.\<close>

definition dataURLtoFile :: "string \<Rightarrow> string \<Rightarrow> file_data res" where
  "dataURLtoFile dataurl filename =
     (let arr = js_split (CHR '','') dataurl;
          mime = mime_of (case arr of [] \<Rightarrow> [] | a # _ \<Rightarrow> a)
      in res_map (\<lambda>bs. \<lparr> fd_bytes = bs, fd_name = filename, fd_type = file_type mime \<rparr>)
           (atob (case nth_opt arr 1 of None \<Rightarrow> ''undefined'' | Some d \<Rightarrow> d)))"

section \<open>The encoder\<close>

definition b64_char :: "nat \<Rightarrow> char" where
  "b64_char d = b64_alphabet ! d"

fun btoa :: "nat list \<Rightarrow> string" where
  "btoa [] = []"
| "btoa [x] = [b64_char (x div 4), b64_char (16 * (x mod 4)), CHR ''='', CHR ''='']"
| "btoa [x, y] = [b64_char (x div 4), b64_char (16 * (x mod 4) + y div 16),
     b64_char (4 * (y mod 16)), CHR ''='']"
| "btoa (x # y # z # r) = b64_char (x div 4) # b64_char (16 * (x mod 4) + y div 16)
     # b64_char (4 * (y mod 16) + z div 64) # b64_char (z mod 64) # btoa r"

definition data_url :: "string \<Rightarrow> nat list \<Rightarrow> string" where
  "data_url mime bytes = ''data:'' @ mime @ '';base64,'' @ btoa bytes"

section \<open>Lemmas\<close>

text \<open>Every digit's character, checked one by one.\<close>

lemma index_b64_all:
  "list_all (\<lambda>d. index_in (b64_char d) b64_alphabet = Some d \<and> b64_char d \<noteq> CHR ''='' \<and>
     b64_char d \<noteq> CHR '','' \<and> \<not> atob_ws (b64_char d)) [0..<64]"
  by code_simp

lemma b64_char_facts:
  assumes "d < 64"
  shows "index_in (b64_char d) b64_alphabet = Some d" "b64_char d \<noteq> CHR ''=''"
    "b64_char d \<noteq> CHR '',''" "\<not> atob_ws (b64_char d)"
  using index_b64_all assms by (auto simp: list_all_iff)

text \<open>The digits of the encoder, without padding.\<close>

fun b64_digits :: "nat list \<Rightarrow> nat list" where
  "b64_digits [] = []"
| "b64_digits [x] = [x div 4, 16 * (x mod 4)]"
| "b64_digits [x, y] = [x div 4, 16 * (x mod 4) + y div 16, 4 * (y mod 16)]"
| "b64_digits (x # y # z # r) = (x div 4) # (16 * (x mod 4) + y div 16)
     # (4 * (y mod 16) + z div 64) # (z mod 64) # b64_digits r"

lemma b64_digits_bound:
  "\<forall>x \<in> set xs. x < 256 \<Longrightarrow> \<forall>d \<in> set (b64_digits xs). d < 64"
  by (induction xs rule: b64_digits.induct) auto

lemma decode_b64_digits: "\<forall>x \<in> set xs. x < 256 \<Longrightarrow> decode_digits (b64_digits xs) = Some xs"
proof (induction xs rule: b64_digits.induct)
  case (4 x y z r)
  have "4 * (x div 4) + (16 * (x mod 4) + y div 16) div 16 = x" using "4.prems" by auto
  moreover have "16 * ((16 * (x mod 4) + y div 16) mod 16) + (4 * (y mod 16) + z div 64) div 4 = y"
    using "4.prems" by auto
  moreover have "64 * ((4 * (y mod 16) + z div 64) mod 4) + z mod 64 = z" using "4.prems" by auto
  ultimately show ?case using "4.IH" "4.prems" by simp
qed auto

lemma digits_of_map:
  "\<forall>d \<in> set ds. d < 64 \<Longrightarrow> digits_of (map b64_char ds) = Some ds"
  by (induction ds) (auto simp: b64_char_facts)

lemma btoa_form:
  "\<exists>pad. btoa xs = map b64_char (b64_digits xs) @ replicate pad (CHR ''='') \<and> pad \<le> 2 \<and>
     (length (b64_digits xs) + pad) mod 4 = 0 \<and> (b64_digits xs = [] \<longrightarrow> pad = 0)"
proof (induction xs rule: b64_digits.induct)
  case (2 x)
  show ?case by (rule exI [of _ 2]) (simp add: numeral_2_eq_2)
next
  case (3 x y)
  show ?case by (rule exI [of _ 1]) simp
next
  case (4 x y z r)
  then show ?case by (auto simp: mod_add_left_eq)
qed simp

lemma btoa_no_ws:
  assumes "\<forall>x \<in> set xs. x < 256"
  shows "filter (\<lambda>c. \<not> atob_ws c) (btoa xs) = btoa xs" "CHR '','' \<notin> set (btoa xs)"
proof -
  obtain pad where b: "btoa xs = map b64_char (b64_digits xs) @ replicate pad (CHR ''='')"
    using btoa_form by blast
  note d = b64_digits_bound [OF assms]
  show "filter (\<lambda>c. \<not> atob_ws c) (btoa xs) = btoa xs"
    unfolding b using d b64_char_facts(4) by (auto simp: filter_id_conv atob_ws_def)
  show "CHR '','' \<notin> set (btoa xs)"
  proof
    assume "CHR '','' \<in> set (btoa xs)"
    then obtain x where "x \<in> set (b64_digits xs)" "b64_char x = CHR '',''" unfolding b by auto
    then show False using d b64_char_facts(3) by blast
  qed
qed

lemma drop_pad_btoa:
  assumes "\<forall>x \<in> set xs. x < 256"
  shows "drop_pad (btoa xs) = map b64_char (b64_digits xs)"
proof -
  let ?m = "map b64_char (b64_digits xs)"
  obtain pad where b: "btoa xs = ?m @ replicate pad (CHR ''='')" "pad \<le> 2"
      "(length (b64_digits xs) + pad) mod 4 = 0" "b64_digits xs = [] \<longrightarrow> pad = 0"
    using btoa_form [of xs] by (elim exE conjE) (rule that)
  have l: "last ?m \<noteq> CHR ''=''" if n: "?m \<noteq> []"
  proof -
    have "last ?m = b64_char (last (b64_digits xs))" using n by (simp add: last_map)
    moreover have "last (b64_digits xs) < 64"
      using b64_digits_bound [OF assms] n last_in_set [of "b64_digits xs"] by blast
    ultimately show ?thesis using b64_char_facts(2) by simp
  qed
  consider "pad = 0" | "pad = 1" | "pad = 2" using b(2) by linarith
  then show ?thesis
  proof cases
    case 1
    then show ?thesis unfolding b(1) using l by (auto simp: drop_pad_def)
  next
    case 2
    then show ?thesis unfolding b(1) using l b(3,4)
      by (cases "b64_digits xs = []") (auto simp: drop_pad_def butlast_append)
  next
    case 3
    then show ?thesis unfolding b(1) using l b(3,4)
      by (cases "b64_digits xs = []") (auto simp: drop_pad_def butlast_append numeral_2_eq_2)
  qed
qed

lemma atob_btoa: "\<forall>x \<in> set xs. x < 256 \<Longrightarrow> atob (btoa xs) = Inr xs"
  by (simp add: atob_def btoa_no_ws drop_pad_btoa digits_of_map b64_digits_bound decode_b64_digits)

lemma takeWhile_stop: "c \<notin> set s \<Longrightarrow> takeWhile (\<lambda>x. x \<noteq> c) (s @ c # r) = s"
  by (subst takeWhile_append2) auto

text \<open>C18. An image goes through its data URL unharmed. The file made from the data URL of some bytes
  under a type without comma, semicolon and line break has these bytes, the given name and that
  type as files keep it, which is the type itself where it is printable and has no capital
  letter, as the types of images.\<close>

theorem data_url_roundtrip:
  assumes "\<forall>x \<in> set bytes. x < 256" "CHR '','' \<notin> set mime" "CHR '';'' \<notin> set mime"
    and "\<forall>c \<in> set mime. \<not> line_break c"
  shows "dataURLtoFile (data_url mime bytes) name =
      Inr \<lparr> fd_bytes = bytes, fd_name = name, fd_type = file_type mime \<rparr> \<and>
    ((\<forall>c \<in> set mime. printable c \<and> ascii_lower c = c) \<longrightarrow> file_type mime = mime)"
proof -
  have s: "js_split (CHR '','') (data_url mime bytes) =
      [''data:'' @ mime @ '';base64'', btoa bytes]"
  proof -
    have "js_split (CHR '','') ((''data:'' @ mime @ '';base64'') @ CHR '','' # btoa bytes) =
        [''data:'' @ mime @ '';base64'', btoa bytes]"
      using assms(2) btoa_no_ws(2) [OF assms(1)]
      by (subst js_split_append) (auto simp: js_split_no_sep)
    then show ?thesis by (simp add: data_url_def)
  qed
  have m: "mime_of (''data:'' @ mime @ '';base64'') = mime"
    using takeWhile_stop [OF assms(3), of "''base64''"] assms(4) by (simp add: list_all_iff)
  have "dataURLtoFile (data_url mime bytes) name =
      Inr \<lparr> fd_bytes = bytes, fd_name = name, fd_type = file_type mime \<rparr>"
    unfolding dataURLtoFile_def s Let_def using atob_btoa [OF assms(1)] m by (simp add: nth_opt_def)
  moreover have "file_type mime = mime" if "\<forall>c \<in> set mime. printable c \<and> ascii_lower c = c"
    using that by (simp add: file_type_def list_all_iff map_idI)
  ultimately show ?thesis by blast
qed

theorem data_url_roundtrip_witness:
  "dataURLtoFile (data_url ''image/png'' [137, 80, 78, 71, 255]) ''a.png'' =
     Inr \<lparr> fd_bytes = [137, 80, 78, 71, 255], fd_name = ''a.png'', fd_type = ''image/png'' \<rparr>"
proof -
  have "\<forall>c \<in> set ''image/png''. \<not> line_break c \<and> printable c \<and> ascii_lower c = c"
    by (simp add: line_break_def printable_def ascii_lower_def)
  then show ?thesis
    using data_url_roundtrip [of "[137, 80, 78, 71, 255]" "''image/png''" "''a.png''"] by simp
qed

end
