(* ===== verification/Identifier.thy ===== *)
theory Identifier
  imports Stores "HOL-Library.Word"
begin

unbundle bit_operations_syntax

text \<open>
  The account arithmetic of the wallet adapter, \<open>artemis-web3-adapter/src/libs/identifier-utils.js\<close>:
  bytes packed into 32-bit words and back, the checksum of a hash, the account identifier of a
  principal and the identifier of a token. SHA-224, CRC-32 and the text form of principals are
  those libraries' and arguments here. The lemmas show that unpacking undoes packing and that
  every account identifier is one the transfer dialog takes.
\<close>

section \<open>Bytes and words\<close>

type_synonym byte = "8 word"

text \<open>\<open>setUint32(0, num)\<close>, big-endian.\<close>

definition to32bits :: "int \<Rightarrow> byte list" where
  "to32bits num = (let w = (word_of_int num :: 32 word)
     in [ucast (drop_bit 24 w), ucast (drop_bit 16 w), ucast (drop_bit 8 w), ucast w])"

text \<open>\<open><<\<close> on 32 bits takes its count modulo 32, so \<open>24 - 8 * i\<close> is right for every \<open>i\<close>. A word
  that is not there yet is \<open>undefined\<close>, which counts as zero.\<close>

definition js_shl :: "32 word \<Rightarrow> int \<Rightarrow> 32 word" where
  "js_shl w k = push_bit (nat (k mod 32)) w"

definition put_byte :: "nat \<Rightarrow> byte \<Rightarrow> 32 word list \<Rightarrow> 32 word list" where
  "put_byte i b ws =
     (let v = js_shl (ucast b) (24 - 8 * int i)
      in if i div 4 < length ws then ws[i div 4 := ws ! (i div 4) OR v] else ws @ [v])"

fun put_bytes :: "nat \<Rightarrow> byte list \<Rightarrow> 32 word list \<Rightarrow> 32 word list" where
  "put_bytes i [] ws = ws"
| "put_bytes i (b # bs) ws = put_bytes (Suc i) bs (put_byte i b ws)"

text \<open>A word array of the hash library: the words and the number of bytes in them.\<close>

type_synonym word_array = "32 word list \<times> nat"

definition byteArrayToWordArray :: "byte list \<Rightarrow> word_array" where
  "byteArrayToWordArray bs = (put_bytes 0 bs [], length bs)"

definition wordToByteArray :: "32 word \<Rightarrow> nat \<Rightarrow> byte list" where
  "wordToByteArray w n =
     (if n > 0 then [ucast (drop_bit 24 w)] else []) @
     (if n > 1 then [ucast (drop_bit 16 w AND 0xFF)] else []) @
     (if n > 2 then [ucast (drop_bit 8 w AND 0xFF)] else []) @
     (if n > 3 then [ucast (w AND 0xFF)] else [])"

text \<open>The loop over a positive length; the shifts of a missing word are zero.\<close>

fun unpack_words :: "32 word list \<Rightarrow> nat \<Rightarrow> byte list" where
  "unpack_words ws n =
     (if n = 0 then []
      else wordToByteArray (case ws of [] \<Rightarrow> 0 | w # _ \<Rightarrow> w) (min 4 n) @
             unpack_words (tl ws) (n - min 4 n))"

declare unpack_words.simps [simp del]

definition wordArrayToByteArray :: "word_array \<Rightarrow> byte list" where
  "wordArrayToByteArray a = unpack_words (fst a) (snd a)"

section \<open>Identifiers\<close>

fun nat_hex :: "nat \<Rightarrow> string" where
  "nat_hex n = (if n < 16 then [hex_digit n] else nat_hex (n div 16) @ [hex_digit (n mod 16)])"

declare nat_hex.simps [simp del]

definition intToHex :: "int \<Rightarrow> string" where
  "intToHex v = (if v < 0 then nat_hex (unat (word_of_int v :: 32 word)) else nat_hex (nat v))"

definition padStart :: "nat \<Rightarrow> char \<Rightarrow> string \<Rightarrow> string" where
  "padStart n c s = replicate (n - length s) c @ s"

definition generateChecksum :: "(byte list \<Rightarrow> 32 word) \<Rightarrow> byte list \<Rightarrow> string" where
  "generateChecksum crc hash = padStart 8 (CHR ''0'') (intToHex (uint (crc hash)))"

text \<open>The text of a word array: two hexadecimal digits for each byte.\<close>

definition byte_hex :: "byte \<Rightarrow> string" where
  "byte_hex b = [hex_digit (unat b div 16), hex_digit (unat b mod 16)]"

definition hash_text :: "word_array \<Rightarrow> string" where
  "hash_text a = concat (map byte_hex (wordArrayToByteArray a))"

text \<open>The parameters: the bytes of a principal, or an exception, its text, and the two hashes.
  A hash is fed in pieces, which count as one after the other.\<close>

record hash_env =
  he_bytes :: "string \<Rightarrow> byte list res"
  he_text :: "byte list \<Rightarrow> string"
  he_sha :: "byte list \<Rightarrow> word_array"
  he_crc :: "byte list \<Rightarrow> 32 word"

definition ascii_bytes :: "string \<Rightarrow> byte list" where
  "ascii_bytes s = map (\<lambda>c. word_of_int (int (of_char c :: nat))) s"

definition ACCOUNT_DOMAIN_SEPERATOR :: "byte list" where
  "ACCOUNT_DOMAIN_SEPERATOR = 10 # ascii_bytes ''account-id''"

text \<open>The subaccount is written to the first four of its 32 bytes; one that is no 32-bit number is
  an exception. Every exception becomes \<open>false\<close>.\<close>

definition sub_buffer :: "int \<Rightarrow> byte list res" where
  "sub_buffer sub =
     (if sub = 0 then Inr (replicate 32 0)
      else if 0 \<le> sub \<and> sub < 2 ^ 32 then Inr (to32bits sub @ replicate 28 0)
      else Inl RangeError)"

definition getAccountIdentifier :: "hash_env \<Rightarrow> string \<Rightarrow> int \<Rightarrow> string option" where
  "getAccountIdentifier H principalId sub =
     (case res_bind (he_bytes H principalId) (\<lambda>p. res_map (Pair p) (sub_buffer sub)) of
        Inl _ \<Rightarrow> None
      | Inr (p, s) \<Rightarrow>
          (let hash = he_sha H (ACCOUNT_DOMAIN_SEPERATOR @
                 wordArrayToByteArray (byteArrayToWordArray p) @
                 wordArrayToByteArray (byteArrayToWordArray s))
           in Some (generateChecksum (he_crc H) (wordArrayToByteArray hash) @ hash_text hash)))"

text \<open>\<open>getAccountId\<close> of \<open>utils/common.ts\<close>: the subaccount is \<open>null\<close> where there is none.\<close>

definition getAccountId :: "hash_env \<Rightarrow> string \<Rightarrow> int option \<Rightarrow> string option" where
  "getAccountId H principalId sub =
     getAccountIdentifier H principalId (case sub of None \<Rightarrow> 0 | Some n \<Rightarrow> n)"

definition getTokenIdentifier :: "hash_env \<Rightarrow> string \<Rightarrow> int \<Rightarrow> string res" where
  "getTokenIdentifier H canisterId tokenIndex =
     res_map (\<lambda>p. he_text H (10 # ascii_bytes ''tid'' @ p @ to32bits tokenIndex))
       (he_bytes H canisterId)"

section \<open>Lemmas\<close>

text \<open>The words of a list of bytes, four at a time.\<close>

definition pack :: "byte \<Rightarrow> byte \<Rightarrow> byte \<Rightarrow> byte \<Rightarrow> 32 word" where
  "pack a b c d = push_bit 24 (ucast a) OR push_bit 16 (ucast b) OR push_bit 8 (ucast c) OR ucast d"

lemma pack_bytes:
  "ucast (drop_bit 24 (pack a b c d)) = a"
  "ucast (drop_bit 16 (pack a b c d) AND 0xFF) = b"
  "ucast (drop_bit 8 (pack a b c d) AND 0xFF) = c"
  "ucast (pack a b c d AND 0xFF) = d"
proof -
  have m: "(0xFF :: 32 word) = mask 8" by (simp add: mask_eq_exp_minus_1)
  show "ucast (drop_bit 24 (pack a b c d)) = a"
    by (rule bit_word_eqI) (auto simp: pack_def bit_simps dest: bit_imp_le_length)
  show "ucast (drop_bit 16 (pack a b c d) AND 0xFF) = b"
    unfolding m by (rule bit_word_eqI) (auto simp: pack_def bit_simps dest: bit_imp_le_length)
  show "ucast (drop_bit 8 (pack a b c d) AND 0xFF) = c"
    unfolding m by (rule bit_word_eqI) (auto simp: pack_def bit_simps dest: bit_imp_le_length)
  show "ucast (pack a b c d AND 0xFF) = d"
    unfolding m by (rule bit_word_eqI) (auto simp: pack_def bit_simps dest: bit_imp_le_length)
qed

fun packed :: "byte list \<Rightarrow> 32 word list" where
  "packed [] = []"
| "packed [a] = [pack a 0 0 0]"
| "packed [a, b] = [pack a b 0 0]"
| "packed [a, b, c] = [pack a b c 0]"
| "packed (a # b # c # d # r) = pack a b c d # packed r"

lemma shift_counts:
  "(24 - 8 * int (4 * k)) mod 32 = 24" "(24 - 8 * int (Suc (4 * k))) mod 32 = 16"
  "(24 - 8 * int (Suc (Suc (4 * k)))) mod 32 = 8" "(24 - 8 * int (Suc (Suc (Suc (4 * k))))) mod 32 = 0"
proof -
  have e: "24 - 8 * int (4 * k) = 24 + 32 * (- int k)" "24 - 8 * int (Suc (4 * k)) = 16 + 32 * (- int k)"
    "24 - 8 * int (Suc (Suc (4 * k))) = 8 + 32 * (- int k)"
    "24 - 8 * int (Suc (Suc (Suc (4 * k)))) = 0 + 32 * (- int k)" by simp_all
  show "(24 - 8 * int (4 * k)) mod 32 = 24" "(24 - 8 * int (Suc (4 * k))) mod 32 = 16"
    "(24 - 8 * int (Suc (Suc (4 * k)))) mod 32 = 8" "(24 - 8 * int (Suc (Suc (Suc (4 * k))))) mod 32 = 0"
    unfolding e by (simp_all only: mod_mult_self2) simp_all
qed

lemma index_div: "Suc (4 * k) div 4 = k" "Suc (Suc (4 * k)) div 4 = k" "Suc (Suc (Suc (4 * k))) div 4 = k"
  by simp_all

lemma put_byte_steps:
  assumes "length ws = k"
  shows "put_byte (4 * k) b ws = ws @ [push_bit 24 (ucast b)]"
    "put_byte (Suc (4 * k)) b (ws @ [w]) = ws @ [w OR push_bit 16 (ucast b)]"
    "put_byte (Suc (Suc (4 * k))) b (ws @ [w]) = ws @ [w OR push_bit 8 (ucast b)]"
    "put_byte (Suc (Suc (Suc (4 * k)))) b (ws @ [w]) = ws @ [w OR ucast b]"
proof -
  have l: "(ws @ [w])[k := v] = ws @ [v]" "(ws @ [w]) ! k = w" for w v
    using assms by (auto simp: list_update_append)
  show "put_byte (4 * k) b ws = ws @ [push_bit 24 (ucast b)]"
    "put_byte (Suc (4 * k)) b (ws @ [w]) = ws @ [w OR push_bit 16 (ucast b)]"
    "put_byte (Suc (Suc (4 * k))) b (ws @ [w]) = ws @ [w OR push_bit 8 (ucast b)]"
    "put_byte (Suc (Suc (Suc (4 * k)))) b (ws @ [w]) = ws @ [w OR ucast b]"
    using assms by (simp_all add: put_byte_def js_shl_def shift_counts index_div Let_def l
        del: of_nat_Suc of_nat_mult)
qed

lemma put_bytes_packed: "length ws = k \<Longrightarrow> put_bytes (4 * k) bs ws = ws @ packed bs"
proof (induction bs arbitrary: k ws rule: packed.induct)
  case (5 a b c d r)
  have "put_bytes (4 * k) (a # b # c # d # r) ws =
      put_bytes (4 * Suc k) r (ws @ [pack a b c d])"
    using put_byte_steps [OF "5.prems"] by (simp add: pack_def or.assoc numeral_eq_Suc)
  also have "\<dots> = (ws @ [pack a b c d]) @ packed r" by (rule "5.IH") (simp add: "5.prems")
  finally show ?case by simp
qed (simp_all add: put_byte_steps pack_def or.assoc)

lemma unpack_short: "n \<le> 4 \<Longrightarrow> unpack_words (w # ws) n = wordToByteArray w n"
  by (subst unpack_words.simps) (simp add: wordToByteArray_def unpack_words.simps [of "[]" 0]
      unpack_words.simps [of ws 0] min_def)

lemma unpack_packed: "unpack_words (packed bs) (length bs) = bs"
proof (induction bs rule: packed.induct)
  case 1
  show ?case by (simp add: unpack_words.simps)
next
  case (5 a b c d r)
  then show ?case
    by (subst unpack_words.simps) (simp add: wordToByteArray_def pack_bytes min_def)
qed (simp_all add: unpack_short wordToByteArray_def pack_bytes)

lemma unpack_length: "length (unpack_words ws n) = n"
proof (induction n arbitrary: ws rule: less_induct)
  case (less n)
  show ?case
  proof (cases "n = 0")
    case False
    then have "length (unpack_words (tl ws) (n - min 4 n)) = n - min 4 n" by (intro less) simp
    moreover have "length (wordToByteArray w (min 4 n)) = min 4 n" for w
      by (auto simp: wordToByteArray_def min_def)
    ultimately show ?thesis using False by (subst unpack_words.simps) simp
  qed (simp add: unpack_words.simps)
qed

lemma words_undone: "wordArrayToByteArray (byteArrayToWordArray bs) = bs"
  using put_bytes_packed [of "[]" 0 bs] unpack_packed [of bs]
  by (simp add: wordArrayToByteArray_def byteArrayToWordArray_def)

lemma hex_digit_is_hex: "d < 16 \<Longrightarrow> is_hex (hex_digit d)"
  by (auto simp: is_hex_def hex_digit_def)

lemma nat_hex_ok:
  assumes "n < 16 ^ Suc k"
  shows "length (nat_hex n) \<le> Suc k \<and> list_all is_hex (nat_hex n) \<and> nat_hex n \<noteq> []"
  using assms
proof (induction k arbitrary: n)
  case 0
  then show ?case by (simp add: nat_hex.simps hex_digit_is_hex)
next
  case (Suc k)
  have "n div 16 < 16 ^ Suc k" using Suc.prems by (simp add: less_mult_imp_div_less)
  then show ?case using Suc.IH [of "n div 16"] hex_digit_is_hex [of n] hex_digit_is_hex [of "n mod 16"]
    by (subst (1 2 3) nat_hex.simps) simp
qed

lemma zero_is_hex: "is_hex (CHR ''0'')"
  by (simp add: is_hex_def)

lemma checksum_ok: "length (generateChecksum crc h) = 8 \<and> list_all is_hex (generateChecksum crc h)"
proof -
  have "unat (crc h) < 2 ^ LENGTH(32)" by (rule unsigned_less)
  then have "nat (uint (crc h)) < 16 ^ Suc 7" by (simp flip: nat_uint_eq)
  from nat_hex_ok [OF this] show ?thesis
    using zero_is_hex by (auto simp: generateChecksum_def padStart_def intToHex_def list_all_iff)
qed

lemma byte_hex_ok: "length (byte_hex b) = 2" "list_all is_hex (byte_hex b)"
proof -
  have "unat b < 2 ^ LENGTH(8)" by (rule unsigned_less)
  then show "length (byte_hex b) = 2" "list_all is_hex (byte_hex b)"
    by (simp_all add: byte_hex_def hex_digit_is_hex)
qed

lemma bytes_hex_ok:
  "length (concat (map byte_hex bs)) = 2 * length bs \<and> list_all is_hex (concat (map byte_hex bs))"
  by (induction bs) (simp_all add: byte_hex_ok)

text \<open>Packing bytes into words loses nothing. Whatever the bytes, and whether or not their number
  is a multiple of four, the words the hash library is given unpack to the same bytes; the shift
  counts below zero the loop uses are taken modulo 32 and right.\<close>

lemma word_packing_roundtrip:
  "wordArrayToByteArray (byteArrayToWordArray bs) = bs \<and>
   length (fst (byteArrayToWordArray bs)) = (length bs + 3) div 4"
proof -
  have "length (packed bs) = (length bs + 3) div 4"
    by (induction bs rule: packed.induct) simp_all
  then show ?thesis using put_bytes_packed [of "[]" 0 bs]
    by (intro conjI words_undone) (simp add: byteArrayToWordArray_def)
qed

text \<open>C23. Every account identifier is one the transfer dialog takes. With a hash of 28 bytes, whatever
  the hash and the checksum of the libraries, an identifier made of a principal and a subaccount
  has sixty-four hexadecimal digits, and is what \<open>isValidAccountId\<close> accepts; a subaccount that
  does not fit 32 bits makes none.\<close>

theorem account_identifier_valid:
  assumes "\<And>x. snd (he_sha H x) = 28" "he_bytes H p = Inr b"
  shows "(\<exists>t. getAccountIdentifier H p sub = Some t \<and> isValidAccountId t) = (0 \<le> sub \<and> sub < 2 ^ 32)"
proof -
  have h: "length (hash_text (he_sha H x)) = 56 \<and> list_all is_hex (hash_text (he_sha H x))" for x
    using bytes_hex_ok [of "wordArrayToByteArray (he_sha H x)"] assms(1) [of x]
    by (simp add: hash_text_def wordArrayToByteArray_def unpack_length)
  show ?thesis
    using h checksum_ok by (auto simp: getAccountIdentifier_def assms(2) sub_buffer_def Let_def isValidAccountId_def)
qed

definition sample_hashes :: hash_env where
  "sample_hashes = \<lparr> he_bytes = (\<lambda>p. Inr [4]), he_text = (\<lambda>b. ''t''), he_sha = (\<lambda>b. ([1, 2], 28)),
     he_crc = (\<lambda>b. 0xAB) \<rparr>"

theorem account_identifier_valid_witness:
  "\<exists>t. getAccountIdentifier sample_hashes ''2vxsx-fae'' 7 = Some t \<and> isValidAccountId t"
  using account_identifier_valid [of sample_hashes "''2vxsx-fae''" "[4]" 7]
  by (simp add: sample_hashes_def)

end
