(* ===== verification/Adapter.thy ===== *)
theory Adapter
  imports Identifier ActorApi
begin

text \<open>
  The wallet adapter \<open>artemis-web3-adapter\<close>: the seven wallets (\<open>src/wallets/\<close>), each a
  \<open>connectWallet\<close> that asks a browser extension or its library, and the class \<open>Artemis\<close>
  (\<open>src/index.js\<close>) that selects one, keeps its session and caches the actors it makes. What an
  extension answers, or that it never does, is an argument. The lemmas show when a connect
  settles, whose identity a cached actor has, and what a disconnect leaves behind.
\<close>

section \<open>Promises\<close>

text \<open>A promise settles with a value or an exception, or never.\<close>

datatype 'a promise = Settled "'a res" | Pending

abbreviation returned :: "'a \<Rightarrow> 'a promise" where
  "returned a \<equiv> Settled (Inr a)"

definition await :: "'a promise \<Rightarrow> ('a \<Rightarrow> 'b promise) \<Rightarrow> 'b promise" where
  "await p f = (case p of
     Pending \<Rightarrow> Pending | Settled (Inl e) \<Rightarrow> Settled (Inl e) | Settled (Inr a) \<Rightarrow> f a)"

text \<open>A \<open>try\<close> that yields \<open>d\<close> after an exception, and the asynchronous executor of a
  \<open>new Promise\<close>, whose exceptions reject its own promise and leave the new one open.\<close>

definition try_catch :: "'a promise \<Rightarrow> 'a \<Rightarrow> 'a promise" where
  "try_catch p d = (case p of Settled (Inl e) \<Rightarrow> returned d | _ \<Rightarrow> p)"

definition executor :: "'a promise \<Rightarrow> 'a promise" where
  "executor p = (case p of Settled (Inl e) \<Rightarrow> Pending | _ \<Rightarrow> p)"

lemma await_simps [simp]:
  "await Pending f = Pending" "await (Settled (Inl e)) f = Settled (Inl e)" "await (returned a) f = f a"
  by (simp_all add: await_def)

lemma try_catch_simps [simp]:
  "try_catch Pending d = Pending" "try_catch (Settled (Inl e)) d = returned d"
  "try_catch (returned a) d = returned a"
  by (simp_all add: try_catch_def)

lemma executor_simps [simp]:
  "executor Pending = Pending" "executor (Settled (Inl e)) = Pending" "executor (returned a) = returned a"
  by (simp_all add: executor_def)

section \<open>The wallets\<close>

text \<open>What \<open>connectWallet\<close> yields: \<open>false\<close>, or the account, the principal and the accounts of
  Stoic.\<close>

record connected =
  cn_account :: "string option"
  cn_principal :: string
  cn_stoic :: "nat option"

type_synonym connection = "connected option promise"

definition connection :: "string option \<Rightarrow> string \<Rightarrow> connected option" where
  "connection acct p = Some \<lparr> cn_account = acct, cn_principal = p, cn_stoic = None \<rparr>"

text \<open>\<open>disconnect_force\<close>: Bitfinity's and Plug's own disconnect, with exceptions caught.\<close>

definition disconnect_force :: "unit promise \<Rightarrow> unit promise \<Rightarrow> bool promise" where
  "disconnect_force db dp =
     await (try_catch db ()) (\<lambda>_. await (try_catch dp ()) (\<lambda>_. returned True))"

record plug_ext =
  px_isConnected :: "bool promise"
  px_createAgent :: "unit promise"
  px_requestConnect :: "unit promise"
  px_principal :: "string promise"
  px_account :: "string option"

definition plug_connectWallet :: "bool promise \<Rightarrow> plug_ext \<Rightarrow> connection" where
  "plug_connectWallet force x =
     await (try_catch (px_isConnected x) False) (\<lambda>result.
     try_catch
       (await (if result then px_createAgent x else await force (\<lambda>_. px_requestConnect x)) (\<lambda>_.
        await (px_principal x) (\<lambda>p. returned (connection (px_account x) p)))) None)"

record bitfinity_ext =
  bx_isConnected :: "bool promise"
  bx_requestConnect :: "unit promise"
  bx_agent :: bool
  bx_requestAgain :: "unit promise"
  bx_principal :: "string promise"
  bx_account :: "string promise"

definition bitfinity_connectWallet :: "bool promise \<Rightarrow> bitfinity_ext \<Rightarrow> connection" where
  "bitfinity_connectWallet force x =
     await (bx_isConnected x) (\<lambda>isconn.
     await (if isconn then returned () else await force (\<lambda>_. bx_requestConnect x)) (\<lambda>_.
     await (if bx_agent x then returned () else bx_requestAgain x) (\<lambda>_.
     await (bx_principal x) (\<lambda>p.
     await (bx_account x) (\<lambda>a. returned (connection (Some a) p))))))"

text \<open>Internet Identity and NFID: the library's login calls back after a success only.\<close>

record auth_ext =
  ax_create :: "unit promise"
  ax_isAuthenticated :: "bool promise"
  ax_login :: bool
  ax_identity :: "unit promise"
  ax_principal :: "string res"

definition continueLogin :: "hash_env \<Rightarrow> auth_ext \<Rightarrow> connection" where
  "continueLogin H x =
     await (ax_identity x) (\<lambda>_. await (Settled (ax_principal x)) (\<lambda>p.
       returned (connection (getAccountIdentifier H p 0) p)))"

definition dfinity_connectWallet :: "hash_env \<Rightarrow> auth_ext \<Rightarrow> connection" where
  "dfinity_connectWallet H x =
     await (ax_create x) (\<lambda>_. executor (await (ax_isAuthenticated x) (\<lambda>isConnected.
       if isConnected then continueLogin H x
       else if ax_login x then continueLogin H x else Pending)))"

definition nfid_connectWallet :: "hash_env \<Rightarrow> auth_ext \<Rightarrow> connection" where
  "nfid_connectWallet H x =
     await (ax_create x) (\<lambda>_. executor (await (ax_isAuthenticated x) (\<lambda>isConnected.
       if \<not> isConnected then (if ax_login x then continueLogin H x else Pending)
       else continueLogin H x)))"

text \<open>The window NFID opens: its provider and its place in the middle of the screen.\<close>

definition nfid_provider :: "string \<Rightarrow> string" where
  "nfid_provider hostname = ''https://nfid.one/authenticate/?applicationName='' @ hostname"

definition nfid_features :: "jsnum \<Rightarrow> jsnum \<Rightarrow> string" where
  "nfid_features width height =
     ''left='' @ js_toString (js_sub (js_div width (Fin 2)) (js_div (Fin 525) (Fin 2))) @
     '', top='' @ js_toString (js_sub (js_div height (Fin 2)) (js_div (Fin 705) (Fin 2))) @
     '', toolbar=0,location=0,menubar=0,width=525,height=705''"

record msq_ext =
  mx_create :: "bool promise"
  mx_login :: "unit promise"
  mx_principal :: "string promise"

definition msq_connectWallet :: "hash_env \<Rightarrow> msq_ext \<Rightarrow> connection" where
  "msq_connectWallet H x =
     await (mx_create x) (\<lambda>ok.
       if ok then await (mx_login x) (\<lambda>_. await (mx_principal x) (\<lambda>p.
                    returned (connection (getAccountIdentifier H p 0) p)))
       else returned None)"

text \<open>Stoic: \<open>parse\<close> reads the addresses of the accounts from their JSON text.\<close>

record stoic_ext =
  sx_load :: "bool promise"
  sx_connect :: "unit promise"
  sx_accounts :: "string promise"
  sx_principal :: string

definition stoic_connectWallet :: "(string \<Rightarrow> string list res) \<Rightarrow> stoic_ext \<Rightarrow> connection" where
  "stoic_connectWallet parse x =
     await (sx_load x) (\<lambda>loaded.
     await (if loaded then returned () else sx_connect x) (\<lambda>_.
     await (sx_accounts x) (\<lambda>t.
     await (Settled (parse t)) (\<lambda>accts. case accts of
         [] \<Rightarrow> Settled (Inl TypeError)
       | a # _ \<Rightarrow> returned (Some \<lparr> cn_account = Some a, cn_principal = sx_principal x,
                                     cn_stoic = Some (length accts) \<rparr>)))))"

text \<open>AstroX: inside its own application, otherwise in a frame, whose provider may stay missing.\<close>

record astrox_ext =
  tx_icx_init :: "unit promise"
  tx_icx_ready :: bool
  tx_create :: "unit promise"
  tx_icx_connected :: "bool promise"
  tx_icx_connect :: "unit promise"
  tx_icx_account :: "string option"
  tx_icx_principal :: string
  tx_ic_before :: bool
  tx_ic_after :: bool
  tx_authenticated :: "bool promise"
  tx_connect :: "unit promise"
  tx_principal :: "string res"

definition astrox_connectWallet :: "hash_env \<Rightarrow> astrox_ext \<Rightarrow> connection" where
  "astrox_connectWallet H x = executor
     (await (try_catch (await (tx_icx_init x) (\<lambda>_. returned (tx_icx_ready x))) False) (\<lambda>isICXReady.
        if isICXReady then
          await (tx_create x) (\<lambda>_.
          await (tx_icx_connected x) (\<lambda>isconneted.
          await (if isconneted then returned () else tx_icx_connect x) (\<lambda>_.
            returned (connection (tx_icx_account x) (tx_icx_principal x)))))
        else
          await (if tx_ic_before x then returned True
                 else await (tx_create x) (\<lambda>_. returned (tx_ic_after x))) (\<lambda>present.
          if \<not> present then Pending
          else await (tx_authenticated x) (\<lambda>isconneted.
               await (if isconneted then returned () else tx_connect x) (\<lambda>_.
               await (Settled (tx_principal x)) (\<lambda>p.
                 returned (connection (getAccountIdentifier H p 0) p)))))))"

text \<open>The actors of a connected wallet; without a canister or an interface it is \<open>false\<close>.\<close>

definition adapter_createActor :: "string \<Rightarrow> bool \<Rightarrow> 'a promise \<Rightarrow> 'a option promise" where
  "adapter_createActor canisterId interface actor =
     (if canisterId = [] \<or> \<not> interface then returned None else await actor (\<lambda>a. returned (Some a)))"

text \<open>The wallets by name, with the state found when the page loads: an extension that is not there
  has a page to get it from. Only an undetected wallet's page is ever opened.\<close>

datatype ready_state = Installed | Loadable | NotDetected

record wallet_entry =
  w_id :: string
  w_name :: string
  w_ready :: ready_state
  w_url :: string
  w_connect :: connection

record browser =
  br_plug :: bool
  br_bitfinity :: bool
  br_metamask :: bool
  br_force :: "bool promise"
  br_hash :: hash_env
  br_parse :: "string \<Rightarrow> string list res"
  br_plug_ext :: plug_ext
  br_bitfinity_ext :: bitfinity_ext
  br_msq_ext :: msq_ext
  br_auth_ext :: auth_ext
  br_nfid_ext :: auth_ext
  br_astrox_ext :: astrox_ext
  br_stoic_ext :: stoic_ext

definition injected :: "bool \<Rightarrow> ready_state" where
  "injected present = (if present then Installed else NotDetected)"

definition walletList :: "browser \<Rightarrow> wallet_entry list" where
  "walletList B =
    [\<lparr> w_id = ''dfinity'', w_name = ''Internet Identity'', w_ready = Loadable,
       w_url = ''https://identity.ic0.app'',
       w_connect = dfinity_connectWallet (br_hash B) (br_auth_ext B) \<rparr>,
     \<lparr> w_id = ''plug'', w_name = ''Plug Wallet'', w_ready = injected (br_plug B),
       w_url = ''https://plugwallet.ooo/'',
       w_connect = plug_connectWallet (br_force B) (br_plug_ext B) \<rparr>,
     \<lparr> w_id = ''astrox'', w_name = ''AstroX ME'', w_ready = Loadable,
       w_url = ''https://63k2f-nyaaa-aaaah-aakla-cai.raw.ic0.app'',
       w_connect = astrox_connectWallet (br_hash B) (br_astrox_ext B) \<rparr>,
     \<lparr> w_id = ''bitfinity'', w_name = ''Bitfinity Wallet'', w_ready = injected (br_bitfinity B),
       w_url = ''https://wallet.infinityswap.one/'',
       w_connect = bitfinity_connectWallet (br_force B) (br_bitfinity_ext B) \<rparr>,
     \<lparr> w_id = ''stoic'', w_name = ''Stoic Wallet'', w_ready = Loadable,
       w_url = ''https://www.stoicwallet.com/'',
       w_connect = stoic_connectWallet (br_parse B) (br_stoic_ext B) \<rparr>,
     \<lparr> w_id = ''metamask'', w_name = ''Meta Mask'', w_ready = injected (br_metamask B),
       w_url = ''https://metamask.io/download/'',
       w_connect = msq_connectWallet (br_hash B) (br_msq_ext B) \<rparr>,
     \<lparr> w_id = ''nfid'', w_name = ''NFID'', w_ready = Loadable, w_url = ''https://nfid.one/'',
       w_connect = nfid_connectWallet (br_hash B) (br_nfid_ext B) \<rparr>]"

section \<open>The adapter object\<close>

definition HOSTURL :: string where "HOSTURL = ''https://icp0.io''"

definition NNS_CANISTER_ID :: string where "NNS_CANISTER_ID = ''ryjl3-tyaaa-aaaaa-aaaba-cai''"

definition localStorageKey :: string where "localStorageKey = ''dfinityWallet''"

text \<open>A white list may hold \<open>undefined\<close>: a canister without an id on the network.\<close>

record connect_object =
  co_whitelist :: "string option list"
  co_host :: string

text \<open>An actor acts for the principal its wallet had when it was made, or for nobody.\<close>

datatype canister_actor = WalletActor string "string option" | AnonActor

record artemis =
  ar_accountId :: "string option"
  principalId :: "string option"
  walletActive :: string
  provider :: "string option"
  ar_balance :: "jsnum + int"
  hostUrl :: string
  canisterActors :: "string \<Rightarrow> canister_actor option"
  connectedWalletInfo :: "(string \<times> string) option"
  connectObject :: connect_object

text \<open>The values of a list in the order they first occur, as \<open>new Set\<close> keeps them.\<close>

definition set_order :: "'a list \<Rightarrow> 'a list" where
  "set_order xs = rev (remdups (rev xs))"

text \<open>\<open>_cleanUpConnObj\<close> pushes to the array of the caller, which is the second component.\<close>

definition cleanUpConnObj :: "connect_object \<Rightarrow> artemis \<Rightarrow> connect_object \<times> string option list \<times> artemis" where
  "cleanUpConnObj obj a =
     (let pushed = co_whitelist obj @ [Some NNS_CANISTER_ID];
          obj' = obj\<lparr> co_whitelist := set_order pushed \<rparr>
      in (obj', pushed, a\<lparr> connectObject := obj' \<rparr>))"

text \<open>The constructor: the function it makes to connect again is never called.\<close>

definition default_object :: connect_object where
  "default_object = \<lparr> co_whitelist = [Some NNS_CANISTER_ID], co_host = HOSTURL \<rparr>"

definition new_artemis :: artemis where
  "new_artemis = snd (snd (cleanUpConnObj default_object
     \<lparr> ar_accountId = None, principalId = None, walletActive = [], provider = None, ar_balance = Inl (Fin 0),
       hostUrl = HOSTURL, canisterActors = (\<lambda>_. None), connectedWalletInfo = None,
       connectObject = default_object \<rparr>))"

definition find_wallet :: "wallet_entry list \<Rightarrow> string \<Rightarrow> wallet_entry option" where
  "find_wallet ws w = find (\<lambda>o'. w_id o' = w) ws"

text \<open>What a connect sets off: a page opened, a balance read in the background.\<close>

datatype adapter_task = OpenWindow string | ReadBalance

record connect_out =
  out_result :: "string option promise"
  out_adapter :: artemis
  out_world :: world
  out_tasks :: "adapter_task list"

text \<open>\<open>connect\<close>: the result is the principal, or \<open>false\<close> (\<open>None\<close>). An undetected wallet opens its
  page and yields the principal the adapter already has.\<close>

definition took_wallet :: "wallet_entry \<Rightarrow> connected \<Rightarrow> artemis \<Rightarrow> artemis" where
  "took_wallet e p a =
     a\<lparr> principalId := Some (cn_principal p), ar_accountId := cn_account p, walletActive := w_id e,
        provider := Some (w_id e), connectedWalletInfo := Some (w_id e, w_name e) \<rparr>"

definition note_wallet :: "string \<Rightarrow> connected \<Rightarrow> world \<Rightarrow> world" where
  "note_wallet wid p w =
     ls_set localStorageKey wid
       (case cn_stoic p of None \<Rightarrow> w | Some n \<Rightarrow> ls_set ''stoicAccounts'' (nat_str n) w)"

definition artemis_connect ::
  "wallet_entry list \<Rightarrow> string \<Rightarrow> connect_object \<Rightarrow> artemis \<Rightarrow> world \<Rightarrow> connect_out" where
  "artemis_connect ws wid obj a w =
     (let (obj', _, a0) = cleanUpConnObj obj a;
          a1 = a0\<lparr> hostUrl := co_host obj' \<rparr>;
          stop = (\<lambda>p ts. \<lparr> out_result = p, out_adapter = a1, out_world = w, out_tasks = ts \<rparr>)
      in if wid = [] then stop (returned None) []
      else case find_wallet ws wid of
        None \<Rightarrow> stop (returned None) []
      | Some e \<Rightarrow>
          if w_ready e = NotDetected then stop (returned (principalId a1)) [OpenWindow (w_url e)]
          else (case w_connect e of
               Pending \<Rightarrow> stop Pending []
             | Settled (Inl _) \<Rightarrow> stop (returned None) []
             | Settled (Inr None) \<Rightarrow> stop (returned None) []
             | Settled (Inr (Some p)) \<Rightarrow>
                 \<lparr> out_result = returned (Some (cn_principal p)), out_adapter = took_wallet e p a1,
                   out_world = note_wallet wid p w,
                   out_tasks = (if co_host obj' = HOSTURL then [ReadBalance] else []) \<rparr>))"

text \<open>\<open>autoConnect\<close>: the wallet remembered in the local storage, if it is one of the list.\<close>

definition autoConnect :: "wallet_entry list \<Rightarrow> connect_object \<Rightarrow> artemis \<Rightarrow> world \<Rightarrow> connect_out" where
  "autoConnect ws obj a w =
     (let (obj', _, a1) = cleanUpConnObj obj a
      in case ls_get localStorageKey w of
           JStr wid \<Rightarrow>
             (if find_wallet ws wid = None
              then \<lparr> out_result = returned None, out_adapter = a1, out_world = w, out_tasks = [] \<rparr>
              else artemis_connect ws wid obj' a1 w)
         | _ \<Rightarrow> \<lparr> out_result = returned None, out_adapter = a1, out_world = w, out_tasks = [] \<rparr>)"

text \<open>\<open>disconnect\<close> clears the provider only, after both extensions have answered; without a
  provider it throws. The wallet's own disconnect is not awaited.\<close>

definition artemis_disconnect ::
  "unit promise \<Rightarrow> unit promise \<Rightarrow> artemis \<Rightarrow> world \<Rightarrow> bool promise \<times> artemis \<times> world" where
  "artemis_disconnect db dp a w =
     (if provider a = None then (Settled (Inl TypeError), a, w)
      else (let w1 = ls_remove localStorageKey w in
        case disconnect_force db dp of
          Settled (Inr _) \<Rightarrow> (returned True, a\<lparr> provider := None \<rparr>, w1)
        | Settled (Inl e) \<Rightarrow> (Settled (Inl e), a, w1)
        | Pending \<Rightarrow> (Pending, a, w1)))"

text \<open>\<open>isLoaded\<close>: a tick of its interval resolves the promise once there is a provider.\<close>

definition isLoaded_tick :: "artemis \<Rightarrow> bool promise \<Rightarrow> bool promise" where
  "isLoaded_tick a p = (if p = Pending \<and> provider a \<noteq> None then returned True else p)"

text \<open>The actor of a provider: Plug and Bitfinity are asked whatever the canister is.\<close>

definition provider_createActor :: "string \<Rightarrow> string \<Rightarrow> bool \<Rightarrow> 'a promise \<Rightarrow> 'a option promise" where
  "provider_createActor p cid idl actor =
     (if p = ''plug'' \<or> p = ''bitfinity'' then await actor (\<lambda>x. returned (Some x))
      else adapter_createActor cid idl actor)"

text \<open>\<open>getCanisterActor\<close>: the cached actor, or a new one, which the wallet makes or fails to. The
  list of anonymous actors is never written. \<open>false\<close> in the cache counts as nothing.\<close>

definition getCanisterActor :: "string \<Rightarrow> bool \<Rightarrow> unit promise \<Rightarrow> bool \<Rightarrow> artemis \<Rightarrow>
    canister_actor option promise \<times> artemis" where
  "getCanisterActor cid idl made isAnon a =
     (if isAnon then (await made (\<lambda>_. returned (Some AnonActor)), a)
      else case canisterActors a cid of
        Some act \<Rightarrow> (returned (Some act), a)
      | None \<Rightarrow> (case provider a of
            None \<Rightarrow> (Settled (Inl TypeError), a)
          | Some p \<Rightarrow>
              (case provider_createActor p cid idl (await made (\<lambda>_. returned (WalletActor p (principalId a)))) of
                 Settled (Inr act) \<Rightarrow>
                   (returned act, a\<lparr> canisterActors := (canisterActors a)(cid := act) \<rparr>)
               | p' \<Rightarrow> (p', a))))"

text \<open>\<open>getWalletBalance\<close>: a number is kept in \<open>ICP\<close>, anything else as it came.\<close>

definition getWalletBalance :: "bool \<Rightarrow> unit promise \<Rightarrow> int promise \<Rightarrow> artemis \<Rightarrow> (jsnum + int) promise \<times> artemis" where
  "getWalletBalance as_number made reply a =
     (if ar_accountId a = None \<or> ar_accountId a = Some [] then (returned (Inl (Fin 0)), a)
      else case getCanisterActor NNS_CANISTER_ID True made False a of
        (Settled (Inr (Some _)), a1) \<Rightarrow>
          (case reply of
             Settled (Inr e8s) \<Rightarrow>
               if as_number
               then (let b = js_div (js_parseFloat (int_str e8s)) (Fin (10 ^ 8))
                     in (returned (Inl b), a1\<lparr> ar_balance := Inl b \<rparr>))
               else (returned (Inr e8s), a1\<lparr> ar_balance := Inr e8s \<rparr>)
           | Settled (Inl e) \<Rightarrow> (Settled (Inl e), a1)
           | Pending \<Rightarrow> (Pending, a1))
      | (Settled (Inr None), a1) \<Rightarrow> (Settled (Inl TypeError), a1)
      | (Settled (Inl e), a1) \<Rightarrow> (Settled (Inl e), a1)
      | (Pending, a1) \<Rightarrow> (Pending, a1))"

text \<open>\<open>requestICPTransfer\<close>: a failed transfer rejects, and a height of zero counts as none.\<close>

definition requestICPTransfer :: "unit promise \<Rightarrow> int promise \<Rightarrow> artemis \<Rightarrow> int promise \<times> artemis" where
  "requestICPTransfer made send a =
     (case getCanisterActor NNS_CANISTER_ID True made False a of
        (Settled (Inr (Some _)), a1) \<Rightarrow>
          (case send of
             Settled (Inr h) \<Rightarrow> (if h \<noteq> 0 then returned h else Settled (Inl (JsError ''false'')), a1)
           | Settled (Inl e) \<Rightarrow> (Settled (Inl e), a1)
           | Pending \<Rightarrow> (Pending, a1))
      | (_, a1) \<Rightarrow> (Pending, a1))"

section \<open>Lemmas\<close>

lemma set_order_props: "distinct (set_order xs)" "set (set_order xs) = set xs"
  by (simp_all add: set_order_def)

lemma set_order_twice: "set_order (xs @ [x, x]) = set_order (xs @ [x])"
  by (simp add: set_order_def)

text \<open>A second connect with the array the first has extended sends the same white list.\<close>

lemma cleaned_again:
  "fst (cleanUpConnObj (obj\<lparr> co_whitelist := fst (snd (cleanUpConnObj obj a)) \<rparr>) b) = fst (cleanUpConnObj obj a)"
  by (simp add: cleanUpConnObj_def set_order_twice Let_def)

lemma cleaned_whitelist:
  "distinct (co_whitelist (fst (cleanUpConnObj obj a)))"
  "set (co_whitelist (fst (cleanUpConnObj obj a))) = insert (Some NNS_CANISTER_ID) (set (co_whitelist obj))"
  by (simp_all add: cleanUpConnObj_def set_order_props Let_def)

lemma find_wallet_id: "find_wallet ws t = Some e \<Longrightarrow> w_id e = t"
  by (auto simp: find_wallet_def find_Some_iff)

text \<open>What a connect may do to the adapter: nothing but the connect object, or take a wallet that
  is there and has answered.\<close>

lemma artemis_connect_cases:
  assumes "artemis_connect ws wid obj a w = r"
  obtains (refused) "out_adapter r = (snd (snd (cleanUpConnObj obj a)))\<lparr> hostUrl := co_host obj \<rparr>"
      "out_world r = w" "out_result r = returned None \<or> out_result r = Pending"
  | (page) e where "find_wallet ws wid = Some e" "w_ready e = NotDetected"
      "out_adapter r = (snd (snd (cleanUpConnObj obj a)))\<lparr> hostUrl := co_host obj \<rparr>"
      "out_world r = w" "out_result r = returned (principalId a)" "out_tasks r = [OpenWindow (w_url e)]"
  | (took) e p where "find_wallet ws wid = Some e" "w_ready e \<noteq> NotDetected"
      "w_connect e = returned (Some p)" "out_result r = returned (Some (cn_principal p))"
      "out_adapter r = took_wallet e p ((snd (snd (cleanUpConnObj obj a)))\<lparr> hostUrl := co_host obj \<rparr>)"
      "out_world r = note_wallet wid p w"
  using assms unfolding artemis_connect_def cleanUpConnObj_def Let_def
  by (fastforce split: if_splits option.splits promise.splits sum.splits)

lemma artemis_connect_actors [simp]:
  "canisterActors (out_adapter (artemis_connect ws wid obj a w)) = canisterActors a"
  by (rule artemis_connect_cases [OF refl, of ws wid obj a w])
    (simp_all add: took_wallet_def cleanUpConnObj_def Let_def)

lemma artemis_disconnect_simps:
  "canisterActors (fst (snd (artemis_disconnect db dp a w))) = canisterActors a"
  "principalId (fst (snd (artemis_disconnect db dp a w))) = principalId a"
  by (auto simp: artemis_disconnect_def Let_def split: promise.splits sum.splits)

lemma disconnect_force_Pending: "(disconnect_force db dp = Pending) = (db = Pending \<or> dp = Pending)"
  by (auto simp: disconnect_force_def await_def try_catch_def split: promise.splits sum.splits)

lemma disconnect_force_Inl: "disconnect_force db dp \<noteq> Settled (Inl e)"
  by (auto simp: disconnect_force_def await_def try_catch_def split: promise.splits sum.splits)

lemma cached_actor_kept:
  "canisterActors a cid = Some act \<Longrightarrow> getCanisterActor cid idl made False a = (returned (Some act), a)"
  by (simp add: getCanisterActor_def)

lemma getCanisterActor_keeps:
  "canisterActors a c = Some act \<Longrightarrow>
   canisterActors (snd (getCanisterActor cid idl made isAnon a)) c = Some act"
  by (auto simp: getCanisterActor_def split: option.splits promise.splits sum.splits)

lemma getCanisterActor_more:
  "provider (snd (getCanisterActor cid idl made isAnon a)) = provider a"
  "principalId (snd (getCanisterActor cid idl made isAnon a)) = principalId a"
  "walletActive (snd (getCanisterActor cid idl made isAnon a)) = walletActive a"
  by (auto simp: getCanisterActor_def split: option.splits promise.splits sum.splits)

section \<open>Runs of the adapter\<close>

text \<open>Everything the page does with the adapter, in any order and with any answers.\<close>

inductive adapter_step :: "artemis \<times> world \<Rightarrow> artemis \<times> world \<Rightarrow> bool" where
  connects: "r = artemis_connect ws wid obj a w \<Longrightarrow> adapter_step (a, w) (out_adapter r, out_world r)"
| connects_again: "r = autoConnect ws obj a w \<Longrightarrow> adapter_step (a, w) (out_adapter r, out_world r)"
| disconnects: "adapter_step (a, w) (snd (artemis_disconnect db dp a w))"
| calls: "adapter_step (a, w) (snd (getCanisterActor cid idl made isAnon a), w)"
| reads_balance: "adapter_step (a, w) (snd (getWalletBalance n made reply a), w)"
| transfers: "adapter_step (a, w) (snd (requestICPTransfer made send a), w)"
| elsewhere: "adapter_step (a, w) (a, w')"

inductive_cases adapter_stepE: "adapter_step s s'"

abbreviation adapter_run :: "artemis \<times> world \<Rightarrow> artemis \<times> world \<Rightarrow> bool" where
  "adapter_run \<equiv> adapter_step\<^sup>*\<^sup>*"

lemma balance_adapter:
  "\<exists>b. snd (getWalletBalance n made reply a) = a \<or>
     snd (getWalletBalance n made reply a) = (snd (getCanisterActor NNS_CANISTER_ID True made False a))\<lparr> ar_balance := b \<rparr> \<or>
     snd (getWalletBalance n made reply a) = snd (getCanisterActor NNS_CANISTER_ID True made False a)"
  by (auto simp: getWalletBalance_def Let_def split: prod.splits promise.splits sum.splits option.splits)

lemma transfer_adapter:
  "snd (requestICPTransfer made send a) = snd (getCanisterActor NNS_CANISTER_ID True made False a)"
  by (auto simp: requestICPTransfer_def split: prod.splits promise.splits sum.splits option.splits)

lemma autoConnect_cases:
  "\<exists>b. autoConnect ws obj a w = artemis_connect ws b (fst (cleanUpConnObj obj a)) (snd (snd (cleanUpConnObj obj a))) w \<or>
     out_adapter (autoConnect ws obj a w) = snd (snd (cleanUpConnObj obj a)) \<and> out_world (autoConnect ws obj a w) = w"
  by (auto simp: autoConnect_def Let_def split: prod.splits jsval.splits)

lemma clean_fields [simp]:
  "canisterActors (snd (snd (cleanUpConnObj obj a))) = canisterActors a"
  "provider (snd (snd (cleanUpConnObj obj a))) = provider a"
  "principalId (snd (snd (cleanUpConnObj obj a))) = principalId a"
  "walletActive (snd (snd (cleanUpConnObj obj a))) = walletActive a"
  by (simp_all add: cleanUpConnObj_def Let_def)

lemma adapter_step_keeps_actor:
  assumes "adapter_step s s'" "canisterActors (fst s) c = Some act"
  shows "canisterActors (fst s') c = Some act"
  using assms(1)
proof cases
  case (connects_again r ws obj a w)
  then show ?thesis using assms(2) autoConnect_cases [of ws obj a w] by auto
next
  case (reads_balance a w n made reply)
  then show ?thesis
    using assms(2) balance_adapter [of n made reply a] getCanisterActor_keeps [of a c act] by auto
qed (use assms(2) in \<open>auto simp: artemis_disconnect_simps getCanisterActor_keeps transfer_adapter\<close>)

lemma adapter_run_keeps_actor:
  "adapter_run s s' \<Longrightarrow> canisterActors (fst s) c = Some act \<Longrightarrow> canisterActors (fst s') c = Some act"
  by (induction rule: rtranclp_induct) (auto dest: adapter_step_keeps_actor)

subsection \<open>The answers behind a state\<close>

text \<open>What the wallets have given: the wallet and the principal of each answer to a connect, the
  latest first. It is read off the wallets alone, not off the adapter.\<close>

definition wallet_answer :: "wallet_entry list \<Rightarrow> string \<Rightarrow> (string \<times> string) option" where
  "wallet_answer ws wid =
     (if wid = [] then None
      else case find_wallet ws wid of
        None \<Rightarrow> None
      | Some e \<Rightarrow> if w_ready e = NotDetected then None
                 else (case w_connect e of
                     Settled (Inr (Some p)) \<Rightarrow> Some (wid, cn_principal p) | _ \<Rightarrow> None))"

definition remembered_wallet :: "world \<Rightarrow> string" where
  "remembered_wallet w = (case ls_get localStorageKey w of JStr wid \<Rightarrow> wid | _ \<Rightarrow> [])"

fun given :: "'a option \<Rightarrow> 'a list \<Rightarrow> 'a list" where
  "given None g = g"
| "given (Some x) g = x # g"

inductive adapter_given :: "world \<Rightarrow> (string \<times> string) list \<Rightarrow> artemis \<times> world \<Rightarrow> bool" for w0 where
  starts: "adapter_given w0 [] (new_artemis, w0)"
| given_connect: "adapter_given w0 g (a, w) \<Longrightarrow> r = artemis_connect ws wid obj a w \<Longrightarrow>
    adapter_given w0 (given (wallet_answer ws wid) g) (out_adapter r, out_world r)"
| given_again: "adapter_given w0 g (a, w) \<Longrightarrow> r = autoConnect ws obj a w \<Longrightarrow>
    adapter_given w0 (given (wallet_answer ws (remembered_wallet w)) g) (out_adapter r, out_world r)"
| given_disconnect: "adapter_given w0 g (a, w) \<Longrightarrow> adapter_given w0 g (snd (artemis_disconnect db dp a w))"
| given_call: "adapter_given w0 g (a, w) \<Longrightarrow>
    adapter_given w0 g (snd (getCanisterActor cid idl made isAnon a), w)"
| given_balance: "adapter_given w0 g (a, w) \<Longrightarrow> adapter_given w0 g (snd (getWalletBalance n made reply a), w)"
| given_transfer: "adapter_given w0 g (a, w) \<Longrightarrow> adapter_given w0 g (snd (requestICPTransfer made send a), w)"
| given_elsewhere: "adapter_given w0 g (a, w) \<Longrightarrow> adapter_given w0 g (a, w')"

text \<open>The states with a history of answers are the reachable ones.\<close>

lemma adapter_run_given: "adapter_run (new_artemis, w0) s \<longleftrightarrow> (\<exists>g. adapter_given w0 g s)"
proof
  assume "adapter_run (new_artemis, w0) s"
  then show "\<exists>g. adapter_given w0 g s"
  proof (induction rule: rtranclp_induct)
    case base
    show ?case by (rule exI, rule starts)
  next
    case (step s' s'')
    then obtain g where g: "adapter_given w0 g s'" by blast
    from step.hyps(2) show ?case
      by cases (use g in \<open>blast intro: adapter_given.intros\<close>)+
  qed
next
  assume "\<exists>g. adapter_given w0 g s"
  then obtain g where "adapter_given w0 g s" ..
  then show "adapter_run (new_artemis, w0) s"
    by induction (blast intro: adapter_step.intros rtranclp.rtrancl_into_rtrancl)+
qed

lemma connect_answer:
  "wallet_answer ws wid = None \<Longrightarrow> out_adapter (artemis_connect ws wid obj a w) =
     (snd (snd (cleanUpConnObj obj a)))\<lparr> hostUrl := co_host obj \<rparr>"
  "wallet_answer ws wid = Some x \<Longrightarrow> \<exists>e p. x = (w_id e, cn_principal p) \<and>
     out_adapter (artemis_connect ws wid obj a w) =
       took_wallet e p ((snd (snd (cleanUpConnObj obj a)))\<lparr> hostUrl := co_host obj \<rparr>)"
proof -
  show "out_adapter (artemis_connect ws wid obj a w) =
      (snd (snd (cleanUpConnObj obj a)))\<lparr> hostUrl := co_host obj \<rparr>" if "wallet_answer ws wid = None"
    using that unfolding wallet_answer_def artemis_connect_def cleanUpConnObj_def Let_def
    by (auto split: if_splits option.splits promise.splits sum.splits)
  assume x: "wallet_answer ws wid = Some x"
  then obtain e p where e: "wid \<noteq> []" "find_wallet ws wid = Some e" "w_ready e \<noteq> NotDetected"
    "w_connect e = returned (Some p)" "x = (wid, cn_principal p)"
    by (auto simp: wallet_answer_def split: if_splits option.splits promise.splits sum.splits)
  then have "x = (w_id e, cn_principal p)" using find_wallet_id [OF e(2)] by simp
  moreover have "out_adapter (artemis_connect ws wid obj a w) =
      took_wallet e p ((snd (snd (cleanUpConnObj obj a)))\<lparr> hostUrl := co_host obj \<rparr>)"
    using e by (simp add: artemis_connect_def cleanUpConnObj_def Let_def)
  ultimately show "\<exists>e p. x = (w_id e, cn_principal p) \<and> out_adapter (artemis_connect ws wid obj a w) =
      took_wallet e p ((snd (snd (cleanUpConnObj obj a)))\<lparr> hostUrl := co_host obj \<rparr>)" by blast
qed

text \<open>What holds of the adapter in every reachable state, with the answers \<open>g\<close> given so far.\<close>

definition adapter_ok :: "(string \<times> string) list \<Rightarrow> artemis \<Rightarrow> bool" where
  "adapter_ok g a = (
     (\<forall>p. provider a = Some p \<longrightarrow> walletActive a = p \<and>
        (\<exists>u g'. g = (p, u) # g' \<and> principalId a = Some u) \<and>
        (\<exists>n. connectedWalletInfo a = Some (p, n))) \<and>
     (\<forall>c act. canisterActors a c = Some act \<longrightarrow>
        (\<exists>p u. act = WalletActor p (Some u) \<and> (p, u) \<in> set g)) \<and>
     distinct (co_whitelist (connectObject a)) \<and>
     Some NNS_CANISTER_ID \<in> set (co_whitelist (connectObject a)))"

lemma ok_clean:
  "adapter_ok g a \<Longrightarrow> adapter_ok g (snd (snd (cleanUpConnObj obj a)))"
  "adapter_ok g a \<Longrightarrow> adapter_ok g (a\<lparr> hostUrl := h \<rparr>)"
  "adapter_ok g a \<Longrightarrow> adapter_ok g (a\<lparr> ar_balance := b \<rparr>)"
  "adapter_ok g a \<Longrightarrow> adapter_ok g (a\<lparr> provider := None \<rparr>)"
  by (auto simp: adapter_ok_def cleanUpConnObj_def set_order_props Let_def)

lemma ok_took: "adapter_ok g a \<Longrightarrow> adapter_ok ((w_id e, cn_principal p) # g) (took_wallet e p a)"
  unfolding adapter_ok_def took_wallet_def by fastforce

lemma ok_connect:
  assumes "adapter_ok g a"
  shows "adapter_ok (given (wallet_answer ws wid) g) (out_adapter (artemis_connect ws wid obj a w))"
proof (cases "wallet_answer ws wid")
  case None
  then show ?thesis using assms by (simp add: connect_answer(1) ok_clean)
next
  case (Some x)
  from connect_answer(2) [OF this, of obj a w] show ?thesis
    using assms Some by (auto intro!: ok_took ok_clean)
qed

lemma auto_answer:
  "wallet_answer ws (remembered_wallet w) = None \<and> out_adapter (autoConnect ws obj a w) = snd (snd (cleanUpConnObj obj a)) \<or>
   autoConnect ws obj a w = artemis_connect ws (remembered_wallet w) (fst (cleanUpConnObj obj a))
     (snd (snd (cleanUpConnObj obj a))) w"
  by (auto simp: autoConnect_def remembered_wallet_def wallet_answer_def Let_def
      split: prod.splits jsval.splits)

lemma ok_auto:
  assumes "adapter_ok g a"
  shows "adapter_ok (given (wallet_answer ws (remembered_wallet w)) g) (out_adapter (autoConnect ws obj a w))"
  using auto_answer [of ws w obj a] assms
  by (elim disjE conjE) (simp_all add: ok_connect ok_clean)

lemma ok_disconnect: "adapter_ok g a \<Longrightarrow> adapter_ok g (fst (snd (artemis_disconnect db dp a w)))"
  by (auto simp: artemis_disconnect_def Let_def ok_clean split: promise.splits sum.splits)

lemma made_actor:
  assumes "provider_createActor p cid idl (await made (\<lambda>_. returned x)) = returned (Some act)"
  shows "act = x"
  using assms by (auto simp: provider_createActor_def adapter_createActor_def await_def
      split: if_splits promise.splits sum.splits)

lemma ok_actor:
  assumes "adapter_ok g a"
  shows "adapter_ok g (snd (getCanisterActor cid idl made isAnon a))"
proof -
  have "adapter_ok g (a\<lparr> canisterActors := (canisterActors a)(cid := act) \<rparr>)"
    if "provider a = Some p" "act = None \<or> act = Some (WalletActor p (principalId a))" for p act
    using assms that by (auto simp: adapter_ok_def)
  then show ?thesis using assms
    by (auto simp: getCanisterActor_def dest: made_actor split: option.splits promise.splits sum.splits)
       (metis made_actor not_Some_eq)
qed

lemma ok_balance: "adapter_ok g a \<Longrightarrow> adapter_ok g (snd (getWalletBalance n made reply a))"
  using balance_adapter [of n made reply a] by (elim exE disjE) (simp_all add: ok_actor ok_clean)

lemma ok_new: "adapter_ok [] new_artemis"
  by (simp add: adapter_ok_def new_artemis_def cleanUpConnObj_def set_order_def default_object_def Let_def)

lemma ok_given: "adapter_given w0 g s \<Longrightarrow> adapter_ok g (fst s)"
  by (induction rule: adapter_given.induct)
     (simp_all add: ok_new ok_connect ok_auto ok_disconnect ok_actor ok_balance transfer_adapter)

text \<open>C22. No actor is kept for anybody but a user a wallet has named. In every state the page can
  bring the adapter to, with the list \<open>g\<close> of the answers the wallets have given so far (each a wallet
  and the principal it answered, the latest first; every reachable state has one), every cached
  actor acts for a principal that the wallet of the actor has answered; while there is a provider it
  is the wallet that answered last, it is the one shown as connected, and the adapter's principal is
  the one of that answer; and the white list sent to a wallet has the ledger in it and nothing
  twice.\<close>

theorem adapter_session_ok:
  assumes "adapter_given w0 g (a, w)"
  shows "(canisterActors a c = Some act \<longrightarrow> (\<exists>p u. act = WalletActor p (Some u) \<and> (p, u) \<in> set g)) \<and>
    (provider a = Some p \<longrightarrow> walletActive a = p \<and> (\<exists>u g'. g = (p, u) # g' \<and> principalId a = Some u) \<and>
       (\<exists>n. connectedWalletInfo a = Some (p, n))) \<and>
    distinct (co_whitelist (connectObject a)) \<and> Some NNS_CANISTER_ID \<in> set (co_whitelist (connectObject a))"
  using ok_given [OF assms] by (auto simp: adapter_ok_def)

definition one_wallet :: "string \<Rightarrow> wallet_entry list" where
  "one_wallet p = [\<lparr> w_id = ''plug'', w_name = ''Plug Wallet'', w_ready = Installed, w_url = [],
     w_connect = returned (connection None p) \<rparr>]"

definition sample_adapter :: "string \<Rightarrow> artemis" where
  "sample_adapter p = out_adapter (artemis_connect (one_wallet p) ''plug'' default_object new_artemis new_world)"

lemma sample_adapter_fields:
  "provider (sample_adapter p) = Some ''plug''" "principalId (sample_adapter p) = Some p"
  "canisterActors (sample_adapter p) = Map.empty"
  by (simp_all add: sample_adapter_def artemis_connect_def find_wallet_def one_wallet_def connection_def
      took_wallet_def cleanUpConnObj_def new_artemis_def Let_def)

lemma sample_adapter_run:
  "adapter_run (new_artemis, new_world) (snd (getCanisterActor ''l'' True (returned ()) False (sample_adapter p)), new_world)"
proof -
  let ?r = "artemis_connect (one_wallet p) ''plug'' default_object new_artemis new_world"
  have "adapter_step (new_artemis, new_world) (out_adapter ?r, out_world ?r)" by (rule connects [OF refl])
  moreover have "adapter_step (out_adapter ?r, out_world ?r) (out_adapter ?r, new_world)" by (rule elsewhere)
  moreover have "adapter_step (out_adapter ?r, new_world)
      (snd (getCanisterActor ''l'' True (returned ()) False (out_adapter ?r)), new_world)" by (rule calls)
  ultimately show ?thesis unfolding sample_adapter_def
    by (meson converse_rtranclp_into_rtranclp rtranclp.rtrancl_refl)
qed

text \<open>The same run with its one answer.\<close>

lemma sample_adapter_given:
  "adapter_given new_world [(''plug'', ''eve'')]
     (snd (getCanisterActor ''l'' True (returned ()) False (sample_adapter ''eve'')), new_world)"
proof -
  let ?r = "artemis_connect (one_wallet ''eve'') ''plug'' default_object new_artemis new_world"
  have "wallet_answer (one_wallet ''eve'') ''plug'' = Some (''plug'', ''eve'')"
    by (simp add: wallet_answer_def one_wallet_def find_wallet_def connection_def)
  then have "adapter_given new_world [(''plug'', ''eve'')] (out_adapter ?r, out_world ?r)"
    using given_connect [OF starts refl, of new_world "one_wallet ''eve''" "''plug''" default_object] by simp
  then have "adapter_given new_world [(''plug'', ''eve'')] (sample_adapter ''eve'', new_world)"
    unfolding sample_adapter_def by (rule given_elsewhere)
  then show ?thesis by (rule given_call)
qed

theorem adapter_session_ok_witness:
  "canisterActors (snd (getCanisterActor ''l'' True (returned ()) False (sample_adapter ''eve''))) ''l'' =
     Some (WalletActor ''plug'' (Some ''eve'')) \<and>
   principalId (snd (getCanisterActor ''l'' True (returned ()) False (sample_adapter ''eve''))) = Some ''eve''"
proof -
  let ?a = "snd (getCanisterActor ''l'' True (returned ()) False (sample_adapter ''eve''))"
  have c: "canisterActors ?a ''l'' \<noteq> None" "provider ?a = Some ''plug''"
    by (simp_all add: getCanisterActor_def sample_adapter_fields provider_createActor_def)
  then obtain act where act: "canisterActors ?a ''l'' = Some act" by blast
  show ?thesis
    using adapter_session_ok [OF sample_adapter_given, of "''l''" act "''plug''"] act c(2) by auto
qed

lemma new_actor:
  assumes "provider a = Some p" "canisterActors a cid = None" "cid \<noteq> []"
  shows "canisterActors (snd (getCanisterActor cid True (returned ()) False a)) cid =
    Some (WalletActor p (principalId a))"
  using assms by (auto simp: getCanisterActor_def provider_createActor_def adapter_createActor_def)

text \<open>C36. An actor outlives its session. Once an actor has been made for one user's call of a
  canister, the adapter hands it out for that canister for ever: whatever follows, disconnects and
  connects as somebody else included, the canister is called with the first user's identity.\<close>

theorem actors_outlive_session:
  assumes "provider a = Some p" "principalId a = Some u" "canisterActors a cid = None" "cid \<noteq> []"
    and "adapter_run (snd (getCanisterActor cid True (returned ()) False a), w) (a', w')"
  shows "getCanisterActor cid idl made False a' = (returned (Some (WalletActor p (Some u))), a')"
  using adapter_run_keeps_actor [OF assms(5)] new_actor [OF assms(1,3,4)] assms(2)
  by (simp add: cached_actor_kept)

definition sample_later :: artemis where
  "sample_later = (let a = snd (getCanisterActor ''l'' True (returned ()) False (sample_adapter ''eve''));
       b = fst (snd (artemis_disconnect (returned ()) (returned ()) a new_world))
     in out_adapter (artemis_connect (one_wallet ''bob'') ''plug'' default_object b new_world))"

lemma sample_later_run:
  "adapter_run (snd (getCanisterActor ''l'' True (returned ()) False (sample_adapter ''eve'')), new_world)
     (sample_later, out_world (artemis_connect (one_wallet ''bob'') ''plug'' default_object
        (fst (snd (artemis_disconnect (returned ()) (returned ())
          (snd (getCanisterActor ''l'' True (returned ()) False (sample_adapter ''eve''))) new_world))) new_world))"
  (is "adapter_run (?a, _) (_, ?w)")
proof -
  let ?d = "snd (artemis_disconnect (returned ()) (returned ()) ?a new_world)"
  have "adapter_step (?a, new_world) (fst ?d, snd ?d)" using disconnects [of ?a new_world] by simp
  moreover have "adapter_step (fst ?d, snd ?d) (fst ?d, new_world)" by (rule elsewhere)
  moreover have "adapter_step (fst ?d, new_world) (sample_later, ?w)"
    unfolding sample_later_def Let_def by (rule connects [OF refl])
  ultimately show ?thesis by (meson converse_rtranclp_into_rtranclp rtranclp.rtrancl_refl)
qed

theorem actors_outlive_session_witness:
  "principalId sample_later = Some ''bob'' \<and>
   getCanisterActor ''l'' True (returned ()) False sample_later =
     (returned (Some (WalletActor ''plug'' (Some ''eve''))), sample_later)"
proof -
  have "principalId sample_later = Some ''bob''"
    by (simp add: sample_later_def artemis_connect_def find_wallet_def one_wallet_def connection_def
        took_wallet_def cleanUpConnObj_def Let_def)
  then show ?thesis
    using actors_outlive_session [OF _ _ _ _ sample_later_run, of "''plug''" "''eve''"]
    by (simp add: sample_adapter_fields)
qed

end
