(* ===== verification/Wallet.thy ===== *)
theory Wallet
  imports Adapter
begin

text \<open>
  The wallet session, \<open>utils/wallet/connect.ts\<close>: \<open>requestConnect\<close>, \<open>disconnect\<close> and
  \<open>verifyConnectionAndAgent\<close>, on top of the adapter of the theory \<open>Adapter\<close>. What the wallet
  extension, the ledger and the launcher answer is an argument. The lemmas show which steps restore
  a session, which replies end it, and what becomes of it when a wallet does not answer.
\<close>

section \<open>Session functions\<close>

text \<open>The parameters of the session: principal texts, account identifiers, the decimal library, and
  the wallets of the browser with the white list and the host they are given.\<close>

record 'b session_env =
  se_valid :: "string \<Rightarrow> bool"
  se_acct :: "principal \<Rightarrow> string"
  se_hex_ok :: "string \<Rightarrow> bool"
  se_big :: "'b bigjs"
  se_wallets :: "wallet_entry list"
  se_object :: connect_object

text \<open>\<open>new Big(Number(e8s)).div(new Big(10).pow(Number(decimal))).toString()\<close>.\<close>

definition icp_display :: "'b bigjs \<Rightarrow> int \<Rightarrow> int \<Rightarrow> string res" where
  "icp_display B e8s dec =
     res_bind (big_num B (num_of_int e8s)) (\<lambda>v.
     res_bind (big_num B (Fin 10)) (\<lambda>t.
     res_bind (big_pow B t dec) (\<lambda>p.
     res_bind (big_div B v p) (\<lambda>q. Inr (big_toString B q)))))"

text \<open>Reading the balance: the replies of \<open>decimals\<close> and \<open>account_balance\<close>; the account of the
  request is the store's, which must be hexadecimal.\<close>

definition read_balance :: "'b session_env \<Rightarrow> int res \<Rightarrow> int res \<Rightarrow> world \<Rightarrow> world res" where
  "read_balance S dec_reply bal_reply w =
     res_bind dec_reply (\<lambda>d.
     if \<not> se_hex_ok S (accountId (app w)) then Inl (JsError ''Invalid account'')
     else res_bind bal_reply (\<lambda>e8s.
          res_bind (icp_display (se_big S) e8s d) (\<lambda>s. Inr (store_seticpAccount (JStr s) w))))"

text \<open>A setter that is an async function and not awaited: its exception is lost.\<close>

definition fire :: "(world \<Rightarrow> world res) \<Rightarrow> world \<Rightarrow> world" where
  "fire f w = (case f w of Inl _ \<Rightarrow> w | Inr w' \<Rightarrow> w')"

text \<open>What \<open>requestConnect\<close> does with the principal a wallet has given. The last reads may fail,
  which leaves the session open and answers \<open>false\<close>.\<close>

definition open_session :: "'b session_env \<Rightarrow> string \<Rightarrow> string \<Rightarrow> int res \<Rightarrow> int res \<Rightarrow>
    world \<Rightarrow> world \<times> bool" where
  "open_session S type pk dec_reply bal_reply w =
     (let w1 = ls_set ''walletType'' type (ls_set ''principalId'' pk w);
          w2 = setAppConnectType pk type (setAppConnect pk w1);
          w3 = fire (setAccountId (se_valid S) (se_acct S) pk) w2
      in case read_balance S dec_reply bal_reply w3 of
           Inl _ \<Rightarrow> (w3, False)
         | Inr w4 \<Rightarrow> (w4, True))"

definition requestConnect :: "'b session_env \<Rightarrow> string \<Rightarrow> int res \<Rightarrow> int res \<Rightarrow> artemis \<Rightarrow> world \<Rightarrow>
    bool promise \<times> artemis \<times> world" where
  "requestConnect S type dec_reply bal_reply a w =
     (let r = artemis_connect (se_wallets S) type (se_object S) a w in
      case out_result r of
        Pending \<Rightarrow> (Pending, out_adapter r, out_world r)
      | Settled (Inl _) \<Rightarrow> (returned False, out_adapter r, out_world r)
      | Settled (Inr pk) \<Rightarrow>
          if pk = None \<or> pk = Some [] then (returned False, out_adapter r, out_world r)
          else (let (w', ok) = open_session S type (the pk) dec_reply bal_reply (out_world r)
                in (returned ok, out_adapter r, w')))"

text \<open>\<open>disconnect\<close>: \<open>Promise.race\<close> gets the function itself among its values, which settles the
  race at once, so the timer never decides. Success yields the function, failure
  \<open>undefined\<close>; an extension that does not answer keeps the race from starting.\<close>

datatype disconnect_result = RaceFunction | RaceTimer | ResUndefined

definition race :: "disconnect_result option \<Rightarrow> disconnect_result \<Rightarrow> disconnect_result" where
  "race settled timer = (case settled of Some r \<Rightarrow> r | None \<Rightarrow> timer)"

definition disconnect :: "unit promise \<Rightarrow> unit promise \<Rightarrow> artemis \<Rightarrow> world \<Rightarrow>
    disconnect_result promise \<times> artemis \<times> world" where
  "disconnect db dp a w = (case artemis_disconnect db dp a w of
     (Pending, a', w') \<Rightarrow> (Pending, a', w')
   | (Settled (Inl _), a', w') \<Rightarrow> (returned ResUndefined, a', setAppDisconnect w')
   | (Settled (Inr _), a', w') \<Rightarrow>
       (returned (race (Some RaceFunction) RaceTimer), a',
        setAppDisconnect (on_app (\<lambda>s. s\<lparr> userId := [] \<rparr>) (ls_clear w'))))"

text \<open>The profile fields: \<open>Number\<close> of an optional amount, \<open>null\<close> where it is absent.\<close>

definition points_val :: "int option \<Rightarrow> jsval" where
  "points_val p = (case p of None \<Rightarrow> JNull | Some n \<Rightarrow> JNum (num_of_int n))"

definition store_profile :: "UserProfile \<Rightarrow> world \<Rightarrow> world" where
  "store_profile u w =
     store_setlockToken (points_val (user_pre_reward_points u))
       (store_setusertoken (points_val (user_points u))
         (store_setUserImg (avatar u) (store_setUserName (user_name u) w)))"

record session_replies =
  sr_user :: "UserProfile option res"
  sr_edit :: "unit res"
  sr_user_again :: "UserProfile option res"
  sr_actor :: "unit promise"
  sr_decimals :: "int res"
  sr_balance :: "int res"
  sr_decimals_again :: "int res"
  sr_balance_again :: "int res"

text \<open>The first part of \<open>verifyConnectionAndAgent\<close>: the profile, or, for a user without one, an
  \<open>edit_user\<close> through the wallet's actor and the profile again.\<close>

definition load_profile :: "string \<Rightarrow> session_replies \<Rightarrow> artemis \<Rightarrow> world \<Rightarrow>
    world promise \<times> artemis" where
  "load_profile cid R a w = (case sr_user R of
     Inl e \<Rightarrow> (Settled (Inl e), a)
   | Inr (Some u) \<Rightarrow> (returned (store_profile u w), a)
   | Inr None \<Rightarrow>
       (let (act, a') = getCanisterActor cid True (sr_actor R) False a in
        (await act (\<lambda>x. if x = None then Settled (Inl TypeError) else
         await (Settled (sr_edit R)) (\<lambda>_. await (Settled (sr_user_again R)) (\<lambda>u.
           returned (case u of None \<Rightarrow> w | Some u \<Rightarrow> store_profile u w)))), a')))"

text \<open>The rest of the check, with the profile loaded.\<close>

definition restore_session :: "'b session_env \<Rightarrow> session_replies \<Rightarrow> string \<Rightarrow> string \<Rightarrow> artemis \<Rightarrow> world \<Rightarrow>
    bool promise \<times> artemis \<times> world" where
  "restore_session S R p type a w =
     (case requestConnect S type (sr_decimals R) (sr_balance R) a w of
        (Pending, a1, w1) \<Rightarrow> (Pending, a1, w1)
      | (Settled _, a1, w1) \<Rightarrow>
          (case setAccountId (se_valid S) (se_acct S) p w1 of
             Inl e \<Rightarrow> (Settled (Inl e), a1, w1)
           | Inr w2 \<Rightarrow>
               (case read_balance S (sr_decimals_again R) (sr_balance_again R) w2 of
                  Inl e \<Rightarrow> (Settled (Inl e), a1, w2)
                | Inr w3 \<Rightarrow> (returned True, a1, w3))))"

definition verifyConnectionAndAgent :: "'b session_env \<Rightarrow> string \<Rightarrow> session_replies \<Rightarrow>
    artemis \<Rightarrow> world \<Rightarrow> bool promise \<times> artemis \<times> world" where
  "verifyConnectionAndAgent S cid R a w =
     (case ls_get ''principalId'' w of
        JStr p \<Rightarrow>
          if p \<noteq> [] \<and> p \<noteq> ''false'' then
            (if \<not> se_valid S p then (Settled (Inl (JsError ''Invalid principal'')), a, w)
             else case load_profile cid R a w of
                (Pending, a1) \<Rightarrow> (Pending, a1, w)
              | (Settled (Inl e), a1) \<Rightarrow> (Settled (Inl e), a1, w)
              | (Settled (Inr w1), a1) \<Rightarrow>
                  restore_session S R p (val_String (ls_get ''walletType'' w)) a1 w1)
          else (returned False, a, w)
      | _ \<Rightarrow> (returned False, a, w))"

section \<open>Lemmas\<close>

lemma disconnect_cases:
  "disconnect db dp a w =
    (if provider a = None then (returned ResUndefined, a, setAppDisconnect w)
     else if db = Pending \<or> dp = Pending then (Pending, a, ls_remove localStorageKey w)
     else (returned RaceFunction, a\<lparr> provider := None \<rparr>,
           setAppDisconnect (on_app (\<lambda>s. s\<lparr> userId := [] \<rparr>) (ls_clear (ls_remove localStorageKey w)))))"
  using disconnect_force_Pending [of db dp] disconnect_force_Inl [of db dp]
  by (auto simp: disconnect_def artemis_disconnect_def race_def Let_def split: promise.splits sum.splits)

lemma setAppConnect_id [simp]: "p \<noteq> [] \<Longrightarrow> userId (app (setAppConnect p w)) = p"
  by (simp add: setAppConnect_def)

lemma keep_userId [simp]:
  "userId (app (setAppConnectType p t w)) = userId (app w)"
  "userId (app (fire (setAccountId v h p) w)) = userId (app w)"
  "userId (app (store_seticpAccount x w)) = userId (app w)"
  by (auto simp: setAppConnectType_def store_setConnectType_def fire_def setAccountId_def
      store_setAccountId_def from_text_def store_seticpAccount_def split: sum.splits)

lemma read_balance_userId:
  "read_balance S d b w = Inr w' \<Longrightarrow> userId (app w') = userId (app w)"
  by (auto simp: read_balance_def res_bind_eq_Inr split: if_splits)

lemma open_session_userId:
  assumes "pk \<noteq> []"
  shows "userId (app (fst (open_session S t pk d b w))) = pk"
  using assms read_balance_userId
  by (fastforce simp: open_session_def Let_def split: sum.splits)

section \<open>Sessions\<close>

text \<open>What a connect leaves: the two texts in the local storage and the session in the store.\<close>

lemma keep_storage [simp]:
  "storage (setAppConnectType p t w) = storage w"
  "storage (fire (setAccountId v h p) w) = storage w"
  "storage (store_seticpAccount x w) = storage w"
  "accountId (app (store_seticpAccount x w)) = accountId (app w)"
  "connectType (app (store_seticpAccount x w)) = connectType (app w)"
  "connectType (app (fire (setAccountId v h p) w)) = connectType (app w)"
  by (auto simp: setAppConnectType_def store_setConnectType_def fire_def setAccountId_def
      store_setAccountId_def from_text_def store_seticpAccount_def split: sum.splits)

lemma read_balance_cases:
  assumes "read_balance S d b w = Inr w'"
  shows "\<exists>x. w' = store_seticpAccount x w \<and>
    (\<forall>v. accountId (app v) = accountId (app w) \<longrightarrow> read_balance S d b v = Inr (store_seticpAccount x v))"
  using assms by (auto simp: read_balance_def res_bind_eq_Inr split: if_splits)

lemma fire_account [simp]:
  "p \<noteq> [] \<Longrightarrow> v p \<Longrightarrow> accountId (app (fire (setAccountId v h p) w)) = h p"
  by (simp add: fire_def setAccountId_def store_setAccountId_def from_text_def)

lemma setAccountId_valid:
  "p \<noteq> [] \<Longrightarrow> v p \<Longrightarrow> setAccountId v h p w = Inr (on_app (\<lambda>a. a\<lparr> accountId := h p \<rparr>) w)"
  by (simp add: setAccountId_def store_setAccountId_def from_text_def)

lemma setAppConnect_more [simp]:
  "p \<noteq> [] \<Longrightarrow> storage (setAppConnect p w) = (storage w)(''userId'' := Some p)"
  "p \<noteq> [] \<Longrightarrow> connectType (app (setAppConnectType p t w)) = t"
  by (simp_all add: setAppConnect_def setAppConnectType_def store_setConnectType_def)

lemma open_session_success:
  assumes "pk \<noteq> []" "se_valid S pk" "open_session S t pk d b w = (w1, True)"
  shows "storage w1 ''principalId'' = Some pk \<and> storage w1 ''walletType'' = Some t \<and>
    userId (app w1) = pk \<and> connectType (app w1) = t \<and> accountId (app w1) = se_acct S pk \<and>
    (\<exists>x. \<forall>v. accountId (app v) = se_acct S pk \<longrightarrow> read_balance S d b v = Inr (store_seticpAccount x v))"
proof -
  let ?w = "fire (setAccountId (se_valid S) (se_acct S) pk)
    (setAppConnectType pk t (setAppConnect pk (ls_set ''walletType'' t (ls_set ''principalId'' pk w))))"
  have r: "read_balance S d b ?w = Inr w1"
    using assms by (auto simp: open_session_def Let_def split: sum.splits)
  obtain x where x: "w1 = store_seticpAccount x ?w"
    "\<forall>v. accountId (app v) = accountId (app ?w) \<longrightarrow> read_balance S d b v = Inr (store_seticpAccount x v)"
    using read_balance_cases [OF r] by (elim exE conjE) (rule that)
  have acc: "accountId (app ?w) = se_acct S pk" by (simp add: assms(1,2))
  have "storage w1 ''principalId'' = Some pk \<and> storage w1 ''walletType'' = Some t \<and>
    userId (app w1) = pk \<and> connectType (app w1) = t \<and> accountId (app w1) = se_acct S pk"
    unfolding x(1) using assms(1,2) by simp
  then show ?thesis using x(2) unfolding acc by blast
qed

lemma store_profile_keeps [simp]:
  "storage (store_profile u w) ''walletType'' = storage w ''walletType''"
  by (simp add: store_profile_def store_setlockToken_def store_setusertoken_def store_setUserImg_def
      store_setUserName_def)

lemma open_session_storage:
  assumes "pk \<noteq> []"
  shows "storage (fst (open_session S t pk d b w)) ''principalId'' = Some pk"
    "storage (fst (open_session S t pk d b w)) ''walletType'' = Some t"
  using assms read_balance_cases
  by (fastforce simp: open_session_def Let_def split: sum.splits)+

lemma note_wallet_simps [simp]:
  "app (note_wallet t p w) = app w"
  "storage (note_wallet t p w) ''principalId'' = storage w ''principalId''"
  "storage (note_wallet t p w) ''walletType'' = storage w ''walletType''"
  by (simp_all add: note_wallet_def localStorageKey_def split: option.splits)

text \<open>The two ways into a session, and the ways that leave it as it was.\<close>

lemma requestConnect_cases:
  assumes "requestConnect S t d b a w = (r, a', w')"
  obtains (refused) "app w' = app w" "storage w' ''principalId'' = storage w ''principalId''"
      "r = returned False \<or> r = Pending"
  | (page) e pk ok where "find_wallet (se_wallets S) t = Some e" "w_ready e = NotDetected"
      "principalId a = Some pk" "pk \<noteq> []" "open_session S t pk d b w = (w', ok)" "r = returned ok"
      "provider a' = provider a"
  | (took) e p ok where "find_wallet (se_wallets S) t = Some e" "w_ready e \<noteq> NotDetected"
      "w_connect e = returned (Some p)" "cn_principal p \<noteq> []" "r = returned ok"
      "open_session S t (cn_principal p) d b (note_wallet t p w) = (w', ok)"
proof -
  show thesis
  proof (rule artemis_connect_cases [OF refl, of "se_wallets S" t "se_object S" a w], goal_cases)
    case 1
    then show ?case using assms by (intro refused) (auto simp: requestConnect_def)
  next
    case (2 e)
    show ?case
    proof (cases "principalId a = None \<or> principalId a = Some []")
      case True
      then show ?thesis using assms 2 by (intro refused) (auto simp: requestConnect_def)
    next
      case False
      have "provider (out_adapter (artemis_connect (se_wallets S) t (se_object S) a w)) = provider a"
        by (simp add: 2(3))
      then have "provider a' = provider a"
        using assms by (auto simp: requestConnect_def Let_def split: promise.splits sum.splits if_splits prod.splits)
      then show ?thesis using assms 2 False page [of e "the (principalId a)"]
        by (auto simp: requestConnect_def split: prod.splits)
    qed
  next
    case (3 e p)
    show ?case
    proof (cases "cn_principal p = []")
      case True
      then have "w' = note_wallet t p w \<and> r = returned False"
        using assms 3(4,6) by (simp add: requestConnect_def Let_def)
      then show ?thesis by (intro refused) simp_all
    next
      case False
      then show ?thesis using assms 3 took [of e p]
        by (auto simp: requestConnect_def split: prod.splits)
    qed
  qed
qed

lemma requestConnect_took:
  assumes "t \<noteq> []" "find_wallet (se_wallets S) t = Some e" "w_ready e \<noteq> NotDetected"
    "w_connect e = returned (Some p)" "cn_principal p \<noteq> []"
  shows "\<exists>a'. requestConnect S t d b a w =
    (returned (snd (open_session S t (cn_principal p) d b (note_wallet t p w))), a',
     fst (open_session S t (cn_principal p) d b (note_wallet t p w)))"
  using assms by (simp add: requestConnect_def artemis_connect_def cleanUpConnObj_def Let_def split_beta)

text \<open>C19. The session of a user with a profile survives a reload. When a connect with a wallet that
  is there has succeeded for a user who has a profile at the launcher, the page opened again with
  nothing but the local storage, and a wallet, ledger and launcher that answer the same, is logged
  in as the same user, with the same kind of wallet and the same ledger account. The session of a
  user without a profile is not restored (\<open>new_user_session_lost\<close>).\<close>

theorem session_survives_reload:
  assumes "t \<noteq> []" "find_wallet (se_wallets S) t = Some e" "w_ready e \<noteq> NotDetected"
    "w_connect e = returned (Some p)" "cn_principal p = pk"
    and "pk \<noteq> []" "pk \<noteq> ''false''" "se_valid S pk"
    and "requestConnect S t d b a w = (returned True, a1, w1)"
    and "sr_user R = Inr (Some u)" "sr_decimals R = d" "sr_balance R = b"
      "sr_decimals_again R = d" "sr_balance_again R = b"
  shows "\<exists>a2 w2. verifyConnectionAndAgent S cid R new_artemis (new_world\<lparr> storage := storage w1 \<rparr>) =
      (returned True, a2, w2) \<and> userId (app w2) = pk \<and> connectType (app w2) = t \<and>
    accountId (app w2) = se_acct S pk"
proof -
  let ?n = "new_world\<lparr> storage := storage w1 \<rparr>"
  let ?p = "note_wallet t p (store_profile u ?n)"
  have pk: "cn_principal p \<noteq> []" using assms(5,6) by simp
  have o1: "open_session S t pk d b (note_wallet t p w) = (w1, True)"
    using requestConnect_took [OF assms(1-4) pk, of d b a w] assms(5,9) by (auto simp: prod_eq_iff)
  have s: "storage w1 ''principalId'' = Some pk" "storage w1 ''walletType'' = Some t"
    using open_session_success [OF assms(6,8) o1] by simp_all
  obtain x where x: "\<And>v. accountId (app v) = se_acct S pk \<Longrightarrow>
      read_balance S d b v = Inr (store_seticpAccount x v)"
    using open_session_success [OF assms(6,8) o1] by blast
  obtain c where c: "open_session S t pk d b ?p = (c, True)"
    using assms(6,8) by (simp add: open_session_def Let_def x)
  obtain a2 where r: "requestConnect S t d b new_artemis (store_profile u ?n) = (returned True, a2, c)"
    using requestConnect_took [OF assms(1-4) pk, of d b new_artemis "store_profile u ?n"] assms(5) c by auto
  note rc = open_session_success [OF assms(6,8) c]
  have acc: "setAccountId (se_valid S) (se_acct S) pk c =
      Inr (on_app (\<lambda>a. a\<lparr> accountId := se_acct S pk \<rparr>) c)"
    using assms(6,8) by (rule setAccountId_valid)
  show ?thesis
    using assms(6-8,10-14) s rc
    by (simp add: verifyConnectionAndAgent_def restore_session_def ls_get_def load_profile_def r acc x)
qed

text \<open>A user without a profile does not get the session back. The page opened again has an
  adapter with no provider, the missing profile is made through the wallet's actor, and making that
  actor fails: the check ends in a \<open>TypeError\<close> with nothing restored, whatever the wallet would
  answer.\<close>

lemma new_user_session_lost:
  assumes "storage w ''principalId'' = Some pk" "pk \<noteq> []" "pk \<noteq> ''false''" "se_valid S pk"
    and "sr_user R = Inr None"
  shows "verifyConnectionAndAgent S cid R new_artemis w = (Settled (Inl TypeError), new_artemis, w)"
  using assms by (simp add: verifyConnectionAndAgent_def ls_get_def load_profile_def
      getCanisterActor_def new_artemis_def cleanUpConnObj_def Let_def)

text \<open>A session to evaluate.\<close>

lemma icp_display_total:
  assumes "big_laws B val" "\<bar>n\<bar> \<le> 2 ^ 53" "0 \<le> dec" "dec \<le> 1000"
  shows "\<exists>t. icp_display B n dec = Inr t"
proof -
  obtain v where v: "big_num B (num_of_int n) = Inr v"
    using big_lawsD(1) [OF assms(1,2)] by (auto simp: num_of_int_exact [OF assms(2)])
  obtain t where t: "big_num B (Fin 10) = Inr t" "val t = 10"
    using big_lawsD(1) [OF assms(1), of 10] by auto
  obtain p where p: "big_pow B t dec = Inr p" "val p = 10 ^ nat dec"
    using big_laws_pow [OF assms(1)] assms(3,4) t(2) by fastforce
  obtain q where "big_div B v p = Inr q" using big_div_error [OF assms(1), of p] p(2) by auto
  then show ?thesis using v t p by (simp add: icp_display_def)
qed

definition sample_session :: "rat session_env" where
  "sample_session = \<lparr> se_valid = (\<lambda>p. p = ''eve''), se_acct = (\<lambda>p. ''a1''), se_hex_ok = (\<lambda>h. True),
     se_big = rat_big, se_wallets = one_wallet ''eve'',
     se_object = default_object \<rparr>"

definition sample_profile :: UserProfile where
  "sample_profile = \<lparr> user_name = ''Eve'', user_pid = ''eve'', user_points = None,
     user_pre_reward_points = None, last_change_time = 0, user_all_spend_points = None, avatar = ''i'' \<rparr>"

definition sample_replies :: session_replies where
  "sample_replies = \<lparr> sr_user = Inr (Some sample_profile), sr_edit = Inr (), sr_user_again = Inr None,
     sr_actor = returned (), sr_decimals = Inr 8, sr_balance = Inr 0, sr_decimals_again = Inr 8,
     sr_balance_again = Inr 0 \<rparr>"

definition sample_connected :: connected where
  "sample_connected = \<lparr> cn_account = None, cn_principal = ''eve'', cn_stoic = None \<rparr>"

lemma sample_wallet:
  "find_wallet (se_wallets sample_session) ''plug'' = Some \<lparr> w_id = ''plug'', w_name = ''Plug Wallet'',
     w_ready = Installed, w_url = [], w_connect = returned (Some sample_connected) \<rparr>"
  by (simp add: find_wallet_def one_wallet_def sample_session_def connection_def sample_connected_def)

lemma sample_connect:
  "\<exists>a1 w1. requestConnect sample_session ''plug'' (Inr 8) (Inr 0) new_artemis new_world =
     (returned True, a1, w1)"
proof -
  obtain t where "icp_display rat_big 0 8 = Inr t"
    using icp_display_total [OF rat_big_laws, of 0 8] by auto
  then have "snd (open_session sample_session ''plug'' ''eve'' (Inr 8) (Inr 0) w)" for w
    by (simp add: open_session_def Let_def read_balance_def sample_session_def)
  then show ?thesis
    using requestConnect_took [OF _ sample_wallet, of sample_connected "Inr 8" "Inr 0"
        new_artemis new_world] by (auto simp: sample_connected_def)
qed

theorem session_survives_reload_witness:
  "\<exists>a1 w1 a2 w2. requestConnect sample_session ''plug'' (Inr 8) (Inr 0) new_artemis new_world =
       (returned True, a1, w1) \<and>
     verifyConnectionAndAgent sample_session ''l'' sample_replies new_artemis
       (new_world\<lparr> storage := storage w1 \<rparr>) = (returned True, a2, w2) \<and>
     userId (app w2) = ''eve'' \<and> connectType (app w2) = ''plug'' \<and> accountId (app w2) = ''a1''"
proof -
  obtain a1 w1 where c: "requestConnect sample_session ''plug'' (Inr 8) (Inr 0) new_artemis new_world =
      (returned True, a1, w1)"
    using sample_connect by blast
  show ?thesis
    using session_survives_reload [OF _ sample_wallet _ _ _ _ _ _ c, of sample_connected "''eve''"
        sample_replies sample_profile "''l''"] c
    by (simp add: sample_replies_def sample_session_def sample_connected_def)
qed

text \<open>C20. Nobody is logged in but the chosen wallet's user. When a login changes the user of the
  application, the wallet is one of the list, and the new user is the principal it has answered
  or, where its extension is missing, the one the adapter still has from before; the local storage
  then holds that principal and that wallet.\<close>

theorem login_from_wallet:
  assumes "requestConnect S t d b a w = (r, a', w')" "userId (app w') \<noteq> userId (app w)"
  shows "\<exists>e. find_wallet (se_wallets S) t = Some e \<and>
    ((\<exists>p. w_connect e = returned (Some p) \<and> w_ready e \<noteq> NotDetected \<and> userId (app w') = cn_principal p) \<or>
     (w_ready e = NotDetected \<and> principalId a = Some (userId (app w')))) \<and>
    storage w' ''principalId'' = Some (userId (app w')) \<and> storage w' ''walletType'' = Some t"
  using assms(1)
proof (cases rule: requestConnect_cases)
  case refused
  then show ?thesis using assms(2) by simp
next
  case (page e pk ok)
  then show ?thesis using open_session_userId [of pk S t d b w] open_session_storage [of pk S t d b w]
    by simp
next
  case (took e p ok)
  then show ?thesis using open_session_userId [of "cn_principal p" S t d b "note_wallet t p w"]
      open_session_storage [of "cn_principal p" S t d b "note_wallet t p w"] by simp
qed

theorem login_from_wallet_witness:
  "\<exists>w'. snd (snd (requestConnect sample_session ''plug'' (Inr 8) (Inr 0) new_artemis new_world)) = w' \<and>
     userId (app w') = ''eve'' \<and> storage w' ''walletType'' = Some ''plug''"
proof -
  let ?w = "note_wallet ''plug'' sample_connected new_world"
  let ?o = "open_session sample_session ''plug'' ''eve'' (Inr 8) (Inr 0) ?w"
  obtain a1 where c: "requestConnect sample_session ''plug'' (Inr 8) (Inr 0) new_artemis new_world =
      (returned (snd ?o), a1, fst ?o)"
    using requestConnect_took [OF _ sample_wallet, of sample_connected "Inr 8" "Inr 0" new_artemis new_world]
    by (auto simp: sample_connected_def)
  have u: "userId (app (fst ?o)) = ''eve''" by (simp add: open_session_userId)
  moreover have "userId (app new_world) = []" by (simp add: new_world_def new_app_store_def)
  ultimately show ?thesis using login_from_wallet [OF c] c by auto
qed

text \<open>C37. A disconnect waits for extensions the user may never have used. It returns unless an
  extension never answers, and logs the user out when it returns; while Bitfinity's or Plug's
  disconnect is open nothing else happens, the timer of one second notwithstanding: the user stays
  logged in and the local storage still restores the session.\<close>

theorem disconnect_waits_for_extensions:
  "(fst (disconnect db dp a w) = Pending) = (provider a \<noteq> None \<and> (db = Pending \<or> dp = Pending)) \<and>
   userId (app (snd (snd (disconnect db dp a w)))) =
     (if fst (disconnect db dp a w) = Pending then userId (app w) else []) \<and>
   storage (snd (snd (disconnect db dp a w))) ''principalId'' =
     (if fst (disconnect db dp a w) = Pending then storage w ''principalId'' else None)"
  by (simp add: disconnect_cases disconnect_effect localStorageKey_def)

text \<open>A wallet that is not installed logs the last user in again. After a disconnect, choosing a
  wallet whose extension is missing opens its page, and yields the principal the adapter has kept:
  the user who has just left is logged in without any wallet being asked, and the adapter has no
  provider to call a canister with.\<close>

lemma missing_wallet_resumes_user:
  assumes "principalId a = Some u" "u \<noteq> []" "disconnect db dp a w = (returned x, a1, w1)"
    and "t \<noteq> []" "find_wallet (se_wallets S) t = Some e" "w_ready e = NotDetected"
    and "requestConnect S t d b a1 w1 = (r, a2, w2)"
  shows "userId (app w1) = [] \<and> userId (app w2) = u \<and> storage w2 ''principalId'' = Some u \<and>
    provider a2 = None"
proof -
  have 1: "userId (app w1) = []" "provider a1 = None" "principalId a1 = Some u"
    using assms(1,3) by (auto simp: disconnect_cases disconnect_effect split: if_splits)
  have "provider a2 = provider a1 \<and> w2 = fst (open_session S t u d b w1)"
    using assms(2,4-7) 1(3)
    by (simp add: requestConnect_def artemis_connect_def cleanUpConnObj_def Let_def split_beta) auto
  then show ?thesis using 1 assms(2) by (simp add: open_session_userId open_session_storage)
qed

text \<open>Internet Identity and NFID call back after a success only: a login the user gives up leaves
  \<open>requestConnect\<close> open for ever, with the session as it was.\<close>

lemma abandoned_login_stays_open:
  assumes "ax_create x = returned ()" "ax_isAuthenticated x = returned False" "\<not> ax_login x"
    and "t \<noteq> []" "find_wallet (se_wallets S) t = Some e" "w_ready e = Loadable"
    and "w_connect e = dfinity_connectWallet H x \<or> w_connect e = nfid_connectWallet H x"
  shows "fst (requestConnect S t d b a w) = Pending \<and> snd (snd (requestConnect S t d b a w)) = w"
proof -
  have "w_connect e = Pending"
    using assms(1-3,7) by (auto simp: dfinity_connectWallet_def nfid_connectWallet_def)
  then show ?thesis using assms(4-6)
    by (simp add: requestConnect_def artemis_connect_def cleanUpConnObj_def Let_def)
qed

text \<open>A login whose balance cannot be read answers \<open>false\<close> with the session open.\<close>

lemma login_without_balance:
  assumes "pk \<noteq> []"
  shows "open_session S t pk (Inl e) b w = (w', ok) \<Longrightarrow> \<not> ok \<and> userId (app w') = pk"
  using open_session_userId [OF assms, of S t "Inl e" b w]
  by (auto simp: open_session_def read_balance_def Let_def)

end
