(* ===== verification/Header.thy ===== *)
theory Header
  imports Signals DataUrl Wallet
begin

text \<open>
  The header (\<open>layout/home/header.tsx\<close>): choosing a wallet, the profile of the user and its
  editing with an image, the end of the session, the ICP balance and the latest signals. The
  handlers that read the stores take the world and leave their writes as effects. The lemmas
  show what a save stores and where it stops, and that a failed save keeps the form.
\<close>

section \<open>State\<close>

record header_view = signal_view +
  hd_openStep :: bool
  openCreateWallet :: bool
  openWalletLoginSuccess :: bool
  openUserEditInfo :: bool
  editImg :: string
  AccountId :: string
  CheckboxVal :: bool
  curEditInfImgUrl :: string
  hd_img :: "file_data option"
  user_info :: UserEditObj
  curEditName :: jsval
  isSave :: bool
  hd_userBalance :: "string option"

definition header_init :: "world \<Rightarrow> header_view" where
  "header_init w = \<lparr> FomContext = None, last_buy_sell_op_img = Some [],
     last_create_fomo_img = Some [], buyShake = False, createShake = False,
     hd_openStep = False, openCreateWallet = False, openWalletLoginSuccess = False,
     openUserEditInfo = False, editImg = [], AccountId = [], CheckboxVal = True,
     curEditInfImgUrl = [], hd_img = None,
     user_info = \<lparr> ue_user_name = None, ue_avatar = None \<rparr>,
     curEditName = store_getUserName w, isSave = False, hd_userBalance = None \<rparr>"

datatype header_task =
    HeaderSignal signal_task
  | WaitConnect
  | WaitProfile header_view
  | WaitDefaultProfile
  | WaitProfileAgain
  | WaitEditPhoto header_view string
  | WaitEditUpload string UserEditObj
  | WaitEdit
  | WaitEdited
  | WaitDisconnect
  | WaitHeadDecimals
  | WaitHeadBalance int
  | WaitVerify
  | TimerPrice
  | OpenSocket
  | OpenTopup
  | OpenSend
  | StartHeadInterval
  | HeadInterval

type_synonym header_out = "(header_view, header_task) outcome"

section \<open>Dialogs\<close>

definition openWalletLoginSuccessClose :: "header_view \<Rightarrow> header_view" where
  "openWalletLoginSuccessClose s = s\<lparr> openWalletLoginSuccess := False \<rparr>"

definition handleOpenStep :: "header_view \<Rightarrow> header_view" where
  "handleOpenStep s = s\<lparr> hd_openStep := True \<rparr>"

definition handleCloseStep :: "header_view \<Rightarrow> header_view" where
  "handleCloseStep s = s\<lparr> hd_openStep := False \<rparr>"

definition handleOpenWallet :: "header_view \<Rightarrow> header_view" where
  "handleOpenWallet s = s\<lparr> openCreateWallet := True \<rparr>"

definition handleCloseWallet :: "header_view \<Rightarrow> header_view" where
  "handleCloseWallet s = s\<lparr> openCreateWallet := False \<rparr>"

definition CheckboxChange :: "bool \<Rightarrow> header_view \<Rightarrow> header_view" where
  "CheckboxChange b s = s\<lparr> CheckboxVal := b \<rparr>"

definition BtnUSerEditInfo :: "header_view \<Rightarrow> header_view" where
  "BtnUSerEditInfo s = s\<lparr> openUserEditInfo := True \<rparr>"

text \<open>The effect on the page's request for a wallet.\<close>

definition select_effect :: "bool \<Rightarrow> header_view \<Rightarrow> header_view" where
  "select_effect b s = s\<lparr> openCreateWallet := b \<rparr>"

definition openUserEditInfoClose :: "world \<Rightarrow> header_view \<Rightarrow> header_view" where
  "openUserEditInfoClose w s =
     s\<lparr> editImg := [], curEditInfImgUrl := (if store_getUserImg w \<noteq> [] then store_getUserImg w else []),
        openUserEditInfo := False \<rparr>"

definition BtnShowUserInfo :: "string \<Rightarrow> header_view \<Rightarrow> header_out" where
  "BtnShowUserInfo uid s =
     emits (s\<lparr> openWalletLoginSuccess := False \<rparr>) [Navigate (''/profile/'' @ uid)]"

definition EditNameChange :: "string \<Rightarrow> header_view \<Rightarrow> header_view \<Rightarrow> header_view" where
  "EditNameChange v s0 s =
     s\<lparr> curEditName := JStr v, user_info := (user_info s0)\<lparr> ue_user_name := Some v \<rparr> \<rparr>"

section \<open>The profile\<close>

text \<open>\<open>getUserInfo\<close>, all of it inside a \<open>try\<close>.\<close>

definition profile_error :: effect where
  "profile_error = MsgError ''getUserInfo error''"

definition getUserInfo :: "(string \<Rightarrow> bool) \<Rightarrow> environment \<Rightarrow> string \<Rightarrow> header_view \<Rightarrow>
    header_view \<Rightarrow> header_out" where
  "getUserInfo valid env uid s0 s = (case getBaseUserInfo valid env uid of
     Inl _ \<Rightarrow> emits s [profile_error] | Inr c \<Rightarrow> (s, [Call c], [WaitProfile s0]))"

text \<open>The reply. A user without a profile gets one with the default image, through the wallet.\<close>

definition on_profile :: "environment \<Rightarrow> string \<Rightarrow> header_view \<Rightarrow> UserProfile option res \<Rightarrow>
    world \<Rightarrow> header_view \<Rightarrow> header_out" where
  "on_profile env uid s0 reply w s = (case reply of
     Inl _ \<Rightarrow> emits s [profile_error]
   | Inr (Some u) \<Rightarrow>
       emits (s\<lparr> user_info := (user_info s0)\<lparr> ue_user_name := Some (user_name u),
                                             ue_avatar := Some (avatar u) \<rparr>,
                 editImg := [], curEditInfImgUrl := store_getUserImg (store_profile u w) \<rparr>)
         [StoreWrite (store_profile u)]
   | Inr None \<Rightarrow>
       (s, [Call (setUserInfo env uid \<lparr> ue_user_name = None, ue_avatar = Some ''default'' \<rparr>)],
        [WaitDefaultProfile]))"

definition on_default_profile :: "(string \<Rightarrow> bool) \<Rightarrow> environment \<Rightarrow> string \<Rightarrow>
    (principal, string) candid_result res \<Rightarrow> header_view \<Rightarrow> header_out" where
  "on_default_profile valid env uid reply s = (case reply of
     Inl _ \<Rightarrow> emits s [profile_error]
   | Inr _ \<Rightarrow> (case getBaseUserInfo valid env uid of
         Inl _ \<Rightarrow> emits s [profile_error] | Inr c \<Rightarrow> (s, [Call c], [WaitProfileAgain])))"

definition on_profile_again :: "UserProfile option res \<Rightarrow> header_view \<Rightarrow> header_out" where
  "on_profile_again reply s = (case reply of
     Inl _ \<Rightarrow> emits s [profile_error]
   | Inr None \<Rightarrow> plain s
   | Inr (Some u) \<Rightarrow> emits s [StoreWrite (store_profile u)])"

text \<open>The wallet choice. \<open>uid\<close> is the store's user when \<open>requestConnect\<close> has ended.\<close>

definition BtnSelectWallet :: "string \<Rightarrow> header_view \<Rightarrow> header_view \<Rightarrow> header_out" where
  "BtnSelectWallet type s0 s =
     (if CheckboxVal s0 then (s, [Start (ProcConnect type)], [WaitConnect]) else plain s)"

definition on_connect :: "(string \<Rightarrow> bool) \<Rightarrow> environment \<Rightarrow> string \<Rightarrow> header_view \<Rightarrow> bool res \<Rightarrow>
    header_view \<Rightarrow> header_out" where
  "on_connect valid env uid s0 reply s =
     then_do
       (case reply of
          Inl _ \<Rightarrow> emits s [MsgError ''Connect error'']
        | Inr _ \<Rightarrow> if uid \<noteq> []
                  then then_do (getUserInfo valid env uid s0 s) (\<lambda>s. plain (s\<lparr> openCreateWallet := False \<rparr>))
                  else emits s [MsgError ''Connect error''])
       (\<lambda>s. emits s [SelectWell False])"

definition openUserEditInfoOpen :: "(string \<Rightarrow> bool) \<Rightarrow> environment \<Rightarrow> world \<Rightarrow> header_view \<Rightarrow>
    header_view \<Rightarrow> header_out" where
  "openUserEditInfoOpen valid env w s0 s =
     (let s1 = s\<lparr> openWalletLoginSuccess := True \<rparr> in
      case storage w ''userName'' of
        None \<Rightarrow> getUserInfo valid env (userId (app w)) s0 s1
      | Some n \<Rightarrow>
          if n \<noteq> []
          then emits (s1\<lparr> user_info := (user_info s0)\<lparr> ue_user_name := Some n \<rparr> \<rparr>)
                 [StoreWrite (store_setUserName n)]
          else getUserInfo valid env (userId (app w)) s0 s1)"

section \<open>Editing the profile\<close>

definition BtnPhoto :: "upload_file list option \<Rightarrow> header_view \<Rightarrow> header_view \<Rightarrow> header_out" where
  "BtnPhoto files s0 s = (case check_photo files of
     Inl es \<Rightarrow> emits s es | Inr f \<Rightarrow> (s, [], [WaitEditPhoto s0 (f_name f)]))"

text \<open>The preview: its data URL is turned into the file that is uploaded.\<close>

definition on_edit_photo :: "header_view \<Rightarrow> string \<Rightarrow> string \<Rightarrow> header_view \<Rightarrow> header_out" where
  "on_edit_photo s0 n dat s = (case dataURLtoFile dat n of
     Inl e \<Rightarrow> throws s e
   | Inr f \<Rightarrow> plain (s\<lparr> hd_img := Some f, user_info := (user_info s0)\<lparr> ue_avatar := Some dat \<rparr>,
                       editImg := dat \<rparr>))"

text \<open>\<open>editUserInfo\<close>: with a chosen image the upload comes first; without one the image of the
  request is left out.\<close>

definition editUserInfo ::
  "environment \<Rightarrow> string \<Rightarrow> UserEditObj \<Rightarrow> header_view \<Rightarrow> header_view \<Rightarrow> header_out" where
  "editUserInfo env uid info s0 s =
     (let s1 = s\<lparr> isSave := True \<rparr> in
      case hd_img s0 of
        Some f \<Rightarrow> (s1, [Upload (fd_name f)], [WaitEditUpload uid info])
      | None \<Rightarrow> (s1, [Call (setUserInfo env uid (info\<lparr> ue_avatar := None \<rparr>))], [WaitEdit]))"

definition SaveUserEditInfo :: "environment \<Rightarrow> string \<Rightarrow> header_view \<Rightarrow> header_view \<Rightarrow> header_out" where
  "SaveUserEditInfo env uid s0 s = editUserInfo env uid (user_info s0) s0 s"

definition save_error :: "js_exn \<Rightarrow> header_view \<Rightarrow> header_out" where
  "save_error e s = emits (s\<lparr> isSave := False \<rparr>) [MsgError (reject_or ''save error'' e)]"

definition on_edit_upload :: "environment \<Rightarrow> string \<Rightarrow> UserEditObj \<Rightarrow> string res \<Rightarrow> header_view \<Rightarrow>
    header_out" where
  "on_edit_upload env uid info reply s = (case reply of
     Inl e \<Rightarrow> save_error e s
   | Inr ref \<Rightarrow> (s, [Call (setUserInfo env uid (info\<lparr> ue_avatar := Some ref \<rparr>))], [WaitEdit]))"

text \<open>\<open>m.replace(/, src\/main\.rs:\d+:\d+$/, "")\<close>: the place at the end of an error message.\<close>

definition main_rs :: string where
  "main_rs = '', src/main.rs:''"

definition strip_place :: "string \<Rightarrow> string" where
  "strip_place m =
     (let r = rev m; d1 = takeWhile is_digit r; r1 = dropWhile is_digit r in
      case r1 of
        c # r2 \<Rightarrow>
          (let d2 = takeWhile is_digit r2; r3 = dropWhile is_digit r2
           in if d1 \<noteq> [] \<and> c = CHR '':'' \<and> d2 \<noteq> [] \<and> starts_with (rev main_rs) r3
              then rev (drop (length main_rs) r3) else m)
      | [] \<Rightarrow> m)"

text \<open>The reply of the edit. After a success the profile is read again, outside of any \<open>try\<close>.\<close>

definition on_edit :: "(string \<Rightarrow> bool) \<Rightarrow> environment \<Rightarrow> string \<Rightarrow>
    (principal, string) candid_result res \<Rightarrow> header_view \<Rightarrow> header_out" where
  "on_edit valid env uid reply s = (case reply of
     Inl e \<Rightarrow> save_error e s
   | Inr (CErr m) \<Rightarrow> emits (s\<lparr> isSave := False \<rparr>) [MsgError (strip_place m)]
   | Inr (COk _) \<Rightarrow> (case getBaseUserInfo valid env uid of
         Inl e \<Rightarrow> throws s e | Inr c \<Rightarrow> (s, [Call c], [WaitEdited])))"

definition edited_writes :: "UserProfile \<Rightarrow> world \<Rightarrow> world" where
  "edited_writes u w =
     store_setlockToken (JNum (opt_Number (user_pre_reward_points u)))
       (store_setusertoken (JNum (opt_Number (user_points u)))
         (store_setUserImg (avatar u) (store_setUserName (user_name u) w)))"

definition on_edited :: "UserProfile option res \<Rightarrow> world \<Rightarrow> header_view \<Rightarrow> header_out" where
  "on_edited reply w s = (case reply of
     Inl e \<Rightarrow> throws s e
   | Inr None \<Rightarrow> throws s TypeError
   | Inr (Some u) \<Rightarrow>
       emits ((openUserEditInfoClose (edited_writes u w) s)\<lparr> isSave := False \<rparr>)
         [StoreWrite (edited_writes u), MsgSuccess ''Success!'',
          StoreWrite (store_setusertoken (JNum (opt_Number (user_points u)))),
          StoreWrite (store_setlockToken (JNum (opt_Number (user_pre_reward_points u))))])"

section \<open>The session\<close>

definition BtnDisconnectWallet :: "header_view \<Rightarrow> header_out" where
  "BtnDisconnectWallet s = (s, [Start ProcDisconnect], [WaitDisconnect])"

definition on_disconnected :: "header_view \<Rightarrow> header_out" where
  "on_disconnected s = emits (s\<lparr> editImg := [], curEditInfImgUrl := [], openWalletLoginSuccess := False \<rparr>)
     [SelectWell False]"

definition header_balanceReq :: "header_view \<Rightarrow> header_out" where
  "header_balanceReq s = (s, [Call decimals], [WaitHeadDecimals])"

definition on_head_decimals :: "(string \<Rightarrow> bool) \<Rightarrow> string \<Rightarrow> int res \<Rightarrow> header_view \<Rightarrow> header_out" where
  "on_head_decimals hex acct reply s = (case reply of
     Inl e \<Rightarrow> throws s e
   | Inr d \<Rightarrow> if hex acct then (s, [Call (account_balance acct)], [WaitHeadBalance d])
             else throws s (JsError ''Invalid account''))"

definition on_head_balance :: "'b bigjs \<Rightarrow> int \<Rightarrow> int res \<Rightarrow> header_view \<Rightarrow> header_out" where
  "on_head_balance B d reply s = (case res_bind reply (units_string B (num_of_int d)) of
     Inl e \<Rightarrow> throws s e | Inr t \<Rightarrow> plain (s\<lparr> hd_userBalance := Some t \<rparr>))"

text \<open>The mount: the price feeds, the session of the last visit, the image and the signals.\<close>

definition header_mount :: "environment \<Rightarrow> world \<Rightarrow> header_view \<Rightarrow> header_out" where
  "header_mount env w s =
     then_do
       ((if useImg (app w) \<noteq> [] then s\<lparr> editImg := getImgUrl (useImg (app w)) \<rparr>
         else s\<lparr> curEditInfImgUrl := store_getUserImg w \<rparr>),
        [Start ProcVerify], [TimerPrice, OpenSocket, WaitVerify])
       (\<lambda>s. then_do (tag_tasks HeaderSignal (getFomContext env s)) (\<lambda>s. (s, [], [StartHeadInterval])))"

text \<open>The \<open>finally\<close> of the session check.\<close>

definition on_verified :: "world \<Rightarrow> header_view \<Rightarrow> header_out" where
  "on_verified w s = header_balanceReq (s\<lparr> AccountId := accountId (app w) \<rparr>)"

fun header_tick :: "environment \<Rightarrow> header_task \<Rightarrow> header_view \<Rightarrow> header_out option" where
  "header_tick env StartHeadInterval s = Some (s, [], [HeadInterval])"
| "header_tick env HeadInterval s =
     Some (then_do (tag_tasks HeaderSignal (getFomContext env s)) (\<lambda>s. (s, [], [HeadInterval])))"
| "header_tick env _ s = None"

section \<open>Links\<close>

definition btnLogoToHome :: "effect list" where
  "btnLogoToHome = [Navigate ''/board'']"

definition BtnOpenWeb :: "string \<Rightarrow> effect list" where
  "BtnOpenWeb web = [OpenUrl web]"

definition btnService :: "effect list" where
  "btnService = [OpenUrl ''https://docs.fomowell.com/legal-and-privacy/terms-of-service'']"

definition handleOpendocument :: "effect list" where
  "handleOpendocument = [OpenUrl ''https://docs.fomowell.com'']"

definition getAccountDashboardURL :: "string \<Rightarrow> effect list" where
  "getAccountDashboardURL i = [OpenUrl (''https://dashboard.internetcomputer.org/account/'' @ i)]"

definition CanisterCopyBtnFn :: "string \<Rightarrow> bool \<Rightarrow> effect list" where
  "CanisterCopyBtnFn text written =
     [CopyText text, if written then MsgSuccess ''Success!'' else MsgError ''clipboard write failed'']"

definition btnOpenTopup :: "header_view \<Rightarrow> header_out" where
  "btnOpenTopup s = (s, [], [OpenTopup])"

definition btnsend :: "header_view \<Rightarrow> header_out" where
  "btnsend s = (s, [], [OpenSend])"

section \<open>Lemmas\<close>

lemma not_digit_colon: "\<not> is_digit (CHR '':'')"
  by (simp add: is_digit_def)

lemma takeWhile_digits: "takeWhile is_digit (rev (nat_str n) @ CHR '':'' # r) = rev (nat_str n)"
  using nat_str_digits [of n] not_digit_colon by (subst takeWhile_append2) auto

lemma dropWhile_digits: "dropWhile is_digit (rev (nat_str n) @ CHR '':'' # r) = CHR '':'' # r"
  using nat_str_digits [of n] not_digit_colon by (subst dropWhile_append2) auto

lemma strip_place_place:
  "strip_place (m @ main_rs @ nat_str a @ '':'' @ nat_str b) = m"
proof -
  have "rev (m @ main_rs @ nat_str a @ '':'' @ nat_str b) =
      rev (nat_str b) @ CHR '':'' # rev (nat_str a) @ CHR '':'' # rev '', src/main.rs'' @ rev m"
    by (simp add: main_rs_def)
  then show ?thesis
    by (simp add: strip_place_def takeWhile_digits dropWhile_digits Let_def starts_with_def main_rs_def)
qed

lemma store_profile_img: "store_getUserImg (store_profile u w) =
    ''https://image.fomowell.com/api/files/download/'' @ avatar u"
  by (simp add: store_profile_def store_getUserImg_def ls_get_def store_setUserImg_def ls_set_def
      store_setusertoken_def store_setlockToken_def on_app_def)

section \<open>A save\<close>

text \<open>The whole of a save: the upload where an image was chosen, the edit and the second reading of
  the profile, with their replies; each step that is not reached leaves its reply unused.\<close>

definition save_run :: "(string \<Rightarrow> bool) \<Rightarrow> environment \<Rightarrow> string \<Rightarrow> string res \<Rightarrow>
    (principal, string) candid_result res \<Rightarrow> UserProfile option res \<Rightarrow> world \<Rightarrow> header_view \<Rightarrow>
    header_view" where
  "save_run valid env uid up ed again w s0 =
     (let reread = (\<lambda>s. st_of (on_edited again w s));
          edit = (\<lambda>s. let r = on_edit valid env uid ed s
                       in if tasks_of r = [WaitEdited] then reread (st_of r) else st_of r);
          r = SaveUserEditInfo env uid s0 s0
      in if tasks_of r = [WaitEdit] then edit (st_of r)
         else let r' = on_edit_upload env uid (user_info s0) up (st_of r)
              in if tasks_of r' = [WaitEdit] then edit (st_of r') else st_of r')"

text \<open>When a save leaves its button loading. A failed upload, a failed edit and an edit the
  launcher refuses all release the button. It stays loading, with the form open, exactly when the
  edit was accepted and the profile could not be read again.\<close>

lemma save_sticks_after_reread:
  assumes "valid uid"
  shows "isSave (save_run valid env uid up ed again w s0) \<longleftrightarrow>
    (hd_img s0 \<noteq> None \<longrightarrow> (\<exists>ref. up = Inr ref)) \<and> (\<exists>p. ed = Inr (COk p)) \<and>
    (\<nexists>u. again = Inr (Some u))"
proof (cases "\<exists>e f. hd_img s0 = Some f \<and> up = Inl e")
  case True
  then show ?thesis
    by (auto simp: save_run_def SaveUserEditInfo_def editUserInfo_def on_edit_upload_def save_error_def Let_def)
next
  case False
  have e: "isSave (save_run valid env uid up ed again w s0) =
      ((\<exists>p. ed = Inr (COk p)) \<and> (\<nexists>u. again = Inr (Some u)))"
  proof (cases ed)
    case (Inl e)
    then show ?thesis using False
      by (cases "hd_img s0"; cases up) (auto simp: save_run_def SaveUserEditInfo_def editUserInfo_def
          on_edit_upload_def on_edit_def save_error_def Let_def)
  next
    case (Inr c)
    have g: "\<exists>x. getBaseUserInfo valid env uid = Inr x"
      using assms by (simp add: getBaseUserInfo_def from_text_def)
    have a: "isSave (st_of (on_edited r w s)) = (\<nexists>u. r = Inr (Some u))" if "isSave s" for r s
      using that by (auto simp: on_edited_def split: sum.splits option.splits)
    show ?thesis using False Inr g
      by (cases c; cases "hd_img s0"; cases up) (auto simp: save_run_def SaveUserEditInfo_def
          editUserInfo_def on_edit_upload_def on_edit_def Let_def a)
  qed
  then show ?thesis using False by (cases "hd_img s0"; cases up) auto
qed

end
