(* ===== verification/HttpValid.thy ===== *)
theory HttpValid
  imports JsString
begin

text \<open>
  The link check of \<open>utils/httpValid.ts\<close>: its regular expression, case-insensitive and
  anchored at both ends, as a term, and a matcher by derivatives. The lemmas show that the
  matcher decides the language of the expression and that every accepted link is made of
  the characters the expression names.
\<close>

section \<open>Regular expressions\<close>

datatype regex =
    RNone
  | REmpty
  | RChar "char \<Rightarrow> bool"
  | RSeq regex regex
  | RAlt regex regex
  | RStar regex

inductive matches :: "regex \<Rightarrow> string \<Rightarrow> bool" where
  m_empty: "matches REmpty []"
| m_char: "P c \<Longrightarrow> matches (RChar P) [c]"
| m_seq: "matches r s \<Longrightarrow> matches q t \<Longrightarrow> matches (RSeq r q) (s @ t)"
| m_left: "matches r s \<Longrightarrow> matches (RAlt r q) s"
| m_right: "matches q s \<Longrightarrow> matches (RAlt r q) s"
| m_nil: "matches (RStar r) []"
| m_more: "matches r s \<Longrightarrow> s \<noteq> [] \<Longrightarrow> matches (RStar r) t \<Longrightarrow> matches (RStar r) (s @ t)"

inductive_simps matches_simps:
  "matches RNone s" "matches REmpty s" "matches (RChar P) s" "matches (RSeq r q) s"
  "matches (RAlt r q) s"

inductive_cases matches_StarE: "matches (RStar r) s"

fun nullable :: "regex \<Rightarrow> bool" where
  "nullable RNone = False"
| "nullable REmpty = True"
| "nullable (RChar P) = False"
| "nullable (RSeq r q) = (nullable r \<and> nullable q)"
| "nullable (RAlt r q) = (nullable r \<or> nullable q)"
| "nullable (RStar r) = True"

fun deriv :: "char \<Rightarrow> regex \<Rightarrow> regex" where
  "deriv c RNone = RNone"
| "deriv c REmpty = RNone"
| "deriv c (RChar P) = (if P c then REmpty else RNone)"
| "deriv c (RSeq r q) =
     (if nullable r then RAlt (RSeq (deriv c r) q) (deriv c q) else RSeq (deriv c r) q)"
| "deriv c (RAlt r q) = RAlt (deriv c r) (deriv c q)"
| "deriv c (RStar r) = RSeq (deriv c r) (RStar r)"

fun accepts :: "regex \<Rightarrow> string \<Rightarrow> bool" where
  "accepts r [] = nullable r"
| "accepts r (c # s) = accepts (deriv c r) s"

lemma nullable_matches: "nullable r = matches r []"
  by (induction r) (auto simp: matches_simps intro: m_nil)

lemma matches_Star_Cons:
  "matches (RStar r) (c # s) \<longleftrightarrow> (\<exists>u v. s = u @ v \<and> matches r (c # u) \<and> matches (RStar r) v)"
proof
  assume "matches (RStar r) (c # s)"
  then show "\<exists>u v. s = u @ v \<and> matches r (c # u) \<and> matches (RStar r) v"
    by (rule matches_StarE) (auto simp: Cons_eq_append_conv)
next
  assume "\<exists>u v. s = u @ v \<and> matches r (c # u) \<and> matches (RStar r) v"
  then show "matches (RStar r) (c # s)"
    using m_more [of r "c # u" v for u v] by auto
qed

lemma deriv_matches: "matches (deriv c r) s = matches r (c # s)"
proof (induction r arbitrary: s)
  case (RSeq r q)
  then show ?case
    by (auto simp: matches_simps nullable_matches Cons_eq_append_conv)
next
  case (RStar r)
  then show ?case by (auto simp: matches_simps matches_Star_Cons)
qed (auto simp: matches_simps)

lemma accepts_matches: "accepts r s = matches r s"
  by (induction s arbitrary: r) (simp_all add: nullable_matches deriv_matches)

text \<open>A match is made of characters that occur in the expression.\<close>

fun chars_in :: "(char \<Rightarrow> bool) \<Rightarrow> regex \<Rightarrow> bool" where
  "chars_in Q RNone = True"
| "chars_in Q REmpty = True"
| "chars_in Q (RChar P) = list_all (\<lambda>c. P c \<longrightarrow> Q c) (map char_of [0..<256::nat])"
| "chars_in Q (RSeq r q) = (chars_in Q r \<and> chars_in Q q)"
| "chars_in Q (RAlt r q) = (chars_in Q r \<and> chars_in Q q)"
| "chars_in Q (RStar r) = chars_in Q r"

lemma chars_in_RChar: "(\<And>c. P c \<Longrightarrow> Q c) \<Longrightarrow> chars_in Q (RChar P)"
  by (simp add: list_all_iff)

lemma all_chars: "c \<in> set (map char_of [0..<256::nat])"
proof -
  have "c = char_of (of_char c :: nat)" "(of_char c :: nat) < 256" by simp_all
  then show ?thesis by (simp only: set_map set_upt) (metis atLeastLessThan_iff image_eqI le0)
qed

lemma matches_chars: "matches r s \<Longrightarrow> chars_in Q r \<Longrightarrow> list_all Q s"
proof (induction rule: matches.induct)
  case (m_char P c)
  then show ?case using all_chars [of c] by (simp add: list_all_iff del: set_map)
qed auto

section \<open>The link pattern\<close>

text \<open>The flag \<open>i\<close>: characters are compared without case.\<close>

definition lower :: "char \<Rightarrow> char" where
  "lower c = (if 65 \<le> (of_char c :: nat) \<and> (of_char c :: nat) \<le> 90
              then char_of ((of_char c :: nat) + 32) else c)"

definition is_alpha :: "char \<Rightarrow> bool" where
  "is_alpha c = (97 \<le> (of_char (lower c) :: nat) \<and> (of_char (lower c) :: nat) \<le> 122)"

definition alnum_or :: "string \<Rightarrow> char \<Rightarrow> bool" where
  "alnum_or extra c = (is_alpha c \<or> is_digit c \<or> c \<in> set extra)"

definition r_lit :: "char \<Rightarrow> regex" where
  "r_lit c = RChar (\<lambda>d. lower d = c)"

fun r_word :: "string \<Rightarrow> regex" where
  "r_word [] = REmpty"
| "r_word (c # s) = RSeq (r_lit c) (r_word s)"

definition r_opt :: "regex \<Rightarrow> regex" where
  "r_opt r = RAlt r REmpty"

definition r_plus :: "regex \<Rightarrow> regex" where
  "r_plus r = RSeq r (RStar r)"

text \<open>\<open>\d{1,3}\<close>.\<close>

definition r_byte :: regex where
  "r_byte = (let d = RChar is_digit in RSeq d (r_opt (RSeq d (r_opt d))))"

definition r_protocol :: regex where
  "r_protocol = r_opt (RSeq (r_word ''http'') (RSeq (r_opt (r_lit (CHR ''s''))) (r_word ''://'')))"

definition r_label :: regex where
  "r_label = RSeq (RChar (alnum_or []))
               (RStar (RSeq (RStar (RChar (alnum_or ''-''))) (RChar (alnum_or []))))"

definition r_domain :: regex where
  "r_domain = RSeq (r_plus (RSeq r_label (r_lit (CHR ''.''))))
                (RSeq (RChar is_alpha) (r_plus (RChar is_alpha)))"

definition r_ip :: regex where
  "r_ip = (let b = RSeq r_byte (r_lit (CHR ''.'')) in RSeq b (RSeq b (RSeq b r_byte)))"

definition r_port_path :: regex where
  "r_port_path = RSeq (r_opt (RSeq (r_lit (CHR '':'')) (r_plus (RChar is_digit))))
     (RStar (RSeq (r_lit (CHR ''/'')) (RStar (RChar (alnum_or ''-%_.~+'')))))"

definition r_query :: regex where
  "r_query = r_opt (RSeq (r_lit (CHR ''?'')) (RStar (RChar (alnum_or '';&%_.~+=-''))))"

definition r_fragment :: regex where
  "r_fragment = r_opt (RSeq (r_lit (CHR ''#'')) (RStar (RChar (alnum_or ''-_''))))"

definition http_pattern :: regex where
  "http_pattern = RSeq r_protocol (RSeq (RAlt r_domain r_ip)
     (RSeq r_port_path (RSeq r_query r_fragment)))"

definition isValidHttpUrl :: "string \<Rightarrow> bool" where
  "isValidHttpUrl url = accepts http_pattern url"

definition url_char :: "char \<Rightarrow> bool" where
  "url_char c = alnum_or '':/?#;&%_.~+=-'' c"

lemma lower_alpha: "is_alpha (lower c) \<Longrightarrow> is_alpha c"
  by (auto simp: is_alpha_def lower_def split: if_splits)

lemma chars_in_alnum:
  "set e \<subseteq> set '':/?#;&%_.~+=-'' \<Longrightarrow> chars_in url_char (RChar (alnum_or e))"
  by (rule chars_in_RChar) (unfold url_char_def alnum_or_def, blast)

lemma lower_code: "(of_char (lower c) :: nat) = of_char c \<or> is_alpha c"
  by (auto simp: lower_def is_alpha_def)

lemma chars_in_lit:
  assumes "is_alpha c \<or> c \<in> set '':/?#.''"
  shows "chars_in url_char (r_lit c)"
  unfolding r_lit_def
proof (rule chars_in_RChar)
  fix d assume "lower d = c"
  with assms have "is_alpha (lower d) \<or> lower d \<in> set '':/?#.''" by simp
  moreover have "is_alpha d \<or> lower d = d" using lower_code [of d] by auto
  ultimately have "is_alpha d \<or> d \<in> set '':/?#.''" using lower_alpha [of d] by metis
  then show "url_char d" by (auto simp: url_char_def alnum_or_def)
qed

lemma chars_in_word:
  "list_all (\<lambda>c. is_alpha c \<or> c \<in> set '':/?#.'') s \<Longrightarrow> chars_in url_char (r_word s)"
  by (induction s) (auto intro: chars_in_lit)

lemma chars_in_digit: "chars_in url_char (RChar is_digit)"
  by (rule chars_in_RChar) (auto simp: url_char_def alnum_or_def)

lemma chars_in_alpha: "chars_in url_char (RChar is_alpha)"
  by (rule chars_in_RChar) (auto simp: url_char_def alnum_or_def)

lemma is_alpha_lits [simp]:
  "is_alpha (CHR ''h'')" "is_alpha (CHR ''t'')" "is_alpha (CHR ''p'')" "is_alpha (CHR ''s'')"
  by (simp_all add: is_alpha_def lower_def)

lemma http_pattern_chars: "chars_in url_char http_pattern"
  unfolding http_pattern_def r_protocol_def r_domain_def r_ip_def r_port_path_def r_query_def
    r_fragment_def r_label_def r_byte_def r_plus_def r_opt_def Let_def
  by (simp add: chars_in_alnum chars_in_lit chars_in_digit chars_in_alpha chars_in_word
      del: chars_in.simps(3) r_word.simps)

text \<open>C17. The link check decides its pattern. The matcher accepts a text exactly when the regular
  expression of the source matches it, in the declarative sense, and every accepted text is made
  of the characters of a link only: no space, quote, bracket or angle bracket passes.\<close>

theorem link_check_decides:
  "(isValidHttpUrl s \<longleftrightarrow> matches http_pattern s) \<and> (isValidHttpUrl s \<longrightarrow> list_all url_char s)"
  using matches_chars [OF _ http_pattern_chars] by (simp add: isValidHttpUrl_def accepts_matches)

lemma sample_link: "isValidHttpUrl ''http://a.bc/d''"
  by code_simp

theorem link_check_decides_witness:
  "matches http_pattern ''http://a.bc/d'' \<and> list_all url_char ''http://a.bc/d'' \<and>
   \<not> isValidHttpUrl ''javascript:alert(1)'' \<and> \<not> matches http_pattern ''javascript:alert(1)''"
proof -
  have "\<not> list_all url_char ''javascript:alert(1)''"
    by (simp add: url_char_def alnum_or_def is_alpha_def lower_def is_digit_def)
  then show ?thesis
    using link_check_decides [of "''http://a.bc/d''"]
      link_check_decides [of "''javascript:alert(1)''"] sample_link
    by blast
qed

end
