(* ===== verification/Shell.thy ===== *)
theory Shell
  imports Header HttpValid
begin

text \<open>
  The shell of the application: the root component with its message bar and the request for a
  wallet (\<open>App.tsx\<close>), the routes (\<open>routes/Routing.tsx\<close>), the message bar of the pages
  (\<open>components/Snackbar\<close>), the bar of a running purchase or transfer
  (\<open>components/SnackbarProgress\<close>), the image preview, the hooks, and the development server
  (\<open>vite.config.ts\<close>). The lemmas show where every route leads, what a message shows, and when
  the wallet dialog opens.
\<close>

section \<open>The message bar\<close>

datatype severity = SevError | SevInfo | SevSuccess | SevWarning

record messageInfo =
  mi_type :: severity
  mi_content :: string

record snackbar =
  messageOpen :: bool
  snack_info :: messageInfo
  progress :: nat
  snack_timer :: bool
  snack_mounted :: bool

definition snackbar_init :: snackbar where
  "snackbar_init = \<lparr> messageOpen = False,
     snack_info = \<lparr> mi_type = SevError, mi_content = ''Success!'' \<rparr>, progress = 100,
     snack_timer = False, snack_mounted = False \<rparr>"

text \<open>The effect of the mount publishes the function the messages go through.\<close>

definition snackbar_mount :: "snackbar \<Rightarrow> snackbar" where
  "snackbar_mount s = s\<lparr> snack_mounted := True \<rparr>"

definition setMessageIsOpen :: "messageInfo \<Rightarrow> snackbar \<Rightarrow> snackbar" where
  "setMessageIsOpen m s = s\<lparr> progress := 100, messageOpen := True, snack_info := m \<rparr>"

definition globalSetMessageIsOpen :: "messageInfo \<Rightarrow> snackbar \<Rightarrow> snackbar" where
  "globalSetMessageIsOpen m s = (if snack_mounted s then setMessageIsOpen m s else s)"

definition snackbar_close :: "string option \<Rightarrow> snackbar \<Rightarrow> snackbar" where
  "snackbar_close reason s = (if reason = Some ''clickaway'' then s else s\<lparr> messageOpen := False \<rparr>)"

text \<open>The effect on the message starts the timer of an open bar, and its tick.\<close>

definition snackbar_effect :: "snackbar \<Rightarrow> snackbar" where
  "snackbar_effect s = s\<lparr> snack_timer := messageOpen s \<rparr>"

definition snackbar_tick :: "snackbar \<Rightarrow> snackbar" where
  "snackbar_tick s =
     (if snack_timer s then s\<lparr> progress := (if 1 \<le> progress s then progress s - 1 else 0) \<rparr> else s)"

definition Message_success :: "string \<Rightarrow> snackbar \<Rightarrow> snackbar" where
  "Message_success c = globalSetMessageIsOpen \<lparr> mi_type = SevSuccess, mi_content = c \<rparr>"

definition Message_error :: "string \<Rightarrow> snackbar \<Rightarrow> snackbar" where
  "Message_error c = globalSetMessageIsOpen \<lparr> mi_type = SevError, mi_content = c \<rparr>"

definition Message_info :: "string \<Rightarrow> snackbar \<Rightarrow> snackbar" where
  "Message_info c = globalSetMessageIsOpen \<lparr> mi_type = SevInfo, mi_content = c \<rparr>"

definition Message_warning :: "string \<Rightarrow> snackbar \<Rightarrow> snackbar" where
  "Message_warning c = globalSetMessageIsOpen \<lparr> mi_type = SevWarning, mi_content = c \<rparr>"

section \<open>The progress bar\<close>

record progress_bar =
  bar_open :: bool
  bar_text :: string
  isshowViewProgress :: bool

definition bar_init :: progress_bar where
  "bar_init = \<lparr> bar_open = False, bar_text = [], isshowViewProgress = False \<rparr>"

definition openSnackbar :: "string \<Rightarrow> bool \<Rightarrow> progress_bar \<Rightarrow> progress_bar" where
  "openSnackbar msg b s = s\<lparr> bar_open := b, bar_text := msg \<rparr>"

definition setViewProgress :: "bool \<Rightarrow> progress_bar \<Rightarrow> progress_bar" where
  "setViewProgress b s = s\<lparr> isshowViewProgress := b \<rparr>"

definition bar_close :: "string option \<Rightarrow> progress_bar \<Rightarrow> progress_bar" where
  "bar_close reason s = (if reason = Some ''clickaway'' then s else s\<lparr> bar_open := False \<rparr>)"

definition bar_link_visible :: "progress_bar \<Rightarrow> bool" where
  "bar_link_visible s = (bar_open s \<and> \<not> isshowViewProgress s)"

text \<open>What a component does to its own bar, by its effects.\<close>

fun bar_effect :: "effect \<Rightarrow> progress_bar \<Rightarrow> progress_bar" where
  "bar_effect (Snack m b) s = openSnackbar m b s"
| "bar_effect (SnackProgress b) s = setViewProgress b s"
| "bar_effect _ s = s"

section \<open>The root component\<close>

record shell =
  MessageOpen :: bool
  MessageInfo :: messageInfo
  OpenSelectWell :: bool
  header :: header_view
  bar :: snackbar

definition shell_init :: "world \<Rightarrow> shell" where
  "shell_init w = \<lparr> MessageOpen = False,
     MessageInfo = \<lparr> mi_type = SevSuccess, mi_content = ''Success!'' \<rparr>,
     OpenSelectWell = False, header = header_init w, bar = snackbar_init \<rparr>"

text \<open>React runs the header's effect only where the property it depends on has changed.\<close>

definition editOpenSelectWell :: "bool \<Rightarrow> shell \<Rightarrow> shell" where
  "editOpenSelectWell b s =
     (if b = OpenSelectWell s then s
      else s\<lparr> OpenSelectWell := b, header := select_effect b (header s) \<rparr>)"

definition handleMessageClose :: "string option \<Rightarrow> shell \<Rightarrow> shell" where
  "handleMessageClose reason s =
     (if reason = Some ''clickaway'' then s else s\<lparr> MessageOpen := False \<rparr>)"

definition app_setMessageIsOpen :: "messageInfo \<Rightarrow> shell \<Rightarrow> shell" where
  "app_setMessageIsOpen m s = s\<lparr> MessageOpen := True, MessageInfo := m \<rparr>"

text \<open>The pages reach the shell through the routes.\<close>

definition handleRouteChange :: "messageInfo \<Rightarrow> shell \<Rightarrow> shell" where
  "handleRouteChange = app_setMessageIsOpen"

definition hanldWellModal :: "bool \<Rightarrow> shell \<Rightarrow> shell" where
  "hanldWellModal = editOpenSelectWell"

text \<open>The effects of a page on the shell.\<close>

definition on_bar :: "(snackbar \<Rightarrow> snackbar) \<Rightarrow> shell \<Rightarrow> shell" where
  "on_bar f s = s\<lparr> bar := snackbar_effect (f (bar s)) \<rparr>"

fun shell_effect :: "effect \<Rightarrow> shell \<Rightarrow> shell" where
  "shell_effect (MsgError m) s = on_bar (Message_error m) s"
| "shell_effect (MsgSuccess m) s = on_bar (Message_success m) s"
| "shell_effect (MsgWarning m) s = on_bar (Message_warning m) s"
| "shell_effect (WellModal b) s = hanldWellModal b s"
| "shell_effect (SelectWell b) s = editOpenSelectWell b s"
| "shell_effect (RouteMessage ok m) s =
     handleRouteChange \<lparr> mi_type = (if ok then SevSuccess else SevError), mi_content = m \<rparr> s"
| "shell_effect _ s = s"

definition shell_effects :: "effect list \<Rightarrow> shell \<Rightarrow> shell" where
  "shell_effects es s = fold shell_effect es s"

section \<open>Routes\<close>

datatype route = RBoard | RCreate | RProfile string | RInfo string | RRedirect string

text \<open>The segments of a path: what is between the slashes after the first one, without empty ones
  at the end.\<close>

fun segments :: "string \<Rightarrow> string list" where
  "segments [] = [[]]"
| "segments (c # s) =
     (if c = CHR ''/'' then [] # segments s
      else case segments s of [] \<Rightarrow> [[c]] | g # gs \<Rightarrow> (c # g) # gs)"

definition strip_empty :: "string list \<Rightarrow> string list" where
  "strip_empty gs = rev (dropWhile (\<lambda>g. g = []) (rev gs))"

definition path_segments :: "string \<Rightarrow> string list" where
  "path_segments p =
     strip_empty (segments (case p of [] \<Rightarrow> [] | c # r \<Rightarrow> if c = CHR ''/'' then r else p))"

text \<open>The table: a static segment comes before a parameter and the catch-all last; segments
  match without regard to case, and a parameter is never empty.\<close>

definition Routing :: "string \<Rightarrow> route" where
  "Routing p = (case path_segments p of
     [g] \<Rightarrow> if List.map lower g = ''board'' then RBoard
            else if List.map lower g = ''create'' then RCreate
            else if g = [] then RRedirect ''/board'' else RInfo g
   | [g, u] \<Rightarrow> if List.map lower g = ''profile'' then RProfile u else RRedirect ''/board''
   | _ \<Rightarrow> RRedirect ''/board'')"

text \<open>A redirect navigates once more.\<close>

definition page_at :: "string \<Rightarrow> route" where
  "page_at p = (case Routing p of RRedirect q \<Rightarrow> Routing q | r \<Rightarrow> r)"

section \<open>The image preview and the hooks\<close>

definition handleClickOpen :: "bool \<Rightarrow> bool" where
  "handleClickOpen s = True"

definition handleClose :: "bool \<Rightarrow> bool" where
  "handleClose s = False"

definition useBoolean :: "bool option \<Rightarrow> bool" where
  "useBoolean d = (d = Some True)"

definition setTrue :: "bool \<Rightarrow> bool" where
  "setTrue s = True"

definition setFalse :: "bool \<Rightarrow> bool" where
  "setFalse s = False"

definition toggle :: "bool \<Rightarrow> bool" where
  "toggle s = (\<not> s)"

text \<open>The debounced value: each change of the value or the delay restarts a timer, which sets it
  to the value of the render that started it. \<open>waited\<close> counts the milliseconds since.\<close>

record 'v debounced =
  debouncedValue :: 'v
  pending :: "('v \<times> nat) option"
  waited :: nat

definition useDebounce_init :: "'v \<Rightarrow> 'v debounced" where
  "useDebounce_init v = \<lparr> debouncedValue = v, pending = None, waited = 0 \<rparr>"

definition useDebounce_change :: "'v \<Rightarrow> nat option \<Rightarrow> 'v debounced \<Rightarrow> 'v debounced" where
  "useDebounce_change v delay s =
     s\<lparr> pending := Some (v, case delay of None \<Rightarrow> 500 | Some d \<Rightarrow> if d = 0 then 500 else d), waited := 0 \<rparr>"

definition useDebounce_wait :: "nat \<Rightarrow> 'v debounced \<Rightarrow> 'v debounced" where
  "useDebounce_wait ms s = (case pending s of
     None \<Rightarrow> s
   | Some (v, d) \<Rightarrow>
       if d \<le> waited s + ms then s\<lparr> debouncedValue := v, pending := None, waited := 0 \<rparr>
       else s\<lparr> waited := waited s + ms \<rparr>)"

section \<open>The development server and the build\<close>

definition define_network :: "string option \<Rightarrow> string" where
  "define_network net = (if net = Some ''ic'' then ''\"ic\"'' else ''\"local\"'')"

text \<open>The constants of the build: the network, then those of the canisters, which win.\<close>

definition vite_define :: "environment \<Rightarrow> canister_config \<Rightarrow> canister_config \<Rightarrow> string \<Rightarrow> string option"
where
  "vite_define env dev prd k = (case initCanisterEnv env dev prd k of
     Some v \<Rightarrow> Some v
   | None \<Rightarrow> if k = ''process.env.DFX_NETWORK'' then Some (define_network (env ''DFX_NETWORK'')) else None)"

text \<open>The proxy: the target of a path and the path sent there.\<close>

definition vite_proxy :: "string \<Rightarrow> (string \<times> string) option" where
  "vite_proxy p =
     (if starts_with ''/api'' p then Some (''https://image.fomowell.com/'', p)
      else if starts_with ''/service'' p then Some (''https://metrics.icpex.org/'', drop 8 p)
      else None)"

section \<open>Lemmas\<close>

lemma progress_ticks:
  assumes "snack_timer s"
  shows "progress ((snackbar_tick ^^ n) s) = progress s - n \<and> snack_timer ((snackbar_tick ^^ n) s)"
proof (induction n)
  case (Suc n)
  then show ?case by (simp add: snackbar_tick_def)
qed (simp add: assms)

lemma message_shown:
  assumes "snack_mounted (bar s)"
  shows "messageOpen (bar (shell_effect (MsgError m) s))"
    "snack_info (bar (shell_effect (MsgError m) s)) = \<lparr> mi_type = SevError, mi_content = m \<rparr>"
  using assms by (simp_all add: on_bar_def Message_error_def globalSetMessageIsOpen_def
      setMessageIsOpen_def snackbar_effect_def)

lemma segments_plain: "CHR ''/'' \<notin> set p \<Longrightarrow> segments p = [p]"
  by (induction p) auto

lemma segments_slash: "CHR ''/'' \<notin> set p \<Longrightarrow> segments (p @ CHR ''/'' # q) = p # segments q"
  by (induction p) auto

lemma strip_empty_last: "g \<noteq> [] \<Longrightarrow> strip_empty (gs @ [g]) = gs @ [g]"
  by (simp add: strip_empty_def)

lemma segment_path:
  "p \<noteq> [] \<Longrightarrow> CHR ''/'' \<notin> set p \<Longrightarrow> path_segments (CHR ''/'' # p) = [p]"
  using strip_empty_last [of p "[]"] by (simp add: path_segments_def segments_plain)

lemma segment_path2:
  assumes "CHR ''/'' \<notin> set p" "q \<noteq> []" "CHR ''/'' \<notin> set q"
  shows "path_segments (CHR ''/'' # p @ CHR ''/'' # q) = [p, q]"
  using assms strip_empty_last [of q "[p]"]
  by (simp add: path_segments_def segments_slash segments_plain)

lemma page_at_page: "page_at p \<noteq> RRedirect q"
proof -
  have "path_segments ''/board'' = [''board'']" by (rule segment_path) simp_all
  then have b: "Routing ''/board'' = RBoard" by (simp add: Routing_def lower_def)
  have "Routing p = RRedirect r \<Longrightarrow> r = ''/board''" for r
    by (auto simp: Routing_def split: list.splits if_splits)
  then show ?thesis by (auto simp: page_at_def b split: route.splits)
qed

lemma route_info:
  "p \<noteq> [] \<Longrightarrow> CHR ''/'' \<notin> set p \<Longrightarrow> List.map lower p \<noteq> ''board'' \<Longrightarrow> List.map lower p \<noteq> ''create'' \<Longrightarrow>
   Routing (''/'' @ p) = RInfo p"
  by (simp add: Routing_def segment_path)

lemma route_profile:
  assumes "p \<noteq> []" "CHR ''/'' \<notin> set p"
  shows "Routing (''/profile/'' @ p) = RProfile p"
proof -
  have "path_segments (''/profile/'' @ p) = [''profile'', p]"
    using segment_path2 [of "''profile''" p] assms by simp
  then show ?thesis by (simp add: Routing_def lower_def)
qed

text \<open>A value that stays is the debounced one once the delay has passed.\<close>

lemma useDebounce_settles:
  assumes "(case delay of None \<Rightarrow> 500 | Some d \<Rightarrow> if d = 0 then 500 else d) \<le> sum_list ts"
  shows "debouncedValue (fold useDebounce_wait ts (useDebounce_change v delay s)) = v"
proof -
  define d :: nat where "d = (case delay of None \<Rightarrow> 500 | Some d \<Rightarrow> if d = 0 then 500 else d)"
  have idle: "pending r = None \<Longrightarrow> fold useDebounce_wait ts r = r" for r :: "'a debounced" and ts
    by (induction ts) (simp_all add: useDebounce_wait_def)
  have "pending r = Some (v, d) \<Longrightarrow> waited r < d \<Longrightarrow> d \<le> waited r + sum_list ts \<Longrightarrow>
        debouncedValue (fold useDebounce_wait ts r) = v" for r ts
  proof (induction ts arbitrary: r)
    case (Cons t ts)
    show ?case
    proof (cases "d \<le> waited r + t")
      case True
      then have w: "useDebounce_wait t r = r\<lparr> debouncedValue := v, pending := None, waited := 0 \<rparr>"
        using Cons.prems(1) by (simp add: useDebounce_wait_def)
      show ?thesis by (simp add: w idle)
    next
      case False
      then have "waited (useDebounce_wait t r) < d"
        "d \<le> waited (useDebounce_wait t r) + sum_list ts"
        using Cons.prems by (simp_all add: useDebounce_wait_def)
      then show ?thesis using Cons False by (simp add: useDebounce_wait_def)
    qed
  qed simp
  moreover have "0 < d" by (simp add: d_def split: option.splits)
  ultimately show ?thesis using assms
    by (simp add: useDebounce_change_def d_def [symmetric])
qed

text \<open>A closed wallet dialog stays closed. The page asks the shell to open the wallet dialog;
  closing the dialog with its own button does not tell the shell, which still holds the request,
  so asking again, as often as the user presses the page's button, changes nothing.\<close>

lemma wallet_dialog_not_reopened:
  assumes "\<not> OpenSelectWell s"
  shows "let s1 = shell_effect (WellModal True) s;
      s2 = s1\<lparr> header := handleCloseWallet (header s1) \<rparr>;
      s3 = shell_effects (replicate n (WellModal True)) s2 in
    openCreateWallet (header s1) \<and> \<not> openCreateWallet (header s3) \<and> s3 = s2"
proof -
  have r: "OpenSelectWell t \<Longrightarrow> shell_effects (replicate n (WellModal True)) t = t" for t
    by (induction n) (simp_all add: shell_effects_def hanldWellModal_def editOpenSelectWell_def)
  show ?thesis using assms
    by (simp add: Let_def r hanldWellModal_def editOpenSelectWell_def select_effect_def
        handleCloseWallet_def)
qed

end
