(* ===== verification/View.thy ===== *)
theory View
  imports Shell
begin

text \<open>
  What a component draws: the tree its \<open>return\<close> makes, without its styles except those that hide
  an element or take its clicks away. A listener is the name of an action; each page says which
  handler an action runs. \<open>texts\<close> are the texts a user can read and \<open>live\<close> the actions that take
  clicks. What lies behind an open dialog counts as live: an action that is not live cannot be
  started at all, and one that is live can be started once the open dialogs are closed, so the
  properties that start an action behind a dialog close it first (\<open>trade_restarts\<close>,
  \<open>creation_restarts\<close>). The dialogs that pages share, the message bars and the image preview are
  here.
\<close>

section \<open>Trees\<close>

text \<open>\<open>onClick\<close>, \<open>display: none\<close>, \<open>visibility: hidden\<close>, \<open>pointerEvents: none\<close>, and the \<open>loading\<close> of a
  \<open>LoadingButton\<close>, which disables it.\<close>

datatype 'h attr = Click 'h | NoDisplay bool | Invisible bool | NoPointer bool | Loading bool

text \<open>A text, an image or icon by its source, an element, a text field (placeholder, value,
  \<open>onChange\<close>), and a \<open>Modal\<close>, \<open>Dialog\<close> or \<open>Popover\<close> with its \<open>open\<close> and \<open>onClose\<close>.\<close>

datatype 'h node =
    Txt string
  | Img string
  | El "'h attr list" "'h node list"
  | Field string string "'h option"
  | Overlay bool 'h "'h node list"

fun displays :: "'h attr \<Rightarrow> bool" where
  "displays (NoDisplay b) = (\<not> b)"
| "displays (Invisible b) = (\<not> b)"
| "displays _ = True"

fun takes :: "'h attr \<Rightarrow> bool" where
  "takes (NoPointer b) = (\<not> b)"
| "takes (Loading b) = (\<not> b)"
| "takes a = displays a"

fun clicks :: "'h attr list \<Rightarrow> 'h list" where
  "clicks [] = []"
| "clicks (Click h # as) = h # clicks as"
| "clicks (_ # as) = clicks as"

fun texts :: "'h node \<Rightarrow> string list" where
  "texts (Txt t) = [t]"
| "texts (Img _) = []"
| "texts (El as ns) = (if list_all displays as then concat (map texts ns) else [])"
| "texts (Field p v h) = [if v = [] then p else v]"
| "texts (Overlay b h ns) = (if b then concat (map texts ns) else [])"

fun images :: "'h node \<Rightarrow> string list" where
  "images (Img i) = [i]"
| "images (El as ns) = (if list_all displays as then concat (map images ns) else [])"
| "images (Overlay b h ns) = (if b then concat (map images ns) else [])"
| "images _ = []"

fun live :: "'h node \<Rightarrow> 'h list" where
  "live (El as ns) = (if list_all takes as then clicks as @ concat (map live ns) else [])"
| "live (Field p v h) = (case h of None \<Rightarrow> [] | Some a \<Rightarrow> [a])"
| "live (Overlay b h ns) = (if b then h # concat (map live ns) else [])"
| "live _ = []"

abbreviation box :: "'h node list \<Rightarrow> 'h node" where "box ns \<equiv> El [] ns"

abbreviation button :: "'h \<Rightarrow> 'h node list \<Rightarrow> 'h node" where "button h ns \<equiv> El [Click h] ns"

text \<open>\<open>{c && x}\<close>.\<close>

abbreviation only_if :: "bool \<Rightarrow> 'h node \<Rightarrow> 'h node list" where "only_if c n \<equiv> (if c then [n] else [])"

text \<open>The image of a reference that may be absent.\<close>

definition image_of :: "string option \<Rightarrow> 'h node" where
  "image_of r = Img (getImgUrl (the_default [] r))"

text \<open>A list of parts that may each fail.\<close>

fun all_drawn :: "'a res list \<Rightarrow> 'a list res" where
  "all_drawn [] = Inr []"
| "all_drawn (r # rs) = res_bind r (\<lambda>a. res_map (Cons a) (all_drawn rs))"

section \<open>Shared dialogs\<close>

text \<open>The dialog of the two steps of a payment. The ring of a step is drawn while it runs.\<close>

definition step_half :: "bool \<Rightarrow> bool \<Rightarrow> string \<Rightarrow> string \<Rightarrow> 'h node" where
  "step_half runs success mark label = box
     [box [El [Invisible (\<not> runs)] [Img ''CircularProgress''],
           box [El [Invisible (\<not> success)] [Img ''success''], Img mark]],
      box [Txt label]]"

definition step_dialog :: "bool \<Rightarrow> 'h \<Rightarrow> 'h \<Rightarrow> string \<Rightarrow> string \<times> string \<Rightarrow> bool \<times> bool \<Rightarrow> bool \<times> bool \<Rightarrow> 'h node" where
  "step_dialog is_open close cross title labels first second = Overlay is_open close
     [button cross [Img ''CloseIcon''],
      box [box [Txt title], box [Txt ''Please wait some time for transactios to finish'']],
      box [step_half (fst first) (snd first) ''CheckIcon'' (fst labels),
           box [Txt ''>''],
           step_half (fst second) (snd second) (if snd second then ''CheckIcon'' else ''pending'') (snd labels)]]"

text \<open>The box in the corner while a payment runs.\<close>

definition corner_box :: "bool \<Rightarrow> 'h \<Rightarrow> 'h \<Rightarrow> bool \<Rightarrow> string list \<Rightarrow> 'h node" where
  "corner_box is_open close view_it no_link ts = El [NoDisplay (\<not> is_open)]
     [button close [Img ''CloseIcon''],
      box [box [Img ''CircularProgress'', Img ''AccessTimeIcon''],
           box [box (map Txt ts),
                El [Click view_it, NoDisplay no_link] [Txt ''View progress'']]]]"

section \<open>Message bars\<close>

datatype bar_act = CloseBar

text \<open>The bar of \<open>Message\<close>: the alert with its icon, and the rest of its time.\<close>

fun type_icon :: "severity \<Rightarrow> string" where
  "type_icon SevSuccess = ''CheckCircleIcon''"
| "type_icon _ = ''ErrorIcon''"

definition snackbar_view :: "snackbar \<Rightarrow> bar_act node" where
  "snackbar_view s = El [NoDisplay (\<not> messageOpen s)]
     [box [Img (type_icon (mi_type (snack_info s))), Txt (mi_content (snack_info s)),
           button CloseBar [Img ''CloseIcon'']],
      box [Img (nat_str (progress s))]]"

text \<open>The progress bar of a component that pays; its link runs the component's \<open>onViewProgress\<close>.\<close>

definition progress_view :: "'h \<Rightarrow> 'h \<Rightarrow> progress_bar \<Rightarrow> 'h node" where
  "progress_view close on_view b = corner_box (bar_open b) close on_view (isshowViewProgress b) [bar_text b]"

section \<open>Image preview\<close>

datatype preview_act = OpenPreview | ClosePreview

definition ImagePreview :: "string \<Rightarrow> string \<Rightarrow> bool \<Rightarrow> preview_act node" where
  "ImagePreview src alt is_open = box
     [button OpenPreview [Img src],
      Overlay is_open ClosePreview
        [box [Txt alt, button ClosePreview [Img ''CloseIcon'']], box [Img src]]]"

section \<open>The root component\<close>

text \<open>The alert of the root component that no page writes to any more, the message bar, and below
  them the header and the page of the address.\<close>

datatype 'h root_act = Bar bar_act | Within 'h

fun map_acts :: "('h \<Rightarrow> 'k) \<Rightarrow> 'h node \<Rightarrow> 'k node" where
  "map_acts f (Txt t) = Txt t"
| "map_acts f (Img i) = Img i"
| "map_acts f (El as ns) = El (map (map_attr f) as) (map (map_acts f) ns)"
| "map_acts f (Field p v h) = Field p v (map_option f h)"
| "map_acts f (Overlay b h ns) = Overlay b (f h) (map (map_acts f) ns)"

definition App_view :: "shell \<Rightarrow> 'h node \<Rightarrow> 'h node \<Rightarrow> 'h root_act node" where
  "App_view s header_part page_part = box
     [El [NoDisplay (\<not> MessageOpen s)] [box [Txt (mi_content (MessageInfo s))]],
      map_acts Bar (snackbar_view (bar s)),
      box [map_acts Within header_part],
      box [map_acts Within page_part]]"

section \<open>Lemmas\<close>

lemma displays_map [simp]: "displays (map_attr f a) = displays a"
  by (cases a) simp_all

lemma takes_map [simp]: "takes (map_attr f a) = takes a"
  by (cases a) simp_all

lemma clicks_map [simp]: "clicks (map (map_attr f) as) = map f (clicks as)"
proof (induction as)
  case (Cons a as)
  then show ?case by (cases a) simp_all
qed simp

lemma live_map: "live (map_acts f n) = map f (live n)"
  by (induction n rule: live.induct) (auto simp: list.pred_map o_def map_concat cong: map_cong split: option.splits)

lemma texts_map: "texts (map_acts f n) = texts n"
  by (induction n rule: texts.induct) (auto simp: list.pred_map o_def cong: map_cong)

text \<open>What can be clicked is displayed.\<close>

lemma takes_displays: "takes a \<Longrightarrow> displays a"
  by (cases a) simp_all

lemma hidden_dead: "\<not> list_all displays as \<Longrightarrow> live (El as ns) = []"
  by (auto simp: list_all_iff dest: takes_displays)

lemma step_dialog_live [simp]:
  "live (step_dialog is_open close cross title labels first second) = (if is_open then [close, cross] else [])"
  by (simp add: step_dialog_def step_half_def)

lemma corner_box_live [simp]:
  "live (corner_box is_open close view_it no_link ts) =
     (if is_open then close # (if no_link then [] else [view_it]) else [])"
  by (induction ts) (auto simp: corner_box_def)

lemma progress_view_live [simp]:
  "live (progress_view close on_view b) =
     (if bar_open b then close # (if isshowViewProgress b then [] else [on_view]) else [])"
  by (simp add: progress_view_def)

lemma image_live [simp]: "live (ImagePreview src alt b) = OpenPreview # (if b then [ClosePreview, ClosePreview] else [])"
  by (simp add: ImagePreview_def)

lemma all_live: "list_all Q (concat (map live ns)) \<longleftrightarrow> list_all (\<lambda>n. list_all Q (live n)) ns"
  by (induction ns) simp_all

lemma all_drawn_some: "\<forall>x \<in> set xs. \<exists>a. f x = Inr a \<and> P x a \<Longrightarrow>
    \<exists>as. all_drawn (map f xs) = Inr as \<and> list_all2 P xs as"
proof (induction xs)
  case (Cons x xs)
  then obtain a as where "f x = Inr a" "P x a" "all_drawn (map f xs) = Inr as" "list_all2 P xs as" by auto
  then show ?case by simp
qed simp

text \<open>The texts the library makes while a page is drawn: an integer over a power of ten.\<close>

lemma units_exist:
  assumes "big_laws B val" "e \<le> 22"
  obtains v b x where "big_str B (int_str n) = Inr v" "big_num B (pow10 e) = Inr b" "big_div B v b = Inr x"
proof -
  obtain v where v: "big_str B (int_str n) = Inr v" using big_lawsD(2) [OF assms(1)] by blast
  obtain b where b: "big_num B (pow10 e) = Inr b" "val b = 10 ^ e" using big_laws_pow10 [OF assms] by blast
  obtain x where "big_div B v b = Inr x" using big_div_error [OF assms(1), of b v] b by auto
  then show thesis using v b that by blast
qed

end
