(* ===== verification/SignalsView.thy ===== *)
theory SignalsView
  imports Signals View
begin

text \<open>
  The two buttons of the latest trade and the latest well, which the board and the header draw
  alike. Both components give their own action for the jump to the project of a signal.
\<close>

definition skeleton :: "'h node" where
  "skeleton = Img ''Skeleton''"

definition trade_text :: "RecordSignalVo \<Rightarrow> string" where
  "trade_text r = rv_user_name r @ '' '' @ (if rv_buy_sell_op r = ''buy'' then ''bought'' else ''sold'') @ '' '' @
     formatAmountByUnit (JNum (js_div (num_of_int (rv_icp_amount r)) (pow10 8))) 4 @ '' ICP of ''"

definition trade_signal :: "(string \<Rightarrow> 'h) \<Rightarrow> 'a signal_view_scheme \<Rightarrow> 'h node" where
  "trade_signal jump s = (case FomContext s of
     None \<Rightarrow> skeleton
   | Some c \<Rightarrow> (let r = last_buy_sell_op c in
       button (jump (int_str (rv_fomo_idx r)))
         [Img (getImgUrl (rv_user_avatar r)), Txt (trade_text r), Txt (rv_fomo_ticker r),
          image_of (last_buy_sell_op_img s)]))"

definition well_signal :: "(string \<Rightarrow> 'h) \<Rightarrow> (int \<Rightarrow> string \<Rightarrow> string) \<Rightarrow> 'a signal_view_scheme \<Rightarrow> 'h node" where
  "well_signal jump fmt s = (case FomContext s of
     None \<Rightarrow> skeleton
   | Some c \<Rightarrow> (let r = last_create_fomo c in
       button (jump (int_str (cf_fomo_idx r)))
         [Img (getImgUrl (cf_user_avatar r)), Txt (cf_user_name r @ '' created '' @ cf_fomo_name r),
          image_of (last_create_fomo_img s),
          Txt (''on '' @ handlTimeFn fmt (Some (cf_create_time r)))]))"

lemma signals_live:
  "live (trade_signal jump s) = (case FomContext s of None \<Rightarrow> [] | Some c \<Rightarrow> [jump (int_str (rv_fomo_idx (last_buy_sell_op c)))])"
  "live (well_signal jump fmt s) = (case FomContext s of None \<Rightarrow> [] | Some c \<Rightarrow> [jump (int_str (cf_fomo_idx (last_create_fomo c)))])"
  by (simp_all add: trade_signal_def well_signal_def skeleton_def image_of_def Let_def split: option.splits)

lemma index_reads: "BtnLastBuySell env (int_str i) s = (s, [Call (get_fomo_by_fomo_idx env i)], [WaitJump])"
  using js_BigInt_int_str [of i] by (simp add: BtnLastBuySell_def)

end
