(* ===== verification/Batch.thy ===== *)
theory Batch
  imports Prelude
begin

text \<open>
  The batch of wallet transactions, \<open>BatchTransaction\<close> of
  \<open>artemis-web3-adapter/src/libs/batchTransact.js\<close>: its state (\<open>idle\<close>, \<open>running\<close>, \<open>error\<close>,
  \<open>done\<close>), the grouping and wrapping of the transactions, the two processing loops (the
  Plug wallet's own batches, and one call after the other for the other wallets) and the
  retry. The replies of the wallet are an argument; the callbacks of the caller are recorded
  in a log. The lemmas give the outcome of every reply for the one-transaction batches the
  pages build, and what a failed batch leaves behind.
\<close>

section \<open>State\<close>

datatype batch_state = BIdle | BRunning | BError | BDone

text \<open>A transaction: whether it names a method and has an \<open>updateNextStep\<close>, and what the
  preparation writes into it. The wrapped callbacks close over the position \<open>(i, j)\<close> the
  transaction had when they were made; every preparation wraps them once more, and an outer
  wrapper calls the inner one before its own bookkeeping.\<close>

record trx =
  has_method :: bool
  has_update :: bool
  step_index :: nat
  trx_state :: batch_state
  wraps :: nat
  at_i :: nat
  at_j :: nat

datatype 'd callback = CbSuccess nat 'd | CbFail nat | CbNext nat

record 'd batch =
  b_state :: batch_state
  stepsList :: "string list"
  transactions :: "trx list"
  completed :: "string list"
  activeStep :: "string option"
  FailedSteps :: "string list"
  transactionResults :: "(string \<times> 'd) list"
  trxArray :: "trx list list"
  adapter_set :: bool
  b_log :: "'d callback list"

text \<open>What the wallet answers to one transaction: no actor, a value, or nothing (an exception of
  the call is caught and leaves \<open>resp\<close> false).\<close>

datatype 'd reply = NoActor | NoValue | Value 'd

datatype 'd batch_result = ResFalse | ResResults "(string \<times> 'd) list" | ResRejected

text \<open>The constructor. Without a provider, or without transactions, the object stays without an
  adapter.\<close>

definition new_batch :: "(string \<times> trx) list \<Rightarrow> bool \<Rightarrow> 'd batch" where
  "new_batch list has_provider =
     (let ts = (if has_provider then list else []) in
      \<lparr> b_state = BIdle, stepsList = map fst ts, transactions = map snd ts, completed = [],
        activeStep = Some [], FailedSteps = [], transactionResults = [], trxArray = [],
        adapter_set = (ts \<noteq> []), b_log = [] \<rparr>)"

section \<open>Preparation\<close>

text \<open>A group ends after a transaction with an \<open>updateNextStep\<close>.\<close>

fun group_trx :: "trx list \<Rightarrow> trx list \<Rightarrow> trx list list" where
  "group_trx tmp [] = (if tmp = [] then [] else [tmp])"
| "group_trx tmp (x # xs) =
     (if has_update x then (tmp @ [x]) # group_trx [] xs else group_trx (tmp @ [x]) xs)"

fun number_group :: "nat \<Rightarrow> nat \<Rightarrow> nat \<Rightarrow> trx list \<Rightarrow> trx list" where
  "number_group k i j [] = []"
| "number_group k i j (x # xs) =
     x\<lparr> step_index := k, trx_state := BIdle, at_i := i, at_j := j \<rparr>
       # number_group (Suc k) i (Suc j) xs"

fun number_groups :: "nat \<Rightarrow> nat \<Rightarrow> trx list list \<Rightarrow> trx list list" where
  "number_groups k i [] = []"
| "number_groups k i (g # gs) = number_group k i 0 g # number_groups (k + length g) (Suc i) gs"

definition prepareTrxArry :: "'d batch \<Rightarrow> 'd batch" where
  "prepareTrxArry b =
     (let ts = map (\<lambda>t. t\<lparr> wraps := Suc (wraps t) \<rparr>) (transactions b)
      in b\<lparr> transactions := ts, trxArray := number_groups 0 0 (group_trx [] ts) \<rparr>)"

section \<open>Callbacks\<close>

definition item_at :: "'d batch \<Rightarrow> nat \<Rightarrow> nat \<Rightarrow> trx option" where
  "item_at b i j = (case nth_opt (trxArray b) i of None \<Rightarrow> None | Some g \<Rightarrow> nth_opt g j)"

definition set_item_state :: "nat \<Rightarrow> nat \<Rightarrow> batch_state \<Rightarrow> 'd batch \<Rightarrow> 'd batch" where
  "set_item_state i j s b =
     b\<lparr> trxArray := (trxArray b)[i := ((trxArray b ! i)[j := (trxArray b ! i ! j)\<lparr> trx_state := s \<rparr>])] \<rparr>"

definition step_name :: "'d batch \<Rightarrow> nat \<Rightarrow> string" where
  "step_name b k = (case nth_opt (stepsList b) k of None \<Rightarrow> ''undefined'' | Some s \<Rightarrow> s)"

definition put_result :: "string \<Rightarrow> 'd \<Rightarrow> 'd batch \<Rightarrow> 'd batch" where
  "put_result k d b = b\<lparr> transactionResults :=
     filter (\<lambda>(k', _). k' \<noteq> k) (transactionResults b) @ [(k, d)] \<rparr>"

text \<open>The bookkeeping of one wrapper after a success, and after a failure.\<close>

definition book_success :: "('d \<Rightarrow> bool) \<Rightarrow> trx \<Rightarrow> trx \<Rightarrow> 'd \<Rightarrow> 'd batch \<Rightarrow> 'd batch" where
  "book_success is_err t it data b =
     (let k = step_index it; nm = step_name b k
      in if is_err data
         then set_item_state (at_i t) (at_j t) BError
                (put_result nm data
                  (b\<lparr> FailedSteps := FailedSteps b @ [nm], b_state := BError \<rparr>))
         else (let b1 = set_item_state (at_i t) (at_j t) BDone
                     (put_result nm data
                       (b\<lparr> completed := completed b @ [nm],
                           activeStep := nth_opt (stepsList b) (Suc k) \<rparr>))
               in if has_update it \<and> Suc (at_i t) < length (trxArray b1)
                  then b1\<lparr> b_log := b_log b1 @ [CbNext k] \<rparr> else b1))"

definition book_failure :: "trx \<Rightarrow> trx \<Rightarrow> 'd batch \<Rightarrow> 'd batch" where
  "book_failure t it b =
     set_item_state (at_i t) (at_j t) BError
       (b\<lparr> FailedSteps := FailedSteps b @ [step_name b (step_index it)],
          activeStep := nth_opt (stepsList b) (step_index it), b_state := BError \<rparr>)"

text \<open>The wrapped \<open>onSuccess\<close> of the transaction made at \<open>(i, j)\<close>. The caller's callback runs
  before the reply is looked at; a position that is gone throws before it.\<close>

definition onSuccess :: "('d \<Rightarrow> bool) \<Rightarrow> trx \<Rightarrow> 'd \<Rightarrow> 'd batch \<Rightarrow> 'd batch res" where
  "onSuccess is_err t data b = (case item_at b (at_i t) (at_j t) of
     None \<Rightarrow> Inl TypeError
   | Some it \<Rightarrow> Inr ((book_success is_err t it data ^^ wraps it)
                      (b\<lparr> b_log := b_log b @ [CbSuccess (step_index it) data] \<rparr>)))"

text \<open>The wrapped \<open>onFail\<close>: the caller's callback comes first. The second component is false
  where the position is gone and the wrapper throws.\<close>

definition onFail :: "trx \<Rightarrow> 'd batch \<Rightarrow> 'd batch \<times> bool" where
  "onFail t b =
     (let b1 = b\<lparr> b_log := b_log b @ [CbFail (step_index t)] \<rparr>
      in case item_at b1 (at_i t) (at_j t) of
           None \<Rightarrow> (b1, False)
         | Some it \<Rightarrow> ((book_failure t it ^^ wraps it) b1, True))"

section \<open>Processing\<close>

text \<open>One transaction of the loop for the wallets without batches. The second component is
  false where an exception leaves the loop.\<close>

definition run_item :: "('d \<Rightarrow> bool) \<Rightarrow> 'd reply \<Rightarrow> trx \<Rightarrow> 'd batch \<Rightarrow> 'd batch \<times> bool" where
  "run_item is_err r t b =
     (if r = NoActor then (b, False)
      else (let (b1, ok) = (if has_method t then (b, True) else onFail t b)
            in if \<not> ok then (b1, False)
               else if has_method t then
                 (case r of Value d \<Rightarrow>
                     (case onSuccess is_err t d b1 of Inr b2 \<Rightarrow> (b2, True) | Inl _ \<Rightarrow> (b1, False))
                   | _ \<Rightarrow> onFail t b1)
               else onFail t b1))"

fun run_items :: "('d \<Rightarrow> bool) \<Rightarrow> (nat \<Rightarrow> 'd reply) \<Rightarrow> trx list \<Rightarrow> 'd batch \<Rightarrow> 'd batch \<times> bool" where
  "run_items is_err rs [] b = (b, True)"
| "run_items is_err rs (t # ts) b =
     (if b_state b = BError \<or> b_state b = BDone then (b, True)
      else (let (b1, ok) = run_item is_err (rs (step_index t)) t b
            in if ok then run_items is_err rs ts b1 else (b1, False)))"

definition finish_batch :: "'d batch \<Rightarrow> 'd batch \<times> 'd batch_result" where
  "finish_batch b =
     (if FailedSteps b = [] then (b\<lparr> b_state := BDone \<rparr>, ResResults (transactionResults b))
      else (b\<lparr> b_state := BError \<rparr>, ResFalse))"

text \<open>Plug: the wallet runs a whole group and invokes the callbacks itself; its promise may be
  rejected. \<open>plug i\<close> tells what it does with group \<open>i\<close>.\<close>

type_synonym 'd plug_reply = "(nat \<times> 'd option) list \<times> bool"

fun plug_callbacks ::
  "('d \<Rightarrow> bool) \<Rightarrow> trx list \<Rightarrow> (nat \<times> 'd option) list \<Rightarrow> 'd batch \<Rightarrow> 'd batch" where
  "plug_callbacks is_err g [] b = b"
| "plug_callbacks is_err g ((j, r) # cs) b =
     plug_callbacks is_err g cs
       (case nth_opt g j of None \<Rightarrow> b
        | Some t \<Rightarrow> (case r of
             Some d \<Rightarrow> (case onSuccess is_err t d b of Inr b' \<Rightarrow> b' | Inl _ \<Rightarrow> b)
           | None \<Rightarrow> fst (onFail t b)))"

fun run_plug :: "('d \<Rightarrow> bool) \<Rightarrow> (nat \<Rightarrow> 'd plug_reply) \<Rightarrow> nat \<Rightarrow> trx list list \<Rightarrow> 'd batch \<Rightarrow>
    'd batch \<times> bool" where
  "run_plug is_err plug i [] b = (b, True)"
| "run_plug is_err plug i (g # gs) b =
     (if b_state b = BError \<or> b_state b = BDone then (b, True)
      else if g = [] then run_plug is_err plug (Suc i) gs b
      else (let b1 = plug_callbacks is_err g (fst (plug i)) b
            in if snd (plug i) then run_plug is_err plug (Suc i) gs b1 else (b1, False)))"

definition serial_wallets :: "string list" where
  "serial_wallets = [''plug'', ''stoic'', ''dfinity'', ''metamask'', ''astrox'', ''nfid'', ''bitfinity'']"

definition processBatch :: "('d \<Rightarrow> bool) \<Rightarrow> string \<Rightarrow> (nat \<Rightarrow> 'd reply) \<Rightarrow> (nat \<Rightarrow> 'd plug_reply) \<Rightarrow>
    'd batch \<Rightarrow> 'd batch \<times> 'd batch_result" where
  "processBatch is_err wallet rs plug b =
     (if trxArray b = [] then (b, ResFalse)
      else (let b1 = b\<lparr> activeStep := (if completed b \<noteq> []
                              then nth_opt (stepsList b) (length (completed b))
                              else nth_opt (stepsList b) 0) \<rparr>
            in if wallet = ''plug''
               then (let (b2, ok) = run_plug is_err plug 0 (trxArray b1) b1
                     in if ok then finish_batch b2 else (b2, ResRejected))
               else if wallet \<in> set serial_wallets
               then (let (b2, ok) = run_items is_err rs (concat (trxArray b1)) b1
                     in if ok then finish_batch b2 else (b2\<lparr> b_state := BError \<rparr>, ResFalse))
               else (b1\<lparr> b_state := BError \<rparr>, ResFalse)))"

definition execute :: "('d \<Rightarrow> bool) \<Rightarrow> string \<Rightarrow> (nat \<Rightarrow> 'd reply) \<Rightarrow> (nat \<Rightarrow> 'd plug_reply) \<Rightarrow>
    'd batch \<Rightarrow> 'd batch \<times> 'd batch_result" where
  "execute is_err wallet rs plug b =
     (if b_state b = BRunning \<or> \<not> adapter_set b \<or> transactions b = [] then (b, ResFalse)
      else if b_state b = BDone then (b, ResResults (transactionResults b))
      else processBatch is_err wallet rs plug
             (prepareTrxArry (b\<lparr> b_state := BRunning, FailedSteps := [] \<rparr>)))"

definition retryExecute :: "('d \<Rightarrow> bool) \<Rightarrow> string \<Rightarrow> (nat \<Rightarrow> 'd reply) \<Rightarrow> (nat \<Rightarrow> 'd plug_reply) \<Rightarrow>
    'd batch \<Rightarrow> 'd batch \<times> 'd batch_result" where
  "retryExecute is_err wallet rs plug b =
     (if b_state b \<noteq> BError then (b, ResFalse)
      else processBatch is_err wallet rs plug
             (b\<lparr> trxArray := map (filter (\<lambda>t. trx_state t \<noteq> BDone)) (trxArray b),
                b_state := BRunning, FailedSteps := [] \<rparr>))"

section \<open>The batches of the pages\<close>

text \<open>The pages build a batch of one transaction with a method and no \<open>updateNextStep\<close> and run
  it once. \<open>approve_run\<close> is that run; its log is what the page sees.\<close>

definition one_trx :: "(string \<times> trx) list" where
  "one_trx = [(''0'', \<lparr> has_method = True, has_update = False, step_index = 0,
                trx_state = BIdle, wraps = 0, at_i = 0, at_j = 0 \<rparr>)]"

definition approve_run :: "('d \<Rightarrow> bool) \<Rightarrow> bool \<Rightarrow> string \<Rightarrow> 'd reply \<Rightarrow> 'd plug_reply \<Rightarrow>
    'd batch \<times> 'd batch_result" where
  "approve_run is_err has_provider wallet r p =
     execute is_err wallet (\<lambda>_. r) (\<lambda>_. p) (new_batch one_trx has_provider)"

section \<open>Lemmas\<close>

lemmas batch_defs = approve_run_def execute_def processBatch_def prepareTrxArry_def new_batch_def
  one_trx_def run_item_def onSuccess_def onFail_def book_success_def book_failure_def item_at_def
  set_item_state_def put_result_def step_name_def finish_batch_def Let_def

lemma approve_no_provider:
  "approve_run is_err False w r p = (new_batch one_trx False, ResFalse)"
  by (simp add: approve_run_def execute_def new_batch_def)

lemma approve_serial_value:
  assumes "w \<in> set serial_wallets" "w \<noteq> ''plug''"
  shows "b_log (fst (approve_run is_err True w (Value d) p)) = [CbSuccess 0 d]"
    and "b_state (fst (approve_run is_err True w (Value d) p)) = (if is_err d then BError else BDone)"
  using assms by (simp_all add: batch_defs)

lemma approve_serial_novalue:
  assumes "w \<in> set serial_wallets" "w \<noteq> ''plug''"
  shows "b_log (fst (approve_run is_err True w NoValue p)) = [CbFail 0]"
    and "b_state (fst (approve_run is_err True w NoValue p)) = BError"
  using assms by (simp_all add: batch_defs)

lemma approve_serial_noactor:
  assumes "w \<in> set serial_wallets" "w \<noteq> ''plug''"
  shows "b_log (fst (approve_run is_err True w NoActor p)) = []"
    and "b_state (fst (approve_run is_err True w NoActor p)) = BError"
  using assms by (simp_all add: batch_defs)

lemma approve_unknown_wallet:
  assumes "w \<notin> set serial_wallets"
  shows "b_log (fst (approve_run is_err True w r p)) = []"
    and "snd (approve_run is_err True w r p) = ResFalse"
proof -
  have "w \<noteq> ''plug''" using assms by (auto simp: serial_wallets_def)
  then show "b_log (fst (approve_run is_err True w r p)) = []"
    "snd (approve_run is_err True w r p) = ResFalse"
    using assms by (simp_all add: batch_defs)
qed

lemma approve_plug_rejected:
  "b_state (fst (approve_run is_err True ''plug'' r ([], False))) = BRunning"
  "snd (approve_run is_err True ''plug'' r ([], False)) = ResRejected"
  by (simp_all add: batch_defs)

subsection \<open>The serial loop\<close>

text \<open>The batch is in its error state exactly when a step has failed.\<close>

definition failure_inv :: "'d batch \<Rightarrow> bool" where
  "failure_inv b = (b_state b = BError \<longleftrightarrow> FailedSteps b \<noteq> [])"

lemma set_item_sel [simp]:
  "b_state (set_item_state i j s b) = b_state b"
  "FailedSteps (set_item_state i j s b) = FailedSteps b"
  "b_state (put_result k d b) = b_state b" "FailedSteps (put_result k d b) = FailedSteps b"
  by (simp_all add: set_item_state_def put_result_def)

lemma book_inv:
  "failure_inv b \<Longrightarrow> failure_inv (book_success is_err t it d b)"
  "failure_inv b \<Longrightarrow> failure_inv (book_failure t it b)"
  by (auto simp: failure_inv_def book_success_def book_failure_def Let_def)

lemma funpow_inv: "(\<And>b. P b \<Longrightarrow> P (f b)) \<Longrightarrow> P b \<Longrightarrow> P ((f ^^ n) b)"
  by (induction n) auto

lemma onSuccess_inv: "failure_inv b \<Longrightarrow> onSuccess is_err t d b = Inr b' \<Longrightarrow> failure_inv b'"
  unfolding onSuccess_def
  by (auto split: option.splits simp: failure_inv_def intro!: funpow_inv [where P = failure_inv,
        unfolded failure_inv_def] book_inv [unfolded failure_inv_def])

lemma onFail_inv: "failure_inv b \<Longrightarrow> failure_inv (fst (onFail t b))"
  unfolding onFail_def Let_def
  by (auto split: option.splits simp: failure_inv_def intro!: funpow_inv [where P = failure_inv,
        unfolded failure_inv_def] book_inv [unfolded failure_inv_def])

lemma run_item_inv:
  assumes "failure_inv b"
  shows "failure_inv (fst (run_item is_err r t b))"
proof -
  obtain b1 ok where f: "onFail t b = (b1, ok)" by (cases "onFail t b")
  then have "failure_inv b1" using onFail_inv [OF assms, of t] by simp
  then show ?thesis
    using assms f onSuccess_inv [OF assms] onFail_inv [of b1 t] onFail_inv [OF assms, of t]
    by (auto simp: run_item_def Let_def split: reply.splits sum.splits)
qed

lemma run_items_inv: "failure_inv b \<Longrightarrow> failure_inv (fst (run_items is_err rs ts b))"
proof (induction is_err rs ts b rule: run_items.induct)
  case (2 is_err rs t ts b)
  then show ?case
    using run_item_inv [of b is_err "rs (step_index t)" t]
    by (auto simp: Let_def split: prod.splits)
qed simp

lemma finish_batch_state:
  "b_state (fst (finish_batch b)) = (if FailedSteps b = [] then BDone else BError)"
  by (simp add: finish_batch_def)

lemma process_serial_final:
  assumes "w \<noteq> ''plug''" "trxArray b \<noteq> []"
  shows "b_state (fst (processBatch is_err w rs plug b)) \<in> {BDone, BError}"
  using assms
  by (auto simp: processBatch_def Let_def finish_batch_state split: prod.splits)

lemma group_trx_nonempty: "tmp \<noteq> [] \<or> xs \<noteq> [] \<Longrightarrow> group_trx tmp xs \<noteq> []"
  by (induction tmp xs rule: group_trx.induct) auto

lemma number_groups_nonempty [simp]: "number_groups k i gs = [] \<longleftrightarrow> gs = []"
  by (cases gs) auto

text \<open>The position of a transaction in the prepared array, which no bookkeeping moves: the wrappers
  of the item there are those made by the preparations, at least one.\<close>

definition placed :: "'d batch \<Rightarrow> trx \<Rightarrow> bool" where
  "placed b t = (case item_at b (at_i t) (at_j t) of None \<Rightarrow> False | Some it \<Rightarrow> 0 < wraps it)"

lemma placed_iff: "placed b t \<longleftrightarrow> at_i t < length (trxArray b) \<and>
    at_j t < length (trxArray b ! at_i t) \<and> 0 < wraps (trxArray b ! at_i t ! at_j t)"
  by (auto simp: placed_def item_at_def nth_opt_def)

lemma nth_updated: "xs[i := x] ! j = (if i = j \<and> j < length xs then x else xs ! j)"
  by (cases "i < length xs") (auto simp: nth_list_update list_update_beyond)

lemma placed_kept [simp]:
  "placed (set_item_state i j s b) t = placed b t" "placed (put_result k d b) t = placed b t"
  by (auto simp: placed_iff set_item_state_def put_result_def nth_updated)

lemma placed_cong: "trxArray b = trxArray b' \<Longrightarrow> placed b t = placed b' t"
  by (simp add: placed_iff)

lemma placed_updates [simp]:
  "placed (b\<lparr> b_log := l \<rparr>) t = placed b t" "placed (b\<lparr> FailedSteps := f \<rparr>) t = placed b t"
  "placed (b\<lparr> b_state := s \<rparr>) t = placed b t" "placed (b\<lparr> activeStep := a \<rparr>) t = placed b t"
  "placed (b\<lparr> completed := c \<rparr>) t = placed b t"
  by (simp_all add: placed_iff)

lemma placed_book:
  "placed (book_success is_err u it d b) t = placed b t"
  "placed (book_failure u it b) t = placed b t"
  by (simp_all add: book_success_def book_failure_def Let_def)

lemma placed_funpow:
  fixes f :: "'d batch \<Rightarrow> 'd batch"
  assumes "\<And>b. placed (f b) t = placed b t"
  shows "placed ((f ^^ n) b) t = placed b t"
proof (induction n)
  case (Suc n)
  then show ?case using assms [of "(f ^^ n) b"] by simp
qed simp

lemma book_success_pow:
  "FailedSteps ((book_success is_err u it d ^^ n) b) = [] \<longleftrightarrow>
     FailedSteps b = [] \<and> (n = 0 \<or> \<not> is_err d)"
  "\<not> is_err d \<Longrightarrow> b_state ((book_success is_err u it d ^^ n) b) = b_state b"
  by (induction n) (auto simp: book_success_def Let_def)

lemma book_failure_pow: "0 < n \<Longrightarrow> FailedSteps ((book_failure u it ^^ n) b) \<noteq> []"
  by (cases n) (auto simp: book_failure_def)

definition answered :: "('d \<Rightarrow> bool) \<Rightarrow> trx \<Rightarrow> 'd reply \<Rightarrow> bool" where
  "answered is_err t r = (has_method t \<and> (\<exists>d. r = Value d \<and> \<not> is_err d))"

lemma onSuccess_placed:
  assumes "placed b t" "FailedSteps b = []"
  obtains b' where "onSuccess is_err t d b = Inr b'" "FailedSteps b' = [] \<longleftrightarrow> \<not> is_err d"
    "\<not> is_err d \<Longrightarrow> b_state b' = b_state b" "\<And>u. placed b' u = placed b u"
proof -
  obtain it where it: "item_at b (at_i t) (at_j t) = Some it" "0 < wraps it"
    using assms(1) by (auto simp: placed_def split: option.splits)
  let ?b = "b\<lparr> b_log := b_log b @ [CbSuccess (step_index it) d] \<rparr>"
  have "placed ?b u = placed b u" for u by (rule placed_cong) simp
  then show ?thesis
    using that [of "(book_success is_err t it d ^^ wraps it) ?b"] it assms(2)
      placed_funpow [of "book_success is_err t it d"]
    by (simp add: onSuccess_def book_success_pow placed_book)
qed

lemma onFail_placed:
  assumes "placed b t"
  obtains b' where "onFail t b = (b', True)" "FailedSteps b' \<noteq> []" "\<And>u. placed b' u = placed b u"
proof -
  obtain it where it: "item_at b (at_i t) (at_j t) = Some it" "0 < wraps it"
    using assms(1) by (auto simp: placed_def split: option.splits)
  let ?b = "b\<lparr> b_log := b_log b @ [CbFail (step_index t)] \<rparr>"
  show ?thesis
  proof (rule that)
    show "onFail t b = ((book_failure t it ^^ wraps it) ?b, True)"
      using it(1) by (simp add: onFail_def Let_def item_at_def)
    show "FailedSteps ((book_failure t it ^^ wraps it) ?b) \<noteq> []" by (rule book_failure_pow [OF it(2)])
    show "placed ((book_failure t it ^^ wraps it) ?b) u = placed b u" for u
      by (simp add: placed_funpow placed_book)
  qed
qed

text \<open>One item of the loop, from a batch without failed steps: a proper answer keeps it so, any
  other ends the loop or records a failed step.\<close>

lemma run_item_placed:
  assumes "placed b t" "FailedSteps b = []" "b_state b = BRunning"
    and "run_item is_err r t b = (b', ok)"
  shows "answered is_err t r \<Longrightarrow> ok \<and> FailedSteps b' = [] \<and> b_state b' = BRunning \<and>
      (\<forall>u. placed b' u = placed b u)"
    and "\<not> answered is_err t r \<Longrightarrow> ok \<Longrightarrow> FailedSteps b' \<noteq> []"
proof -
  obtain bf where bf: "onFail t b = (bf, True)" "FailedSteps bf \<noteq> []" "\<And>u. placed bf u = placed b u"
    using onFail_placed [OF assms(1)] by blast
  obtain bg where bg: "onFail t bf = (bg, True)" "FailedSteps bg \<noteq> []"
    using onFail_placed [of bf t] bf(3) assms(1) by metis
  show "ok \<and> FailedSteps b' = [] \<and> b_state b' = BRunning \<and> (\<forall>u. placed b' u = placed b u)"
    if a: "answered is_err t r"
  proof -
    obtain d where d: "r = Value d" "\<not> is_err d" "has_method t"
      using a by (auto simp: answered_def)
    obtain bs where "onSuccess is_err t d b = Inr bs" "FailedSteps bs = [] \<longleftrightarrow> \<not> is_err d"
      "b_state bs = b_state b" "\<And>u. placed bs u = placed b u"
      using onSuccess_placed [OF assms(1,2), of is_err d] d(2) by metis
    then show ?thesis using assms(3,4) d by (auto simp: run_item_def)
  qed
  show "FailedSteps b' \<noteq> []" if a: "\<not> answered is_err t r" "ok"
  proof (cases r)
    case (Value d)
    obtain bs where "onSuccess is_err t d b = Inr bs" "FailedSteps bs = [] \<longleftrightarrow> \<not> is_err d"
      using onSuccess_placed [OF assms(1,2), of is_err d] by metis
    then show ?thesis
      using assms(4) a bf bg Value by (auto simp: run_item_def answered_def split: if_splits)
  qed (use assms(4) a bf bg in \<open>auto simp: run_item_def split: if_splits\<close>)
qed

lemma run_items_placed:
  assumes "FailedSteps b = []" "b_state b = BRunning" "\<forall>t \<in> set ts. placed b t"
  shows "snd (run_items is_err rs ts b) \<and> FailedSteps (fst (run_items is_err rs ts b)) = [] \<longleftrightarrow>
    (\<forall>t \<in> set ts. answered is_err t (rs (step_index t)))"
  using assms
proof (induction ts arbitrary: b)
  case (Cons t ts)
  obtain b1 ok where r: "run_item is_err (rs (step_index t)) t b = (b1, ok)"
    by (cases "run_item is_err (rs (step_index t)) t b")
  have p: "placed b t" using Cons.prems(3) by simp
  note rp = run_item_placed [OF p Cons.prems(1,2) r]
  show ?case
  proof (cases "answered is_err t (rs (step_index t))")
    case True
    then show ?thesis using rp(1) Cons.IH [of b1] Cons.prems r by simp
  next
    case False
    have "failure_inv b1"
      using run_item_inv [of b is_err "rs (step_index t)" t] r Cons.prems(1,2)
      by (simp add: failure_inv_def)
    then have "ok \<Longrightarrow> run_items is_err rs ts b1 = (b1, True)"
      using rp(2) [OF False] by (cases ts) (auto simp: failure_inv_def)
    then show ?thesis using rp(2) [OF False] r False Cons.prems(2) by auto
  qed
qed simp

text \<open>The preparation keeps the order of the transactions, numbers them and places each.\<close>

lemma concat_group_trx: "concat (group_trx tmp xs) = tmp @ xs"
  by (induction tmp xs rule: group_trx.induct) auto

lemma number_group_map:
  "map step_index (number_group k i j xs) = [k ..< k + length xs]"
  "map has_method (number_group k i j xs) = map has_method xs"
  "length (number_group k i j xs) = length xs"
  by (induction k i j xs rule: number_group.induct) (simp_all add: upt_conv_Cons del: upt_Suc)

lemma number_groups_map:
  "map step_index (concat (number_groups k i gs)) = [k ..< k + length (concat gs)]"
  "map has_method (concat (number_groups k i gs)) = map has_method (concat gs)"
proof (induction k i gs rule: number_groups.induct)
  case (2 k i g gs)
  have "[k ..< k + length g] @ [k + length g ..< k + length g + length (concat gs)] =
      [k ..< k + length g + length (concat gs)]"
    using upt_add_eq_append [of k "k + length g" "length (concat gs)"] by simp
  then show "map step_index (concat (number_groups k i (g # gs))) = [k ..< k + length (concat (g # gs))]"
    using 2(1) by (simp add: number_group_map add.assoc)
  show "map has_method (concat (number_groups k i (g # gs))) = map has_method (concat (g # gs))"
    using 2(2) by (simp add: number_group_map)
qed simp_all

lemma number_group_nth:
  "m < length xs \<Longrightarrow> number_group k i j xs ! m =
     (xs ! m)\<lparr> step_index := k + m, trx_state := BIdle, at_i := i, at_j := j + m \<rparr>"
proof (induction xs arbitrary: k j m)
  case (Cons x xs)
  then show ?case by (cases m) simp_all
qed simp

lemma number_groups_nth:
  "m < length gs \<Longrightarrow> \<exists>k'. number_groups k i gs ! m = number_group k' (i + m) 0 (gs ! m)"
proof (induction gs arbitrary: k i m)
  case (Cons g gs)
  then show ?case
  proof (cases m)
    case (Suc n)
    then show ?thesis using Cons.IH [of n "k + length g" "Suc i"] Cons.prems by auto
  qed auto
qed simp

lemma length_number_groups [simp]: "length (number_groups k i gs) = length gs"
  by (induction k i gs rule: number_groups.induct) auto

lemma number_groups_placed:
  assumes "trxArray b = number_groups 0 0 gs" "\<forall>t \<in> set (concat gs). 0 < wraps t"
    "t \<in> set (concat (trxArray b))"
  shows "placed b t"
proof -
  obtain g where "g \<in> set (number_groups 0 0 gs)" "t \<in> set g" using assms(1,3) by auto
  then obtain m where m: "m < length gs" "t \<in> set (number_groups 0 0 gs ! m)"
    by (auto simp: in_set_conv_nth [of g])
  obtain k where k: "number_groups 0 0 gs ! m = number_group k m 0 (gs ! m)"
    using number_groups_nth [OF m(1), of 0 0] by auto
  then obtain j where j: "j < length (gs ! m)" "t = number_group k m 0 (gs ! m) ! j"
    using m(2) by (auto simp: in_set_conv_nth number_group_map)
  then have t: "t = (gs ! m ! j)\<lparr> step_index := k + j, trx_state := BIdle, at_i := m, at_j := j \<rparr>"
    by (simp add: number_group_nth)
  have "gs ! m ! j \<in> set (concat gs)" using nth_mem [OF m(1)] nth_mem [OF j(1)] by auto
  then have "0 < wraps (gs ! m ! j)" using assms(2) by blast
  moreover have "item_at b m j = Some t"
    using m(1) k j by (simp add: item_at_def nth_opt_def assms(1) number_group_map)
  ultimately show ?thesis by (simp add: placed_def t)
qed

lemma prepared_answered:
  assumes "b1 = prepareTrxArry b"
  shows "(\<forall>t \<in> set (concat (trxArray b1)). answered is_err t (rs (step_index t))) \<longleftrightarrow>
    (\<forall>k < length (transactions b). answered is_err (transactions b ! k) (rs k))"
    and "\<forall>t \<in> set (concat (trxArray b1)). placed b1 t"
proof -
  let ?ts = "map (\<lambda>t. t\<lparr> wraps := Suc (wraps t) \<rparr>) (transactions b)"
  have A: "trxArray b1 = number_groups 0 0 (group_trx [] ?ts)"
    by (simp add: assms prepareTrxArry_def Let_def)
  let ?L = "concat (trxArray b1)"
  have s: "map step_index ?L = [0 ..< length (transactions b)]"
    and h: "map has_method ?L = map has_method ?ts"
    unfolding A number_groups_map concat_group_trx by simp_all
  have l: "length ?L = length (transactions b)" using arg_cong [OF h, of length] by simp
  have "answered is_err (?L ! k) (rs (step_index (?L ! k))) \<longleftrightarrow>
      answered is_err (transactions b ! k) (rs k)" if "k < length ?L" for k
  proof -
    have "step_index (?L ! k) = k" using arg_cong [OF s, of "\<lambda>xs. xs ! k"] that l by simp
    moreover have "has_method (?L ! k) = has_method (transactions b ! k)"
      using arg_cong [OF h, of "\<lambda>xs. xs ! k"] that l by simp
    ultimately show ?thesis by (simp add: answered_def)
  qed
  then show "(\<forall>t \<in> set ?L. answered is_err t (rs (step_index t))) \<longleftrightarrow>
    (\<forall>k < length (transactions b). answered is_err (transactions b ! k) (rs k))"
    by (simp only: all_set_conv_all_nth l) auto
  show "\<forall>t \<in> set ?L. placed b1 t"
    by (intro ballI number_groups_placed [OF A]) (auto simp: concat_group_trx simp del: set_concat)
qed

text \<open>C4. How a run of a batch ends. With any wallet other than Plug (whose batches end by its own
  promise), whatever the transactions are and whatever the wallet answers, the batch is done or in
  error when \<open>execute\<close> returns, never still running. It is done exactly when the wallet is one the
  adapter knows and every transaction names a method and was answered by a value that is no error;
  so a missing actor, a call that threw, an \<open>Err\<close> or an unknown wallet each leave it in error, and
  so does every failed step. It hands out results exactly when it is done.\<close>

theorem batch_settles:
  fixes b :: "'d batch"
  assumes "b_state b = BIdle" "adapter_set b" "transactions b \<noteq> []" "w \<noteq> ''plug''"
  shows "b_state (fst (execute is_err w rs plug b)) \<in> {BDone, BError} \<and>
    (b_state (fst (execute is_err w rs plug b)) = BDone \<longleftrightarrow>
       w \<in> set serial_wallets \<and>
       (\<forall>k < length (transactions b). has_method (transactions b ! k) \<and>
          (\<exists>d. rs k = Value d \<and> \<not> is_err d))) \<and>
    (FailedSteps (fst (execute is_err w rs plug b)) \<noteq> [] \<longrightarrow>
       b_state (fst (execute is_err w rs plug b)) = BError) \<and>
    ((\<exists>rr. snd (execute is_err w rs plug b) = ResResults rr) \<longleftrightarrow>
       b_state (fst (execute is_err w rs plug b)) = BDone)"
proof -
  let ?b = "b\<lparr> b_state := BRunning, FailedSteps := [] \<rparr>"
  define b1 :: "'d batch" where "b1 = prepareTrxArry ?b"
  have e: "execute is_err w rs plug b = processBatch is_err w rs plug b1"
    using assms by (simp add: execute_def b1_def)
  have t: "trxArray b1 \<noteq> []" "FailedSteps b1 = []" "b_state b1 = BRunning"
    using assms(3) by (simp_all add: b1_def prepareTrxArry_def Let_def group_trx_nonempty)
  let ?b2 = "b1\<lparr> activeStep := (if completed b1 \<noteq> []
      then nth_opt (stepsList b1) (length (completed b1)) else nth_opt (stepsList b1) 0) \<rparr>"
  have pl: "\<forall>u \<in> set (concat (trxArray b1)). placed ?b2 u"
    using prepared_answered(2) [OF b1_def] placed_cong [of ?b2 b1] by simp
  have "(snd (run_items is_err rs (concat (trxArray b1)) ?b2) \<and>
       FailedSteps (fst (run_items is_err rs (concat (trxArray b1)) ?b2)) = []) \<longleftrightarrow>
     (\<forall>k < length (transactions b). answered is_err (transactions b ! k) (rs k))"
    using run_items_placed [of ?b2, OF _ _ pl, of is_err rs] prepared_answered(1) [OF b1_def, of is_err rs] t(2,3)
    by simp
  then have r: "(\<forall>k < length (transactions b). has_method (transactions b ! k) \<and>
       (\<exists>d. rs k = Value d \<and> \<not> is_err d)) \<longleftrightarrow>
     snd (run_items is_err rs (concat (trxArray b1)) ?b2) \<and>
       FailedSteps (fst (run_items is_err rs (concat (trxArray b1)) ?b2)) = []"
    unfolding answered_def by blast
  show ?thesis unfolding e r using t assms(4)
    by (auto simp: processBatch_def finish_batch_def Let_def split: prod.splits if_splits)
qed

text \<open>A rejection by the Plug wallet leaves the batch running for ever. The promise of Plug's own
  batch call is not caught, so \<open>execute\<close> rejects with the state still running; from then on
  neither \<open>execute\<close> nor \<open>retryExecute\<close> does anything, with any wallet.\<close>

lemma plug_rejection_sticks:
  "let (b, res) = approve_run is_err True ''plug'' r ([], False) in
     res = ResRejected \<and> b_state b = BRunning \<and>
     execute is_err w rs plug b = (b, ResFalse) \<and> retryExecute is_err w rs plug b = (b, ResFalse)"
  using approve_plug_rejected [of is_err r]
  by (simp add: execute_def [of is_err w] retryExecute_def case_prod_beta)

theorem batch_settles_witness:
  "b_state (fst (execute (\<lambda>d. d = (0::nat)) ''dfinity'' (\<lambda>_. Value 0) (\<lambda>_. ([], True))
     (new_batch one_trx True))) = BError \<and>
   b_state (fst (execute (\<lambda>d. d = (0::nat)) ''dfinity'' (\<lambda>_. Value 1) (\<lambda>_. ([], True))
     (new_batch one_trx True))) = BDone"
  using batch_settles [of "new_batch one_trx True" "''dfinity''" "\<lambda>d. d = (0::nat)" "\<lambda>_. Value 0"
      "\<lambda>_. ([], True)"]
    batch_settles [of "new_batch one_trx True" "''dfinity''" "\<lambda>d. d = (0::nat)" "\<lambda>_. Value 1"
      "\<lambda>_. ([], True)"]
  by (auto simp: new_batch_def one_trx_def serial_wallets_def)

end
