(* ===== verification/Approve.thy ===== *)
theory Approve
  imports Page Batch
begin

text \<open>
  What the pages that pay through the wallet share: the ledger's approve call, the callbacks of
  the approve batch as a page sees them, and the contract of a page that runs such a batch.
  A page continues in its success callback and reports in its failure callback; the locale
  proves once, from the batch of the wallet adapter, what each answer of the wallet leads to.
\<close>

section \<open>Approve calls\<close>

definition no_subaccount :: "principal \<Rightarrow> candid_account" where
  "no_subaccount p = \<lparr> acc_owner = p, acc_subaccount = None \<rparr>"

definition approve_args :: "int \<Rightarrow> principal \<Rightarrow> ApproveArgs" where
  "approve_args n spender =
     \<lparr> ap_fee = None, ap_memo = None, ap_from_subaccount = None, ap_created_at_time = None,
       ap_amount = n, ap_expected_allowance = None, ap_expires_at = None,
       ap_spender = no_subaccount spender \<rparr>"

text \<open>\<open>Principal.fromText(process.env.X!)\<close>.\<close>

definition env_principal :: "'b page_env \<Rightarrow> string \<Rightarrow> principal res" where
  "env_principal P k = (case pe_env P k of
     None \<Rightarrow> Inl TypeError | Some t \<Rightarrow> from_text (pe_valid P) t)"

text \<open>An approve whose spender is the launcher, for an amount that is a JavaScript number: the
  encoding takes whole numbers that are not negative.\<close>

fun encoded_nat :: "jsnum \<Rightarrow> int res" where
  "encoded_nat (Fin x) =
     (if of_int \<lfloor>x\<rfloor> = x \<and> 0 \<le> x then Inr \<lfloor>x\<rfloor> else Inl (JsError ''Invalid nat argument''))"
| "encoded_nat _ = Inl (JsError ''Invalid nat argument'')"

definition launcher_approve :: "'b page_env \<Rightarrow> int \<Rightarrow> api_call res" where
  "launcher_approve P n =
     res_map (\<lambda>spender. update_of (Some (pe_icrc2 P)) (Icrc2_approve (approve_args n spender)))
       (env_principal P ''CANISTER_ID_FOMOWELL_LAUNCHER'')"

section \<open>The callbacks\<close>

fun run_callbacks :: "('s \<Rightarrow> ('s, 't) outcome) \<Rightarrow> ('s \<Rightarrow> ('s, 't) outcome) \<Rightarrow> 'd callback list \<Rightarrow>
    's \<Rightarrow> ('s, 't) outcome" where
  "run_callbacks ok fail [] s = plain s"
| "run_callbacks ok fail (CbSuccess k d # cs) s = then_do (ok s) (run_callbacks ok fail cs)"
| "run_callbacks ok fail (CbFail k # cs) s = then_do (fail s) (run_callbacks ok fail cs)"
| "run_callbacks ok fail (CbNext k # cs) s = run_callbacks ok fail cs s"

lemma then_do_plain [simp]: "then_do r plain = r"
  by (cases r) (simp add: then_do_def plain_def st_of_def fx_of_def tasks_of_def)

lemma run_callbacks_Nil [simp]: "run_callbacks ok fail [] = plain"
  by (simp add: fun_eq_iff)

text \<open>What a page does when its batch runs with the answer \<open>r\<close> of a wallet that has no batches of
  its own.\<close>

definition batch_seen :: "('s \<Rightarrow> ('s, 't) outcome) \<Rightarrow> ('s \<Rightarrow> ('s, 't) outcome) \<Rightarrow> ('d \<Rightarrow> bool) \<Rightarrow>
    string \<Rightarrow> 'd reply \<Rightarrow> 's \<Rightarrow> ('s, 't) outcome" where
  "batch_seen ok fail is_err w r =
     run_callbacks ok fail (b_log (fst (approve_run is_err True w r ([], True))))"

text \<open>The contract: the failure callback reports an error and calls no canister.\<close>

locale approve_client =
  fixes ok :: "'s \<Rightarrow> ('s, 't) outcome"
    and fail :: "'s \<Rightarrow> ('s, 't) outcome"
  assumes fail_reports: "\<exists>m. MsgError m \<in> set (fx_of (fail s))"
    and fail_no_call: "calls (fx_of (fail s)) = []"
begin

lemma value_continues:
  assumes "w \<in> set serial_wallets" "w \<noteq> ''plug''"
  shows "batch_seen ok fail is_err w (Value d) s = ok s"
  by (simp add: batch_seen_def approve_serial_value [OF assms])

lemma novalue_reports:
  assumes "w \<in> set serial_wallets" "w \<noteq> ''plug''"
  shows "batch_seen ok fail is_err w NoValue s = fail s"
    and "calls (fx_of (batch_seen ok fail is_err w NoValue s)) = []"
    and "\<exists>m. MsgError m \<in> set (fx_of (batch_seen ok fail is_err w NoValue s))"
  using fail_no_call fail_reports
  by (simp_all add: batch_seen_def approve_serial_novalue [OF assms])

lemma noactor_silent:
  assumes "w \<in> set serial_wallets" "w \<noteq> ''plug''"
  shows "batch_seen ok fail is_err w NoActor s = plain s"
  by (simp add: batch_seen_def approve_serial_noactor [OF assms])

lemma unknown_wallet_silent: "w \<notin> set serial_wallets \<Longrightarrow> batch_seen ok fail is_err w r s = plain s"
  by (simp add: batch_seen_def approve_unknown_wallet)

end

end
