(* ===== verification/TopUp.thy ===== *)
theory TopUp
  imports Approve
begin

text \<open>
  Topping up FOMO points (\<open>layout/home/buyToken/index.tsx\<close>): the amount and its label, the
  balance, and the two steps approve and \<open>topup_points\<close>. The lemmas show which amounts enable
  the button, what is approved for them, and where the steps stop.
\<close>

section \<open>State\<close>

record topup_view =
  openModalVal :: bool
  inputValue :: string
  openbuyLoding :: bool
  openStep :: bool
  isStepApprove :: bool
  isStepCreateFomo :: bool
  StepApproveSuccess :: bool
  StepCreateFomoSuccess :: bool
  openRightBox :: bool
  userBalance :: jsnum
  btnfomoText :: string
  isshow :: bool
  icpdecimals :: "jsnum option"

datatype topup_task =
    WaitTopApprove topup_view
  | WaitTopup
  | WaitTopBalance
  | WaitTopDecimals int
  | WaitTopPoints
  | TimerTopClose
  | TimerTopReset
  | TimerTopDone

type_synonym topup_out = "(topup_view, topup_task) outcome"

text \<open>\<open>Pay \<approx> ... ICP\<close>.\<close>

definition pay_text :: "jsval \<Rightarrow> string \<Rightarrow> string" where
  "pay_text price input =
     ''Pay '' @ approx_sign @ '' '' @
     formatAmountByUnit (JNum (js_mul (js_mul (val_Number price) (lit 1 10)) (js_Number input))) 4 @
     '' ICP''"

definition topup_init :: "jsval \<Rightarrow> topup_view" where
  "topup_init price = \<lparr> openModalVal = False, inputValue = [], openbuyLoding = False,
     openStep = False, isStepApprove = True, isStepCreateFomo = False,
     StepApproveSuccess = False, StepCreateFomoSuccess = False, openRightBox = False,
     userBalance = Fin 0, btnfomoText = pay_text price [], isshow = False, icpdecimals = None \<rparr>"

text \<open>The effect at the mount.\<close>

definition topup_mount :: "topup_view \<Rightarrow> topup_view" where
  "topup_mount s = (if inputValue s = [] then s\<lparr> btnfomoText := ''Enter an amount'', isshow := True \<rparr> else s)"

section \<open>The dialog\<close>

definition openModal :: "topup_view \<Rightarrow> topup_view" where
  "openModal s = s\<lparr> openModalVal := True \<rparr>"

definition closeBuyToken :: "topup_view \<Rightarrow> topup_view" where
  "closeBuyToken s = s\<lparr> openModalVal := False \<rparr>"

definition inputAmountChange :: "jsval \<Rightarrow> string \<Rightarrow> topup_view \<Rightarrow> topup_out" where
  "inputAmountChange price v s =
     (if js_Number v \<noteq> NaN then
        (let s1 = s\<lparr> inputValue := v \<rparr> in
         if v = [] then plain (s1\<lparr> btnfomoText := ''Enter an amount'', isshow := True \<rparr>)
         else if js_lt (js_Number v) (Fin 10)
         then plain (s1\<lparr> btnfomoText := ''The minimum purchase is 10 FOMO'', isshow := True \<rparr>)
         else plain (s1\<lparr> btnfomoText := pay_text price v, isshow := False \<rparr>))
      else emits s [MsgError ''The entered value is incorrect''])"

definition selectHandle :: "jsval \<Rightarrow> string \<Rightarrow> topup_view \<Rightarrow> topup_view" where
  "selectHandle price sel s =
     (if sel \<noteq> ''custom value''
      then s\<lparr> inputValue := sel, btnfomoText := pay_text price sel, isshow := False \<rparr>
      else s\<lparr> inputValue := [], btnfomoText := ''Enter an amount'', isshow := True \<rparr>)"

text \<open>The balance: two requests one after the other.\<close>

definition icrc1balanceReq :: "'b page_env \<Rightarrow> string \<Rightarrow> topup_view \<Rightarrow> topup_out" where
  "icrc1balanceReq P uid s = (case from_text (pe_valid P) uid of
     Inl e \<Rightarrow> throws s e
   | Inr u \<Rightarrow> (s, [Call (icrc1balance (pe_env P) (no_subaccount u) None)], [WaitTopBalance]))"

definition on_top_balance :: "environment \<Rightarrow> int res \<Rightarrow> topup_view \<Rightarrow> topup_out" where
  "on_top_balance env reply s = (case reply of
     Inl e \<Rightarrow> throws s e
   | Inr n \<Rightarrow> (s, [Call (icrc1_decimals env)], [WaitTopDecimals n]))"

definition on_top_decimals :: "'b bigjs \<Rightarrow> int \<Rightarrow> int res \<Rightarrow> topup_view \<Rightarrow> topup_out" where
  "on_top_decimals B n reply s = (case reply of
     Inl e \<Rightarrow> throws s e
   | Inr d \<Rightarrow>
       (let s1 = s\<lparr> icpdecimals := Some (num_of_int d) \<rparr>
        in case units_number B (num_of_int d) n of
             Inl e \<Rightarrow> throws s1 e | Inr x \<Rightarrow> plain (s1\<lparr> userBalance := x \<rparr>)))"

section \<open>The purchase\<close>

text \<open>\<open>Number(input) * Number(price) * 1.3 * 10 ** decimals\<close>, with eight decimals while they are
  not known (or zero).\<close>

definition topup_cost :: "jsval \<Rightarrow> topup_view \<Rightarrow> jsnum" where
  "topup_cost price s0 =
     js_mul (js_mul (js_mul (js_Number (inputValue s0)) (val_Number price)) (lit 13 10))
       (case icpdecimals s0 of
          Some d \<Rightarrow> if num_truthy d then ten_pow d else pow10 8
        | None \<Rightarrow> pow10 8)"

text \<open>The button. Without a user only the loading state is set.\<close>

definition btnBuyToken :: "'b page_env \<Rightarrow> jsval \<Rightarrow> string \<Rightarrow> topup_view \<Rightarrow> topup_view \<Rightarrow> topup_out" where
  "btnBuyToken P price uid s0 s =
     (let s1 = s\<lparr> openbuyLoding := True \<rparr> in
      if uid \<noteq> [] then
        (let s2 = s1\<lparr> openStep := True, openRightBox := True \<rparr> in
         case res_bind (bigint_of_num (js_floor (topup_cost price s0))) (\<lambda>n.
                res_map (Pair n) (launcher_approve P n)) of
           Inl e \<Rightarrow> throws s2 e
         | Inr (n, c) \<Rightarrow> (s2, (if 0 \<le> n then [Call c] else []), [WaitTopApprove s0]))
      else plain s1)"

definition top_approve_failed :: "topup_view \<Rightarrow> topup_out" where
  "top_approve_failed s =
     (s\<lparr> openRightBox := False, openbuyLoding := False \<rparr>, [MsgError ''Points redeemed failed''],
      [TimerTopClose])"

text \<open>The end of a purchase that threw.\<close>

definition topup_failed :: "topup_view \<Rightarrow> topup_out" where
  "topup_failed s =
     (s\<lparr> openRightBox := False, StepCreateFomoSuccess := False, openbuyLoding := False \<rparr>,
      [MsgError ''FOMO points top-up failed''], [TimerTopReset])"

text \<open>\<open>gettopup_points\<close>: \<open>BigInt(inputValue)\<close> is computed here, after the approve.\<close>

definition gettopup_points :: "environment \<Rightarrow> topup_view \<Rightarrow> topup_view \<Rightarrow> topup_out" where
  "gettopup_points env s0 s =
     (let s1 = s\<lparr> isStepCreateFomo := True \<rparr> in
      case js_BigInt (inputValue s0) of
        Inl _ \<Rightarrow> topup_failed s1
      | Inr n \<Rightarrow> (s1, [Call (topup_points env n)], [WaitTopup]))"

definition top_approved :: "environment \<Rightarrow> topup_view \<Rightarrow> topup_view \<Rightarrow> topup_out" where
  "top_approved env s0 s = gettopup_points env s0
     (s\<lparr> isStepApprove := False, StepApproveSuccess := True, openRightBox := True \<rparr>)"

definition on_topup :: "(string \<Rightarrow> bool) \<Rightarrow> environment \<Rightarrow> string \<Rightarrow>
    (unit, string) candid_result res \<Rightarrow> topup_view \<Rightarrow> topup_out" where
  "on_topup valid env uid reply s = (case reply of
     Inl _ \<Rightarrow> topup_failed s
   | Inr (CErr m) \<Rightarrow>
       (s\<lparr> isStepCreateFomo := False, openbuyLoding := False, openRightBox := False,
           StepCreateFomoSuccess := False \<rparr>, [MsgError m], [TimerTopReset])
   | Inr (COk _) \<Rightarrow>
       then_do
         (s\<lparr> isStepCreateFomo := False, StepCreateFomoSuccess := True, openRightBox := False,
             openbuyLoding := False \<rparr>, [MsgSuccess ''FOMO points top-up successfully''], [TimerTopDone])
         (\<lambda>s. case getBaseUserInfo valid env uid of
            Inl _ \<Rightarrow> topup_failed s
          | Inr c \<Rightarrow> (s, [Call c], [WaitTopPoints])))"

definition on_top_points :: "UserProfile option res \<Rightarrow> topup_view \<Rightarrow> topup_out" where
  "on_top_points reply s = (case reply of
     Inl _ \<Rightarrow> topup_failed s
   | Inr None \<Rightarrow> emits s [StoreWrite (store_setusertoken (JNum (Fin 0))),
                         StoreWrite (store_setlockToken JNull)]
   | Inr (Some u) \<Rightarrow> emits s
       [StoreWrite (store_setusertoken (JNum (opt_Number (user_points u)))),
        StoreWrite (store_setlockToken (JNum (opt_Number (user_pre_reward_points u))))])"

definition top_reset :: "topup_view \<Rightarrow> topup_view" where
  "top_reset s = s\<lparr> openStep := False, isStepApprove := True, isStepCreateFomo := False,
                    StepApproveSuccess := False \<rparr>"

fun topup_timer :: "topup_task \<Rightarrow> topup_view \<Rightarrow> topup_view option" where
  "topup_timer TimerTopClose s = Some (s\<lparr> openStep := False \<rparr>)"
| "topup_timer TimerTopReset s = Some (top_reset s)"
| "topup_timer TimerTopDone s =
     Some ((top_reset s)\<lparr> StepCreateFomoSuccess := False, openModalVal := False \<rparr>)"
| "topup_timer _ s = None"

text \<open>The progress dialog and the snack bar.\<close>

definition handleCloseStep :: "topup_view \<Rightarrow> topup_view" where
  "handleCloseStep s = s\<lparr> openStep := False \<rparr>"

definition closeRightBox :: "topup_view \<Rightarrow> topup_view" where
  "closeRightBox s = s\<lparr> openRightBox := False \<rparr>"

definition onBtnCloseStep :: "topup_view \<Rightarrow> topup_view" where
  "onBtnCloseStep s = s\<lparr> openStep := False \<rparr>"

definition handleViewProgress :: "topup_view \<Rightarrow> topup_view" where
  "handleViewProgress s = s\<lparr> openStep := True \<rparr>"

definition handleButtonClick :: "bool \<Rightarrow> effect list" where
  "handleButtonClick b = [Snack ''Top-up FOMO points'' b]"

section \<open>Lemmas\<close>

interpretation topup_approve: approve_client "top_approved env s0" top_approve_failed for env s0
  by unfold_locales (simp_all add: top_approve_failed_def)

text \<open>The invariant of the input: the button is enabled only for a number of at least ten.\<close>

definition input_inv :: "topup_view \<Rightarrow> bool" where
  "input_inv s = (\<not> isshow s \<longrightarrow> js_le (Fin 10) (js_Number (inputValue s)))"

lemma js_not_lt_le: "js_Number v \<noteq> NaN \<Longrightarrow> \<not> js_lt (js_Number v) (Fin a) \<Longrightarrow> js_le (Fin a) (js_Number v)"
  by (cases "js_Number v") (auto simp: js_le_def js_eq_def)

lemma input_inv_change: "input_inv s \<Longrightarrow> input_inv (st_of (inputAmountChange price v s))"
  using js_not_lt_le [of v 10] by (auto simp: inputAmountChange_def input_inv_def Let_def)

lemma input_inv_others:
  "input_inv (topup_mount s) \<longleftrightarrow> (inputValue s \<noteq> [] \<longrightarrow> input_inv s)"
  by (simp add: topup_mount_def input_inv_def)

text \<open>The dialog's states: what the inputs, the purchase, its replies and its timers lead to.\<close>

inductive topup_reach :: "'b page_env \<Rightarrow> topup_view \<Rightarrow> bool" for P where
  start: "topup_reach P (topup_mount (topup_init price))"
| dialog: "topup_reach P s \<Longrightarrow>
    s' \<in> {openModal s, closeBuyToken s, handleCloseStep s, closeRightBox s, onBtnCloseStep s,
          handleViewProgress s} \<Longrightarrow> topup_reach P s'"
| input: "topup_reach P s \<Longrightarrow> topup_reach P (st_of (inputAmountChange price v s))"
| choice: "topup_reach P s \<Longrightarrow> sel \<in> {''custom value'', ''10'', ''20'', ''50''} \<Longrightarrow>
    topup_reach P (selectHandle price sel s)"
| balance: "topup_reach P s \<Longrightarrow> topup_reach P (st_of (on_top_decimals (pe_big P) n r s))"
| purchase: "topup_reach P s \<Longrightarrow> topup_reach P (st_of (btnBuyToken P price uid s0 s))"
| approved: "topup_reach P s \<Longrightarrow> topup_reach P (st_of (top_approved env s0 s))"
| refused: "topup_reach P s \<Longrightarrow> topup_reach P (st_of (top_approve_failed s))"
| answered: "topup_reach P s \<Longrightarrow> topup_reach P (st_of (on_topup (pe_valid P) env uid reply s))"
| points: "topup_reach P s \<Longrightarrow> topup_reach P (st_of (on_top_points u s))"
| timer: "topup_reach P s \<Longrightarrow> topup_timer t s = Some s' \<Longrightarrow> topup_reach P s'"

text \<open>The steps after the input leave the input and its button alone.\<close>

definition same_input :: "topup_view \<Rightarrow> topup_view \<Rightarrow> bool" where
  "same_input s s' = (inputValue s' = inputValue s \<and> isshow s' = isshow s)"

lemma input_inv_same: "same_input s s' \<Longrightarrow> input_inv s \<Longrightarrow> input_inv s'"
  by (simp add: same_input_def input_inv_def)

lemma same_input_steps:
  "same_input s (st_of (on_top_decimals B n r s))"
  "same_input s (st_of (btnBuyToken P price uid s0 s))"
  "same_input s (st_of (top_approved env s0 s))" "same_input s (st_of (top_approve_failed s))"
  "same_input s (st_of (on_topup valid env uid reply s))" "same_input s (st_of (on_top_points u s))"
  by (auto simp: same_input_def on_top_decimals_def btnBuyToken_def top_approved_def
      gettopup_points_def topup_failed_def top_approve_failed_def on_topup_def on_top_points_def
      Let_def split: sum.splits option.splits candid_result.splits)

lemma same_input_timer: "topup_timer t s = Some s' \<Longrightarrow> same_input s s'"
  by (cases t) (auto simp: same_input_def top_reset_def)

lemma chosen_number: "js_Number ''10'' = Fin 10" "js_Number ''20'' = Fin 20" "js_Number ''50'' = Fin 50"
proof -
  have t: "''10'' = int_str 10" "''20'' = int_str 20" "''50'' = int_str 50" by code_simp+
  show "js_Number ''10'' = Fin 10" "js_Number ''20'' = Fin 20" "js_Number ''50'' = Fin 50"
    unfolding t js_Number_int_str by (simp_all add: num_of_int_exact)
qed

lemma chosen_ok: "sel \<in> {''10'', ''20'', ''50''} \<Longrightarrow> js_le (Fin 10) (js_Number sel)"
  by (auto simp: chosen_number js_le_def js_eq_def)

lemma reach_input_inv:
  assumes "topup_reach P s"
  shows "input_inv s"
  using assms
proof induction
  case (start price)
  then show ?case by (simp add: topup_mount_def topup_init_def input_inv_def)
next
  case (dialog s s')
  then show ?case
    by (intro input_inv_same [of s s'])
       (auto simp: same_input_def openModal_def closeBuyToken_def handleCloseStep_def
        closeRightBox_def onBtnCloseStep_def handleViewProgress_def)
next
  case (input s price v)
  then show ?case by (simp add: input_inv_change)
next
  case (choice s sel price)
  then show ?case using chosen_ok [of sel]
    by (auto simp: selectHandle_def input_inv_def simp del: js_Number_def)
next
  case (timer s t s')
  then show ?case using input_inv_same same_input_timer by blast
qed (blast intro: input_inv_same same_input_steps)+

text \<open>The purchase button is enabled for at least ten points. In every state the dialog can
  reach, through its inputs, the offered amounts, the purchase with its replies and its timers,
  an enabled button means that the field holds a number that is ten or more.\<close>

lemma enabled_means_ten:
  assumes "topup_reach P s"
  shows "isshow s \<or> js_le (Fin 10) (js_Number (inputValue s))"
  using reach_input_inv [OF assms] by (auto simp: input_inv_def)

text \<open>A purchase of a fraction is approved and then fails. An amount that passes the check of
  the button without being written as a whole number, such as \<open>12.5\<close> or \<open>1e2\<close>, is turned into a bigint only after
  the approve has succeeded; the conversion throws, no points are bought and a failure is shown.\<close>

lemma fraction_fails_after_approve:
  assumes "js_le (Fin 10) (js_Number v)" "js_BigInt v = Inl e"
  shows "\<not> isshow (st_of (inputAmountChange price v s)) \<and>
    calls (fx_of (top_approved env (st_of (inputAmountChange price v s)) s')) = [] \<and>
    MsgError ''FOMO points top-up failed'' \<in>
      set (fx_of (top_approved env (st_of (inputAmountChange price v s)) s'))"
proof -
  have n: "js_Number v \<noteq> NaN" "\<not> js_lt (js_Number v) (Fin 10)"
    using assms(1) by (cases "js_Number v"; auto simp: js_le_def js_eq_def)+
  have "v \<noteq> []" using assms(2) by (auto simp: js_BigInt_def js_trim_def)
  then show ?thesis using n assms(2)
    by (simp add: inputAmountChange_def top_approved_def gettopup_points_def topup_failed_def Let_def)
qed

end
