(* ===== verification/TopUpView.thy ===== *)
theory TopUpView
  imports TopUp View
begin

text \<open>
  What the dialog for points draws (\<open>layout/home/buyToken/index.tsx\<close>) and which handler each of
  its actions runs. The lemmas show that a purchase can only be started where the dialog is open,
  no purchase runs and the field holds at least ten points.
\<close>

datatype topup_act =
  CloseTopUp | TypePoints | ChoosePoints string | BuyPoints | CloseTopSteps | CrossTopSteps | CloseTopBar | ViewTopProgress

definition topup_choice :: "string \<Rightarrow> string \<Rightarrow> topup_act node" where
  "topup_choice v label = button (ChoosePoints v) [Txt label]"

definition topup_dialog :: "topup_view \<Rightarrow> topup_act node" where
  "topup_dialog s = Overlay (topup_view.openModalVal s) CloseTopUp
     [box [Txt ''Top-up FOMO Points'', button CloseTopUp [Img ''CloseIcon'']],
      box [Txt ''balances: '', Txt (formatAmountByUnit (JNum (topup_view.userBalance s)) 4), Txt '' ICP''],
      box [Field ''0.0'' (topup_view.inputValue s) (Some TypePoints), Img ''wellToken'', Txt ''FOMO''],
      box [topup_choice ''custom value'' ''custom value'', topup_choice ''10'' ''10 FOMO'',
           topup_choice ''20'' ''20 FOMO'', topup_choice ''50'' ''50 FOMO''],
      El [Click BuyPoints, NoPointer (topup_view.isshow s), Loading (openbuyLoding s)]
        [El [NoDisplay (topup_view.isshow s)] [Txt ''Confirm''], box [Txt (topup_view.btnfomoText s)]]]"

definition topup_steps :: "topup_view \<Rightarrow> topup_act node" where
  "topup_steps s = step_dialog (topup_view.openStep s) CloseTopSteps CrossTopSteps ''Buy points in progress''
     (''Approve ICP'', ''Buy Points'')
     (topup_view.isStepApprove s, topup_view.StepApproveSuccess s)
     (topup_view.isStepCreateFomo s, topup_view.StepCreateFomoSuccess s)"

definition BuyTokenModal :: "topup_view \<Rightarrow> progress_bar \<Rightarrow> topup_act node" where
  "BuyTokenModal s b = box [topup_dialog s, topup_steps s, progress_view CloseTopBar ViewTopProgress b]"

text \<open>The handler of an action; \<open>t\<close> is the text typed. The bar closes itself.\<close>

fun topup_do :: "'b page_env \<Rightarrow> jsval \<Rightarrow> string \<Rightarrow> topup_act \<Rightarrow> string \<Rightarrow> topup_view \<Rightarrow> topup_view \<Rightarrow> topup_out" where
  "topup_do P price uid CloseTopUp t s0 s = plain (closeBuyToken s)"
| "topup_do P price uid TypePoints t s0 s = TopUp.inputAmountChange price t s"
| "topup_do P price uid (ChoosePoints v) t s0 s = plain (TopUp.selectHandle price v s)"
| "topup_do P price uid BuyPoints t s0 s = btnBuyToken P price uid s0 s"
| "topup_do P price uid CloseTopSteps t s0 s = plain (TopUp.handleCloseStep s)"
| "topup_do P price uid CrossTopSteps t s0 s = plain (TopUp.onBtnCloseStep s)"
| "topup_do P price uid CloseTopBar t s0 s = plain s"
| "topup_do P price uid ViewTopProgress t s0 s = plain (TopUp.handleViewProgress s)"

lemma BuyPoints_live:
  "BuyPoints \<in> set (live (BuyTokenModal s b)) \<longleftrightarrow>
   topup_view.openModalVal s \<and> \<not> topup_view.isshow s \<and> \<not> openbuyLoding s"
  by (auto simp: BuyTokenModal_def topup_dialog_def topup_steps_def topup_choice_def)

lemma topup_do_calls: "calls (fx_of (topup_do P price uid a t s0 s)) \<noteq> [] \<Longrightarrow> a = BuyPoints"
  by (cases a) (auto simp: TopUp.inputAmountChange_def Let_def split: if_splits)

text \<open>C7. Points are bought only as the dialog allows. Whatever a user does with what the dialog
  draws in a state it can reach, a call leaves only from the button, with the dialog open, while no
  other purchase runs, and with at least ten points in the field.\<close>

theorem purchase_from_dialog:
  assumes "topup_reach P s" "a \<in> set (live (BuyTokenModal s b))"
    and "calls (fx_of (topup_do P price uid a t s s)) \<noteq> []"
  shows "a = BuyPoints \<and> topup_view.openModalVal s \<and> \<not> openbuyLoding s \<and>
    js_le (Fin 10) (js_Number (topup_view.inputValue s))"
proof -
  have a: "a = BuyPoints" using topup_do_calls assms(3) by blast
  with assms(2) have "topup_view.openModalVal s \<and> \<not> topup_view.isshow s \<and> \<not> openbuyLoding s"
    by (simp add: BuyPoints_live)
  with a show ?thesis using reach_input_inv [OF assms(1)] by (simp add: input_inv_def)
qed

lemma lit_13_10: "\<exists>r. lit 13 10 = Fin r"
proof -
  have "representable 1" "representable 2"
    using representable_int [of 1] representable_int [of 2] by simp_all
  then show ?thesis using fl_between [of 1 "13 / 10" 2] by (auto simp: lit_def)
qed

theorem purchase_from_dialog_witness:
  "let s = TopUp.selectHandle (JNum (Fin 0)) ''10'' (TopUp.openModal (topup_mount (topup_init (JNum (Fin 0)))))
   in calls (fx_of (topup_do sample_page (JNum (Fin 0)) ''u'' BuyPoints [] s s)) \<noteq> [] \<and>
     js_le (Fin 10) (js_Number (topup_view.inputValue s))"
proof -
  define s where
    "s = TopUp.selectHandle (JNum (Fin 0)) ''10'' (TopUp.openModal (topup_mount (topup_init (JNum (Fin 0)))))"
  have "topup_reach sample_page s"
    unfolding s_def by (rule choice [OF dialog [OF start [of sample_page "JNum (Fin 0)"]]]) simp_all
  moreover have s: "topup_view.openModalVal s" "\<not> topup_view.isshow s" "\<not> openbuyLoding s"
    "topup_view.inputValue s = ''10''" "icpdecimals s = None"
    by (simp_all add: s_def TopUp.selectHandle_def TopUp.openModal_def topup_mount_def topup_init_def del: js_Number_def)
  moreover obtain r where "lit 13 10 = Fin r" using lit_13_10 by blast
  then have "topup_cost (JNum (Fin 0)) s = Fin 0"
    using s(4,5) fl_int [of 0] fl_int [of 100000000] by (simp add: topup_cost_def chosen_number pow10_def)
  then have "calls (fx_of (topup_do sample_page (JNum (Fin 0)) ''u'' BuyPoints [] s s)) \<noteq> []"
    by (simp add: btnBuyToken_def launcher_approve_def env_principal_def from_text_def sample_page_def sample_env_def Let_def)
  ultimately show ?thesis
    using purchase_from_dialog [of sample_page s BuyPoints bar_init "JNum (Fin 0)" "''u''" "[]"]
    unfolding s_def [symmetric] by (simp add: BuyPoints_live)
qed

text \<open>A purchase that has been started blocks the button until it ends, also when it never will:
  without a user the button stays blocked.\<close>

lemma purchase_blocks:
  "BuyPoints \<notin> set (live (BuyTokenModal (st_of (btnBuyToken P price uid s0 s)) b))"
  by (auto simp: BuyPoints_live btnBuyToken_def Let_def split: sum.splits)

lemma no_user_blocks:
  "btnBuyToken P price [] s0 s = plain (s\<lparr> openbuyLoding := True \<rparr>)"
  by (simp add: btnBuyToken_def)

end
