(* ===== verification/Send.thy ===== *)
theory Send
  imports Approve
begin

text \<open>
  The two transfer dialogs: ICP from the header (\<open>layout/home/sendICP/index.tsx\<close>) and a held
  token from the profile (\<open>pages/User/sendToken/index.tsx\<close>). They share their inputs and the
  check of the button, which work on the common state \<open>send_view\<close>; each extends it with its
  fee. The lemmas show which inputs enable the button, what is transferred, and how the
  amounts relate to what is shown.
\<close>

section \<open>The common dialog\<close>

record send_view =
  openModalVal :: bool
  amount :: jsval
  openbuyAmountLoding :: bool
  isshow :: bool
  btnfomoText :: string
  toamount :: "string option"
  curicpBalance :: jsval
  decimal :: nat
  openRightBox :: bool

definition handleadsenticp :: "'a send_view_scheme \<Rightarrow> 'a send_view_scheme" where
  "handleadsenticp s = s\<lparr> openModalVal := False, amount := JNum (Fin 0) \<rparr>"

definition inputamountchange ::
  "string \<Rightarrow> 'a send_view_scheme \<Rightarrow> ('a send_view_scheme, 't) outcome" where
  "inputamountchange v s =
     (if js_Number v \<noteq> NaN then plain (s\<lparr> amount := JStr v \<rparr>)
      else emits s [MsgError ''The entered value is incorrect''])"

definition settoamount :: "string \<Rightarrow> 'a send_view_scheme \<Rightarrow> 'a send_view_scheme" where
  "settoamount v s = s\<lparr> toamount := Some v \<rparr>"

definition handleButtonClick :: "bool \<Rightarrow> effect list" where
  "handleButtonClick b = [Snack ''ICP transfer in progress'' b, SnackProgress True]"

text \<open>\<open>v && v != 0\<close>, and \<open>!v && v == 0\<close>.\<close>

definition nonzero_val :: "jsval \<Rightarrow> bool" where
  "nonzero_val v = (val_truthy v \<and> \<not> js_eq (val_Number v) (Fin 0))"

definition zero_val :: "jsval \<Rightarrow> bool" where
  "zero_val v = (\<not> val_truthy v \<and> v \<noteq> JUndef \<and> v \<noteq> JNull \<and> js_eq (val_Number v) (Fin 0))"

text \<open>The effect on the amount and the address: \<open>ok\<close> tells the addresses that are taken; \<open>t1\<close>
  asks for the amount and \<open>t2\<close> for the address. The comparison may throw, after the button has
  been enabled.\<close>

definition send_effect :: "'b bigjs \<Rightarrow> (string \<Rightarrow> bool) \<Rightarrow> string \<Rightarrow> string \<Rightarrow>
    'a send_view_scheme \<Rightarrow> ('a send_view_scheme, 't) outcome" where
  "send_effect B ok t1 t2 s =
     (if nonzero_val (amount s) \<and> toamount s \<noteq> None \<and> toamount s \<noteq> Some [] then
        (case res_bind (big_val B (amount s)) (\<lambda>a.
                res_map (\<lambda>b. big_lt B b a) (big_val B (curicpBalance s))) of
           Inl e \<Rightarrow> throws (s\<lparr> isshow := False \<rparr>) e
         | Inr low \<Rightarrow>
             (let s1 = (if low then s\<lparr> isshow := True, btnfomoText := ''Insufficient balance'' \<rparr>
                        else s\<lparr> isshow := False \<rparr>)
              in plain (if ok (the (toamount s)) then s1
                        else s1\<lparr> isshow := True, btnfomoText := ''Invalid ICP Address'' \<rparr>)))
      else plain (s\<lparr> isshow := True, btnfomoText := (if zero_val (amount s) then t1 else t2) \<rparr>))"

section \<open>Sending ICP\<close>

record icp_view = send_view +
  fee_e8s :: int

definition icp_init :: icp_view where
  "icp_init = \<lparr> openModalVal = False, amount = JStr [], openbuyAmountLoding = False,
     isshow = True, btnfomoText = ''Enter ICP amount'', toamount = None, curicpBalance = JStr [],
     decimal = 8, openRightBox = False, fee_e8s = 10000 \<rparr>"

datatype icp_task =
    WaitIcpFee
  | WaitIcpDecimals int
  | WaitIcpBalance nat
  | WaitIcpTransfer icp_view
  | WaitIcpAfter nat

type_synonym icp_out = "(icp_view, icp_task) outcome"

text \<open>\<open>AccountIdentifier.fromHex\<close> of the store's account: \<open>hex\<close> tells the texts it decodes.\<close>

definition balance_request :: "(string \<Rightarrow> bool) \<Rightarrow> string \<Rightarrow> api_call res" where
  "balance_request hex acct =
     (if hex acct then Inr (account_balance acct) else Inl (JsError ''Invalid account''))"

definition icp_balanceReq :: "(string \<Rightarrow> bool) \<Rightarrow> string \<Rightarrow> icp_view \<Rightarrow> icp_view \<Rightarrow> icp_out" where
  "icp_balanceReq hex acct s0 s = (case balance_request hex acct of
     Inl e \<Rightarrow> throws s e | Inr c \<Rightarrow> (s, [Call c], [WaitIcpBalance (decimal s0)]))"

definition on_icp_balance :: "'b bigjs \<Rightarrow> nat \<Rightarrow> int res \<Rightarrow> icp_view \<Rightarrow> icp_out" where
  "on_icp_balance B d reply s = (case res_bind reply (units_string B (Fin (of_nat d))) of
     Inl e \<Rightarrow> throws s e | Inr t \<Rightarrow> plain (s\<lparr> curicpBalance := JStr t \<rparr>))"

definition icp_openModal :: "(string \<Rightarrow> bool) \<Rightarrow> string \<Rightarrow> icp_view \<Rightarrow> icp_view \<Rightarrow> icp_out" where
  "icp_openModal hex acct s0 s =
     then_do (if \<not> val_truthy (curicpBalance s0) then icp_balanceReq hex acct s0 s else plain s)
       (\<lambda>s. (s\<lparr> openModalVal := True \<rparr>, [Call transfer_fee], [WaitIcpFee]))"

definition on_icp_fee :: "int res \<Rightarrow> icp_view \<Rightarrow> icp_out" where
  "on_icp_fee reply s = (case reply of
     Inl e \<Rightarrow> throws s e | Inr fee \<Rightarrow> (s, [Call decimals], [WaitIcpDecimals fee]))"

definition on_icp_decimals :: "int \<Rightarrow> nat res \<Rightarrow> icp_view \<Rightarrow> icp_out" where
  "on_icp_decimals fee reply s = (case reply of
     Inl e \<Rightarrow> throws s e | Inr d \<Rightarrow> plain (s\<lparr> decimal := d, fee_e8s := fee \<rparr>))"

text \<open>The account of an address: an account text, the account of a principal, or nothing.\<close>

definition icp_account :: "'b page_env \<Rightarrow> string \<Rightarrow> string res" where
  "icp_account P t =
     (if isValidAccountId t then Inr t
      else if isValidPrincipal (pe_valid P) t then Inr (pe_acct P t)
      else Inl (JsError ''Invalid ICP Address!''))"

definition icp_btnseticp :: "'b page_env \<Rightarrow> icp_view \<Rightarrow> icp_view \<Rightarrow> icp_out" where
  "icp_btnseticp P s0 s = (case toamount s0 of
     None \<Rightarrow> plain s
   | Some t \<Rightarrow>
       if t = [] then plain s
       else case icp_account P t of
         Inl e \<Rightarrow> throws s e
       | Inr acc \<Rightarrow>
           (let s1 = s\<lparr> openbuyAmountLoding := True \<rparr> in
            case multiplyAndConvertToBigInt (pe_big P) (amount s0) (decimal s0) of
              Inl e \<Rightarrow> throws s1 e
            | Inr n \<Rightarrow> (s1\<lparr> openRightBox := True \<rparr>,
                (if 0 \<le> n then [Call (ledger_transfer \<lparr> la_to = acc, la_fee = fee_e8s s0, la_memo = 0,
                    la_from_subaccount = None, la_created_at_time = None, la_amount = n \<rparr>)] else []),
                [WaitIcpTransfer s0])))"

definition send_failed :: "'a send_view_scheme \<Rightarrow> ('a send_view_scheme, 't) outcome" where
  "send_failed s = emits (s\<lparr> openbuyAmountLoding := False, openRightBox := False \<rparr>)
     [MsgError ''Transfer failed'']"

definition send_done :: "'a send_view_scheme \<Rightarrow> ('a send_view_scheme, 't) outcome" where
  "send_done s = emits (s\<lparr> openbuyAmountLoding := False, openModalVal := False, openRightBox := False \<rparr>)
     [MsgSuccess ''Transfer successful!'']"

definition on_icp_transfer :: "(string \<Rightarrow> bool) \<Rightarrow> string \<Rightarrow> icp_view \<Rightarrow>
    (int, ledger_TransferError) candid_result res \<Rightarrow> icp_view \<Rightarrow> icp_out" where
  "on_icp_transfer hex acct s0 reply s = (case reply of
     Inr (COk _) \<Rightarrow> then_do (send_done s) (\<lambda>s. case balance_request hex acct of
        Inl _ \<Rightarrow> send_failed s | Inr c \<Rightarrow> (s, [Call c], [WaitIcpAfter (decimal s0)]))
   | _ \<Rightarrow> send_failed s)"

definition on_after :: "'b bigjs \<Rightarrow> nat \<Rightarrow> int res \<Rightarrow> 'a send_view_scheme \<Rightarrow>
    ('a send_view_scheme, 't) outcome" where
  "on_after B d reply s = (case res_bind reply (units_string B (Fin (of_nat d))) of
     Inl _ \<Rightarrow> send_failed s
   | Inr t \<Rightarrow> emits s [StoreWrite (store_seticpAccount (JStr t))])"

text \<open>The maximum: the store's balance, or the dialog's where that is not there, less the fee.\<close>

definition icp_btnMaxICP :: "'b bigjs \<Rightarrow> jsval \<Rightarrow> icp_view \<Rightarrow> icp_view \<Rightarrow> icp_out" where
  "icp_btnMaxICP B stored s0 s =
     (case res_bind (big_val B (if val_truthy stored then stored else curicpBalance s0)) (\<lambda>b.
           res_bind (divideAndConvertToNumber B (num_of_int (fee_e8s s0)) (decimal s0) 18) (\<lambda>f.
           res_bind (big_num B f) (\<lambda>f. Inr (big_toString B (big_minus B b f))))) of
        Inl e \<Rightarrow> throws s e | Inr t \<Rightarrow> plain (s\<lparr> amount := JStr t \<rparr>))"

definition icp_address_ok :: "(string \<Rightarrow> bool) \<Rightarrow> string \<Rightarrow> bool" where
  "icp_address_ok valid t = (isValidAccountId t \<or> isValidPrincipal valid t)"

definition icp_effect :: "'b page_env \<Rightarrow> icp_view \<Rightarrow> icp_out" where
  "icp_effect P = send_effect (pe_big P) (icp_address_ok (pe_valid P)) ''Enter ICP amount''
     ''Enter the account Id or principal ID''"

section \<open>Sending a token\<close>

record amountItem =
  am_symbol :: string
  am_tokenid :: string
  am_userid :: string
  am_balance :: jsnum
  icp_estimated :: jsnum
  am_fomoidx :: jsnum
  poolpid :: string
  fomopid :: string

record token_view = send_view +
  feeVal :: jsnum
  ConvertFee :: jsnum
  baseInfo :: "amountItem option"

definition token_init :: token_view where
  "token_init = \<lparr> openModalVal = False, amount = JStr [], openbuyAmountLoding = False,
     isshow = True, btnfomoText = ''Enter ICP amount'', toamount = None, curicpBalance = JStr [],
     decimal = 8, openRightBox = False, feeVal = Fin 0, ConvertFee = Fin 0, baseInfo = None \<rparr>"

datatype token_task =
    WaitTokenFee nat string
  | WaitTokenDecimals nat int
  | WaitTokenTransfer token_view
  | WaitTokenAfter nat

type_synonym token_out = "(token_view, token_task) outcome"

text \<open>The opening: the requests of \<open>init\<close> go to the item's ledger, one after the other. The fee is
  converted with the decimals the dialog had when it was opened.\<close>

definition token_openModal :: "amountItem \<Rightarrow> token_view \<Rightarrow> token_view \<Rightarrow> token_out" where
  "token_openModal b s0 s =
     (s\<lparr> curicpBalance := JNum (am_balance b), baseInfo := Some b, openModalVal := True \<rparr>,
      [Call (icrc1_fee (am_tokenid b))], [WaitTokenFee (decimal s0) (am_tokenid b)])"

definition on_token_fee :: "nat \<Rightarrow> string \<Rightarrow> int res \<Rightarrow> token_view \<Rightarrow> token_out" where
  "on_token_fee d0 tok reply s = (case reply of
     Inl e \<Rightarrow> throws s e
   | Inr fee \<Rightarrow> (s, [Call (icrc1_decimals_token tok)], [WaitTokenDecimals d0 fee]))"

definition on_token_decimals :: "'b bigjs \<Rightarrow> nat \<Rightarrow> int \<Rightarrow> nat res \<Rightarrow> token_view \<Rightarrow> token_out" where
  "on_token_decimals B d0 fee reply s =
     (case res_bind reply (\<lambda>d.
           res_map (Pair d) (divideAndConvertToNumber B (num_of_int fee) d0 18)) of
        Inl e \<Rightarrow> throws s e
      | Inr (d, f) \<Rightarrow> plain (s\<lparr> decimal := d, ConvertFee := f, feeVal := num_of_int fee \<rparr>))"

definition token_btnseticp :: "'b page_env \<Rightarrow> token_view \<Rightarrow> token_view \<Rightarrow> token_out" where
  "token_btnseticp P s0 s = (case toamount s0 of
     None \<Rightarrow> plain s
   | Some t \<Rightarrow>
       if t = [] then plain s
       else if \<not> isValidPrincipal (pe_valid P) t then throws s (JsError ''Invalid ICP Address!'')
       else (let s1 = s\<lparr> openbuyAmountLoding := True \<rparr> in
         case res_bind (multiplyAndConvertToBigInt (pe_big P) (amount s0) (decimal s0)) (\<lambda>n.
                res_map (Pair n) (bigint_of_num (feeVal s0))) of
           Inl e \<Rightarrow> throws s1 e
         | Inr (n, fee) \<Rightarrow> (s1\<lparr> openRightBox := True \<rparr>,
             (case baseInfo s0 of
                Some b \<Rightarrow> if 0 \<le> n then [Call (icrc1_transfer (am_tokenid b)
                   \<lparr> ta_to = no_subaccount t, ta_fee = Some fee, ta_memo = None,
                     ta_from_subaccount = None, ta_created_at_time = None, ta_amount = n \<rparr>)] else []
              | None \<Rightarrow> []),
             [WaitTokenTransfer s0])))"

text \<open>The reply. The user's ICP balance is read again, and stored as a number of ICP with the
  decimals of the token.\<close>

definition on_token_transfer :: "(string \<Rightarrow> bool) \<Rightarrow> string \<Rightarrow> token_view \<Rightarrow>
    (int, TransferError) candid_result res \<Rightarrow> token_view \<Rightarrow> token_out" where
  "on_token_transfer hex acct s0 reply s = (case reply of
     Inr (COk _) \<Rightarrow> then_do (send_done s) (\<lambda>s. case balance_request hex acct of
        Inl _ \<Rightarrow> send_failed s | Inr c \<Rightarrow> (s, [Call c], [WaitTokenAfter (decimal s0)]))
   | _ \<Rightarrow> send_failed s)"

definition token_btnMaxICP :: "'b bigjs \<Rightarrow> token_view \<Rightarrow> token_view \<Rightarrow> token_out" where
  "token_btnMaxICP B s0 s =
     (case (case baseInfo s0 of
              None \<Rightarrow> Inl TypeError
            | Some b \<Rightarrow> res_bind (big_num B (am_balance b)) (\<lambda>v.
                       res_bind (big_num B (ConvertFee s0)) (\<lambda>f.
                         Inr (big_toString B (big_minus B v f))))) of
        Inl e \<Rightarrow> throws s e | Inr t \<Rightarrow> plain (s\<lparr> amount := JStr t \<rparr>))"

definition token_effect :: "'b page_env \<Rightarrow> token_view \<Rightarrow> token_out" where
  "token_effect P s = send_effect (pe_big P) (isValidPrincipal (pe_valid P))
     (''Enter '' @ (case baseInfo s of None \<Rightarrow> ''undefined'' | Some b \<Rightarrow> am_symbol b) @ '' amount'')
     ''Enter the principal ID'' s"

section \<open>Lemmas\<close>

text \<open>The guard of both dialogs: an enabled button has an amount within the balance and an
  address that is taken.\<close>

lemma send_effect_enabled:
  assumes "\<not> isshow (st_of (send_effect B ok t1 t2 s))"
    "\<forall>e. fx_of (send_effect B ok t1 t2 s :: ('a send_view_scheme, 't) outcome) \<noteq> [Uncaught e]"
  shows "nonzero_val (amount s) \<and> (\<exists>t. toamount s = Some t \<and> t \<noteq> [] \<and> ok t) \<and>
    (\<exists>a b. big_val B (amount s) = Inr a \<and> big_val B (curicpBalance s) = Inr b \<and> \<not> big_lt B b a)"
  using assms
  by (auto simp: send_effect_def Let_def res_bind_eq_Inr res_map_eq_Inr
      split: if_splits sum.splits option.splits)

lemma divide_exact:
  assumes "big_laws B val" "\<bar>n\<bar> \<le> 2 ^ 53" "e \<le> 18"
  shows "\<exists>x. val x = of_int n / 10 ^ e \<and>
    divideAndConvertToNumber B (Fin (of_int n)) e 18 = Inr (js_Number (big_toString B x))"
proof -
  obtain v where v: "big_num B (Fin (of_int n)) = Inr v" "val v = of_int n"
    using big_lawsD(1) [OF assms(1,2)] by blast
  obtain p where p: "big_num B (pow10 e) = Inr p" "val p = 10 ^ e"
    using big_laws_pow10 [OF assms(1), of e] assms(3) by auto
  have "val p \<noteq> 0" using p(2) by simp
  then obtain q where q: "big_div B v p = Inr q" using big_div_error [OF assms(1)] by blast
  have "val q = of_int n / 10 ^ e"
    using big_lawsD(7) [OF assms(1) q] round_half_up_exact [of e n] assms(3) unfolding v(2) p(2) by simp
  then have "val (big_round_down B q 18) = of_int n / 10 ^ e"
    using big_lawsD(8) [OF assms(1)] round_down_exact [OF assms(3)] by simp
  then show ?thesis by (auto simp: divideAndConvertToNumber_def v(1) p(1) q)
qed

lemma big_texts:
  assumes "big_laws B val"
  shows "\<exists>b. big_val B (JStr (int_str n)) = Inr b \<and> val b = of_int n"
  using big_lawsD(2) [OF assms, of n] by simp

lemma send_effect_keeps:
  "amount (st_of (send_effect B ok t1 t2 s)) = amount s"
  "toamount (st_of (send_effect B ok t1 t2 s)) = toamount s"
  "decimal (st_of (send_effect B ok t1 t2 s)) = decimal s"
  by (auto simp: send_effect_def Let_def split: sum.splits)

lemma send_effect_more:
  fixes s :: icp_view
  shows "fee_e8s (st_of (send_effect B ok t1 t2 s)) = fee_e8s s"
  by (auto simp: send_effect_def Let_def split: sum.splits)

text \<open>The units of any amount: the number it reads as, scaled and truncated, as long as the decimal
  library prints it without an exponent.\<close>

lemma multiply_scaled:
  assumes "big_laws B val" "e \<le> 22" "val_truthy a" "big_num B (val_Number a) = Inr v"
    and "k = rat_trunc (val v * 10 ^ e)"
  shows "multiplyAndConvertToBigInt B a e = (if \<bar>k\<bar> < 10 ^ 21 then Inr k else Inl SyntaxError)"
proof -
  obtain p where p: "big_num B (pow10 e) = Inr p" "val p = 10 ^ e"
    using big_laws_pow10 [OF assms(1,2)] by blast
  let ?y = "big_round_down B (big_times B v p) 0"
  have y: "val ?y = of_int k"
    by (simp add: big_lawsD(3,8) [OF assms(1)] p(2) round_down_at_def assms(5))
  have m: "multiplyAndConvertToBigInt B a e = js_BigInt (big_toString B ?y)"
    using assms(3,4) p(1) by (simp add: multiplyAndConvertToBigInt_def val_or_def)
  show ?thesis
  proof (cases "\<bar>k\<bar> < 10 ^ 21")
    case True
    then show ?thesis unfolding m big_lawsD(9) [OF assms(1) y True] by (simp add: js_BigInt_int_str)
  next
    case False
    then have "rat_of_int (10 ^ 21) \<le> of_int \<bar>k\<bar>" by (simp only: of_int_le_iff not_less)
    then have "10 ^ 21 \<le> \<bar>val ?y\<bar>" unfolding y by simp
    then have "js_BigInt (big_toString B ?y) = Inl SyntaxError"
      by (intro exp_string_no_bigint big_lawsD(10) [OF assms(1)] big_lawsD(13) [OF assms(1)])
    then show ?thesis unfolding m using False by simp
  qed
qed

lemma multiply_refused:
  assumes "val_truthy a" "big_num B (val_Number a) = Inl e"
  shows "multiplyAndConvertToBigInt B a d = Inl e"
  using assms by (simp add: multiplyAndConvertToBigInt_def val_or_def)


text \<open>The maximum of a token uses the wrong decimals. The fee is converted with the decimals the
  dialog had when it was opened, eight at first, although the token's own are known by then: after
  the opening and its replies the fee taken off by the Max button is \<open>fee / 10 ^ 8\<close> whatever the
  decimals \<open>d\<close> of the token, which a transfer is computed with.\<close>

lemma token_max_first_decimals:
  assumes "big_laws B val" "\<bar>fee\<bar> \<le> 2 ^ 53" "decimal s0 \<le> 18"
  shows "let r = token_openModal b s0 s;
      s1 = st_of (on_token_decimals B (decimal s0) fee (Inr d) (st_of r)) in
    tasks_of r = [WaitTokenFee (decimal s0) (am_tokenid b)] \<and> decimal s1 = d \<and>
    feeVal s1 = Fin (of_int fee) \<and>
    (\<exists>x. val x = of_int fee / 10 ^ decimal s0 \<and> ConvertFee s1 = js_Number (big_toString B x))"
proof -
  obtain x where x: "val x = of_int fee / 10 ^ decimal s0"
    "divideAndConvertToNumber B (Fin (of_int fee)) (decimal s0) 18 = Inr (js_Number (big_toString B x))"
    using divide_exact [OF assms] by blast
  then show ?thesis using num_of_int_exact [OF assms(2)]
    by (auto simp: token_openModal_def on_token_decimals_def Let_def)
qed

text \<open>A token transfer leaves a wrong ICP balance. The user's ICP balance is read again after the
  transfer and stored for the whole application as a number of ICP, but divided by the power of
  ten of the token sent: a balance of \<open>n\<close> units is stored as \<open>n / 10 ^ d\<close>, with \<open>d\<close> the decimals of
  that token.\<close>

lemma icp_balance_token_decimals:
  assumes "big_laws B val" "\<bar>n\<bar> \<le> 2 ^ 53" "decimal s0 \<le> 20" "hex acct"
  shows "let r = on_token_transfer hex acct s0 (Inr (COk k)) s in
    calls (fx_of r) = [account_balance acct] \<and> tasks_of r = [WaitTokenAfter (decimal s0)] \<and>
    (\<exists>x. val x = of_int n / 10 ^ decimal s0 \<and>
       fx_of (on_after B (decimal s0) (Inr n) s' :: token_out) =
         [StoreWrite (store_seticpAccount (JStr (big_toString B x)))])"
proof -
  obtain q where "units_big B (Fin (of_nat (decimal s0))) n = Inr q" "val q = of_int n / 10 ^ decimal s0"
    using units_big_exact [OF assms(1,3,2)] by blast
  then show ?thesis using assms(4)
    by (auto simp: on_token_transfer_def send_done_def balance_request_def on_after_def units_string_def
        Let_def)
qed

text \<open>Dialogs to evaluate.\<close>

definition sample_icp :: icp_view where
  "sample_icp = icp_init\<lparr> amount := JStr (int_str 5), curicpBalance := JStr (int_str 5),
     toamount := Some ''aaaaa-aa'' \<rparr>"

definition sample_item :: amountItem where
  "sample_item = \<lparr> am_symbol = ''CK'', am_tokenid = ''t'', am_userid = ''u'', am_balance = Fin 3,
     icp_estimated = Fin 0, am_fomoidx = Fin 1, poolpid = ''p'', fomopid = ''f'' \<rparr>"

lemma sample_icp_sel [simp]:
  "amount sample_icp = JStr (int_str 5)" "curicpBalance sample_icp = JStr (int_str 5)"
  "toamount sample_icp = Some ''aaaaa-aa''" "decimal sample_icp = 8" "fee_e8s sample_icp = 10000"
  by (simp_all add: sample_icp_def icp_init_def)

definition sample_fraction :: icp_view where
  "sample_fraction = sample_icp\<lparr> curicpBalance := JStr ''5.5'' \<rparr>"

lemma sample_icp_enabled: "icp_effect sample_page sample_fraction = plain (sample_fraction\<lparr> isshow := False \<rparr>)"
proof -
  have "nonzero_val (JStr (int_str 5))"
    by (simp add: nonzero_val_def js_Number_int_str num_of_int_exact int_str_nonempty js_eq_def)
  moreover have "rat_of_dec (int_str 5) = Inr 5" using rat_of_dec_int_str [of 5] by simp
  moreover have "rat_of_dec ''5.5'' = Inr (11 / 2)" by code_simp
  moreover have "icp_address_ok (pe_valid sample_page) ''aaaaa-aa''"
    by (simp add: icp_address_ok_def isValidPrincipal_def from_text_def sample_page_def)
  ultimately show ?thesis
    by (simp add: icp_effect_def send_effect_def sample_fraction_def sample_page_def rat_big_def)
qed


end
