(* ===== verification/SendView.thy ===== *)
theory SendView
  imports Send View
begin

text \<open>
  What the two transfer dialogs draw (\<open>layout/home/sendICP/index.tsx\<close>, \<open>pages/User/sendToken/index.tsx\<close>)
  and which handler each of their actions runs. The field of the address is not given a value: it
  shows what has been typed since the dialog was opened. The lemmas show what a user sees while the
  button can be pressed, and where that is not what is sent.
\<close>

datatype send_act = CloseSend | MaxSend | TypeAmount | TypeAddress | SendNow | CloseSendBar | ViewSend

definition send_button :: "'a send_view_scheme \<Rightarrow> send_act node" where
  "send_button s = El [Click SendNow, NoPointer (send_view.isshow s), Loading (openbuyAmountLoding s)]
     [El [NoDisplay (send_view.isshow s)] [Txt ''Confirm''],
      El [NoDisplay (\<not> send_view.isshow s)] [Txt (send_view.btnfomoText s)]]"

definition amount_field :: "string \<Rightarrow> 'a send_view_scheme \<Rightarrow> send_act node" where
  "amount_field hint s = box [box [Txt ''Amount''], Field hint (val_String (send_view.amount s)) (Some TypeAmount)]"

definition address_field :: "string \<Rightarrow> send_act node" where
  "address_field hint = box [box [Txt ''To''], Field hint [] (Some TypeAddress)]"

section \<open>ICP\<close>

definition shown_balance :: "jsval \<Rightarrow> icp_view \<Rightarrow> string" where
  "shown_balance stored s = formatAmountByUnit (if val_truthy stored then stored else curicpBalance s) 4"

definition sentIcp :: "'b bigjs \<Rightarrow> jsval \<Rightarrow> icp_view \<Rightarrow> progress_bar \<Rightarrow> send_act node res" where
  "sentIcp B stored s b = res_map (\<lambda>fee. box
     [Overlay (send_view.openModalVal s) CloseSend
        [button CloseSend [Img ''CloseIcon''],
         box [Txt ''SEND ICP''],
         box [box [Txt ''Transfer Fee:'', box [Txt (js_toString fee), Txt '' ICP'']],
              box [Txt ''Balance:'', Txt (shown_balance stored s), button MaxSend [Txt ''Max'']]],
         amount_field ''Enter ICP amount'' s,
         address_field ''Enter the account Id or principal ID'',
         send_button s],
      progress_view CloseSendBar ViewSend b])
     (divideAndConvertToNumber B (num_of_int (fee_e8s s)) (decimal s) 18)"

fun icp_do :: "'b page_env \<Rightarrow> jsval \<Rightarrow> send_act \<Rightarrow> string \<Rightarrow> icp_view \<Rightarrow> icp_view \<Rightarrow> icp_out" where
  "icp_do P stored CloseSend t s0 s = plain (handleadsenticp s)"
| "icp_do P stored MaxSend t s0 s = icp_btnMaxICP (pe_big P) stored s0 s"
| "icp_do P stored TypeAmount t s0 s = Send.inputamountchange t s"
| "icp_do P stored TypeAddress t s0 s = plain (settoamount t s)"
| "icp_do P stored SendNow t s0 s = icp_btnseticp P s0 s"
| "icp_do P stored CloseSendBar t s0 s = plain s"
| "icp_do P stored ViewSend t s0 s = plain s"

section \<open>A token\<close>

text \<open>A field of an item that may be absent prints as \<open>undefined\<close> in a template and as nothing in
  the text.\<close>

definition item_symbol :: "string \<Rightarrow> token_view \<Rightarrow> string" where
  "item_symbol absent s = (case baseInfo s of None \<Rightarrow> absent | Some i \<Rightarrow> am_symbol i)"

definition sentToken :: "token_view \<Rightarrow> progress_bar \<Rightarrow> send_act node" where
  "sentToken s b = box
     [Overlay (send_view.openModalVal s) CloseSend
        [button CloseSend [Img ''CloseIcon''],
         box [Txt ''Transfer Token''],
         box [box [Txt ''Transfer Fee:'', box [Txt (js_toString (ConvertFee s)), Txt (item_symbol [] s)]],
              box [Txt ''Balance:'',
                   Txt (formatAmountByUnit (case baseInfo s of None \<Rightarrow> JUndef | Some i \<Rightarrow> JNum (am_balance i)) 4),
                   button MaxSend [Txt ''Max'']]],
         amount_field (''Enter '' @ item_symbol ''undefined'' s @ '' amount'') s,
         address_field ''Enter the principal ID'',
         send_button s],
      progress_view CloseSendBar ViewSend b]"

fun token_do :: "'b page_env \<Rightarrow> send_act \<Rightarrow> string \<Rightarrow> token_view \<Rightarrow> token_view \<Rightarrow> token_out" where
  "token_do P CloseSend t s0 s = plain (handleadsenticp s)"
| "token_do P MaxSend t s0 s = token_btnMaxICP (pe_big P) s0 s"
| "token_do P TypeAmount t s0 s = Send.inputamountchange t s"
| "token_do P TypeAddress t s0 s = plain (settoamount t s)"
| "token_do P SendNow t s0 s = token_btnseticp P s0 s"
| "token_do P CloseSendBar t s0 s = plain s"
| "token_do P ViewSend t s0 s = plain s"

section \<open>Lemmas\<close>

lemma send_button_live [simp]:
  "live (send_button s) = (if send_view.isshow s \<or> openbuyAmountLoding s then [] else [SendNow])"
  by (simp add: send_button_def)

lemma fields_live [simp]: "live (amount_field h s) = [TypeAmount]" "live (address_field h) = [TypeAddress]"
  by (simp_all add: amount_field_def address_field_def)

lemma sentIcp_drawn:
  assumes "big_laws B val" "\<bar>fee_e8s s\<bar> \<le> 2 ^ 53" "decimal s \<le> 18"
  shows "\<exists>n. sentIcp B stored s b = Inr n \<and>
    (SendNow \<in> set (live n) \<longleftrightarrow>
       send_view.openModalVal s \<and> \<not> send_view.isshow s \<and> \<not> openbuyAmountLoding s) \<and>
    (send_view.openModalVal s \<longrightarrow>
       {shown_balance stored s, ''Enter the account Id or principal ID''} \<subseteq> set (texts n))"
proof -
  obtain f where "divideAndConvertToNumber B (Fin (of_int (fee_e8s s))) (decimal s) 18 = Inr f"
    using divide_exact [OF assms] by blast
  then have d: "divideAndConvertToNumber B (num_of_int (fee_e8s s)) (decimal s) 18 = Inr f"
    using num_of_int_exact [OF assms(2)] by simp
  show ?thesis
    by (auto simp: sentIcp_def d address_field_def simp del: shown_balance_def)
qed

lemma sentToken_live:
  "SendNow \<in> set (live (sentToken s b)) \<longleftrightarrow>
     send_view.openModalVal s \<and> \<not> send_view.isshow s \<and> \<not> openbuyAmountLoding s"
  by (auto simp: sentToken_def)

text \<open>Both dialogs send only from the button.\<close>

lemma icp_do_calls: "calls (fx_of (icp_do P stored a t s0 s)) \<noteq> [] \<Longrightarrow> a = SendNow"
  by (cases a) (auto simp: Send.inputamountchange_def icp_btnMaxICP_def split: if_splits sum.splits)

lemma token_do_calls: "calls (fx_of (token_do P a t s0 s)) \<noteq> [] \<Longrightarrow> a = SendNow"
  by (cases a) (auto simp: Send.inputamountchange_def token_btnMaxICP_def split: if_splits sum.splits)

text \<open>What stays after a transfer: the balance and the address of the dialog.\<close>

lemma after_transfer:
  fixes s :: icp_view
  assumes "hex acct"
  shows "curicpBalance (st_of (on_icp_transfer hex acct s0 (Inr (COk k)) s)) = curicpBalance s"
    "toamount (st_of (on_icp_transfer hex acct s0 (Inr (COk k)) s)) = toamount s"
    "decimal (st_of (on_icp_transfer hex acct s0 (Inr (COk k)) s)) = decimal s"
    "fee_e8s (st_of (on_icp_transfer hex acct s0 (Inr (COk k)) s)) = fee_e8s s"
    "openbuyAmountLoding (st_of (on_icp_transfer hex acct s0 (Inr (COk k)) s)) = False"
  using assms by (simp_all add: on_icp_transfer_def send_done_def balance_request_def)

lemma after_balance:
  fixes s :: icp_view
  shows "curicpBalance (st_of (on_after B d r s)) = curicpBalance s"
    "toamount (st_of (on_after B d r s)) = toamount s"
    "decimal (st_of (on_after B d r s)) = decimal s"
    "fee_e8s (st_of (on_after B d r s)) = fee_e8s s"
    "openbuyAmountLoding s = False \<Longrightarrow> openbuyAmountLoding (st_of (on_after B d r s)) = False"
  by (simp_all add: on_after_def send_failed_def split: sum.splits)

lemma reopened:
  assumes "val_truthy (curicpBalance s0)"
  shows "icp_openModal hex acct s0 s = (s\<lparr> openModalVal := True \<rparr>, [Call transfer_fee], [WaitIcpFee])"
  using assms by (simp add: icp_openModal_def then_do_def plain_def)

lemma typed_amount:
  assumes "\<bar>n\<bar> \<le> 2 ^ 53"
  shows "Send.inputamountchange (int_str n) s = plain (s\<lparr> amount := JStr (int_str n) \<rparr>)"
  using num_of_int_exact [OF assms] by (simp add: Send.inputamountchange_def js_Number_int_str)

lemma effect_more:
  fixes s :: icp_view
  shows "curicpBalance (st_of (icp_effect P s)) = curicpBalance s"
    "openModalVal (st_of (icp_effect P s)) = openModalVal s"
    "openbuyAmountLoding (st_of (icp_effect P s)) = openbuyAmountLoding s"
    "fee_e8s (st_of (icp_effect P s)) = fee_e8s s" "decimal (st_of (icp_effect P s)) = decimal s"
    "toamount (st_of (icp_effect P s)) = toamount s" "amount (st_of (icp_effect P s)) = amount s"
  by (auto simp: icp_effect_def send_effect_def Let_def split: sum.splits)

lemma effect_enables:
  assumes "big_laws (pe_big P) val" "amount s = JStr (int_str n)" "curicpBalance s = JStr (int_str m)"
    and "n \<noteq> 0" "\<bar>n\<bar> \<le> 2 ^ 53" "n \<le> m" "toamount s = Some t" "t \<noteq> []" "icp_address_ok (pe_valid P) t"
  shows "\<not> isshow (st_of (icp_effect P s))"
proof -
  obtain a where a: "big_val (pe_big P) (JStr (int_str n)) = Inr a" "val a = of_int n"
    using big_texts [OF assms(1)] by blast
  obtain b where b: "big_val (pe_big P) (JStr (int_str m)) = Inr b" "val b = of_int m"
    using big_texts [OF assms(1)] by blast
  have "\<not> big_lt (pe_big P) b a" using big_lawsD(12) [OF assms(1), of b a] a(2) b(2) assms(6) by simp
  moreover have "nonzero_val (JStr (int_str n))"
    using num_of_int_exact [OF assms(5)] assms(4)
    by (simp add: nonzero_val_def js_Number_int_str int_str_nonempty js_eq_def)
  ultimately show ?thesis using assms(2,3,7-9) a(1) b(1) by (simp add: icp_effect_def send_effect_def Let_def)
qed

text \<open>C32. The transfer after a transfer is checked against the balance before it, and goes to the
  earlier address. A dialog opened again after a transfer asks for no balance: it draws the one of
  the store, which the transfer has refreshed, but compares the amount with its own from before.
  Its field of the address is empty, but the earlier address is still in its state. So whatever
  balance it draws, an amount within the old one enables the button, and pressing it transfers that
  amount to the earlier address.\<close>

theorem next_transfer_stale:
  assumes L: "big_laws (pe_big P) val" and "hex acct"
    and s: "curicpBalance s = JStr (int_str m)" "toamount s = Some t" "t \<noteq> []" "icp_address_ok (pe_valid P) t"
    and n: "n \<noteq> 0" "0 \<le> n" "n \<le> 2 ^ 53" "n \<le> m" "n * 10 ^ decimal s < 10 ^ 21"
    and f: "\<bar>fee_e8s s\<bar> \<le> 2 ^ 53" "decimal s \<le> 18" "val_truthy stored"
  shows "let s1 = st_of (on_after (pe_big P) d r (st_of (on_icp_transfer hex acct s0 (Inr (COk k)) s)) :: icp_out);
      s2 = st_of (icp_openModal hex acct s1 s1);
      s3 = st_of (icp_effect P (st_of (icp_do P stored TypeAmount (int_str n) s2 s2))) in
    calls (fx_of (icp_openModal hex acct s1 s1)) = [transfer_fee] \<and>
    (\<exists>v. sentIcp (pe_big P) stored s3 b = Inr v \<and> SendNow \<in> set (live v) \<and>
       {formatAmountByUnit stored 4, ''Enter the account Id or principal ID''} \<subseteq> set (texts v)) \<and>
    (\<exists>acc. icp_account P t = Inr acc \<and> calls (fx_of (icp_do P stored SendNow [] s3 s3)) =
       [ledger_transfer \<lparr> la_to = acc, la_fee = fee_e8s s, la_memo = 0, la_from_subaccount = None,
          la_created_at_time = None, la_amount = n * 10 ^ decimal s \<rparr>])"
proof -
  define s1 where "s1 = st_of (on_after (pe_big P) d r (st_of (on_icp_transfer hex acct s0 (Inr (COk k)) s)) :: icp_out)"
  have s1: "curicpBalance s1 = JStr (int_str m)" "toamount s1 = Some t" "decimal s1 = decimal s"
    "fee_e8s s1 = fee_e8s s" "openbuyAmountLoding s1 = False"
    using s(1,2) by (simp_all add: s1_def after_balance after_transfer assms(2))
  have n': "\<bar>n\<bar> \<le> 2 ^ 53" "\<bar>n * 10 ^ decimal s\<bar> < 10 ^ 21" using n by simp_all
  have o: "icp_openModal hex acct s1 s1 = (s1\<lparr> openModalVal := True \<rparr>, [Call transfer_fee], [WaitIcpFee])"
    using s1(1) by (intro reopened) (simp add: int_str_nonempty)
  define s3 where "s3 = st_of (icp_effect P (s1\<lparr> openModalVal := True, amount := JStr (int_str n) \<rparr>))"
  have s3: "\<not> isshow s3" "openModalVal s3" "\<not> openbuyAmountLoding s3" "fee_e8s s3 = fee_e8s s"
    "decimal s3 = decimal s" "toamount s3 = Some t" "amount s3 = JStr (int_str n)"
    using effect_enables [OF L, of "s1\<lparr> openModalVal := True, amount := JStr (int_str n) \<rparr>" n m t] s(3,4) n n' s1
    by (simp_all add: s3_def effect_more)
  obtain v where v: "sentIcp (pe_big P) stored s3 b = Inr v" "SendNow \<in> set (live v)"
    "{shown_balance stored s3, ''Enter the account Id or principal ID''} \<subseteq> set (texts v)"
    using sentIcp_drawn [OF L, of s3 stored b] f(1,2) s3 by auto
  obtain acc where acc: "icp_account P t = Inr acc"
    using s(4) by (cases "isValidAccountId t") (simp_all add: icp_address_ok_def icp_account_def)
  have "multiplyAndConvertToBigInt (pe_big P) (JStr (int_str n)) (decimal s) = Inr (n * 10 ^ decimal s)"
    using multiply_text_exact [OF L n'(1)] n'(2) f(2) by simp
  then have "calls (fx_of (icp_do P stored SendNow [] s3 s3)) =
       [ledger_transfer \<lparr> la_to = acc, la_fee = fee_e8s s, la_memo = 0, la_from_subaccount = None,
          la_created_at_time = None, la_amount = n * 10 ^ decimal s \<rparr>]"
    using s3 s(3) n(2) acc by (simp add: icp_btnseticp_def Let_def)
  then show ?thesis using v acc f(3)
    by (simp add: s1_def [symmetric] o typed_amount [OF n'(1)] s3_def [symmetric] shown_balance_def Let_def)
qed

lemma sample_big: "pe_big sample_page = rat_big"
  by (simp add: sample_page_def)

lemma sample_address: "icp_address_ok (pe_valid sample_page) ''aaaaa-aa''"
  by (simp add: icp_address_ok_def isValidPrincipal_def from_text_def sample_page_def)

theorem next_transfer_stale_witness:
  "let s1 = st_of (on_after rat_big 8 (Inr 100000000)
        (st_of (on_icp_transfer (\<lambda>_. True) ''a'' sample_icp (Inr (COk 1)) sample_icp)) :: icp_out);
      s2 = st_of (icp_openModal (\<lambda>_. True) ''a'' s1 s1);
      s3 = st_of (icp_effect sample_page (st_of (icp_do sample_page (JStr ''1'') TypeAmount (int_str 3) s2 s2))) in
    \<exists>v. sentIcp rat_big (JStr ''1'') s3 bar_init = Inr v \<and> SendNow \<in> set (live v) \<and>
      formatAmountByUnit (JStr ''1'') 4 \<in> set (texts v)"
  using next_transfer_stale [of sample_page "\<lambda>x. x" "\<lambda>_. True" "''a''" sample_icp 5 "''aaaaa-aa''" 3 "JStr ''1''"
      8 "Inr 100000000" sample_icp 1 bar_init] rat_big_laws sample_address
  unfolding sample_big [symmetric] by (simp add: Let_def) blast

end
