(* ===== verification/HeaderView.thy ===== *)
theory HeaderView
  imports Header SignalsView TopUpView SendView
begin

text \<open>
  What the header draws (\<open>layout/home/header.tsx\<close>), with the dialogs for points and for ICP it
  contains, and which handler each of its actions runs. The lemmas show what a user without a
  session can do, and that a session only starts with a wallet of the list once the terms are
  agreed to.
\<close>

datatype header_act =
    LogoHome | JumpTo string | OpenHow | OpenLink string | OpenDocument
  | OpenProfile | OpenPoints | OpenWallets | CloseHow
  | CloseWallets | AgreeTerms bool | ReadTerms | ChooseWallet string
  | CloseProfile | ShowProfilePage | EditProfile | SendIcp | CopyId string | OpenAccount string | Disconnect
  | CloseEdit | PickPhoto | TypeName | SaveProfile
  | InPoints topup_act | InSend send_act

section \<open>The bar\<close>

definition points_known :: "world \<Rightarrow> bool" where
  "points_known w = (\<not> is_nullish (userToken (app w)))"

definition points_text :: "world \<Rightarrow> string" where
  "points_text w =
     (if points_known w then val_String (userToken (app w))
      else js_toString (js_add (Fin 20) (if val_truthy (lockToken (app w)) then val_Number (lockToken (app w)) else Fin 0)))"

definition user_part :: "world \<Rightarrow> header_act node" where
  "user_part w =
     (if userId (app w) \<noteq> []
      then box [button OpenProfile [Img (getImgUrl (useImg (app w))), Txt (userName (app w))],
                button OpenPoints [Img (if points_known w then ''wellpoint'' else ''wellpointNull''), Txt (points_text w)]]
      else button OpenWallets [Txt ''Connect Wallet''])"

definition header_bar :: "(int \<Rightarrow> string \<Rightarrow> string) \<Rightarrow> world \<Rightarrow> header_view \<Rightarrow> header_act node list" where
  "header_bar fmt w s =
     [box [button LogoHome [Img ''FomoWell''], trade_signal JumpTo s, well_signal JumpTo fmt s],
      box [box [button OpenHow [Img ''file''], button (OpenLink ''https://t.me/fomowell'') [Img ''buy''],
                button (OpenLink ''https://x.com/fomowellcom'') [Img ''X''], button OpenDocument [Img ''documentIcon'']],
           user_part w]]"

section \<open>The dialogs\<close>

definition how_it_works :: "header_view \<Rightarrow> header_act node" where
  "how_it_works s = Overlay (hd_openStep s) CloseHow
     [button CloseHow [Img ''CloseIcon''], box [Txt ''How it works''],
      box [box [Txt (''FomoWell prevents rugs with a completely transparent fair launch mechanism. '' @
             ''Every token is issued fairly, with no pre-sale, no team reservation, and no honeypot.'')],
           box [box [Txt ''step 1: pick a coin that you like''],
                box [Txt ''step 2: buy the coin on the canister contract''],
                box [Txt ''step 3: sell at any time to lock in your profits or losses''],
                box [Txt ''step 4: when enough people buy on the pool it reaches a market cap of $5k''],
                box [Txt ''step 5: all of liquidity will be deposited in ICPEx and burned'']]],
      button CloseHow [Txt ''I'm ready'']]"

definition wallet_choice :: "wallet_entry \<Rightarrow> header_act node" where
  "wallet_choice e = button (ChooseWallet (w_id e)) [Img (w_id e), Txt (w_name e)]"

definition wallet_dialog :: "wallet_entry list \<Rightarrow> header_view \<Rightarrow> header_act node" where
  "wallet_dialog ws s = Overlay (openCreateWallet s) CloseWallets
     ([box [box [Txt ''Connect Wallet''], button CloseWallets [Img ''CloseIcon'']],
       button (AgreeTerms (\<not> CheckboxVal s))
         [Txt ''l have read, understand and agree to the '', button ReadTerms [Txt ''Terms of Service.'']]] @
      map wallet_choice ws)"

definition profile_dialog :: "string \<Rightarrow> world \<Rightarrow> header_view \<Rightarrow> header_act node" where
  "profile_dialog icrc2 w s = Overlay (openWalletLoginSuccess s) CloseProfile
     [button CloseProfile [Img ''CloseIcon''],
      box [Img (getImgUrl (useImg (app w))),
           box [button ShowProfilePage
                  [if the_default [] (ue_user_name (user_info s)) \<noteq> []
                   then Txt (the_default [] (ue_user_name (user_info s))) else skeleton],
                button EditProfile [Txt ''Edit profile'', Img ''DriveFileRenameOutline'']],
           box [box [Img (if points_known w then ''wellToken'' else ''welltokenNull''), Txt (points_text w)],
                button OpenPoints [Txt ''Top-up FOMO Points'']],
           box [box [Img (''https://metrics.icpex.org/images/'' @ icrc2 @ ''.png''),
                     Txt (formatAmountByUnit (if val_truthy (icpAccount (app w)) then icpAccount (app w)
                       else case hd_userBalance s of None \<Rightarrow> JUndef | Some b \<Rightarrow> JStr b) 4)],
                button SendIcp [Txt ''Send'']]],
      box [box [box [Txt ''Principle lD : '', Txt (truncateString (userId (app w)) 10)],
                button (CopyId (userId (app w))) [Img ''ContentCopy''],
                button (OpenAccount (userId (app w))) [Img ''Launch'']],
           box [box [Txt ''Account ID :'', Txt (truncateString (accountId (app w)) 10)],
                button (CopyId (accountId (app w))) [Img ''ContentCopy''],
                button (OpenAccount (accountId (app w))) [Img ''Launch'']]],
      button Disconnect [Txt ''Disconnect Wallet'']]"

text \<open>The title of the edit dialog closes it, as its cross and its button do.\<close>

definition edit_dialog :: "header_view \<Rightarrow> header_act node" where
  "edit_dialog s = Overlay (openUserEditInfo s) CloseEdit
     [box [button CloseEdit [Txt ''Edit profile''], button CloseEdit [Img ''CloseIcon'']],
      box [box [Txt ''Profile photo''], Img (if editImg s \<noteq> [] then editImg s else curEditInfImgUrl s),
           button PickPhoto [Img ''DriveFileRenameOutline'']],
      box [box [Txt ''Your Name''], Field [] (val_String (curEditName s)) (Some TypeName)],
      box [button CloseEdit [Txt ''Close''],
           El [Click SaveProfile, Loading (isSave s)]
             [box [Txt ''Save''], box [Txt ''Requires: 8'', El [NoDisplay (isSave s)] [Img ''wellToken'']]]]]"

text \<open>The dialogs for points and ICP have their own state; the second draws a fee it divides.\<close>

record header_dialogs =
  dg_points :: "topup_view \<times> progress_bar"
  dg_send :: "icp_view \<times> progress_bar"

definition Header_view :: "'b page_env \<Rightarrow> (int \<Rightarrow> string \<Rightarrow> string) \<Rightarrow> wallet_entry list \<Rightarrow> world \<Rightarrow>
    header_dialogs \<Rightarrow> header_view \<Rightarrow> header_act node res" where
  "Header_view P fmt ws w d s = res_map (\<lambda>send. box (header_bar fmt w s @
     [map_acts InPoints (BuyTokenModal (fst (dg_points d)) (snd (dg_points d))), map_acts InSend send,
      how_it_works s, wallet_dialog ws s, profile_dialog (pe_icrc2 P) w s, edit_dialog s]))
     (sentIcp (pe_big P) (icpAccount (app w)) (fst (dg_send d)) (snd (dg_send d)))"

section \<open>The handlers\<close>

text \<open>\<open>t\<close> is the text typed, \<open>files\<close> the files picked, \<open>copied\<close> whether the clipboard was written.
  The dialogs handle their own actions.\<close>

fun header_do :: "'b page_env \<Rightarrow> world \<Rightarrow> upload_file list option \<Rightarrow> bool \<Rightarrow> header_act \<Rightarrow> string \<Rightarrow>
    header_view \<Rightarrow> header_view \<Rightarrow> header_out" where
  "header_do P w files copied LogoHome t s0 s = emits s btnLogoToHome"
| "header_do P w files copied (JumpTo i) t s0 s = tag_tasks HeaderSignal (BtnLastBuySell (pe_env P) i s)"
| "header_do P w files copied OpenHow t s0 s = plain (handleOpenStep s)"
| "header_do P w files copied (OpenLink l) t s0 s = emits s (BtnOpenWeb l)"
| "header_do P w files copied OpenDocument t s0 s = emits s handleOpendocument"
| "header_do P w files copied OpenProfile t s0 s = openUserEditInfoOpen (pe_valid P) (pe_env P) w s0 s"
| "header_do P w files copied OpenPoints t s0 s = Header.btnOpenTopup s"
| "header_do P w files copied OpenWallets t s0 s = plain (handleOpenWallet s)"
| "header_do P w files copied CloseHow t s0 s = plain (Header.handleCloseStep s)"
| "header_do P w files copied CloseWallets t s0 s = plain (handleCloseWallet s)"
| "header_do P w files copied (AgreeTerms b) t s0 s = plain (Header.CheckboxChange b s)"
| "header_do P w files copied ReadTerms t s0 s = emits s btnService"
| "header_do P w files copied (ChooseWallet i) t s0 s = BtnSelectWallet i s0 s"
| "header_do P w files copied CloseProfile t s0 s = plain (openWalletLoginSuccessClose s)"
| "header_do P w files copied ShowProfilePage t s0 s = BtnShowUserInfo (userId (app w)) s"
| "header_do P w files copied EditProfile t s0 s = plain (BtnUSerEditInfo s)"
| "header_do P w files copied SendIcp t s0 s = btnsend s"
| "header_do P w files copied (CopyId i) t s0 s = emits s (Header.CanisterCopyBtnFn i copied)"
| "header_do P w files copied (OpenAccount i) t s0 s = emits s (getAccountDashboardURL i)"
| "header_do P w files copied Disconnect t s0 s = BtnDisconnectWallet s"
| "header_do P w files copied CloseEdit t s0 s = plain (openUserEditInfoClose w s)"
| "header_do P w files copied PickPhoto t s0 s = Header.BtnPhoto files s0 s"
| "header_do P w files copied TypeName t s0 s = plain (EditNameChange t s0 s)"
| "header_do P w files copied SaveProfile t s0 s = SaveUserEditInfo (pe_env P) (userId (app w)) s0 s"
| "header_do P w files copied (InPoints a) t s0 s = plain s"
| "header_do P w files copied (InSend a) t s0 s = plain s"

section \<open>Lemmas\<close>

lemma wallet_live [simp]: "live (wallet_choice e) = [ChooseWallet (w_id e)]"
  by (simp add: wallet_choice_def)

lemma starts_connect:
  "Start (ProcConnect i) \<in> set (fx_of (header_do P w files copied a t s0 s)) \<Longrightarrow> a = ChooseWallet i \<and> CheckboxVal s0"
  by (cases a) (auto simp: btnLogoToHome_def BtnOpenWeb_def handleOpendocument_def btnService_def
      BtnSelectWallet_def BtnLastBuySell_def openUserEditInfoOpen_def getUserInfo_def profile_error_def
      BtnShowUserInfo_def btnsend_def Header.btnOpenTopup_def Header.CanisterCopyBtnFn_def
      getAccountDashboardURL_def BtnDisconnectWallet_def Header.BtnPhoto_def check_photo_def photo_error_def
      SaveUserEditInfo_def editUserInfo_def Let_def
      split: sum.splits option.splits list.splits if_splits)

lemma choose_elsewhere:
  "ChooseWallet i \<notin> set (concat (map live (header_bar fmt w s)))" "ChooseWallet i \<notin> set (live (how_it_works s))"
  "ChooseWallet i \<notin> set (live (edit_dialog s))" "ChooseWallet i \<notin> set (live (profile_dialog l w s))"
  "ChooseWallet i \<notin> set (live (map_acts InPoints x))" "ChooseWallet i \<notin> set (live (map_acts InSend y))"
  by (auto simp: header_bar_def user_part_def how_it_works_def edit_dialog_def profile_dialog_def signals_live
      skeleton_def live_map split: option.splits)

lemma choose_live:
  assumes "Header_view P fmt ws w d s = Inr n"
  shows "ChooseWallet i \<in> set (live n) \<longleftrightarrow> openCreateWallet s \<and> i \<in> w_id ` set ws"
proof -
  obtain send where n: "n = box (header_bar fmt w s @
     [map_acts InPoints (BuyTokenModal (fst (dg_points d)) (snd (dg_points d))), map_acts InSend send,
      how_it_works s, wallet_dialog ws s, profile_dialog (pe_icrc2 P) w s, edit_dialog s])"
    using assms by (auto simp: Header_view_def res_map_eq_Inr)
  have "ChooseWallet i \<in> set (live n) \<longleftrightarrow> ChooseWallet i \<in> set (live (wallet_dialog ws s))"
    using choose_elsewhere [of i] by (simp add: n)
  then show ?thesis by (auto simp: wallet_dialog_def)
qed

text \<open>C21. A session starts with a wallet of the list and agreed terms. Whatever a user does with what
  the header draws, a login only starts from the open wallet dialog, with the terms ticked, and with
  the id of a wallet the adapter finds in its list.\<close>

theorem login_from_dialog:
  assumes "Header_view P fmt (walletList B) w d s = Inr n" "a \<in> set (live n)"
    and "Start (ProcConnect i) \<in> set (fx_of (header_do P w files copied a t s s))"
  shows "a = ChooseWallet i \<and> openCreateWallet s \<and> CheckboxVal s \<and> find_wallet (walletList B) i \<noteq> None"
proof -
  have a: "a = ChooseWallet i" "CheckboxVal s" using starts_connect [OF assms(3)] by simp_all
  then have "openCreateWallet s" "i \<in> w_id ` set (walletList B)" using choose_live [OF assms(1)] assms(2) by simp_all
  then show ?thesis using a by (auto simp: find_wallet_def find_None_iff)
qed

definition sample_dialogs :: header_dialogs where
  "sample_dialogs = \<lparr> dg_points = (topup_init JNull, bar_init), dg_send = (sample_icp, bar_init) \<rparr>"

theorem login_from_dialog_witness:
  "let s = handleOpenWallet (header_init new_world) in
    Start (ProcConnect ''plug'') \<in> set (fx_of (header_do sample_page new_world None True (ChooseWallet ''plug'') [] s s)) \<and>
    (\<forall>B. find_wallet (walletList B) ''plug'' \<noteq> None)"
proof -
  define s where "s = handleOpenWallet (header_init new_world)"
  have s: "openCreateWallet s" "CheckboxVal s" by (simp_all add: s_def handleOpenWallet_def header_init_def)
  obtain v where v: "sentIcp (pe_big sample_page) (icpAccount (app new_world)) sample_icp bar_init = Inr v"
    using sentIcp_drawn [OF rat_big_laws, of sample_icp] by (auto simp: sample_icp_def icp_init_def sample_page_def)
  have start: "Start (ProcConnect ''plug'') \<in>
      set (fx_of (header_do sample_page new_world None True (ChooseWallet ''plug'') [] s s))"
    using s by (simp add: BtnSelectWallet_def)
  have "find_wallet (walletList B) ''plug'' \<noteq> None" for B
  proof -
    obtain n where n: "Header_view sample_page (\<lambda>_ x. x) (walletList B) new_world sample_dialogs s = Inr n"
      using v by (simp add: Header_view_def sample_dialogs_def)
    have "ChooseWallet ''plug'' \<in> set (live n)"
      using choose_live [OF n] s by (simp add: walletList_def)
    then show ?thesis using login_from_dialog [OF n] start by blast
  qed
  with start show ?thesis unfolding s_def [symmetric] Let_def by blast
qed

text \<open>Without a session the bar offers the wallets, and neither the profile nor the points.\<close>

lemma no_session_bar:
  "userId (app w) = [] \<Longrightarrow> OpenWallets \<in> set (concat (map live (header_bar fmt w s))) \<and>
     OpenProfile \<notin> set (concat (map live (header_bar fmt w s))) \<and> OpenPoints \<notin> set (concat (map live (header_bar fmt w s)))"
  by (auto simp: header_bar_def user_part_def signals_live split: option.splits)

end
