(* ===== verification/Create.thy ===== *)
theory Create
  imports Approve HttpValid
begin

text \<open>
  Creating a well (\<open>pages/SetCoin/SetCoin.tsx\<close>): the form with its image, its links and the
  share locked in Sneed DAO, the checks of the button, and the three steps approve, image
  upload and \<open>create_fomo\<close> with the progress dialog. The lemmas show what has been checked
  before an approve leaves, and what each reply does to the dialog.
\<close>

section \<open>State\<close>

record create_view =
  isShowmore :: bool
  openRightBox :: bool
  ImgFile :: "upload_file option"
  EditImg :: string
  fileName :: string
  FomoParms :: FomoProjectCreate
  openStep :: bool
  isStepApprove :: bool
  isStepCreateFomo :: bool
  StepApproveSuccess :: bool
  StepCreateFomoSuccess :: bool
  cv_userId :: string
  initialized :: bool
  lockedVal :: string
  lockeChecked :: bool
  lockedValRang :: bool

definition empty_create :: FomoProjectCreate where
  "empty_create = \<lparr> fc_twitter_link = [], fc_sneed_dao_lock = None, fc_ticker = [], fc_img_url = [],
     fc_dogmi_dao_lock = None, fc_logo = [], fc_name = [], fc_description = [],
     fc_telegram_link = [], fc_website = [] \<rparr>"

definition create_init :: "string \<Rightarrow> create_view" where
  "create_init uid = \<lparr> isShowmore = False, openRightBox = False, ImgFile = None, EditImg = [],
     fileName = ''No file chosen'', FomoParms = empty_create, openStep = False,
     isStepApprove = True, isStepCreateFomo = False, StepApproveSuccess = False,
     StepCreateFomoSuccess = False, cv_userId = uid, initialized = False, lockedVal = ''10'',
     lockeChecked = False, lockedValRang = True \<rparr>"

datatype create_task =
    WaitCreateApprove create_view
  | WaitCreateUpload create_view
  | WaitCreate create_view
  | WaitLogo create_view string
  | UserInterval create_view
  | TimerCloseStep
  | TimerResetSteps
  | TimerDoneSteps
  | TimerGo principal

type_synonym create_out = "(create_view, create_task) outcome"

section \<open>The form\<close>

definition BtnShowMore :: "create_view \<Rightarrow> create_view \<Rightarrow> create_view" where
  "BtnShowMore s0 s = s\<lparr> isShowmore := \<not> isShowmore s0 \<rparr>"

definition closeRightBox :: "create_view \<Rightarrow> create_view" where
  "closeRightBox s = s\<lparr> openRightBox := False \<rparr>"

definition handleCloseStep :: "create_view \<Rightarrow> create_view" where
  "handleCloseStep s = s\<lparr> openStep := False \<rparr>"

definition onBtnCloseStep :: "create_view \<Rightarrow> create_view" where
  "onBtnCloseStep s = s\<lparr> openStep := False \<rparr>"

definition setUserId :: "string \<Rightarrow> create_view \<Rightarrow> create_view" where
  "setUserId u s = s\<lparr> cv_userId := u \<rparr>"

text \<open>The file input: the preview's data URL becomes the logo and the image of the form as it was
  at the choice.\<close>

definition BtnUpPhoto :: "upload_file list option \<Rightarrow> create_view \<Rightarrow> create_view \<Rightarrow> create_out" where
  "BtnUpPhoto files s0 s = (case check_photo files of
     Inl es \<Rightarrow> emits s es
   | Inr f \<Rightarrow> (s\<lparr> ImgFile := Some f \<rparr>, [], [WaitLogo s0 (f_name f)]))"

definition on_logo :: "create_view \<Rightarrow> string \<Rightarrow> string \<Rightarrow> create_view \<Rightarrow> create_view" where
  "on_logo s0 n dat s =
     s\<lparr> FomoParms := (FomoParms s0)\<lparr> fc_logo := dat, fc_img_url := dat \<rparr>, fileName := n,
        EditImg := dat \<rparr>"

text \<open>The locked share: \<open>BigInt(new Big(v).times(new Big("1e18")).div(100).toNumber())\<close>.\<close>

definition lock_share :: "'b bigjs \<Rightarrow> jsval \<Rightarrow> int res" where
  "lock_share B v =
     res_bind (big_val B v) (\<lambda>x.
     res_bind (big_str B ''1e18'') (\<lambda>e.
     res_bind (big_num B (Fin 100)) (\<lambda>h.
     res_bind (big_div B (big_times B x e) h) (\<lambda>q. bigint_of_num (big_toNumber B q)))))"

definition put_lock :: "create_view \<Rightarrow> int option \<Rightarrow> create_view \<Rightarrow> create_view" where
  "put_lock s0 n s = s\<lparr> FomoParms := (FomoParms s0)\<lparr> fc_sneed_dao_lock := n \<rparr> \<rparr>"

definition CheckboxChange :: "'b bigjs \<Rightarrow> bool \<Rightarrow> create_view \<Rightarrow> create_view \<Rightarrow> create_out" where
  "CheckboxChange B checked s0 s =
     (let s1 = s\<lparr> lockeChecked := checked \<rparr> in
      if checked \<and> lockedVal s0 \<noteq> [] then
        (case lock_share B (JStr (lockedVal s0)) of
           Inl e \<Rightarrow> throws s1 e | Inr n \<Rightarrow> plain (put_lock s0 (Some n) s1))
      else plain (put_lock s0 None s1))"

definition out_of_range :: "string \<Rightarrow> bool" where
  "out_of_range v = (js_lt (js_Number v) (Fin 10) \<or> js_lt (Fin 50) (js_Number v))"

definition changelockedVal :: "'b bigjs \<Rightarrow> string \<Rightarrow> create_view \<Rightarrow> create_view \<Rightarrow> create_out" where
  "changelockedVal B value s0 s =
     (let s1 = s\<lparr> lockedVal := value,
                  lockedValRang := (if value \<noteq> [] then \<not> out_of_range value
                                    else \<not> lockeChecked s0) \<rparr> in
      if lockeChecked s0 then
        (case lock_share B (if value \<noteq> [] then JStr value else JNum (Fin 0)) of
           Inl e \<Rightarrow> throws s1 e | Inr n \<Rightarrow> plain (put_lock s0 (Some n) s1))
      else plain (put_lock s0 None s1))"

section \<open>The button\<close>

text \<open>The links that are given must be links, in this order; then the required fields.\<close>

fun check_links :: "(string \<times> string) list \<Rightarrow> string option" where
  "check_links [] = None"
| "check_links ((k, v) # r) =
     (if v \<noteq> [] \<and> \<not> isValidHttpUrl v then Some (''Please enter the correct '' @ k) else check_links r)"

definition links_of :: "FomoProjectCreate \<Rightarrow> (string \<times> string) list" where
  "links_of p = [(''twitter_link'', fc_twitter_link p), (''telegram_link'', fc_telegram_link p),
                 (''website'', fc_website p)]"

fun check_required :: "(string \<times> string) list \<Rightarrow> string option" where
  "check_required [] = None"
| "check_required ((k, v) # r) =
     (if v = [] then Some (if k = ''img_url'' then ''Please enter your fomo image''
                           else ''Please enter your fomo '' @ k)
      else check_required r)"

definition required_of :: "FomoProjectCreate \<Rightarrow> (string \<times> string) list" where
  "required_of p = [(''name'', fc_name p), (''ticker'', fc_ticker p), (''img_url'', fc_img_url p),
                    (''description'', fc_description p)]"

text \<open>The amount of the approve: \<open>Math.ceil(Number(price) * 1.3 * 6 * 10 ** 8)\<close>.\<close>

definition create_fee :: "jsval \<Rightarrow> jsnum" where
  "create_fee price =
     js_ceil (js_mul (js_mul (js_mul (val_Number price) (lit 13 10)) (Fin 6)) (pow10 8))"

text \<open>\<open>stepApprove\<close>: an exception of its spender is thrown to the caller.\<close>

definition stepApprove :: "'b page_env \<Rightarrow> jsval \<Rightarrow> create_view \<Rightarrow> create_view \<Rightarrow> create_out res" where
  "stepApprove P price s0 s =
     res_map (\<lambda>_. (s\<lparr> openRightBox := True \<rparr>,
        (case res_bind (encoded_nat (create_fee price)) (launcher_approve P) of
           Inl _ \<Rightarrow> [] | Inr c \<Rightarrow> [Call c]), [WaitCreateApprove s0]))
       (env_principal P ''CANISTER_ID_FOMOWELL_LAUNCHER'')"

definition btnFomo :: "'b page_env \<Rightarrow> jsval \<Rightarrow> string \<Rightarrow> create_view \<Rightarrow> create_view \<Rightarrow> create_out" where
  "btnFomo P price uid s0 s =
     (case check_links (links_of (FomoParms s0)) of
        Some m \<Rightarrow> emits s [MsgError m]
      | None \<Rightarrow>
          (let s1 = s\<lparr> initialized := True \<rparr> in
           case check_required (required_of (FomoParms s0)) of
             Some m \<Rightarrow> emits s1 [MsgError m]
           | None \<Rightarrow>
               if lockeChecked s0 \<and> out_of_range (lockedVal s0)
               then emits s1 [MsgError ''The input range should be 10%-50%'']
               else
                 (let s2 = (if lockeChecked s0 then s1 else put_lock s0 None s1)\<lparr> openStep := True \<rparr>
                  in if uid \<noteq> [] then
                       (case stepApprove P price s0 s2 of
                          Inl _ \<Rightarrow> emits (s2\<lparr> openRightBox := True \<rparr>) [MsgError ''Upload failure'']
                        | Inr r \<Rightarrow> r)
                     else (s2, [WellModal True], [UserInterval s0]))))"

text \<open>The interval that waits for the login: at a tick with a user it starts the approve and ends;
  an exception leaves it running.\<close>

definition on_interval ::
  "'b page_env \<Rightarrow> jsval \<Rightarrow> string \<Rightarrow> create_view \<Rightarrow> create_view \<Rightarrow> create_out \<times> bool" where
  "on_interval P price uid s0 s =
     (if uid \<noteq> [] then
        (case stepApprove P price s0 s of
           Inl e \<Rightarrow> (throws (s\<lparr> openRightBox := True \<rparr>) e, False) | Inr r \<Rightarrow> (r, True))
      else (plain s, False))"

section \<open>The steps\<close>

definition create_reset :: "create_view \<Rightarrow> create_view" where
  "create_reset s = s\<lparr> openStep := False, isStepApprove := True, isStepCreateFomo := False,
                       StepApproveSuccess := False \<rparr>"

text \<open>The success callback goes on with the upload of the chosen file; without a file the upload
  has nothing to send.\<close>

definition create_approved :: "create_view \<Rightarrow> create_view \<Rightarrow> create_out" where
  "create_approved s0 s =
     (s\<lparr> isStepApprove := False, StepApproveSuccess := True, openRightBox := True \<rparr>,
      [Upload (case ImgFile s0 of None \<Rightarrow> ''undefined'' | Some f \<Rightarrow> f_name f)],
      [WaitCreateUpload s0])"

definition create_approve_failed :: "create_view \<Rightarrow> create_out" where
  "create_approve_failed s =
     (s\<lparr> openRightBox := False \<rparr>, [MsgError ''Create fomo failed''], [TimerCloseStep])"

text \<open>The request: the form of the snapshot with the uploaded image.\<close>

definition create_request :: "create_view \<Rightarrow> string \<Rightarrow> FomoProjectCreate" where
  "create_request s0 ref = (FomoParms s0)\<lparr> fc_img_url := ref,
     fc_sneed_dao_lock := (if lockeChecked s0 then fc_sneed_dao_lock (FomoParms s0) else None) \<rparr>"

definition StepCreateFomo ::
  "environment \<Rightarrow> string \<Rightarrow> string \<Rightarrow> create_view \<Rightarrow> create_view \<Rightarrow> create_out" where
  "StepCreateFomo env uid ref s0 s =
     (s\<lparr> isStepCreateFomo := True \<rparr>, [Call (createFomo env uid (create_request s0 ref))],
      [WaitCreate s0])"

definition on_create_upload ::
  "environment \<Rightarrow> string \<Rightarrow> create_view \<Rightarrow> string res \<Rightarrow> create_view \<Rightarrow> create_out" where
  "on_create_upload env uid s0 reply s = (case reply of
     Inr ref \<Rightarrow> StepCreateFomo env uid ref s0
                  (s\<lparr> FomoParms := (FomoParms s)\<lparr> fc_img_url := ref \<rparr> \<rparr>)
   | Inl _ \<Rightarrow> emits (s\<lparr> openStep := False, isStepApprove := True, isStepCreateFomo := False,
                        StepApproveSuccess := False, openRightBox := False \<rparr>)
                [MsgError ''Image upload error''])"

definition on_create :: "(FomoProject, string) candid_result res \<Rightarrow> create_view \<Rightarrow> create_out" where
  "on_create reply s = (case reply of
     Inl _ \<Rightarrow> (s\<lparr> openRightBox := False, StepCreateFomoSuccess := False \<rparr>,
               [MsgError ''Create fomo failed''], [TimerResetSteps])
   | Inr (CErr m) \<Rightarrow>
       (s\<lparr> isStepCreateFomo := False, openRightBox := False, StepCreateFomoSuccess := False \<rparr>,
        [MsgError m], [TimerResetSteps])
   | Inr (COk p) \<Rightarrow>
       (s\<lparr> isStepCreateFomo := False, StepCreateFomoSuccess := True, openRightBox := False \<rparr>,
        [MsgSuccess ''Create fomo success!''], [TimerGo (fomo_pid p), TimerDoneSteps]))"

fun create_timer :: "create_task \<Rightarrow> create_view \<Rightarrow> (create_view \<times> effect list) option" where
  "create_timer TimerCloseStep s = Some (s\<lparr> openStep := False \<rparr>, [])"
| "create_timer TimerResetSteps s = Some (create_reset s, [])"
| "create_timer TimerDoneSteps s = Some ((create_reset s)\<lparr> StepCreateFomoSuccess := False \<rparr>, [])"
| "create_timer (TimerGo p) s = Some (s, [Navigate (''/'' @ p)])"
| "create_timer _ s = None"

section \<open>Lemmas\<close>

interpretation create_approve: approve_client "create_approved s0" create_approve_failed for s0
  by unfold_locales (simp_all add: create_approve_failed_def)

lemma check_links_ok:
  "check_links kvs = None \<longleftrightarrow> (\<forall>(k, v) \<in> set kvs. v \<noteq> [] \<longrightarrow> isValidHttpUrl v)"
  by (induction kvs rule: check_links.induct) auto

lemma check_required_ok:
  "check_required kvs = None \<longleftrightarrow> (\<forall>(k, v) \<in> set kvs. v \<noteq> [])"
  by (induction kvs rule: check_required.induct) auto

text \<open>A form that passes the button.\<close>

definition form_ok :: "create_view \<Rightarrow> bool" where
  "form_ok s = ((\<forall>(k, v) \<in> set (links_of (FomoParms s)). v \<noteq> [] \<longrightarrow> isValidHttpUrl v) \<and>
     (\<forall>(k, v) \<in> set (required_of (FomoParms s)). v \<noteq> []) \<and>
     (lockeChecked s \<longrightarrow> \<not> out_of_range (lockedVal s)))"

lemma in_range_text:
  "\<not> out_of_range v \<longleftrightarrow> js_Number v = NaN \<or> (\<exists>x. js_Number v = Fin x \<and> 10 \<le> x \<and> x \<le> 50)"
  by (cases "js_Number v") (auto simp: out_of_range_def)

lemma btnFomo_guard:
  "tasks_of (btnFomo P price uid s0 s) \<noteq> [] \<longleftrightarrow> form_ok s0 \<and>
     (uid = [] \<or> (\<exists>q. env_principal P ''CANISTER_ID_FOMOWELL_LAUNCHER'' = Inr q))"
proof (cases "form_ok s0")
  case True
  then have "check_links (links_of (FomoParms s0)) = None"
    "check_required (required_of (FomoParms s0)) = None"
    "\<not> (lockeChecked s0 \<and> out_of_range (lockedVal s0))"
    by (auto simp: form_ok_def check_links_ok check_required_ok)
  then show ?thesis using True
    by (cases "env_principal P ''CANISTER_ID_FOMOWELL_LAUNCHER''")
       (simp_all add: btnFomo_def stepApprove_def Let_def)
next
  case False
  then show ?thesis
    using check_links_ok [of "links_of (FomoParms s0)"]
      check_required_ok [of "required_of (FomoParms s0)"]
    by (auto simp: btnFomo_def form_ok_def Let_def split: option.splits)
qed

lemma btnFomo_call:
  assumes "Call c \<in> set (fx_of (btnFomo P price uid s0 s))"
  shows "tasks_of (btnFomo P price uid s0 s) = [WaitCreateApprove s0] \<and>
    res_bind (encoded_nat (create_fee price)) (launcher_approve P) = Inr c"
  using assms
  by (auto simp: btnFomo_def stepApprove_def Let_def res_map_eq_Inr emits_def
      split: option.splits if_splits sum.splits)

lemma lock_share_exact:
  assumes L: "big_laws B val" and p: "0 \<le> p" "p \<le> 100"
  shows "lock_share B (JStr (int_str p)) = Inr (p * 10 ^ 16)"
proof -
  obtain x where x: "big_str B (int_str p) = Inr x" "val x = of_int p"
    using big_lawsD(2) [OF L] by blast
  obtain e where e: "big_str B ''1e18'' = Inr e" "val e = 10 ^ 18"
    using big_laws_number(2) [OF L] by blast
  obtain h where h: "big_num B (Fin (of_int 100)) = Inr h" "val h = of_int 100"
    using big_lawsD(1) [OF L, of 100] by auto
  obtain q where q: "big_div B (big_times B x e) h = Inr q"
    using big_div_error [OF L, of h] h(2) by auto
  have "val (big_times B x e) / val h = of_int (p * 10 ^ 16) / 10 ^ 0"
    using big_lawsD(3) [OF L, of x e] x(2) e(2) h(2) by simp
  then have "val q = of_int (p * 10 ^ 16)"
    using big_lawsD(7) [OF L q] round_half_up_exact [of 0 "p * 10 ^ 16"] by simp
  moreover have "p * 5 ^ 16 \<le> 100 * 5 ^ 16" using p(2) by simp
  then have "representable (of_int (p * 5 ^ 16) * 2 powi 16)"
    using p(1) by (intro representable_dyadic) simp_all
  ultimately have "big_toNumber B q = Fin (of_int (p * 10 ^ 16))"
    using fl_representable [of "of_int (p * 5 ^ 16) * 2 powi 16"] big_laws_number(1) [OF L, of q]
    by (simp add: mult.commute)
  moreover have "bigint_of_num (Fin (of_int (p * 10 ^ 16))) = Inr (p * 10 ^ 16)"
    unfolding bigint_of_num.simps floor_of_int by (rule if_P) (rule refl)
  ultimately show ?thesis using h(1)
    by (simp add: lock_share_def x(1) e(1) q del: bigint_of_num.simps of_int_mult)
qed

text \<open>C12. Nothing is approved for an incomplete form. The create button starts an approve, or the
  wait for a login that leads to one, exactly if every link given is a link, name, ticker, image
  and description are there, the text of a share to lock, where it is ticked, reads as a number
  from ten to fifty or as no number at all, and, for a user, the launcher's id can be read; and
  the only call it makes is the approve for the launcher with the fee of the price. A text that
  reads as no number passes: \<open>unreadable_share_keeps_old\<close> shows which share is then locked.\<close>

theorem create_guard:
  "(tasks_of (btnFomo P price uid s0 s) \<noteq> [] \<longleftrightarrow>
      (\<forall>(k, v) \<in> set (links_of (FomoParms s0)). v \<noteq> [] \<longrightarrow> isValidHttpUrl v) \<and>
      (\<forall>(k, v) \<in> set (required_of (FomoParms s0)). v \<noteq> []) \<and>
      (lockeChecked s0 \<longrightarrow> js_Number (lockedVal s0) = NaN \<or>
         (\<exists>x. js_Number (lockedVal s0) = Fin x \<and> 10 \<le> x \<and> x \<le> 50)) \<and>
      (uid = [] \<or> (\<exists>q. env_principal P ''CANISTER_ID_FOMOWELL_LAUNCHER'' = Inr q))) \<and>
   (\<forall>c \<in> set (calls (fx_of (btnFomo P price uid s0 s))).
      form_ok s0 \<and> res_bind (encoded_nat (create_fee price)) (launcher_approve P) = Inr c)"
proof -
  have mem: "c \<in> set (calls es) \<longleftrightarrow> Call c \<in> set es" for c es
    by (induction es rule: calls.induct) auto
  have "\<forall>c \<in> set (calls (fx_of (btnFomo P price uid s0 s))).
      form_ok s0 \<and> res_bind (encoded_nat (create_fee price)) (launcher_approve P) = Inr c"
  proof
    fix c assume "c \<in> set (calls (fx_of (btnFomo P price uid s0 s)))"
    then have "Call c \<in> set (fx_of (btnFomo P price uid s0 s))" by (simp add: mem)
    from btnFomo_call [OF this]
    show "form_ok s0 \<and> res_bind (encoded_nat (create_fee price)) (launcher_approve P) = Inr c"
      using btnFomo_guard [of P price uid s0 s] by auto
  qed
  then show ?thesis unfolding btnFomo_guard form_ok_def in_range_text by blast
qed

text \<open>A share that cannot be read keeps the one entered before. A text the decimal library
  refuses, such as \<open>x\<close> or \<open>0x1F\<close>, and which does not compare as too small or too large, is
  shown as a valid share; the form keeps the share of the previous text, and that is the one
  the create request carries.\<close>

lemma unreadable_share_keeps_old:
  assumes "big_laws B val" "lockeChecked s" "\<not> list_all literal_char v" "\<not> out_of_range v"
  defines "s1 \<equiv> st_of (changelockedVal B v s s)"
  shows "lockedVal s1 = v \<and> lockedValRang s1 \<and> create_request s1 ref = create_request s ref \<and>
    (form_ok s \<longrightarrow> form_ok s1)"
proof -
  have v: "v \<noteq> []" using assms(3) by auto
  have "big_str B v = Inl BigError" using big_laws_reject(5) [OF assms(1,3)] .
  then have "s1 = s\<lparr> lockedVal := v, lockedValRang := True \<rparr>"
    using assms(2,4) v by (simp add: s1_def changelockedVal_def lock_share_def Let_def)
  then show ?thesis using assms(4) by (simp add: create_request_def form_ok_def)
qed

definition sample_form :: create_view where
  "sample_form = (create_init ''u'')\<lparr> lockeChecked := True, lockedVal := ''20'',
     FomoParms := empty_create\<lparr> fc_sneed_dao_lock := Some 200000000000000000 \<rparr> \<rparr>"

definition filled_form :: create_view where
  "filled_form = (create_init ''u'')\<lparr> FomoParms := empty_create\<lparr> fc_name := ''n'', fc_ticker := ''t'',
     fc_img_url := ''i'', fc_description := ''d'' \<rparr> \<rparr>"

theorem create_guard_witness:
  "tasks_of (btnFomo sample_page JNull ''eve'' (create_init ''eve'') (create_init ''eve'')) = [] \<and>
   tasks_of (btnFomo sample_page JNull ''u'' filled_form filled_form) \<noteq> []"
proof -
  note g = create_guard [THEN conjunct1, of sample_page JNull]
  have "\<not> (\<forall>(k, v) \<in> set (required_of (FomoParms (create_init ''eve''))). v \<noteq> [])"
    by (simp add: create_init_def empty_create_def required_of_def)
  then have "tasks_of (btnFomo sample_page JNull ''eve'' (create_init ''eve'') (create_init ''eve'')) = []"
    using g [of "''eve''" "create_init ''eve''" "create_init ''eve''"] by blast
  moreover have "tasks_of (btnFomo sample_page JNull ''u'' filled_form filled_form) \<noteq> []"
    unfolding g
    by (simp add: filled_form_def create_init_def empty_create_def links_of_def required_of_def
        env_principal_def sample_page_def sample_env_def from_text_def)
  ultimately show ?thesis ..
qed

end
