(* ===== verification/CreateView.thy ===== *)
theory CreateView
  imports Create View
begin

text \<open>
  What the form of a new well draws (\<open>pages/SetCoin/SetCoin.tsx\<close>) and which handler each of its
  actions runs. The fields are given no value of their own. The lemmas show when the form can be
  submitted, and that closing the notice of a running creation lets it be submitted again.
\<close>

datatype create_field = NameField | TickerField | DescriptionField | ImageField | TwitterField | TelegramField | WebsiteField

datatype create_act =
    CreateBack | TypeField create_field | PickImage | CheckLock bool | TypeLock | ShowMore | PressCreate
  | CloseSteps | CrossSteps | CloseNotice | ViewSteps

section \<open>The form\<close>

definition labelled :: "string \<Rightarrow> string \<Rightarrow> create_field \<Rightarrow> create_act node" where
  "labelled label hint f = box [box [Txt label], Field hint [] (Some (TypeField f))]"

text \<open>The field of the image shows the file's name; its listener is the one of a text field.\<close>

definition create_fields :: "create_view \<Rightarrow> create_act node list" where
  "create_fields s =
     [labelled ''name'' [] NameField, labelled ''ticker'' [] TickerField,
      labelled ''description'' [] DescriptionField,
      box [box [Txt ''image''], button PickImage [Img ''chooseFile''],
           Field [] (fileName s) (Some (TypeField ImageField))]]"

text \<open>The exchanges to launch on: one is chosen, the others are disabled.\<close>

definition launch_choice :: "create_act node" where
  "launch_choice = box [box [Txt ''Launch on Dex *''],
     box [box [Txt ''ICPEX''], El [NoPointer True] [Txt ''KONGSWAP''], El [NoPointer True] [Txt ''ICPSWAP''],
          El [NoPointer True] [Txt ''SONIC'']]]"

definition lock_text :: string where
  "lock_text = ''To ensure LP management is both decentralized and decision-making, you can choose to lock '' @
     ''10%-50% of the LP into Sneed DAO, with the remaining portion locked into the black hole account (aaaaa-aa).''"

definition lock_settings :: "create_view \<Rightarrow> create_act node" where
  "lock_settings s = box
     [box [Txt ''DAO-locked LP settings''],
      box [button (CheckLock (\<not> lockeChecked s)) [Txt ''Sneed DAO''],
           El [NoDisplay (\<not> lockeChecked s)] [Field [] (lockedVal s) (Some TypeLock), Txt ''%'']],
      El [NoDisplay (\<not> lockeChecked s)] [Txt lock_text]]"

text \<open>The state of the options is the text \<open>none\<close> while they are hidden, which is true as a
  condition.\<close>

definition more_options :: "create_view \<Rightarrow> create_act node list" where
  "more_options s =
     [button ShowMore [Txt (if isShowmore s then ''Hide'' else ''Show''), Txt '' more options'', Img ''arrowUp''],
      El [NoDisplay (\<not> isShowmore s)]
        [labelled ''twitter link'' ''(optional)'' TwitterField, labelled ''telegram link'' ''(optional)'' TelegramField,
         labelled ''website'' ''(optional)'' WebsiteField]]"

definition service_fees :: "jsval \<Rightarrow> string" where
  "service_fees price = ''Service Fees: '' @ approx_sign @ '' '' @
     formatAmountByUnit (JNum (js_mul (val_Number price) (Fin 6))) 4 @ '' ICP''"

definition create_button :: "jsval \<Rightarrow> create_view \<Rightarrow> create_act node" where
  "create_button price s = El [Click PressCreate, Loading (openRightBox s)]
     [box [Txt (if cv_userId s \<noteq> [] then ''Create Fomo'' else ''Connect Wallet'')],
      box [Txt (if cv_userId s \<noteq> [] then service_fees price else [])]]"

section \<open>The payment\<close>

definition create_steps :: "create_view \<Rightarrow> create_act node" where
  "create_steps s = step_dialog (create_view.openStep s) CloseSteps CrossSteps ''Create fomo in progress''
     (''Approve ICP'', ''Create Fomo'')
     (create_view.isStepApprove s, create_view.StepApproveSuccess s)
     (create_view.isStepCreateFomo s, create_view.StepCreateFomoSuccess s)"

definition create_notice :: "create_view \<Rightarrow> create_act node" where
  "create_notice s = corner_box (openRightBox s) CloseNotice ViewSteps False
     [''Create fomo '', fc_ticker (FomoParms s)]"

definition SetCoin :: "jsval \<Rightarrow> create_view \<Rightarrow> create_act node" where
  "SetCoin price s = box
     [box ([button CreateBack [Txt ''[ go back ]'']] @ create_fields s @ [launch_choice, lock_settings s] @
           more_options s @ [create_button price s, create_steps s]),
      create_notice s]"

section \<open>The handlers\<close>

definition set_field :: "create_view \<Rightarrow> create_field \<Rightarrow> string \<Rightarrow> create_view \<Rightarrow> create_view" where
  "set_field s0 f v s = s\<lparr> FomoParms := (case f of
       NameField \<Rightarrow> (FomoParms s0)\<lparr> fc_name := v \<rparr>
     | TickerField \<Rightarrow> (FomoParms s0)\<lparr> fc_ticker := v \<rparr>
     | DescriptionField \<Rightarrow> (FomoParms s0)\<lparr> fc_description := v \<rparr>
     | ImageField \<Rightarrow> (FomoParms s0)\<lparr> fc_img_url := v \<rparr>
     | TwitterField \<Rightarrow> (FomoParms s0)\<lparr> fc_twitter_link := v \<rparr>
     | TelegramField \<Rightarrow> (FomoParms s0)\<lparr> fc_telegram_link := v \<rparr>
     | WebsiteField \<Rightarrow> (FomoParms s0)\<lparr> fc_website := v \<rparr>) \<rparr>"

definition create_goback :: "nat \<Rightarrow> effect list" where
  "create_goback history_len = (if history_len > 1 then [NavigateBack] else [Navigate ''/dashboard''])"

text \<open>\<open>t\<close> is the text typed, \<open>files\<close> the files picked, \<open>hist\<close> the length of the window's history.\<close>

fun create_do :: "'b page_env \<Rightarrow> jsval \<Rightarrow> string \<Rightarrow> nat \<Rightarrow> upload_file list option \<Rightarrow> create_act \<Rightarrow> string \<Rightarrow>
    create_view \<Rightarrow> create_view \<Rightarrow> create_out" where
  "create_do P price uid hist files CreateBack t s0 s = emits s (create_goback hist)"
| "create_do P price uid hist files (TypeField f) t s0 s = plain (set_field s0 f t s)"
| "create_do P price uid hist files PickImage t s0 s = BtnUpPhoto files s0 s"
| "create_do P price uid hist files (CheckLock b) t s0 s = Create.CheckboxChange (pe_big P) b s0 s"
| "create_do P price uid hist files TypeLock t s0 s = changelockedVal (pe_big P) t s0 s"
| "create_do P price uid hist files ShowMore t s0 s = plain (BtnShowMore s0 s)"
| "create_do P price uid hist files PressCreate t s0 s = btnFomo P price uid s0 s"
| "create_do P price uid hist files CloseSteps t s0 s = plain (Create.handleCloseStep s)"
| "create_do P price uid hist files CrossSteps t s0 s = plain (Create.onBtnCloseStep s)"
| "create_do P price uid hist files CloseNotice t s0 s = plain (Create.closeRightBox s)"
| "create_do P price uid hist files ViewSteps t s0 s = plain (s\<lparr> openStep := True \<rparr>)"

section \<open>Lemmas\<close>

lemma PressCreate_live: "PressCreate \<in> set (live (SetCoin price s)) \<longleftrightarrow> \<not> openRightBox s"
  by (auto simp: SetCoin_def create_fields_def launch_choice_def lock_settings_def more_options_def
      create_button_def create_steps_def create_notice_def labelled_def)

lemma CloseNotice_live: "CloseNotice \<in> set (live (SetCoin price s)) \<longleftrightarrow> openRightBox s"
  by (auto simp: SetCoin_def create_fields_def launch_choice_def lock_settings_def more_options_def
      create_button_def create_steps_def create_notice_def labelled_def)

lemma CloseSteps_live: "CloseSteps \<in> set (live (SetCoin price s)) \<longleftrightarrow> create_view.openStep s"
  by (auto simp: SetCoin_def create_fields_def launch_choice_def lock_settings_def more_options_def
      create_button_def create_steps_def create_notice_def labelled_def)

lemma create_do_calls: "calls (fx_of (create_do P price uid hist files a t s0 s)) \<noteq> [] \<Longrightarrow> a = PressCreate"
  by (cases a) (auto simp: create_goback_def BtnUpPhoto_def check_photo_def photo_error_def Create.CheckboxChange_def
      changelockedVal_def Let_def split: sum.splits option.splits list.splits if_splits)

lemma dashboard_page: "page_at ''/dashboard'' = RInfo ''dashboard''"
  using route_info [of "''dashboard''"] by (simp add: page_at_def lower_def)

text \<open>C30. A running creation can be started again. While the approve of a creation runs the button is
  blocked, the step dialog lies over the page and the notice is drawn. The dialog can be closed,
  and then the notice, whose cross only closes the notice; but the button is blocked by the flag of
  the notice, so it takes clicks again, and pressing it starts the same creation a second time: the
  same approve leaves again, and the two run side by side.\<close>

theorem creation_restarts:
  fixes P :: "'b page_env" and hist :: nat and files :: "upload_file list option"
  assumes "uid \<noteq> []" "tasks_of (btnFomo P price uid s s) = [WaitCreateApprove s]"
  defines "s1 \<equiv> st_of (btnFomo P price uid s s)"
  defines "d1 \<equiv> st_of (create_do P price uid hist files CloseSteps [] s1 s1)"
  defines "s2 \<equiv> st_of (create_do P price uid hist files CloseNotice [] d1 d1)"
  shows "PressCreate \<notin> set (live (SetCoin price s1)) \<and> CloseNotice \<in> set (live (SetCoin price s1)) \<and>
    create_view.openStep s1 \<and> CloseSteps \<in> set (live (SetCoin price s1)) \<and>
    \<not> create_view.openStep d1 \<and> PressCreate \<notin> set (live (SetCoin price d1)) \<and>
    CloseNotice \<in> set (live (SetCoin price d1)) \<and>
    \<not> create_view.openStep s2 \<and> PressCreate \<in> set (live (SetCoin price s2)) \<and>
    calls (fx_of (create_do P price uid hist files PressCreate [] s2 s2)) =
      calls (fx_of (btnFomo P price uid s s)) \<and>
    tasks_of (create_do P price uid hist files PressCreate [] s2 s2) = [WaitCreateApprove s2]"
proof -
  define r where "r = (if lockeChecked s then s\<lparr> initialized := True \<rparr> else put_lock s None (s\<lparr> initialized := True \<rparr>))
      \<lparr> create_view.openStep := True \<rparr>"
  have c: "check_links (links_of (FomoParms s)) = None" "check_required (required_of (FomoParms s)) = None"
    "\<not> (lockeChecked s \<and> out_of_range (lockedVal s))"
    using assms(2) by (auto simp: btnFomo_def Let_def split: option.splits if_splits)
  then have b: "btnFomo P price uid s s = (case stepApprove P price s r of
      Inl _ \<Rightarrow> emits (r\<lparr> openRightBox := True \<rparr>) [MsgError ''Upload failure''] | Inr q \<Rightarrow> q)"
    unfolding r_def using assms(1) by (simp add: btnFomo_def Let_def)
  then obtain x where x: "env_principal P ''CANISTER_ID_FOMOWELL_LAUNCHER'' = Inr x"
    using assms(2) by (cases "env_principal P ''CANISTER_ID_FOMOWELL_LAUNCHER''")
      (auto simp: stepApprove_def res_map_def)
  then have s1: "s1 = r\<lparr> openRightBox := True \<rparr>"
    using b by (simp add: s1_def stepApprove_def)
  then have d1: "d1 = r\<lparr> openRightBox := True, create_view.openStep := False \<rparr>"
    by (simp add: d1_def Create.handleCloseStep_def)
  then have s2: "s2 = r\<lparr> openRightBox := False, create_view.openStep := False \<rparr>"
    by (simp add: s2_def Create.closeRightBox_def)
  have "links_of (FomoParms s2) = links_of (FomoParms s)" "required_of (FomoParms s2) = required_of (FomoParms s)"
    "lockeChecked s2 = lockeChecked s" "lockedVal s2 = lockedVal s"
    by (simp_all add: s2 r_def put_lock_def links_of_def required_of_def)
  then show ?thesis using c x assms(1) b
    by (simp add: PressCreate_live CloseNotice_live CloseSteps_live s1 d1 s2 r_def btnFomo_def
        stepApprove_def Let_def)
qed

theorem creation_restarts_witness:
  "let s1 = st_of (btnFomo sample_page JNull ''u'' filled_form filled_form);
      d1 = st_of (create_do sample_page JNull ''u'' 1 None CloseSteps [] s1 s1) in
   PressCreate \<in> set (live (SetCoin JNull
     (st_of (create_do sample_page JNull ''u'' 1 None CloseNotice [] d1 d1))))"
proof -
  have "tasks_of (btnFomo sample_page JNull ''u'' filled_form filled_form) = [WaitCreateApprove filled_form]"
    by (simp add: btnFomo_def stepApprove_def filled_form_def create_init_def empty_create_def links_of_def
        required_of_def put_lock_def env_principal_def from_text_def sample_page_def sample_env_def Let_def)
  then show ?thesis
    using creation_restarts [of "''u''" sample_page JNull filled_form 1 None] unfolding Let_def by simp
qed

end
