(* ===== verification/Trade.thy ===== *)
theory Trade
  imports Approve
begin

text \<open>
  Trading on the project page (\<open>pages/ICPInfo/ICPInfo.tsx\<close>): the order and its inputs, the
  quote preview, the approve-then-swap sequence, the poll for the swap's status and the
  progress dialog. Handlers close over a snapshot; the machine \<open>trade_step\<close> interleaves the
  user's events with the replies and timers in every order. The lemmas show the amounts that
  are approved and swapped, the slippage bound, and what each reply does to the dialog.
\<close>

section \<open>State\<close>

text \<open>The order \<open>CurBuyOrSell\<close>. A token or pool read from a project that is not loaded is
  \<open>undefined\<close>; the amount is a bigint or the empty string.\<close>

record order =
  of_from :: "principal option"
  of_to :: "principal option"
  of_min :: int
  of_amount :: "int option"
  of_pairs :: "principal option list"
  of_dir :: int
  of_deadline :: int

record trade_view =
  curFomoInfo :: "FomoProject list"
  CurBuyOrSell :: order
  openStep :: bool
  isStepApprove :: bool
  isStepCreateFomo :: bool
  StepApproveSuccess :: bool
  StepCreateFomoSuccess :: bool
  openRightBox :: bool
  InputSlippage :: string
  isExpertMode :: bool
  BuyMetadata :: jsnum
  SellMetadata :: jsnum
  buyTokenName :: "string option"
  sellTokenName :: "string option"
  CurUserBalance :: jsval
  CurUserBuyBalance :: jsnum
  inputValue :: jsval
  CurswitchIcp :: string
  isLodingBalance :: bool
  sellTabEnabled :: bool

definition management :: principal where
  "management = ''aaaaa-aa''"

definition trade_init :: "string \<Rightarrow> trade_view" where
  "trade_init icrc2 = \<lparr> curFomoInfo = [],
     CurBuyOrSell = \<lparr> of_from = Some icrc2, of_to = Some management, of_min = 0,
       of_amount = Some 0, of_pairs = [Some management], of_dir = 1, of_deadline = 0 \<rparr>,
     openStep = False, isStepApprove = True, isStepCreateFomo = False,
     StepApproveSuccess = False, StepCreateFomoSuccess = False, openRightBox = False,
     InputSlippage = ''3'', isExpertMode = False, BuyMetadata = Fin 0, SellMetadata = Fin 0,
     buyTokenName = None, sellTokenName = None, CurUserBalance = JNum (Fin 0),
     CurUserBuyBalance = Fin 0, inputValue = JStr [], CurswitchIcp = ''0'',
     isLodingBalance = False, sellTabEnabled = True \<rparr>"

text \<open>\<open>curFomoInfo[0]\<close> and its optional fields.\<close>

definition cur_project :: "trade_view \<Rightarrow> FomoProject option" where
  "cur_project s = nth_opt (curFomoInfo s) 0"

definition cur_token :: "trade_view \<Rightarrow> principal option" where
  "cur_token s = map_option token_pid (cur_project s)"

definition cur_pool :: "trade_view \<Rightarrow> principal option" where
  "cur_pool s = map_option pool_pid (cur_project s)"

section \<open>Inputs\<close>

definition btnBuy :: "string \<Rightarrow> trade_view \<Rightarrow> trade_view \<Rightarrow> trade_view" where
  "btnBuy icrc2 s0 s = s\<lparr> CurBuyOrSell := (CurBuyOrSell s0)
     \<lparr> of_dir := 1, of_from := Some icrc2, of_to := cur_token s0 \<rparr> \<rparr>"

definition btnSell :: "string \<Rightarrow> trade_view \<Rightarrow> trade_view \<Rightarrow> trade_view" where
  "btnSell icrc2 s0 s = s\<lparr> CurBuyOrSell := (CurBuyOrSell s0)
     \<lparr> of_dir := 0, of_from := cur_token s0, of_to := Some icrc2 \<rparr> \<rparr>"

definition floor_units :: "jsnum \<Rightarrow> jsnum \<Rightarrow> int res" where
  "floor_units v d = bigint_of_num (js_floor (js_mul v (ten_pow d)))"

definition put_amount :: "order \<Rightarrow> int \<Rightarrow> order" where
  "put_amount q n = q\<lparr> of_amount := Some n \<rparr>"

text \<open>The text field. \<open>typeof Number(v) == "number"\<close> always holds; the input is shown before the
  amount is computed.\<close>

definition InputAmountChange ::
  "trade_view \<Rightarrow> string \<Rightarrow> trade_view \<Rightarrow> (trade_view, 't) outcome" where
  "InputAmountChange s0 v s =
     (if js_Number v \<noteq> NaN then
        (let s1 = s\<lparr> inputValue := JStr v \<rparr>
         in case floor_units (js_Number v)
                  (if of_dir (CurBuyOrSell s0) = 1 then BuyMetadata s0 else SellMetadata s0) of
              Inl e \<Rightarrow> throws s1 e
            | Inr n \<Rightarrow> plain (s1\<lparr> CurBuyOrSell := put_amount (CurBuyOrSell s0) n \<rparr>))
      else emits s [MsgError ''The entered value is incorrect''])"

text \<open>\<open>BigInt(x.toFixed(0, 0))\<close>.\<close>

definition big_floor_int :: "'b bigjs \<Rightarrow> 'b \<Rightarrow> int res" where
  "big_floor_int B x = js_BigInt (big_toFixed B (big_round_down B x 0) 0)"

definition select_amount :: "'b bigjs \<Rightarrow> trade_view \<Rightarrow> string \<Rightarrow> int res" where
  "select_amount B s0 type =
     (if of_dir (CurBuyOrSell s0) = 1 then floor_units (js_Number type) (BuyMetadata s0)
      else res_bind (big_num B (js_Number type)) (\<lambda>t.
           res_bind (big_val B (CurUserBalance s0)) (\<lambda>b.
           res_bind (big_num B (ten_pow (SellMetadata s0))) (\<lambda>p.
             if js_Number type \<noteq> Fin 1
             then big_floor_int B (big_times B (big_times B t b) p)
             else res_bind (big_num B (Fin 1)) (\<lambda>one.
                    big_floor_int B (big_times B (big_minus B (big_times B t b) one) p))))))"

definition select_text :: "'b bigjs \<Rightarrow> trade_view \<Rightarrow> string \<Rightarrow> string res" where
  "select_text B s0 type =
     (if of_dir (CurBuyOrSell s0) = 1 then Inr type
      else res_bind (big_val B (CurUserBalance s0)) (\<lambda>b.
           res_bind (big_str B type) (\<lambda>t.
             if js_Number type = Fin 1
             then res_bind (big_num B (Fin 1)) (\<lambda>one.
                    Inr (big_toString B (big_minus B (big_times B b t) one)))
             else Inr (big_toString B (big_times B b t)))))"

definition selectHandle ::
  "'b bigjs \<Rightarrow> trade_view \<Rightarrow> string \<Rightarrow> trade_view \<Rightarrow> (trade_view, 't) outcome" where
  "selectHandle B s0 type s =
     (if type = ''reset''
      then plain (s\<lparr> CurBuyOrSell := (CurBuyOrSell s0)\<lparr> of_amount := None \<rparr>, inputValue := JStr [] \<rparr>)
      else case select_amount B s0 type of
        Inl e \<Rightarrow> throws s e
      | Inr n \<Rightarrow>
          (let s1 = s\<lparr> CurBuyOrSell := put_amount (CurBuyOrSell s0) n \<rparr>
           in case select_text B s0 type of
                Inl e \<Rightarrow> throws s1 e
              | Inr t \<Rightarrow> plain (s1\<lparr> inputValue := JStr t \<rparr>)))"

definition handleMode :: "bool \<Rightarrow> trade_view \<Rightarrow> trade_view" where
  "handleMode v s = s\<lparr> isExpertMode := v \<rparr>"

text \<open>The button that places the trade: whether it can be clicked and its label. Both are
  computed at every render, so an exception here takes the page down.\<close>

definition insufficient :: "'b bigjs \<Rightarrow> trade_view \<Rightarrow> bool res" where
  "insufficient B s =
     res_bind (big_val B (if val_truthy (inputValue s) then inputValue s else JStr ''0'')) (\<lambda>v.
     res_bind (if of_dir (CurBuyOrSell s) = 1 then big_num B (CurUserBuyBalance s)
               else big_val B (CurUserBalance s)) (\<lambda>b.
     res_bind (big_num B (if of_dir (CurBuyOrSell s) = 1 then lit 1 10000 else Fin 1)) (\<lambda>m.
       Inr (big_lt B (big_minus B b m) v))))"

definition place_clickable :: "'b bigjs \<Rightarrow> trade_view \<Rightarrow> bool res" where
  "place_clickable B s =
     (if \<not> val_truthy (inputValue s) then Inr False else res_map Not (insufficient B s))"

definition place_label :: "'b bigjs \<Rightarrow> trade_view \<Rightarrow> string res" where
  "place_label B s =
     (if \<not> val_truthy (inputValue s) then Inr ''Enter an amount''
      else res_map (\<lambda>i. if i then ''Insufficient balance'' else ''place trade'') (insufficient B s))"

section \<open>Quotes\<close>

text \<open>\<open>Number(q) * (1 - Number(slippage) / 100)\<close>.\<close>

definition slipped :: "int \<Rightarrow> string \<Rightarrow> jsnum" where
  "slipped q slippage =
     js_mul (num_of_int q) (js_sub (Fin 1) (js_div (js_Number slippage) (Fin 100)))"

definition min_return :: "bool \<Rightarrow> string \<Rightarrow> int \<Rightarrow> int res" where
  "min_return expert slippage q =
     (if expert then Inr 0 else bigint_of_num (js_floor (slipped q slippage)))"

text \<open>\<open>switchIcp\<close>, the preview: its arguments are captured when the debounced call is made. An
  empty amount is \<open>BigInt("")\<close>, \<open>0\<close>.\<close>

record preview =
  pv_project :: FomoProject
  pv_amount :: "int option"
  pv_dir :: int
  pv_slippage :: string
  pv_sell :: jsnum
  pv_buy :: jsnum

definition amount_int :: "int option \<Rightarrow> int" where
  "amount_int a = (case a of None \<Rightarrow> 0 | Some n \<Rightarrow> n)"

definition quote_call :: "environment \<Rightarrow> int \<Rightarrow> principal \<Rightarrow> int \<Rightarrow> api_call list" where
  "quote_call env dir pool n =
     (if dir = 1 then [querySellQuote env pool n]
      else if dir = 0 then [querySellBase env pool n] else [])"

section \<open>Pending work\<close>

datatype trade_task =
    WaitApprove trade_view
  | WaitQuote trade_view
  | WaitSwap trade_view
  | Poll nat trade_view int
  | WaitStatus nat trade_view int
  | WaitRecord trade_view int
  | WaitPreview preview
  | TimerClose
  | TimerReset bool
  | TimerQuoteFail
  | TimerDone

type_synonym trade_out = "(trade_view, trade_task) outcome"

definition switchIcp :: "environment \<Rightarrow> preview \<Rightarrow> trade_view \<Rightarrow> trade_out" where
  "switchIcp env p s =
     (let cs = quote_call env (pv_dir p) (pool_pid (pv_project p)) (amount_int (pv_amount p))
      in if cs = [] then plain (s\<lparr> isLodingBalance := False \<rparr>)
         else (s\<lparr> isLodingBalance := True \<rparr>, map Call cs, [WaitPreview p]))"

definition on_preview :: "preview \<Rightarrow> int res \<Rightarrow> trade_view \<Rightarrow> trade_out" where
  "on_preview p reply s = (case reply of
     Inl e \<Rightarrow> throws s e
   | Inr q \<Rightarrow>
       (let v = slipped q (pv_slippage p)
        in plain (s\<lparr> CurswitchIcp :=
               (if pv_dir p = 1 then js_toString (js_floor (js_div v (ten_pow (pv_sell p))))
                else js_toString (js_div v (ten_pow (pv_buy p)))),
             isLodingBalance := False \<rparr>)))"

section \<open>Placing a trade\<close>

text \<open>The arguments of the approve, in the order they are evaluated: the ledger, the amount plus
  one, the router.\<close>

definition approve_call :: "'b page_env \<Rightarrow> trade_view \<Rightarrow> 'b \<Rightarrow> api_call res" where
  "approve_call P s0 amount =
     res_bind (if of_dir (CurBuyOrSell s0) = 1 then Inr (pe_icrc2 P)
               else case cur_token s0 of None \<Rightarrow> Inl TypeError | Some t \<Rightarrow> Inr t) (\<lambda>ledger.
     res_bind (big_num (pe_big P) (Fin 1)) (\<lambda>one.
     res_bind (js_BigInt (big_toString (pe_big P) (big_plus (pe_big P) amount one))) (\<lambda>n.
     res_bind (env_principal P ''CANISTER_ID_ICPL_ROUTER'') (\<lambda>spender.
       Inr (update_of (Some ledger) (Icrc2_approve (approve_args n spender)))))))"

definition btnPlaceTrade :: "'b page_env \<Rightarrow> string \<Rightarrow> trade_view \<Rightarrow> trade_view \<Rightarrow> trade_out" where
  "btnPlaceTrade P uid s0 s =
     (case big_str (pe_big P)
            (case of_amount (CurBuyOrSell s0) of None \<Rightarrow> [] | Some n \<Rightarrow> int_str n) of
        Inl e \<Rightarrow> throws s e
      | Inr amount \<Rightarrow>
          if of_amount (CurBuyOrSell s0) = None \<or> of_amount (CurBuyOrSell s0) = Some 0
          then emits s [MsgError ''Please enter the amount'']
          else if uid \<noteq> [] then
            (let s1 = s\<lparr> openStep := True, openRightBox := True \<rparr>
             in case approve_call P s0 amount of
                  Inl e \<Rightarrow> throws s1 e
                | Inr c \<Rightarrow> (s1, [Call c], [WaitApprove s0]))
          else emits s [WellModal True])"

text \<open>The end of a swap that threw: the dialog is reset after a delay.\<close>

definition swap_failed :: "trade_view \<Rightarrow> trade_out" where
  "swap_failed s = (s\<lparr> StepCreateFomoSuccess := False, openRightBox := False \<rparr>,
     [MsgError ''place trade failed''], [TimerReset False])"

definition swap_start :: "'b page_env \<Rightarrow> int \<Rightarrow> trade_view \<Rightarrow> int \<Rightarrow> trade_view \<Rightarrow> trade_out" where
  "swap_start P now s0 q s =
     (case (of_from (CurBuyOrSell s0), of_to (CurBuyOrSell s0), cur_pool s0,
            min_return (isExpertMode s0) (InputSlippage s0) q) of
        (Some f, Some t, Some pool, Inr m) \<Rightarrow>
          (case swapTokenToToken (pe_env P) now
                  \<lparr> base_from_token = f, base_to_token = t, base_min_return_amount = m,
                    base_from_amount = of_amount (CurBuyOrSell s0), pairs = [pool],
                    directions = of_dir (CurBuyOrSell s0),
                    deadline = of_deadline (CurBuyOrSell s0) \<rparr> of
             Inl _ \<Rightarrow> swap_failed s
           | Inr c \<Rightarrow> (s, [Call c], [WaitSwap s0]))
      | _ \<Rightarrow> swap_failed s)"

text \<open>\<open>getswapTokenToToken\<close> up to its first await. A pool that is \<open>undefined\<close> is rejected by the
  encoding of the query, so no query is sent.\<close>

definition getswapTokenToToken :: "'b page_env \<Rightarrow> int \<Rightarrow> trade_view \<Rightarrow> trade_view \<Rightarrow> trade_out" where
  "getswapTokenToToken P now s0 s =
     (let s1 = s\<lparr> isStepCreateFomo := True \<rparr>; dir = of_dir (CurBuyOrSell s0)
      in if dir = 0 \<or> dir = 1 then
           (s1,
            (case cur_pool s0 of None \<Rightarrow> []
             | Some pool \<Rightarrow> map Call (quote_call (pe_env P) dir pool
                             (amount_int (of_amount (CurBuyOrSell s0))))),
            [WaitQuote s0])
         else swap_start P now s0 0 s1)"

definition on_quote :: "'b page_env \<Rightarrow> int \<Rightarrow> trade_view \<Rightarrow> int res \<Rightarrow> trade_view \<Rightarrow> trade_out" where
  "on_quote P now s0 reply s =
     (case res_bind reply (\<lambda>q. res_map (Pair q)
             (min_return (isExpertMode s0) (InputSlippage s0) q)) of
        Inr (q, m) \<Rightarrow> swap_start P now s0 q
                         (s\<lparr> CurBuyOrSell := (CurBuyOrSell s0)\<lparr> of_min := m \<rparr> \<rparr>)
      | Inl e \<Rightarrow>
          if of_dir (CurBuyOrSell s0) = 1 then throws s e
          else (case e of
              CallError _ (Some m) \<Rightarrow>
                (s\<lparr> openStep := False \<rparr>, [MsgError m], [TimerQuoteFail])
            | _ \<Rightarrow> throws s TypeError))"

text \<open>The callbacks of the approve batch. The success callback starts the swap without awaiting
  it.\<close>

definition approve_succeeded :: "'b page_env \<Rightarrow> int \<Rightarrow> trade_view \<Rightarrow> trade_view \<Rightarrow> trade_out" where
  "approve_succeeded P now s0 s =
     getswapTokenToToken P now s0
       (s\<lparr> isStepApprove := False, StepApproveSuccess := True, openRightBox := True \<rparr>)"

definition approve_failed :: "trade_view \<Rightarrow> trade_out" where
  "approve_failed s = (s\<lparr> openRightBox := False \<rparr>, [MsgError ''place trade failed''], [TimerClose])"

definition on_callbacks ::
  "'b page_env \<Rightarrow> int \<Rightarrow> trade_view \<Rightarrow> 'd callback list \<Rightarrow> trade_view \<Rightarrow> trade_out" where
  "on_callbacks P now s0 = run_callbacks (approve_succeeded P now s0) approve_failed"

lemma on_callbacks_simps [simp]:
  "on_callbacks P now s0 [] s = plain s"
  "on_callbacks P now s0 (CbSuccess k d # cs) s =
     then_do (approve_succeeded P now s0 s) (on_callbacks P now s0 cs)"
  "on_callbacks P now s0 (CbFail k # cs) s =
     then_do (approve_failed s) (on_callbacks P now s0 cs)"
  "on_callbacks P now s0 (CbNext k # cs) s = on_callbacks P now s0 cs s"
  by (simp_all add: on_callbacks_def)

section \<open>The swap and its status\<close>

text \<open>A \<open>Result_4\<close>. \<open>Ok\<close> of zero is falsy and does nothing. The poll gets the fresh id \<open>i\<close>.\<close>

definition on_swap ::
  "nat \<Rightarrow> trade_view \<Rightarrow> (int, string) candid_result res \<Rightarrow> trade_view \<Rightarrow> trade_out" where
  "on_swap i s0 reply s = (case reply of
     Inl _ \<Rightarrow> swap_failed s
   | Inr (CErr m) \<Rightarrow>
       (s\<lparr> StepCreateFomoSuccess := False, openRightBox := False \<rparr>, [MsgError m],
        [TimerReset False])
   | Inr (COk n) \<Rightarrow>
       if n \<noteq> 0 then (s\<lparr> sellTabEnabled := True \<rparr>, [], [Poll i s0 n]) else plain s)"

definition on_tick :: "environment \<Rightarrow> nat \<Rightarrow> trade_view \<Rightarrow> int \<Rightarrow> trade_view \<Rightarrow> trade_out" where
  "on_tick env i s0 n s = (s, [Call (querySwapStatusStr env (int_str n))], [WaitStatus i s0 n])"

text \<open>The ICP amount of the record: the first element of an optional amount, NaN where it is
  absent.\<close>

definition opt_num :: "jsnum option \<Rightarrow> jsnum" where
  "opt_num x = (case x of None \<Rightarrow> NaN | Some a \<Rightarrow> a)"

definition record_amount :: "trade_view \<Rightarrow> SwapTxRecord \<Rightarrow> int res" where
  "record_amount s0 tx =
     (if of_dir (CurBuyOrSell s0) = 1
      then floor_units (opt_num (input_amount tx)) (BuyMetadata s0)
      else floor_units (opt_num (receive_amount tx)) (SellMetadata s0))"

definition refresh_balances :: "effect list" where
  "refresh_balances = [Start ProcBuyMetadataThenUserBalance, Start ProcMetadataThenBuyBalance]"

text \<open>A status reply. The second component tells whether the interval is cleared.\<close>

definition on_status :: "environment \<Rightarrow> trade_view \<Rightarrow> int \<Rightarrow> SwapTxRecord list res \<Rightarrow> trade_view \<Rightarrow>
    trade_out \<times> bool" where
  "on_status env s0 n reply s = (case reply of
     Inl e \<Rightarrow> (throws s e, False)
   | Inr [] \<Rightarrow> (throws s TypeError, False)
   | Inr (tx # _) \<Rightarrow>
       (case tx_status tx of
          TxSucceeded \<Rightarrow>
            (let s1 = s\<lparr> StepCreateFomoSuccess := True, isStepCreateFomo := False,
                         openRightBox := False \<rparr>;
                 es = MsgSuccess ''place trade success'' # refresh_balances
             in case (cur_project s0, record_amount s0 tx) of
                  (Some p, Inr a) \<Rightarrow>
                    ((s1, es @ [Call (set_buy_or_sell env
                        \<lparr> rs_fomo_idx = fomo_idx p,
                          rs_buy_sell_op = (if of_dir (CurBuyOrSell s0) = 1 then ''buy'' else ''sell''),
                          rs_icp_amount = a, rs_swap_hash = n \<rparr>)], [WaitRecord s0 n]), True)
                | (Some p, Inl e) \<Rightarrow> ((s1, es @ [Uncaught e], []), True)
                | (None, _) \<Rightarrow> ((s1, es @ [Uncaught TypeError], []), True))
        | TxFailed \<Rightarrow>
            ((s\<lparr> StepCreateFomoSuccess := False \<rparr>, [MsgError ''place trade failed''],
              [TimerReset True]), True)
        | _ \<Rightarrow> (plain s, False)))"

definition on_recorded :: "int \<Rightarrow> unit res \<Rightarrow> trade_view \<Rightarrow> trade_out" where
  "on_recorded n reply s = (case reply of
     Inl e \<Rightarrow> throws s e
   | Inr _ \<Rightarrow>
       (s, [StoreWrite (store_setbuyorsell (int_str n)), Start ProcTop10Holders,
            Start ProcSearchFomos, Start ProcGodOfWells, Start ProcPoolInfo], [TimerDone]))"

section \<open>Timers\<close>

definition reset_steps :: "trade_view \<Rightarrow> trade_view" where
  "reset_steps s = s\<lparr> isStepApprove := True, isStepCreateFomo := False, StepApproveSuccess := False,
                      openStep := False \<rparr>"

fun fire_timer :: "trade_task \<Rightarrow> trade_view \<Rightarrow> trade_view option" where
  "fire_timer TimerClose s = Some (s\<lparr> openStep := False \<rparr>)"
| "fire_timer (TimerReset b) s =
     Some (if b then (reset_steps s)\<lparr> openRightBox := False \<rparr> else reset_steps s)"
| "fire_timer TimerQuoteFail s = Some ((reset_steps s)\<lparr> StepCreateFomoSuccess := False \<rparr>)"
| "fire_timer TimerDone s = Some ((reset_steps s)\<lparr> StepCreateFomoSuccess := False \<rparr>)"
| "fire_timer _ s = None"

text \<open>The close buttons of the dialog and of the progress box.\<close>

definition handleCloseStep :: "trade_view \<Rightarrow> trade_view" where
  "handleCloseStep s = (reset_steps s)\<lparr> StepCreateFomoSuccess := False \<rparr>"

definition onBtnCloseStep :: "trade_view \<Rightarrow> trade_view" where
  "onBtnCloseStep s = s\<lparr> openStep := False, StepCreateFomoSuccess := False, isStepApprove := True,
     isStepCreateFomo := False, StepApproveSuccess := False \<rparr>"

definition closeRightBox :: "trade_view \<Rightarrow> trade_view" where
  "closeRightBox s = s\<lparr> openRightBox := False \<rparr>"

section \<open>The approve batch\<close>

interpretation trade_approve: approve_client "approve_succeeded P now s0" approve_failed
  for P now s0
  by unfold_locales (simp_all add: approve_failed_def)

end
