(* ===== verification/TradeRun.thy ===== *)
theory TradeRun
  imports Trade
begin

text \<open>
  The trade machine of the project page: user events, wallet callbacks, replies and timers in
  any order, and its invariants. What the machine shows: a swap is sent only after an approve
  for one unit more, on the same router; the minimum return follows the quote and the
  slippage; which replies end the progress dialog and which leave it open.
\<close>

section \<open>The machine\<close>

record trade_cfg =
  tc_st :: trade_view
  tc_tasks :: "trade_task list"
  tc_log :: "effect list"
  tc_next :: nat

definition absorb :: "trade_cfg \<Rightarrow> trade_out \<Rightarrow> trade_cfg" where
  "absorb c r = c\<lparr> tc_st := st_of r, tc_tasks := tc_tasks c @ tasks_of r,
                   tc_log := tc_log c @ fx_of r \<rparr>"

definition take_task :: "trade_task \<Rightarrow> trade_cfg \<Rightarrow> trade_cfg" where
  "take_task t c = c\<lparr> tc_tasks := remove1 t (tc_tasks c) \<rparr>"

fun is_poll :: "nat \<Rightarrow> trade_task \<Rightarrow> bool" where
  "is_poll i (Poll j s n) = (i = j)"
| "is_poll i _ = False"

definition clear_interval :: "nat \<Rightarrow> trade_cfg \<Rightarrow> trade_cfg" where
  "clear_interval i c = c\<lparr> tc_tasks := filter (\<lambda>t. \<not> is_poll i t) (tc_tasks c) \<rparr>"

definition start_cfg :: "string \<Rightarrow> trade_cfg" where
  "start_cfg icrc2 = \<lparr> tc_st = trade_init icrc2, tc_tasks = [], tc_log = [], tc_next = 0 \<rparr>"

type_synonym approve_data = "(int, string) candid_result"

definition approve_err :: "approve_data \<Rightarrow> bool" where
  "approve_err d = (case d of COk _ \<Rightarrow> False | CErr _ \<Rightarrow> True)"

definition poll_done :: "nat \<Rightarrow> trade_out \<times> bool \<Rightarrow> trade_cfg \<Rightarrow> trade_cfg" where
  "poll_done i r c = (if snd r then clear_interval i (absorb c (fst r)) else absorb c (fst r))"

text \<open>The rule \<open>data\<close> stands for the rest of the page, which may load another project, balances or
  metadata and write an earlier order back at any time; the dialog is not its own.\<close>

inductive trade_step :: "'b page_env \<Rightarrow> trade_cfg \<Rightarrow> trade_cfg \<Rightarrow> bool" for P where
  place: "\<not> openRightBox (tc_st c) \<Longrightarrow> place_clickable (pe_big P) (tc_st c) = Inr True \<Longrightarrow>
    trade_step P c (absorb c (btnPlaceTrade P uid (tc_st c) (tc_st c)))"
| input: "trade_step P c (absorb c (InputAmountChange (tc_st c) v (tc_st c)))"
| select: "trade_step P c (absorb c (selectHandle (pe_big P) (tc_st c) v (tc_st c)))"
| buy: "trade_step P c (absorb c (plain (btnBuy (pe_icrc2 P) (tc_st c) (tc_st c))))"
| sell: "sellTabEnabled (tc_st c) \<Longrightarrow>
    trade_step P c (absorb c (plain (btnSell (pe_icrc2 P) (tc_st c) (tc_st c))))"
| mode: "trade_step P c (absorb c (plain (handleMode b (tc_st c))))"
| slippage: "trade_step P c (absorb c (plain ((tc_st c)\<lparr> InputSlippage := v \<rparr>)))"
| close: "trade_step P c (absorb c (plain (handleCloseStep (tc_st c))))"
| close_box: "trade_step P c (absorb c (plain (closeRightBox (tc_st c))))"
| data: "trade_step P c (absorb c (plain ((tc_st c)\<lparr> curFomoInfo := ps, CurBuyOrSell := ord,
    BuyMetadata := bm, SellMetadata := sm, CurUserBalance := ub, CurUserBuyBalance := bb,
    buyTokenName := bn, sellTokenName := sn, sellTabEnabled := en \<rparr>)))"
| preview: "cur_project (tc_st c) = Some p \<Longrightarrow>
    trade_step P c (absorb c (switchIcp (pe_env P)
      \<lparr> pv_project = p, pv_amount = of_amount (CurBuyOrSell (tc_st c)),
        pv_dir = of_dir (CurBuyOrSell (tc_st c)), pv_slippage = InputSlippage (tc_st c),
        pv_sell = SellMetadata (tc_st c), pv_buy = BuyMetadata (tc_st c) \<rparr> (tc_st c)))"
| previewed: "WaitPreview pv \<in> set (tc_tasks c) \<Longrightarrow>
    trade_step P c (absorb (take_task (WaitPreview pv) c) (on_preview pv q (tc_st c)))"
| approved: "WaitApprove s0 \<in> set (tc_tasks c) \<Longrightarrow>
    trade_step P c (absorb (take_task (WaitApprove s0) c)
      (on_callbacks P now s0 (b_log (fst (approve_run approve_err hp w r p))) (tc_st c)))"
| quoted: "WaitQuote s0 \<in> set (tc_tasks c) \<Longrightarrow>
    trade_step P c (absorb (take_task (WaitQuote s0) c) (on_quote P now s0 q (tc_st c)))"
| swapped: "WaitSwap s0 \<in> set (tc_tasks c) \<Longrightarrow>
    trade_step P c (absorb ((take_task (WaitSwap s0) c)\<lparr> tc_next := Suc (tc_next c) \<rparr>)
      (on_swap (tc_next c) s0 reply (tc_st c)))"
| tick: "Poll i s0 n \<in> set (tc_tasks c) \<Longrightarrow>
    trade_step P c (absorb c (on_tick (pe_env P) i s0 n (tc_st c)))"
| status: "WaitStatus i s0 n \<in> set (tc_tasks c) \<Longrightarrow>
    trade_step P c (poll_done i (on_status (pe_env P) s0 n txs (tc_st c))
      (take_task (WaitStatus i s0 n) c))"
| recorded: "WaitRecord s0 n \<in> set (tc_tasks c) \<Longrightarrow>
    trade_step P c (absorb (take_task (WaitRecord s0 n) c) (on_recorded n u (tc_st c)))"
| timer: "t \<in> set (tc_tasks c) \<Longrightarrow> fire_timer t (tc_st c) = Some s' \<Longrightarrow>
    trade_step P c (absorb (take_task t c) (plain s'))"

abbreviation trade_reachable :: "'b page_env \<Rightarrow> trade_cfg \<Rightarrow> bool" where
  "trade_reachable P c \<equiv> (trade_step P)\<^sup>*\<^sup>* (start_cfg (pe_icrc2 P)) c"

inductive_cases trade_stepE: "trade_step P c c'"

lemma absorb_sel [simp]:
  "tc_st (absorb c r) = st_of r" "tc_tasks (absorb c r) = tc_tasks c @ tasks_of r"
  "tc_log (absorb c r) = tc_log c @ fx_of r" "tc_next (absorb c r) = tc_next c"
  by (simp_all add: absorb_def)

lemma take_task_sel [simp]:
  "tc_st (take_task t c) = tc_st c" "tc_log (take_task t c) = tc_log c"
  "tc_tasks (take_task t c) = remove1 t (tc_tasks c)" "tc_next (take_task t c) = tc_next c"
  by (simp_all add: take_task_def)

lemma clear_interval_sel [simp]:
  "tc_st (clear_interval i c) = tc_st c" "tc_log (clear_interval i c) = tc_log c"
  "tc_tasks (clear_interval i c) = filter (\<lambda>t. \<not> is_poll i t) (tc_tasks c)"
  by (simp_all add: clear_interval_def)

lemma poll_done_sel [simp]:
  "tc_log (poll_done i r c) = tc_log c @ fx_of (fst r)"
  "set (tc_tasks (poll_done i r c)) \<subseteq> set (tc_tasks c) \<union> set (tasks_of (fst r))"
  by (auto simp: poll_done_def)

section \<open>Approve before swap\<close>

text \<open>An approve call for a trade: for one unit more than the order's amount, to the router.\<close>

definition approve_for :: "'b page_env \<Rightarrow> int \<Rightarrow> string option \<Rightarrow> effect \<Rightarrow> bool" where
  "approve_for P a router e = (case e of
     Call c \<Rightarrow> (case call_method c of
        Icrc2_approve ap \<Rightarrow> ap_amount ap = a + 1 \<and> router = Some (acc_owner (ap_spender ap))
      | _ \<Rightarrow> False)
   | _ \<Rightarrow> False)"

definition approved_in :: "'b page_env \<Rightarrow> effect list \<Rightarrow> trade_view \<Rightarrow> bool" where
  "approved_in P es s0 = (\<exists>a e. of_amount (CurBuyOrSell s0) = Some a \<and> e \<in> set es \<and>
     approve_for P a (router_canister (pe_env P)) e)"

fun task_ok :: "'b page_env \<Rightarrow> effect list \<Rightarrow> trade_task \<Rightarrow> bool" where
  "task_ok P es (WaitApprove s0) = approved_in P es s0"
| "task_ok P es (WaitQuote s0) = approved_in P es s0"
| "task_ok P es (WaitSwap s0) = approved_in P es s0"
| "task_ok P es _ = True"

text \<open>An effect that is a swap has its approve in \<open>es\<close>.\<close>

definition swap_ok :: "'b page_env \<Rightarrow> effect list \<Rightarrow> effect \<Rightarrow> bool" where
  "swap_ok P es e = (case e of
     Call c \<Rightarrow> (case call_method c of
        SwapTokenToToken f t a m ps d dl \<Rightarrow> (\<exists>e' \<in> set es. approve_for P a (target c) e')
      | _ \<Rightarrow> True)
   | _ \<Rightarrow> True)"

definition log_ok :: "'b page_env \<Rightarrow> effect list \<Rightarrow> bool" where
  "log_ok P es = (\<forall>i < length es. swap_ok P (take i es) (es ! i))"

definition outcome_ok :: "'b page_env \<Rightarrow> effect list \<Rightarrow> trade_out \<Rightarrow> bool" where
  "outcome_ok P es r = ((\<forall>t \<in> set (tasks_of r). task_ok P (es @ fx_of r) t) \<and>
                        (\<forall>e \<in> set (fx_of r). swap_ok P es e))"

definition trade_inv :: "'b page_env \<Rightarrow> trade_cfg \<Rightarrow> bool" where
  "trade_inv P c = ((\<forall>t \<in> set (tc_tasks c). task_ok P (tc_log c) t) \<and> log_ok P (tc_log c))"

lemma swap_ok_simps [simp]:
  "swap_ok P es (MsgError m)" "swap_ok P es (MsgSuccess m)" "swap_ok P es (WellModal b)"
  "swap_ok P es (Start pr)" "swap_ok P es (Uncaught e)" "swap_ok P es (StoreWrite f)"
  by (simp_all add: swap_ok_def)

lemma swap_ok_mono: "swap_ok P es e \<Longrightarrow> set es \<subseteq> set es' \<Longrightarrow> swap_ok P es' e"
  unfolding swap_ok_def by (auto split: effect.splits canister_method.splits)

lemma task_ok_mono: "task_ok P es t \<Longrightarrow> set es \<subseteq> set es' \<Longrightarrow> task_ok P es' t"
  by (cases t) (auto simp: approved_in_def)

lemma log_ok_append:
  assumes "log_ok P es" "\<forall>e \<in> set fs. swap_ok P es e"
  shows "log_ok P (es @ fs)"
  unfolding log_ok_def
proof (intro allI impI)
  fix i assume i: "i < length (es @ fs)"
  show "swap_ok P (take i (es @ fs)) ((es @ fs) ! i)"
  proof (cases "i < length es")
    case True
    then show ?thesis using assms(1) by (simp add: log_ok_def nth_append)
  next
    case False
    then have "swap_ok P es ((es @ fs) ! i)" using i assms(2) by (simp add: nth_append)
    then show ?thesis by (rule swap_ok_mono) (use False in auto)
  qed
qed

lemma trade_inv_absorb:
  assumes "trade_inv P c" "outcome_ok P (tc_log c) r"
  shows "trade_inv P (absorb c r)"
  using assms log_ok_append [of P "tc_log c" "fx_of r"]
  by (auto simp: trade_inv_def outcome_ok_def intro: task_ok_mono)

lemma trade_inv_take: "trade_inv P c \<Longrightarrow> trade_inv P (take_task t c)"
  using notin_set_remove1 by (fastforce simp: trade_inv_def)

lemma trade_inv_next: "trade_inv P (c\<lparr> tc_next := n \<rparr>) = trade_inv P c"
  by (simp add: trade_inv_def)

lemma outcome_ok_plain [simp]:
  "outcome_ok P es (plain s)" "outcome_ok P es (throws s e)" "outcome_ok P es (emits s [MsgError m])"
  "outcome_ok P es (emits s [WellModal b])"
  by (simp_all add: outcome_ok_def swap_ok_def)

lemma outcome_ok_then:
  assumes "outcome_ok P es r" "\<And>s. outcome_ok P es (f s)"
  shows "outcome_ok P es (then_do r f)"
proof -
  let ?g = "f (st_of r)"
  have "task_ok P (es @ fx_of r @ fx_of ?g) t" if "t \<in> set (tasks_of r)" for t
    using that assms(1) task_ok_mono [of P "es @ fx_of r" t "es @ fx_of r @ fx_of ?g"]
    by (auto simp: outcome_ok_def)
  moreover have "task_ok P (es @ fx_of r @ fx_of ?g) t" if "t \<in> set (tasks_of ?g)" for t
    using that assms(2) [of "st_of r"]
      task_ok_mono [of P "es @ fx_of ?g" t "es @ fx_of r @ fx_of ?g"]
    by (auto simp: outcome_ok_def)
  ultimately show ?thesis using assms by (auto simp: outcome_ok_def)
qed

subsection \<open>The handlers keep it\<close>

lemma router_of_env:
  assumes "env_principal P ''CANISTER_ID_ICPL_ROUTER'' = Inr r" "\<not> pe_valid P []"
  shows "router_canister (pe_env P) = Some r"
  using assms by (auto simp: env_principal_def from_text_def router_canister_def pick_canister_def
      env_truthy_def split: option.splits if_splits)

lemma approve_amount:
  assumes L: "big_laws B val" and b: "big_str B (int_str n) = Inr b"
    and one: "big_num B (Fin 1) = Inr o1" and m: "js_BigInt (big_toString B (big_plus B b o1)) = Inr m"
  shows "m = n + 1"
proof -
  have "val b = of_int n" using big_lawsD(2) [OF L, of n] b by auto
  moreover have "val o1 = 1" using big_lawsD(1) [OF L, of 1] one by auto
  ultimately have v: "val (big_plus B b o1) = of_int (n + 1)" by (simp add: big_lawsD(4) [OF L])
  show ?thesis
  proof (cases "\<bar>n + 1\<bar> < 10 ^ 21")
    case True
    then show ?thesis using m big_lawsD(9) [OF L v] by (simp add: js_BigInt_int_str)
  next
    case False
    then have "rat_of_int (10 ^ 21) \<le> of_int \<bar>n + 1\<bar>" by (simp only: of_int_le_iff not_less)
    then have "10 ^ 21 \<le> \<bar>val (big_plus B b o1)\<bar>" unfolding v by simp
    then show ?thesis
      using m exp_string_no_bigint [OF big_lawsD(10) [OF L] big_lawsD(13) [OF L]] by simp
  qed
qed

lemma place_ok:
  assumes "big_laws (pe_big P) val" "\<not> pe_valid P []"
  shows "outcome_ok P es (btnPlaceTrade P uid s0 s)"
proof (cases "\<exists>n b c. of_amount (CurBuyOrSell s0) = Some n \<and> big_str (pe_big P) (int_str n) = Inr b \<and>
    approve_call P s0 b = Inr c")
  case True
  then obtain n b c where n: "of_amount (CurBuyOrSell s0) = Some n"
      "big_str (pe_big P) (int_str n) = Inr b" "approve_call P s0 b = Inr c" by blast
  then obtain t o1 m r where c: "c = update_of t (Icrc2_approve (approve_args m r))"
      "big_num (pe_big P) (Fin 1) = Inr o1"
      "js_BigInt (big_toString (pe_big P) (big_plus (pe_big P) b o1)) = Inr m"
      "env_principal P ''CANISTER_ID_ICPL_ROUTER'' = Inr r"
    by (auto simp: approve_call_def res_bind_eq_Inr)
  have "m = n + 1" "router_canister (pe_env P) = Some r"
    using approve_amount [OF assms(1) n(2) c(2,3)] router_of_env [OF c(4) assms(2)] by auto
  with c(1) have "approve_for P n (router_canister (pe_env P)) (Call c)"
    by (simp add: approve_for_def approve_args_def no_subaccount_def)
  moreover have "swap_ok P es (Call c)" by (simp add: c(1) swap_ok_def)
  ultimately show ?thesis using n
    by (auto simp: btnPlaceTrade_def outcome_ok_def approved_in_def)
next
  case False
  then show ?thesis
    by (auto simp: btnPlaceTrade_def Let_def split: sum.splits option.splits)
qed

lemma failed_ok [simp]: "outcome_ok P es (swap_failed s)" "outcome_ok P es (approve_failed s)"
  by (simp_all add: outcome_ok_def swap_failed_def approve_failed_def swap_ok_def)

lemma swap_start_ok:
  assumes "approved_in P es s0"
  shows "outcome_ok P es (swap_start P now s0 q s)"
proof -
  have "outcome_ok P es (s, [Call c], [WaitSwap s0])"
    if "swapTokenToToken (pe_env P) now p = Inr c" "base_from_amount p = of_amount (CurBuyOrSell s0)"
    for c p
    using that assms
    by (auto simp: swapTokenToToken_def res_bind_eq_Inr outcome_ok_def swap_ok_def approved_in_def)
  then show ?thesis by (auto simp: swap_start_def split: option.splits sum.splits)
qed

lemma query_ok: "swap_ok P es (Call (query_of t (QuerySellQuote p n)))"
  "swap_ok P es (Call (query_of t (QuerySellBase p n)))"
  by (simp_all add: swap_ok_def)

lemma swap_begin_ok:
  assumes "approved_in P es s0"
  shows "outcome_ok P es (getswapTokenToToken P now s0 s)"
  using assms swap_start_ok [OF assms]
  by (auto simp: getswapTokenToToken_def outcome_ok_def Let_def quote_call_def querySellQuote_def
      querySellBase_def query_ok approved_in_def split: option.splits)

lemma on_quote_ok:
  assumes "approved_in P es s0"
  shows "outcome_ok P es (on_quote P now s0 r s)"
  using swap_start_ok [OF assms]
  by (auto simp: on_quote_def split: sum.splits js_exn.splits option.splits)
    (auto simp: outcome_ok_def swap_ok_def)

lemma callbacks_ok:
  assumes "approved_in P es s0"
  shows "outcome_ok P es (on_callbacks P now s0 cs s)"
proof (induction cs arbitrary: s)
  case (Cons cb cs)
  then show ?case
    by (cases cb) (auto intro!: outcome_ok_then simp: approve_succeeded_def swap_begin_ok assms)
qed simp

lemma switch_ok: "outcome_ok P es (switchIcp env pv s)"
  by (auto simp: switchIcp_def outcome_ok_def Let_def quote_call_def querySellQuote_def
      querySellBase_def query_ok)

lemma input_ok [simp]: "outcome_ok P es (InputAmountChange s0 v s)"
  by (simp add: InputAmountChange_def Let_def split: sum.splits)

lemma select_ok [simp]: "outcome_ok P es (selectHandle B s0 v s)"
  by (simp add: selectHandle_def Let_def split: sum.splits)

lemma preview_ok [simp]: "outcome_ok P es (on_preview pv q s)"
  by (simp add: on_preview_def Let_def split: sum.splits)

lemma on_swap_ok [simp]: "outcome_ok P es (on_swap i s0 reply s)"
  by (auto simp: on_swap_def outcome_ok_def swap_failed_def swap_ok_def plain_def
      split: sum.splits candid_result.splits)

lemma tick_ok [simp]: "outcome_ok P es (on_tick env i s0 n s)"
  by (simp add: on_tick_def outcome_ok_def swap_ok_def querySwapStatusStr_def)

lemma outcome_ok_calm:
  "\<forall>t \<in> set ts. \<forall>es. task_ok P es t \<Longrightarrow> \<forall>e \<in> set fx. swap_ok P es e \<Longrightarrow> outcome_ok P es (s, fx, ts)"
  by (simp add: outcome_ok_def)

lemma status_ok [simp]: "outcome_ok P es (fst (on_status env s0 n txs s))"
proof -
  have r: "swap_ok P es e" if "e \<in> set refresh_balances" for e
    using that by (auto simp: refresh_balances_def)
  have c: "swap_ok P es (Call (set_buy_or_sell env rs))" for rs
    by (simp add: swap_ok_def set_buy_or_sell_def)
  show ?thesis
    unfolding on_status_def Let_def
    by (cases txs; simp split: list.split TransactionStatus.split option.split sum.split;
        auto intro!: outcome_ok_calm simp: r c)
qed

lemma recorded_ok [simp]: "outcome_ok P es (on_recorded n u s)"
  by (auto simp: on_recorded_def intro!: outcome_ok_calm simp: swap_ok_def split: sum.splits)

lemmas others_ok = input_ok select_ok preview_ok on_swap_ok tick_ok status_ok recorded_ok

lemma trade_inv_start: "trade_inv P (start_cfg i)"
  by (simp add: trade_inv_def start_cfg_def log_ok_def)

lemma trade_inv_step:
  assumes "trade_step P c c'" "trade_inv P c" "big_laws (pe_big P) val" "\<not> pe_valid P []"
  shows "trade_inv P c'"
  using assms(1)
proof cases
  case (approved s0 now hp w r p)
  then have "approved_in P (tc_log c) s0" using assms(2) by (auto simp: trade_inv_def)
  then show ?thesis unfolding approved(1)
    by (intro trade_inv_absorb trade_inv_take assms(2)) (simp add: callbacks_ok)
next
  case (quoted s0 now q)
  then have "approved_in P (tc_log c) s0" using assms(2) by (auto simp: trade_inv_def)
  then show ?thesis unfolding quoted(1)
    by (intro trade_inv_absorb trade_inv_take assms(2)) (simp add: on_quote_ok)
next
  case (status i s0 n txs)
  have "trade_inv P (absorb (take_task (WaitStatus i s0 n) c)
      (fst (on_status (pe_env P) s0 n txs (tc_st c))))"
    by (intro trade_inv_absorb trade_inv_take assms(2)) simp
  then show ?thesis unfolding status(1) by (auto simp: poll_done_def trade_inv_def)
next
  case (swapped s0 reply)
  show ?thesis unfolding swapped(1)
    by (intro trade_inv_absorb) (simp_all add: trade_inv_next trade_inv_take assms(2))
qed (auto intro!: trade_inv_absorb trade_inv_take assms(2) place_ok [OF assms(3,4)] switch_ok)

lemma trade_inv_reachable:
  assumes "trade_reachable P c" "big_laws (pe_big P) val" "\<not> pe_valid P []"
  shows "trade_inv P c"
  using assms(1)
  by (induction rule: rtranclp_induct)
    (simp add: trade_inv_start, erule (1) trade_inv_step [OF _ _ assms(2,3)])

section \<open>Slippage\<close>

lemma slipped_bounds:
  assumes q: "0 \<le> q" "q \<le> 2 ^ 52" and r: "js_Number slip = Fin r" "0 \<le> r" "r \<le> 100"
  shows "\<exists>c. slipped q slip = Fin c \<and> 0 \<le> c \<and> c \<le> of_int q \<and>
    \<bar>c - of_int q * (1 - r / 100)\<bar> \<le> 3/4"
proof -
  have r100: "0 \<le> r / 100" "r / 100 \<le> 1" using r by simp_all
  obtain a where a: "fl (r / 100) = Fin a" "\<bar>a - r / 100\<bar> \<le> 2 powi (-54)"
    using fl_error_below [of "r / 100" 0] r100 by auto
  have a01: "0 \<le> a" "a \<le> 1" using fl_between [OF r100] a(1) by auto
  then have a1: "0 \<le> 1 - a" "1 - a \<le> 1" by simp_all
  obtain b where b: "fl (1 - a) = Fin b" "\<bar>b - (1 - a)\<bar> \<le> 2 powi (-54)"
    using fl_error_below [of "1 - a" 0] a1 by auto
  have b01: "0 \<le> b" "b \<le> 1" using fl_between [OF a1] b(1) by auto
  have qr: "rat_of_int q \<le> of_int (2 ^ 52)" "0 \<le> rat_of_int q"
    using q by (simp_all only: of_int_le_iff of_int_0_le_iff)
  have "of_int q * b \<le> of_int (2 ^ 52) * 1" using qr b01 by (intro mult_mono) auto
  then have "\<bar>of_int q * b\<bar> \<le> 2 powi 52" using qr b01 by simp
  then obtain c where c: "fl (of_int q * b) = Fin c" "\<bar>c - of_int q * b\<bar> \<le> 1/4"
    using fl_error_below [of "of_int q * b" 52] by (auto simp: power_int_minus_divide)
  have rq: "representable (of_int q)" using q by (intro representable_int) simp
  have c01: "0 \<le> c" "c \<le> of_int q"
    using js_mul_shrink [OF rq qr(2) b01] c(1) by auto
  have "\<bar>b - (1 - r / 100)\<bar> \<le> 2 powi (-53)"
  proof -
    have "(2::rat) powi (-53) = 2 powi (-54) + 2 powi (-54)" by (simp add: power_int_minus_divide)
    then show ?thesis using a(2) b(2) by linarith
  qed
  then have "of_int q * \<bar>b - (1 - r / 100)\<bar> \<le> of_int (2 ^ 52) * 2 powi (-53)"
    using qr by (intro mult_mono) auto
  also have "\<dots> = 1/2" by (simp add: power_int_minus_divide)
  finally have "\<bar>of_int q * (b - (1 - r / 100))\<bar> \<le> 1/2" using qr(2) by (simp add: abs_mult)
  moreover have "of_int q * (b - (1 - r / 100)) = of_int q * b - of_int q * (1 - r / 100)"
    by (rule right_diff_distrib)
  ultimately have "\<bar>c - of_int q * (1 - r / 100)\<bar> \<le> 3/4" using c(2) by linarith
  moreover have "num_of_int q = Fin (of_int q)" using q by (intro num_of_int_exact) simp
  then have "slipped q slip = Fin c"
    using r a(1) b(1) c(1) by (simp add: slipped_def js_sub_def)
  ultimately show ?thesis using c01 by auto
qed

lemma js_Number_3: "js_Number ''3'' = Fin 3"
proof -
  have "int_str 3 = ''3''" by (simp add: int_str_def nat_str.simps digit_char_def char_of_def bit_simps)
  then show ?thesis using js_Number_int_str [of 3] num_of_int_exact [of 3] by simp
qed

section \<open>A sample project\<close>

text \<open>Concrete values the witnesses run on: a loaded project on the sample page and a sell order
  under way.\<close>

definition sample_view :: "int \<Rightarrow> int \<Rightarrow> trade_view" where
  "sample_view dir n = (trade_init ''i'')\<lparr> curFomoInfo := [sample_project],
     CurBuyOrSell := \<lparr> of_from = Some ''t'', of_to = Some ''i'', of_min = 0, of_amount = Some n,
       of_pairs = [Some ''p''], of_dir = dir, of_deadline = 0 \<rparr>,
     CurUserBalance := JNum (Fin 100) \<rparr>"

definition sample_tx :: SwapTxRecord where
  "sample_tx = \<lparr> tx_status = TxSucceeded, input_amount = Some (Fin 5), receive_amount = Some (Fin 4),
     swap_hash = 9, fail_msg = None \<rparr>"

lemma cur_sample [simp]:
  "cur_project (sample_view d n) = Some sample_project" "cur_token (sample_view d n) = Some ''t''"
  "cur_pool (sample_view d n) = Some ''p''"
  by (simp_all add: cur_project_def cur_token_def cur_pool_def sample_view_def sample_project_def)

lemma ten_pow_0 [simp]: "ten_pow (Fin 0) = Fin 1" "pow10 0 = Fin 1"
  using pow10_exact [of 0] by simp_all

lemma fl_small [simp]: "fl 1 = Fin 1" "fl 4 = Fin 4" "fl 5 = Fin 5" "fl 100 = Fin 100"
  using fl_int [of 1] fl_int [of 4] fl_int [of 5] fl_int [of 100] by simp_all

lemma js_Number_1: "js_Number ''1'' = Fin 1"
proof -
  have "int_str 1 = ''1''" by (simp add: int_str_def nat_str.simps digit_char_def char_of_def bit_simps)
  then show ?thesis using js_Number_int_str [of 1] num_of_int_exact [of 1] by simp
qed

section \<open>Properties\<close>

text \<open>C1. Approve before swap. In every run of the project page, in any order of user events,
  wallet callbacks, replies and timers, each swap call is preceded by an approve call for
  exactly one unit more than it swaps, whose spender is the router the swap is sent to.\<close>

theorem approve_precedes_swap:
  assumes "trade_reachable P c" "big_laws (pe_big P) val" "\<not> pe_valid P []"
    and "i < length (tc_log c)" "tc_log c ! i = Call x"
    and "call_method x = SwapTokenToToken f t a m ps d dl"
  shows "\<exists>j < i. \<exists>y ap. tc_log c ! j = Call y \<and> call_method y = Icrc2_approve ap \<and>
    ap_amount ap = a + 1 \<and> target x = Some (acc_owner (ap_spender ap))"
proof -
  have "swap_ok P (take i (tc_log c)) (Call x)"
    using trade_inv_reachable [OF assms(1-3)] assms(4,5) by (auto simp: trade_inv_def log_ok_def)
  then obtain e where e: "e \<in> set (take i (tc_log c))" "approve_for P a (target x) e"
    using assms(6) by (auto simp: swap_ok_def)
  then obtain j where "j < i" "tc_log c ! j = e" using assms(4) by (auto simp: in_set_conv_nth)
  with e(2) show ?thesis
    by (auto simp: approve_for_def split: effect.splits canister_method.splits)
qed

lemma sample_run:
  "\<exists>c x. trade_reachable sample_page c \<and> 2 < length (tc_log c) \<and> tc_log c ! 2 = Call x \<and>
    (\<exists>dl. call_method x = SwapTokenToToken ''t'' ''i'' 1 0 [''p''] 0 dl)"
proof -
  define v where "v = (sample_view 0 1)\<lparr> inputValue := JStr ''1'', isExpertMode := True \<rparr>"
  define c1 where "c1 = (start_cfg ''i'')\<lparr> tc_st := sample_view 0 0 \<rparr>"
  define c2 where "c2 = (start_cfg ''i'')\<lparr> tc_st := (sample_view 0 1)\<lparr> inputValue := JStr ''1'' \<rparr> \<rparr>"
  define c3 where "c3 = (start_cfg ''i'')\<lparr> tc_st := v \<rparr>"
  define c4 where "c4 = absorb c3 (btnPlaceTrade sample_page ''u'' v v)"
  define c5 where "c5 = absorb (take_task (WaitApprove v) c4) (on_callbacks sample_page 0 v
      (b_log (fst (approve_run approve_err True ''stoic'' (Value (COk 1)) ([], True)))) (tc_st c4))"
  define c6 where "c6 = absorb (take_task (WaitQuote v) c5)
      (on_quote sample_page 0 v (Inr 10) (tc_st c5))"
  have ic: "pe_icrc2 sample_page = ''i''" by (simp add: sample_page_def)
  have one: "rat_of_dec ''1'' = Inr 1" "int_str 1 = ''1''" "int_str 2 = ''2''"
    using rat_of_dec_int_str [of 1]
    by (simp_all add: int_str_def nat_str.simps digit_char_def char_of_def bit_simps)
  have s1: "trade_step sample_page (start_cfg ''i'') c1"
    using trade_step.data [where P = sample_page and c = "start_cfg ''i''" and ps = "[sample_project]"
        and ord = "CurBuyOrSell (sample_view 0 0)" and bm = "Fin 0" and sm = "Fin 0"
        and ub = "JNum (Fin 100)" and bb = "Fin 0" and bn = None and sn = None and en = True]
    by (simp add: c1_def absorb_def sample_view_def start_cfg_def trade_init_def)
  have s2: "trade_step sample_page c1 c2"
    using trade_step.input [of sample_page c1 "''1''"]
    by (simp add: c1_def c2_def absorb_def InputAmountChange_def js_Number_1 floor_units_def
        sample_view_def start_cfg_def trade_init_def put_amount_def)
  have s3: "trade_step sample_page c2 c3"
    using trade_step.mode [of sample_page c2 True]
    by (simp add: c2_def c3_def v_def absorb_def handleMode_def start_cfg_def)
  have cl: "place_clickable (pe_big sample_page) v = Inr True"
    by (simp add: place_clickable_def insufficient_def v_def sample_view_def sample_page_def
        rat_big_def one)
  have s4: "trade_step sample_page c3 c4" unfolding c4_def
    using trade_step.place [of c3 sample_page "''u''"] cl
    by (simp add: c3_def v_def sample_view_def trade_init_def)
  have t4: "tc_tasks c4 = [WaitApprove v]" "length (tc_log c4) = 1"
    using js_BigInt_int_str [of 2]
    by (simp_all add: c4_def c3_def start_cfg_def btnPlaceTrade_def approve_call_def v_def
        sample_view_def sample_page_def rat_big_def one env_principal_def sample_env_def
        from_text_def cur_token_def cur_project_def sample_project_def rat_to_str_def)
  have lg: "b_log (fst (approve_run approve_err True ''stoic'' (Value (COk 1)) ([], True)))
      = [CbSuccess 0 (COk 1)]"
    by (rule approve_serial_value) (simp_all add: serial_wallets_def)
  have s5: "trade_step sample_page c4 c5" unfolding c5_def
    by (rule trade_step.approved) (simp add: t4)
  have pool: "cur_pool v = Some ''p''"
    by (simp add: v_def sample_view_def cur_pool_def cur_project_def sample_project_def)
  have dir: "of_dir (CurBuyOrSell v) = 0" by (simp add: v_def sample_view_def)
  have t5: "tc_tasks c5 = [WaitQuote v]" "length (tc_log c5) = 2"
    by (simp_all add: c5_def t4 lg approve_succeeded_def getswapTokenToToken_def pool dir
        quote_call_def Let_def)
  have s6: "trade_step sample_page c5 c6" unfolding c6_def
    by (rule trade_step.quoted) (simp add: t5)
  obtain d where d: "swap_deadline 0 = Inr d" using swap_deadline_bounds [of 0] by auto
  have "\<exists>x. fx_of (on_quote sample_page 0 v (Inr 10) (tc_st c5)) = [Call x] \<and>
      call_method x = SwapTokenToToken ''t'' ''i'' 1 0 [''p''] 0 d"
    by (simp add: on_quote_def swap_start_def pool min_return_def swapTokenToToken_def d)
      (simp add: v_def sample_view_def min_return_def swapTokenToToken_def d)
  then obtain x where x: "tc_log c6 = tc_log c5 @ [Call x]"
      "call_method x = SwapTokenToToken ''t'' ''i'' 1 0 [''p''] 0 d"
    by (auto simp: c6_def)
  have "trade_reachable sample_page c6"
    unfolding ic using s1 s2 s3 s4 s5 s6
    by (meson converse_rtranclp_into_rtranclp rtranclp.rtrancl_refl)
  moreover have "tc_log c6 ! 2 = Call x" "2 < length (tc_log c6)"
    using x(1) t5(2) by (simp_all add: nth_append)
  ultimately show ?thesis using x(2) by blast
qed

theorem approve_precedes_swap_witness:
  "\<exists>c x dl. trade_reachable sample_page c \<and> tc_log c ! 2 = Call x \<and>
     call_method x = SwapTokenToToken ''t'' ''i'' 1 0 [''p''] 0 dl \<and>
     (\<exists>j < 2. \<exists>y ap. tc_log c ! j = Call y \<and> call_method y = Icrc2_approve ap \<and>
        ap_amount ap = 1 + 1 \<and> target x = Some (acc_owner (ap_spender ap)))"
proof -
  obtain c x dl where c: "trade_reachable sample_page c" "2 < length (tc_log c)"
      "tc_log c ! 2 = Call x" "call_method x = SwapTokenToToken ''t'' ''i'' 1 0 [''p''] 0 dl"
    using sample_run by blast
  have "big_laws (pe_big sample_page) (\<lambda>x. x)" "\<not> pe_valid sample_page []"
    using rat_big_laws by (simp_all add: sample_page_def)
  from approve_precedes_swap [OF c(1) this c(2,3,4)] c show ?thesis by blast
qed

text \<open>C3. The slippage bound. Outside expert mode, for a slippage between 0 and 100 percent and a
  quote of at most \<open>2^52\<close> units, the minimum return of the swap never exceeds the quote and is
  within two units of the quote less the slippage, whatever the rounding of the intermediate
  doubles; in expert mode it is zero. The field of the slippage does not check what is typed, so a
  slippage outside these bounds reaches the computation too, and nothing is claimed of it.\<close>

theorem min_return_bounds:
  assumes "0 \<le> q" "q \<le> 2 ^ 52" "js_Number slip = Fin r" "0 \<le> r" "r \<le> 100"
  shows "(\<exists>m. min_return False slip q = Inr m \<and> 0 \<le> m \<and> m \<le> q \<and>
      \<bar>of_int m - of_int q * (1 - r / 100)\<bar> < 2) \<and>
    min_return True slip q = Inr 0"
proof -
  obtain c where c: "slipped q slip = Fin c" "0 \<le> c" "c \<le> of_int q"
      "\<bar>c - of_int q * (1 - r / 100)\<bar> \<le> 3/4"
    using slipped_bounds [OF assms] by blast
  have "of_int \<lfloor>c\<rfloor> \<le> c" "c < of_int \<lfloor>c\<rfloor> + 1" by linarith+
  then have "\<bar>of_int \<lfloor>c\<rfloor> - of_int q * (1 - r / 100)\<bar> < 2" using c(4) by linarith
  moreover have "\<lfloor>c\<rfloor> \<le> q" using c(3) by (simp add: floor_le_iff)
  ultimately show ?thesis using c by (auto simp: min_return_def)
qed

theorem min_return_bounds_witness:
  "\<exists>m. min_return False ''3'' 1000000 = Inr m \<and> 0 \<le> m \<and> m \<le> 1000000 \<and>
    \<bar>of_int m - of_int 1000000 * (1 - 3 / 100)\<bar> < (2::rat)"
  by (rule min_return_bounds [THEN conjunct1]) (simp_all add: js_Number_3)

text \<open>C28. The approve's answer is not looked at. With a wallet that makes one call after the other,
  an approve the ledger refuses still starts the swap: the page goes on to the quote, and the
  dialog shows the approval as done.\<close>

theorem refused_approve_goes_on:
  assumes "w \<in> set serial_wallets" "w \<noteq> ''plug''" "of_dir (CurBuyOrSell s0) \<in> {0, 1}"
  shows "let r = on_callbacks P now s0
             (b_log (fst (approve_run approve_err True w (Value (CErr m)) p))) s
         in WaitQuote s0 \<in> set (tasks_of r) \<and> StepApproveSuccess (st_of r) \<and>
            b_state (fst (approve_run approve_err True w (Value (CErr m)) p)) = BError"
  using assms
  by (auto simp: approve_serial_value Let_def approve_succeeded_def getswapTokenToToken_def
      approve_err_def)

theorem refused_approve_goes_on_witness:
  "\<forall>(P :: unit page_env) now.
     let r = on_callbacks P now (trade_init [])
             (b_log (fst (approve_run approve_err True ''stoic'' (Value (CErr [])) ([], True))))
             (trade_init [])
     in WaitQuote (trade_init []) \<in> set (tasks_of r) \<and> StepApproveSuccess (st_of r) \<and>
        b_state (fst (approve_run approve_err True ''stoic'' (Value (CErr [])) ([], True))) = BError"
  by (intro allI refused_approve_goes_on) (simp_all add: serial_wallets_def trade_init_def)

text \<open>C34. A swap can be recorded twice. The poll does not wait for its own replies: whenever a swap
  is accepted for a loaded project, two status queries can be under way, and when both report
  success, both record the trade with the launcher.\<close>

theorem swap_recorded_twice:
  assumes "WaitSwap s0 \<in> set (tc_tasks c)" "cur_project s0 = Some p" "n \<noteq> 0"
    and "tx_status tx = TxSucceeded" "record_amount s0 tx = Inr a"
  shows "\<exists>c' rs. (trade_step P)\<^sup>*\<^sup>* c c' \<and> rs_swap_hash rs = n \<and>
    filter is_update (called (tc_log c')) =
      filter is_update (called (tc_log c)) @ [Set_buy_or_sell rs, Set_buy_or_sell rs]"
proof -
  let ?i = "tc_next c"
  define c1 where "c1 = absorb ((take_task (WaitSwap s0) c)\<lparr> tc_next := Suc ?i \<rparr>)
      (on_swap ?i s0 (Inr (COk n)) (tc_st c))"
  define c2 where "c2 = absorb c1 (on_tick (pe_env P) ?i s0 n (tc_st c1))"
  define c3 where "c3 = absorb c2 (on_tick (pe_env P) ?i s0 n (tc_st c2))"
  define w where "w = WaitStatus ?i s0 n"
  define c4 where "c4 = poll_done ?i (on_status (pe_env P) s0 n (Inr [tx]) (tc_st c3)) (take_task w c3)"
  define c5 where "c5 = poll_done ?i (on_status (pe_env P) s0 n (Inr [tx]) (tc_st c4)) (take_task w c4)"
  have t1: "Poll ?i s0 n \<in> set (tc_tasks c1)" using assms(3) by (simp add: c1_def on_swap_def)
  have t2: "Poll ?i s0 n \<in> set (tc_tasks c2)" using t1 by (simp add: c2_def)
  obtain r where t3: "tc_tasks c3 = r @ [w, w]"
    by (simp add: c3_def c2_def on_tick_def w_def)
  then have t4: "w \<in> set (tc_tasks c4)"
    using assms by (auto simp: c4_def poll_done_def on_status_def Let_def w_def remove1_append)
  have s1: "trade_step P c c1" unfolding c1_def by (rule trade_step.swapped [OF assms(1)])
  have s2: "trade_step P c1 c2" unfolding c2_def by (rule trade_step.tick [OF t1])
  have s3: "trade_step P c2 c3" unfolding c3_def by (rule trade_step.tick [OF t2])
  have s4: "trade_step P c3 c4" unfolding c4_def w_def
    by (rule trade_step.status) (use t3 in \<open>simp add: w_def\<close>)
  have s5: "trade_step P c4 c5" unfolding c5_def w_def
    by (rule trade_step.status) (use t4 in \<open>simp add: w_def\<close>)
  have run: "(trade_step P)\<^sup>*\<^sup>* c c5"
    using s1 s2 s3 s4 s5 by (meson converse_rtranclp_into_rtranclp rtranclp.rtrancl_refl)
  have "filter is_update (called (tc_log c3)) = filter is_update (called (tc_log c))"
    using assms(3) by (simp add: c3_def c2_def c1_def on_swap_def on_tick_def querySwapStatusStr_def)
  then have "\<exists>rs. rs_swap_hash rs = n \<and> filter is_update (called (tc_log c5)) =
      filter is_update (called (tc_log c)) @ [Set_buy_or_sell rs, Set_buy_or_sell rs]"
    using assms by (simp add: c5_def c4_def on_status_def Let_def refresh_balances_def
        set_buy_or_sell_def)
  with run show ?thesis by blast
qed


definition sample_cfg :: trade_cfg where
  "sample_cfg = \<lparr> tc_st = sample_view 0 1, tc_tasks = [WaitSwap (sample_view 0 1)], tc_log = [],
                  tc_next = 0 \<rparr>"

theorem swap_recorded_twice_witness:
  "\<forall>P :: unit page_env. \<exists>c' rs. (trade_step P)\<^sup>*\<^sup>* sample_cfg c' \<and> rs_swap_hash rs = 9 \<and>
    filter is_update (called (tc_log c')) =
      filter is_update (called (tc_log sample_cfg)) @ [Set_buy_or_sell rs, Set_buy_or_sell rs]"
proof
  fix P :: "unit page_env"
  have 1: "WaitSwap (sample_view 0 1) \<in> set (tc_tasks sample_cfg)" by (simp add: sample_cfg_def)
  have 2: "tx_status sample_tx = TxSucceeded" by (simp add: sample_tx_def)
  have 3: "record_amount (sample_view 0 1) sample_tx = Inr 4"
    by (simp add: record_amount_def sample_view_def sample_tx_def opt_num_def floor_units_def
        trade_init_def)
  show "\<exists>c' rs. (trade_step P)\<^sup>*\<^sup>* sample_cfg c' \<and> rs_swap_hash rs = 9 \<and>
    filter is_update (called (tc_log c')) =
      filter is_update (called (tc_log sample_cfg)) @ [Set_buy_or_sell rs, Set_buy_or_sell rs]"
    by (rule swap_recorded_twice [OF 1 cur_sample(1) _ 2 3]) simp
qed

end
