(* ===== verification/ProjectData.thy ===== *)
theory ProjectData
  imports Trade
begin

text \<open>
  What the project page reads about its project (\<open>pages/ICPInfo/ICPInfo.tsx\<close>): the ledgers'
  metadata and the user's balances, the pool, the holders with the names of the developers,
  the author, the market cap of the god of wells, and the small navigation handlers. The
  lemmas show the value of a balance, what metadata leaves behind, and that the developers'
  names cover exactly the developer holders.
\<close>

section \<open>Metadata and balances\<close>

text \<open>Pending work on the trade state: which metadata or balance reply is awaited. A balance
  keeps the decimals it was asked with.\<close>

datatype data_task =
    WaitBuyMeta "principal option"
  | WaitSellMeta
  | WaitSellMetaOnly
  | WaitUserBalance jsnum
  | WaitBuyBalance jsnum
  | WaitPool
  | WaitHolders
  | WaitCreator string
  | WaitGod
  | WaitCopy

type_synonym data_out = "(trade_view, data_task) outcome"

text \<open>\<open>Number(item[1].Nat)\<close> and \<open>item[1].Text\<close>: \<open>undefined\<close> for another variant.\<close>

fun meta_nat :: "MetadataValue \<Rightarrow> jsnum" where
  "meta_nat (MNat n) = num_of_int n"
| "meta_nat _ = NaN"

fun meta_text :: "MetadataValue \<Rightarrow> string option" where
  "meta_text (MText t) = Some t"
| "meta_text _ = None"

text \<open>One pass over the entries: \<open>dec\<close> and \<open>nam\<close> store the decimals and the symbol; the
  decimals returned are \<open>1\<close> when there is no entry.\<close>

fun scan_metadata :: "(jsnum \<Rightarrow> 's \<Rightarrow> 's) \<Rightarrow> (string option \<Rightarrow> 's \<Rightarrow> 's) \<Rightarrow>
    (string \<times> MetadataValue) list \<Rightarrow> jsnum \<times> 's \<Rightarrow> jsnum \<times> 's" where
  "scan_metadata dec nam [] r = r"
| "scan_metadata dec nam ((k, v) # kvs) (d, s) =
     scan_metadata dec nam kvs
       (if k = ''icrc1:decimals'' then (meta_nat v, dec (meta_nat v) s)
        else if k = ''icrc1:symbol'' then (d, nam (meta_text v) s)
        else (d, s))"

definition geticrc1_metadata :: "(string \<times> MetadataValue) list \<Rightarrow> trade_view \<Rightarrow> jsnum \<times> trade_view" where
  "geticrc1_metadata kvs s =
     scan_metadata (\<lambda>d s. s\<lparr> SellMetadata := d \<rparr>) (\<lambda>t s. s\<lparr> sellTokenName := t \<rparr>) kvs (Fin 1, s)"

definition getBuyicrc1_metadata ::
  "(string \<times> MetadataValue) list \<Rightarrow> trade_view \<Rightarrow> jsnum \<times> trade_view" where
  "getBuyicrc1_metadata kvs s =
     scan_metadata (\<lambda>d s. s\<lparr> BuyMetadata := d \<rparr>) (\<lambda>t s. s\<lparr> buyTokenName := t \<rparr>) kvs (Fin 1, s)"

text \<open>\<open>Principal.fromText(appStore.getUserId())\<close>, which reads local storage.\<close>

definition stored_user :: "'b page_env \<Rightarrow> world \<Rightarrow> principal res" where
  "stored_user P w = (case store_getUserId w of
     JStr u \<Rightarrow> from_text (pe_valid P) u | _ \<Rightarrow> Inl TypeError)"

definition getUserBalance :: "'b page_env \<Rightarrow> world \<Rightarrow> trade_view \<Rightarrow> jsnum \<Rightarrow> trade_view \<Rightarrow> data_out" where
  "getUserBalance P w s0 d s = (case stored_user P w of
     Inl e \<Rightarrow> throws s e
   | Inr u \<Rightarrow> (case cur_token s0 of
         None \<Rightarrow> throws s TypeError
       | Some t \<Rightarrow> (s, [Call (icrc1balance (pe_env P) (no_subaccount u) (Some t))],
                    [WaitUserBalance d])))"

definition getBuyUserBalance :: "'b page_env \<Rightarrow> world \<Rightarrow> jsnum \<Rightarrow> trade_view \<Rightarrow> data_out" where
  "getBuyUserBalance P w d s = (case stored_user P w of
     Inl e \<Rightarrow> throws s e
   | Inr u \<Rightarrow> (s, [Call (icrc1balance (pe_env P) (no_subaccount u) None)], [WaitBuyBalance d]))"

definition user_balance_value :: "'b bigjs \<Rightarrow> jsnum \<Rightarrow> int \<Rightarrow> string res" where
  "user_balance_value B d n =
     res_bind (big_str B (int_str n)) (\<lambda>v.
     res_bind (pow_ten B d) (\<lambda>p.
     res_bind (big_div B v p) (\<lambda>q. Inr (big_toString B q))))"

definition on_user_balance :: "'b bigjs \<Rightarrow> jsnum \<Rightarrow> int res \<Rightarrow> trade_view \<Rightarrow> data_out" where
  "on_user_balance B d reply s = (case res_bind reply (user_balance_value B d) of
     Inl e \<Rightarrow> throws s e
   | Inr t \<Rightarrow> plain (s\<lparr> CurUserBalance := JStr t \<rparr>))"

definition on_buy_balance :: "'b bigjs \<Rightarrow> jsnum \<Rightarrow> int res \<Rightarrow> trade_view \<Rightarrow> data_out" where
  "on_buy_balance B d reply s = (case res_bind reply (units_number B d) of
     Inl e \<Rightarrow> throws s e
   | Inr x \<Rightarrow> plain (s\<lparr> CurUserBuyBalance := x \<rparr>))"

text \<open>The continuation of both reads asks for the balance of a user who is logged in when the
  reply arrives.\<close>

definition on_buy_metadata :: "'b page_env \<Rightarrow> world \<Rightarrow> trade_view \<Rightarrow>
    (string \<times> MetadataValue) list res \<Rightarrow> trade_view \<Rightarrow> data_out" where
  "on_buy_metadata P w s0 reply s = (case reply of
     Inl e \<Rightarrow> throws s e
   | Inr kvs \<Rightarrow> (let (d, s') = getBuyicrc1_metadata kvs s
                 in if userId (app w) \<noteq> [] then getUserBalance P w s0 d s' else plain s'))"

definition on_sell_metadata :: "'b page_env \<Rightarrow> world \<Rightarrow> bool \<Rightarrow>
    (string \<times> MetadataValue) list res \<Rightarrow> trade_view \<Rightarrow> data_out" where
  "on_sell_metadata P w balance reply s = (case reply of
     Inl e \<Rightarrow> throws s e
   | Inr kvs \<Rightarrow> (let (d, s') = geticrc1_metadata kvs s
                 in if balance \<and> userId (app w) \<noteq> [] then getBuyUserBalance P w d s' else plain s'))"

text \<open>The effect on the project and the user.\<close>

definition balances_effect :: "'b page_env \<Rightarrow> trade_view \<Rightarrow> data_out" where
  "balances_effect P s = (case cur_project s of
     None \<Rightarrow> plain s
   | Some p \<Rightarrow>
       (s\<lparr> CurBuyOrSell := (if of_dir (CurBuyOrSell s) = 1
              then (CurBuyOrSell s)\<lparr> of_to := Some (token_pid p) \<rparr>
              else (CurBuyOrSell s)\<lparr> of_from := Some (token_pid p) \<rparr>) \<rparr>,
        [Call (icrc1_metadata (pe_env P) (Some (token_pid p))),
         Call (icrc1_metadata (pe_env P) None)],
        [WaitBuyMeta (Some (token_pid p)), WaitSellMeta]))"

text \<open>The effect on the amount, the slippage and the direction: the debounced preview gets the
  values of this render.\<close>

definition preview_effect :: "trade_view \<Rightarrow> preview option" where
  "preview_effect s = map_option (\<lambda>p.
     \<lparr> pv_project = p, pv_amount = of_amount (CurBuyOrSell s), pv_dir = of_dir (CurBuyOrSell s),
       pv_slippage = InputSlippage s, pv_sell = SellMetadata s, pv_buy = BuyMetadata s \<rparr>)
     (cur_project s)"

section \<open>The pool, the holders and the author\<close>

record data_view =
  poolInfo :: "PoolInfo option"
  topTen :: "HolderInfo list option"
  topTenUserName :: "principal \<rightharpoonup> string"
  LeftUsername :: "UserProfile option"
  macketcap :: "jsnum option"
  searchFomosInit :: bool
  anchorEl :: "nat option"

definition data_init :: data_view where
  "data_init = \<lparr> poolInfo = None, topTen = None, topTenUserName = Map.empty, LeftUsername = None,
     macketcap = None, searchFomosInit = True, anchorEl = None \<rparr>"

text \<open>A reply with an empty quote reserve disables the sell tab, which belongs to the trade.\<close>

definition getPoolInfoFn :: "environment \<Rightarrow> trade_view \<Rightarrow> effect list \<times> data_task list" where
  "getPoolInfoFn env s = (case cur_pool s of
     None \<Rightarrow> ([], [WaitPool])
   | Some p \<Rightarrow> ([Call (getPoolInfo env p management)], [WaitPool]))"

definition on_pool :: "PoolInfo \<Rightarrow> data_view \<Rightarrow> trade_view \<Rightarrow> data_view \<times> trade_view" where
  "on_pool p d t =
     (d\<lparr> poolInfo := Some p \<rparr>,
      if js_eq (num_of_int (quote_reserve p)) (Fin 0) then t\<lparr> sellTabEnabled := False \<rparr> else t)"

definition getuserName :: "'b page_env \<Rightarrow> string \<Rightarrow> string \<Rightarrow> data_view \<Rightarrow> (data_view, data_task) outcome"
where
  "getuserName P uid type d = (case getBaseUserInfo (pe_valid P) (pe_env P) uid of
     Inl _ \<Rightarrow> emits d [MsgError ''getuserName error'']
   | Inr c \<Rightarrow> (d, [Call c], [WaitCreator type]))"

text \<open>The reply of \<open>getuserName\<close>: a failed request shows a message and yields \<open>undefined\<close>.\<close>

definition on_user_name ::
  "string \<Rightarrow> UserProfile option res \<Rightarrow> data_view \<Rightarrow> data_view \<times> UserProfile option \<times> effect list"
where
  "on_user_name type reply d = (case reply of
     Inl _ \<Rightarrow> (d, None, [MsgError ''getuserName error''])
   | Inr u \<Rightarrow> (if type \<noteq> ''top'' then d\<lparr> LeftUsername := u \<rparr> else d, u, []))"

text \<open>The names of the developers among the holders, asked one after the other; \<open>replies\<close> gives
  the reply for the holder at each position.\<close>

fun dev_names :: "(nat \<Rightarrow> UserProfile option res) \<Rightarrow> nat \<Rightarrow> HolderInfo list \<Rightarrow>
    (principal \<rightharpoonup> string) \<Rightarrow> (principal \<rightharpoonup> string) \<times> effect list" where
  "dev_names replies i [] m = (m, [])"
| "dev_names replies i (h # hs) m =
     (if holder_type h = ''dev''
      then (let (_, u, es) = on_user_name ''top'' (replies i) data_init;
                (m', es') = dev_names replies (Suc i) hs
                  (m(acc_owner (holder_account h) \<mapsto> (case u of None \<Rightarrow> [] | Some u \<Rightarrow> user_name u)))
            in (m', es @ es'))
      else dev_names replies (Suc i) hs m)"

definition getTop10Holders ::
  "HolderInfo list \<Rightarrow> (nat \<Rightarrow> UserProfile option res) \<Rightarrow> data_view \<Rightarrow> data_view \<times> effect list" where
  "getTop10Holders hs replies d =
     (let (m, es) = dev_names replies 0 hs Map.empty
      in (d\<lparr> topTenUserName := m, topTen := Some hs \<rparr>, es))"

text \<open>The market cap of the god of wells: \<open>Big(Number(cap)).div(10 ** 18).toNumber()\<close>.\<close>

definition god_cap :: "'b bigjs \<Rightarrow> int \<Rightarrow> jsnum res" where
  "god_cap B cap =
     res_bind (big_num B (num_of_int cap)) (\<lambda>v.
     res_bind (big_num B (pow10 18)) (\<lambda>p.
     res_bind (big_div B v p) (\<lambda>q. Inr (big_toNumber B q))))"

definition get_god_of_wellsReq ::
  "'b bigjs \<Rightarrow> FomoProject option res \<Rightarrow> data_view \<Rightarrow> (data_view, data_task) outcome" where
  "get_god_of_wellsReq B reply d = (case reply of
     Inl e \<Rightarrow> throws d e
   | Inr None \<Rightarrow> plain d
   | Inr (Some p) \<Rightarrow> (case god_cap B (market_cap p) of
         Inl e \<Rightarrow> throws d e | Inr x \<Rightarrow> plain (d\<lparr> macketcap := Some x \<rparr>)))"

section \<open>Small handlers\<close>

definition hanldString :: "string \<Rightarrow> string" where
  "hanldString text =
     (if text \<noteq> [] then if length text > 3 then take 3 text @ ''...'' else text else [])"

definition handleClick :: "nat \<Rightarrow> data_view \<Rightarrow> data_view" where
  "handleClick el d = d\<lparr> anchorEl := Some el \<rparr>"

definition handleClose :: "data_view \<Rightarrow> data_view" where
  "handleClose d = d\<lparr> anchorEl := None \<rparr>"

definition btnToWeb :: "string \<Rightarrow> effect list" where
  "btnToWeb url = [OpenUrl url]"

definition BtnGoback :: "nat \<Rightarrow> effect list" where
  "BtnGoback history_len = (if history_len > 1 then [NavigateBack] else [Navigate ''/''])"

definition BtnGoUserInfo :: "string \<Rightarrow> effect list" where
  "BtnGoUserInfo pid = [Navigate (''/profile/'' @ pid)]"

definition getIdDashboardURL :: "string \<Rightarrow> effect list" where
  "getIdDashboardURL i = [OpenUrl (''https://dashboard.internetcomputer.org/canister/'' @ i)]"

definition getPoolDashboardURL :: "string \<Rightarrow> effect list" where
  "getPoolDashboardURL i = [OpenUrl (''https://icpex.org/pool/detail/'' @ i)]"

definition CanisterCopyBtnFn :: "string \<Rightarrow> bool \<Rightarrow> effect list" where
  "CanisterCopyBtnFn text written =
     [CopyText text, if written then MsgSuccess ''Success!'' else MsgError ''clipboard write failed'']"

section \<open>Lemmas\<close>

lemma scan_other:
  "\<forall>(k, v) \<in> set kvs. k \<noteq> ''icrc1:decimals'' \<and> k \<noteq> ''icrc1:symbol'' \<Longrightarrow>
   scan_metadata dec nam kvs r = r"
  by (induction dec nam kvs r rule: scan_metadata.induct) auto

lemma dev_names_step:
  "fst (dev_names f i (h # hs) m) = fst (dev_names f (Suc i) hs
     (if holder_type h = ''dev''
      then m(acc_owner (holder_account h) \<mapsto>
             (case fst (snd (on_user_name ''top'' (f i) data_init)) of
                None \<Rightarrow> [] | Some u \<Rightarrow> user_name u))
      else m))"
  by (simp add: Let_def case_prod_beta)

lemma dev_names_dom:
  "dom (fst (dev_names f i hs m)) = dom m \<union>
     (\<lambda>h. acc_owner (holder_account h)) ` {h \<in> set hs. holder_type h = ''dev''}"
proof (induction hs arbitrary: i m)
  case (Cons h hs)
  show ?case unfolding dev_names_step Cons.IH by (simp add: insert_Collect) auto
qed simp

text \<open>The decimals of a metadata reply: the last entry counts, and \<open>1\<close> stands for none.\<close>

lemma scan_decimals:
  "fst (scan_metadata dec nam kvs (d, s)) =
    (case map_of (rev kvs) ''icrc1:decimals'' of None \<Rightarrow> d | Some v \<Rightarrow> meta_nat v)"
  by (induction kvs arbitrary: d s) (auto simp: map_add_def split: option.splits)

lemma user_balance_exact:
  assumes "big_laws B val" "d \<le> 20"
  shows "\<exists>q. val q = of_int n / 10 ^ d \<and>
    user_balance_value B (Fin (of_nat d)) n = Inr (big_toString B q)"
proof -
  obtain v where v: "big_str B (int_str n) = Inr v" "val v = of_int n"
    using big_lawsD(2) [OF assms(1)] by blast
  have "d \<le> 1000" using assms(2) by simp
  then obtain c where c: "pow_ten B (Fin (of_nat d)) = Inr c" "val c = 10 ^ d"
    using pow_ten_exact [OF assms(1)] by blast
  have "val c \<noteq> 0" using c(2) by simp
  then obtain q where q: "big_div B v c = Inr q" using big_div_error [OF assms(1)] by blast
  have "val q = of_int n / 10 ^ d"
    using big_lawsD(7) [OF assms(1) q] round_half_up_exact [OF assms(2)] unfolding v(2) c(2) by simp
  then show ?thesis by (auto simp: user_balance_value_def v(1) c(1) q simp del: pow_ten.simps)
qed

text \<open>C24. The balance kept is the ledger's. For a user logged in, the metadata of the project's
  token leads to one request, for that user's balance at that token, and its reply \<open>n\<close> is kept
  as \<open>n / 10 ^ d\<close> exactly, with \<open>d\<close> the decimals of the last such entry of the metadata. The check
  of the button and the maximum work on this value; the text the page draws of it is rounded.\<close>

theorem token_balance_exact:
  assumes "big_laws (pe_big P) val" "d \<le> 20" "cur_token s0 = Some t"
    and "map_of (rev kvs) ''icrc1:decimals'' = Some (MNat (int d))"
    and "userId (app w) \<noteq> []" "stored_user P w = Inr u"
  shows "let r = on_buy_metadata P w s0 (Inr kvs) s in
    calls (fx_of r) = [icrc1balance (pe_env P) (no_subaccount u) (Some t)] \<and>
    tasks_of r = [WaitUserBalance (Fin (of_nat d))] \<and>
    (\<exists>q. val q = of_int n / 10 ^ d \<and>
      CurUserBalance (st_of (on_user_balance (pe_big P) (Fin (of_nat d)) (Inr n) (st_of r))) =
        JStr (big_toString (pe_big P) q))"
proof -
  have "\<bar>int d\<bar> \<le> 2 ^ 53" using assms(2) by simp
  then have d: "meta_nat (MNat (int d)) = Fin (of_nat d)" using num_of_int_exact [of "int d"] by simp
  obtain q where q: "val q = of_int n / 10 ^ d"
    "user_balance_value (pe_big P) (Fin (of_nat d)) n = Inr (big_toString (pe_big P) q)"
    using user_balance_exact [OF assms(1,2)] by blast
  obtain d' s' where m: "getBuyicrc1_metadata kvs s = (d', s')" by fastforce
  then have "d' = Fin (of_nat d)"
    using scan_decimals [of _ _ kvs "Fin 1" s] assms(4) d
    by (metis fst_conv getBuyicrc1_metadata_def option.simps(5))
  then show ?thesis using assms(3,5,6) q m
    by (auto simp: on_buy_metadata_def getUserBalance_def on_user_balance_def Let_def)
qed

theorem token_balance_exact_witness:
  "\<exists>q. q = of_int 250000000 / 10 ^ 8 \<and> CurUserBalance (st_of (on_user_balance rat_big (Fin (of_nat 8))
     (Inr 250000000) (st_of (on_buy_metadata sample_page (store_setUserId ''eve'' new_world)
       ((trade_init ''i'')\<lparr> curFomoInfo := [sample_project] \<rparr>)
       (Inr [(''icrc1:decimals'', MNat (int 8))]) (trade_init ''i''))))) = JStr (big_toString rat_big q)"
proof -
  have b: "pe_big sample_page = rat_big" by (simp add: sample_page_def)
  have c: "cur_token ((trade_init ''i'')\<lparr> curFomoInfo := [sample_project] \<rparr>) = Some ''t''"
    by (simp add: cur_token_def cur_project_def sample_project_def)
  have u: "stored_user sample_page (store_setUserId ''eve'' new_world) = Inr ''eve''"
    by (simp add: sample_page_def stored_user_def store_getUserId_def ls_get_def from_text_def)
  have n: "userId (app (store_setUserId ''eve'' new_world)) \<noteq> []" by simp
  have m: "map_of (rev [(''icrc1:decimals'', MNat (int 8))]) ''icrc1:decimals'' = Some (MNat (int 8))"
    by simp
  have "big_laws (pe_big sample_page) (\<lambda>x. x)" "(8::nat) \<le> 20" unfolding b by (rule rat_big_laws) simp
  from token_balance_exact [OF this c m n u, of "trade_init ''i''" 250000000] show ?thesis
    unfolding Let_def b by blast
qed

end
