(* ===== verification/Merge.thy ===== *)
theory Merge
  imports Prelude
begin

text \<open>
  Appending a page of items to a list shown so far without repeating items: the interface the
  paged lists of the pages share, with the facts they rest on.
\<close>

text \<open>The page adds the items whose key is not in the list yet, in order.\<close>

locale keyed_merge =
  fixes key :: "'a \<Rightarrow> 'k"
    and merge :: "'a list \<Rightarrow> 'a list \<Rightarrow> 'a list"
  assumes merge_eq: "merge xs ys = xs @ filter (\<lambda>y. key y \<notin> key ` set xs) ys"
begin

lemma merge_prefix: "take (length xs) (merge xs ys) = xs"
  by (simp add: merge_eq)

lemma merge_keys: "key ` set (merge xs ys) = key ` set xs \<union> key ` set ys"
  by (auto simp: merge_eq)

lemma merge_distinct:
  assumes "distinct (map key xs)" "distinct (map key ys)"
  shows "distinct (map key (merge xs ys))"
  using assms by (auto simp: merge_eq distinct_map_filter rev_image_eqI)

lemma merge_idem: "key ` set ys \<subseteq> key ` set xs \<Longrightarrow> merge xs ys = xs"
  by (auto simp: merge_eq filter_empty_conv)

lemma merge_twice: "merge (merge xs ys) ys = merge xs ys"
  by (rule merge_idem) (auto simp: merge_keys)

lemma merge_pages_distinct:
  "distinct (map key xs) \<Longrightarrow> \<forall>p \<in> set pages. distinct (map key p) \<Longrightarrow>
   distinct (map key (foldl merge xs pages))"
  by (induction pages arbitrary: xs) (auto simp: merge_distinct)

lemma merge_pages_keys:
  "key ` set (foldl merge xs pages) = key ` set xs \<union> (\<Union>p \<in> set pages. key ` set p)"
  by (induction pages arbitrary: xs) (auto simp: merge_keys)

lemma merge_pages_prefix: "\<exists>zs. foldl merge xs pages = xs @ zs"
proof (induction pages arbitrary: xs)
  case (Cons p ps)
  from Cons.IH [of "merge xs p"] show ?case by (auto simp: merge_eq)
qed simp

lemma merge_pages_subset: "set (foldl merge xs pages) \<subseteq> set xs \<union> (\<Union>p \<in> set pages. set p)"
proof (induction pages arbitrary: xs)
  case (Cons p ps)
  have "set (merge xs p) \<subseteq> set xs \<union> set p" by (auto simp: merge_eq)
  then show ?case using Cons.IH [of "merge xs p"] by auto
qed simp

text \<open>Where the key tells the items apart, all of them are there.\<close>

lemma merge_pages_all:
  assumes "inj_on key (set xs \<union> (\<Union>p \<in> set pages. set p))"
  shows "set (foldl merge xs pages) = set xs \<union> (\<Union>p \<in> set pages. set p)"
proof -
  have "key ` set (foldl merge xs pages) = key ` (set xs \<union> (\<Union>p \<in> set pages. set p))"
    by (simp add: merge_pages_keys image_Un image_UN)
  then show ?thesis using inj_on_image_eq_iff [OF assms merge_pages_subset order_refl] by blast
qed

end

end
