(* ===== verification/CommentsPage.thy ===== *)
theory CommentsPage
  imports Page Merge
begin

text \<open>
  The comments of the project page (\<open>pages/ICPInfo/ICPInfo.tsx\<close>): the paged list, the names of
  the authors, and posting a comment with or without an image. The lemmas show that the list
  never repeats a comment and who posts with which actor.
\<close>

section \<open>State\<close>

record comments_view =
  cm_fomo :: "FomoProject list"
  actorCache :: actor_cache
  LeftFomoContentList :: "Comments list"
  currentPage :: int
  loading :: bool
  userInfoList :: "(principal \<times> UserProfile option) list"
  isnull :: bool
  addComment :: bool
  addCommentParams :: CommentsCreate
  EditImg :: "upload_file option"
  fileName :: string
  ispostreply :: bool
  initialized :: bool

definition comments_init :: comments_view where
  "comments_init = \<lparr> cm_fomo = [], actorCache = Map.empty, LeftFomoContentList = [],
     currentPage = 1, loading = False, userInfoList = [], isnull = True, addComment = False,
     addCommentParams = \<lparr> cc_content = [], cc_image_url = Some [], cc_extended = [] \<rparr>,
     EditImg = None, fileName = ''No file chosen'', ispostreply = False, initialized = False \<rparr>"

datatype comments_task =
    WaitComments bool
  | WaitUpload comments_view
  | WaitAdd comments_view bool
  | WaitPoints
  | WaitPhoto string
  | TimerCloseAdd
  | TimerCloseAddFailed

type_synonym comments_out = "(comments_view, comments_task) outcome"

section \<open>The list\<close>

text \<open>The update of the list: the new comments whose index is not there yet, in order.\<close>

definition merge_comments :: "Comments list \<Rightarrow> Comments list \<Rightarrow> Comments list" where
  "merge_comments prev vec =
     prev @ filter (\<lambda>c. int_str (comment_idx c) \<notin> set (map (\<lambda>c. int_str (comment_idx c)) prev)) vec"

text \<open>\<open>advance\<close> marks the calls followed by the step to the next page.\<close>

definition advance_page :: "bool \<Rightarrow> comments_view \<Rightarrow> comments_view" where
  "advance_page adv s = (if adv then s\<lparr> currentPage := currentPage s + 1 \<rparr> else s)"

definition getCommentsByIndex :: "bool \<Rightarrow> comments_view \<Rightarrow> int \<Rightarrow> comments_view \<Rightarrow> comments_out" where
  "getCommentsByIndex adv s0 start s = (case nth_opt (cm_fomo s0) 0 of
     None \<Rightarrow> plain (advance_page adv (s\<lparr> loading := False \<rparr>))
   | Some p \<Rightarrow>
       (let (c, ca) = get_comments_by_index (fomo_pid p)
                        \<lparr> page_limit = 15, page_start = start \<rparr> (actorCache s)
        in (s\<lparr> loading := True, actorCache := ca \<rparr>, [Call c], [WaitComments adv])))"

definition on_comments :: "bool \<Rightarrow> CommentsVo res \<Rightarrow> comments_view \<Rightarrow> comments_out" where
  "on_comments adv reply s = (case reply of
     Inl e \<Rightarrow> throws s e
   | Inr res \<Rightarrow>
       if cv_fomo_vec res = [] then plain (advance_page adv (s\<lparr> loading := False, isnull := False \<rparr>))
       else plain (advance_page adv
              (s\<lparr> LeftFomoContentList := merge_comments (LeftFomoContentList s) (cv_fomo_vec res),
                 loading := False \<rparr>)))"

text \<open>\<open>loadData\<close> closes over the render at which \<open>currentPage\<close> last changed.\<close>

definition loadData :: "comments_view \<Rightarrow> comments_view \<Rightarrow> comments_out" where
  "loadData s0 s =
     (if currentPage s0 = 1 \<and> LeftFomoContentList s0 \<noteq> [] then plain s
      else if isnull s0 then getCommentsByIndex True s0 (15 * currentPage s0 - 15) s
      else plain s)"

text \<open>The scroll handler, after its debounce: \<open>bottom\<close> tells whether the window is near the end of
  the list.\<close>

definition handleScroll :: "bool \<Rightarrow> comments_view \<Rightarrow> comments_view \<Rightarrow> comments_view \<Rightarrow> comments_out"
where
  "handleScroll bottom sd s0 s =
     (if \<not> loading s0 \<and> LeftFomoContentList s0 \<noteq> [] \<and> bottom then loadData sd s else plain s)"

text \<open>The names: one request per comment in order; the last one of an author stays. A failed
  request shows a message and stores \<open>undefined\<close>; it and the empty string of an author without
  a profile, of which nothing is shown, are both \<open>None\<close>.\<close>

fun put_user :: "principal \<Rightarrow> 'v \<Rightarrow> (principal \<times> 'v) list \<Rightarrow> (principal \<times> 'v) list" where
  "put_user k v [] = [(k, v)]"
| "put_user k v ((k', v') # r) = (if k = k' then (k, v) # r else (k', v') # put_user k v r)"

fun user_names :: "(principal \<times> UserProfile option res) list \<Rightarrow>
    (principal \<times> UserProfile option) list \<Rightarrow> (principal \<times> UserProfile option) list \<times> effect list"
where
  "user_names [] acc = (acc, [])"
| "user_names ((p, r) # rs) acc = (case r of
     Inr u \<Rightarrow> user_names rs (put_user p u acc)
   | Inl _ \<Rightarrow> (let (acc', es) = user_names rs (put_user p None acc)
              in (acc', MsgError ''getFomoUserInfo error'' # es)))"

definition setUserInfo_run ::
  "comments_view \<Rightarrow> (nat \<Rightarrow> UserProfile option res) \<Rightarrow> comments_view \<Rightarrow> comments_out" where
  "setUserInfo_run s0 replies s =
     (let ps = map comment_user_pid (LeftFomoContentList s0);
          (us, es) = user_names (zip ps (map replies [0..<length ps])) []
      in emits (s\<lparr> userInfoList := us \<rparr>) es)"

text \<open>A time in nanoseconds, printed by the date library (\<open>fmt\<close>) from its milliseconds.\<close>

definition handlTimeFn :: "(int \<Rightarrow> string \<Rightarrow> string) \<Rightarrow> int option \<Rightarrow> bool \<Rightarrow> string" where
  "handlTimeFn fmt time typed = (case time of
     None \<Rightarrow> []
   | Some t \<Rightarrow>
       if t = 0 then []
       else fmt (if 0 \<le> t then t div 1000000 else - ((- t) div 1000000))
              (if typed then ''YYYY/MM/DD HH:mm:ss'' else ''MM/DD/YY hh:mm:ss a''))"

section \<open>Posting\<close>

text \<open>\<open>addCommentParams[key] == ""\<close>: an array compares by its text, so an empty array and the
  array of the empty string both equal the empty string.\<close>

definition CheckInputValue :: "CommentsCreate \<Rightarrow> bool \<times> effect list" where
  "CheckInputValue p =
     (if cc_content p = [] then (False, [MsgError ''Please enter your content''])
      else if cc_image_url p = None \<or> cc_image_url p = Some []
      then (False, [MsgError ''Please enter your image_url''])
      else (True, []))"

text \<open>The file input: the file is taken at once, its name is shown when the preview has been
  drawn.\<close>

definition BtnPhoto :: "upload_file list option \<Rightarrow> comments_view \<Rightarrow> comments_out" where
  "BtnPhoto files s = (case check_photo files of
     Inl es \<Rightarrow> emits s es
   | Inr f \<Rightarrow> (s\<lparr> EditImg := Some f \<rparr>, [], [WaitPhoto (f_name f)]))"

definition on_photo :: "string \<Rightarrow> comments_view \<Rightarrow> comments_view" where
  "on_photo n s = s\<lparr> fileName := n \<rparr>"

definition ReqAddComment :: "string \<Rightarrow> bool \<Rightarrow> comments_view \<Rightarrow> comments_view \<Rightarrow> comments_out" where
  "ReqAddComment uid img s0 s =
     (if uid \<noteq> [] then
        (let s1 = s\<lparr> ispostreply := True \<rparr> in
         case nth_opt (cm_fomo s0) 0 of
           None \<Rightarrow> (s1, [], [WaitAdd s0 img])
         | Some p \<Rightarrow>
             (let (c, ca) = add_comment (fomo_pid p)
                    (if img then addCommentParams s0
                     else (addCommentParams s0)\<lparr> cc_image_url := None \<rparr>) (actorCache s1)
              in (s1\<lparr> actorCache := ca \<rparr>, [Call c], [WaitAdd s0 img])))
      else emits s [WellModal True])"

definition BtnPostreply :: "string \<Rightarrow> comments_view \<Rightarrow> comments_view \<Rightarrow> comments_out" where
  "BtnPostreply uid s0 s =
     (if cc_content (addCommentParams s0) = [] then plain s
      else case EditImg s0 of
        Some f \<Rightarrow> (s, [Upload (f_name f)], [WaitUpload s0])
      | None \<Rightarrow> ReqAddComment uid False s0
                  (s\<lparr> addCommentParams := (addCommentParams s0)\<lparr> cc_image_url := None \<rparr> \<rparr>))"

definition on_upload :: "comments_view \<Rightarrow> string res \<Rightarrow> comments_view \<Rightarrow> comments_out" where
  "on_upload s0 reply s = (case reply of
     Inr ref \<Rightarrow> plain (s\<lparr> addCommentParams := (addCommentParams s0)\<lparr> cc_image_url := Some ref \<rparr>,
                         initialized := True \<rparr>)
   | Inl _ \<Rightarrow> emits (s\<lparr> EditImg := None, fileName := [], ispostreply := False \<rparr>)
                [MsgError ''Upload failure''])"

text \<open>The effect on \<open>image_url[0]\<close> and \<open>initialized\<close>.\<close>

definition image_effect :: "string \<Rightarrow> comments_view \<Rightarrow> comments_out" where
  "image_effect uid s =
     (if initialized s \<and> cc_image_url (addCommentParams s) \<notin> {None, Some []} then
        (let (ok, es) = CheckInputValue (addCommentParams s)
         in if ok then then_do (emits s es) (ReqAddComment uid True s)
            else emits (s\<lparr> ispostreply := False \<rparr>) es)
      else plain s)"

definition add_failed :: "js_exn \<Rightarrow> comments_view \<Rightarrow> comments_out" where
  "add_failed e s =
     (s, if exn_message e = [] then [] else [MsgError (reject_or ''error'' e)], [TimerCloseAddFailed])"

text \<open>The reply of \<open>add_comment\<close>. On success the list is read again from its start and the
  points are asked for; \<open>uid\<close> is the store's user at that moment.\<close>

definition on_add :: "(string \<Rightarrow> bool) \<Rightarrow> environment \<Rightarrow> string \<Rightarrow> comments_view \<Rightarrow>
    (unit, string) candid_result res \<Rightarrow> comments_view \<Rightarrow> comments_out" where
  "on_add valid env uid s0 reply s = (case reply of
     Inl e \<Rightarrow> add_failed e s
   | Inr (COk _) \<Rightarrow>
       then_do (then_do (emits (s\<lparr> EditImg := None, fileName := [] \<rparr>) [MsgSuccess ''Success!''])
                        (getCommentsByIndex False s0 0))
         (\<lambda>s2. case getBaseUserInfo valid env uid of
            Inl e \<Rightarrow> add_failed e s2
          | Inr c \<Rightarrow> (s2, [Call c], [WaitPoints]))
   | Inr (CErr _) \<Rightarrow>
       (s\<lparr> ispostreply := False \<rparr>, [MsgError ''error''], [TimerCloseAdd]))"

definition points_effects :: "UserProfile option \<Rightarrow> effect list" where
  "points_effects u = (case u of
     Some u \<Rightarrow> [StoreWrite (store_setusertoken (JNum (opt_Number (user_points u)))),
                StoreWrite (store_setlockToken (JNum (opt_Number (user_pre_reward_points u))))]
   | None \<Rightarrow> [StoreWrite (store_setusertoken (JStr [])), StoreWrite (store_setlockToken JNull)])"

definition on_points :: "UserProfile option res \<Rightarrow> comments_view \<Rightarrow> comments_out" where
  "on_points reply s = (case reply of
     Inl e \<Rightarrow> add_failed e s
   | Inr u \<Rightarrow> (s\<lparr> ispostreply := False \<rparr>, points_effects u, [TimerCloseAdd]))"

fun comments_timer :: "comments_task \<Rightarrow> comments_view \<Rightarrow> comments_view option" where
  "comments_timer TimerCloseAdd s = Some (s\<lparr> addComment := False \<rparr>)"
| "comments_timer TimerCloseAddFailed s = Some (s\<lparr> addComment := False, ispostreply := False \<rparr>)"
| "comments_timer _ s = None"

definition handleaddComment :: "comments_view \<Rightarrow> comments_view" where
  "handleaddComment s = s\<lparr> addComment := False \<rparr>"

definition BtnCloseAddModal :: "comments_view \<Rightarrow> comments_view" where
  "BtnCloseAddModal s = s\<lparr> addComment := False \<rparr>"

definition BtnRightReply :: "comments_view \<Rightarrow> comments_view" where
  "BtnRightReply s = s\<lparr> addComment := True \<rparr>"

section \<open>Lemmas\<close>

interpretation cms: keyed_merge comment_idx merge_comments
  by unfold_locales (auto simp: merge_comments_def int_str_inj image_iff)

text \<open>A comment page of the machine: the list after any sequence of replies.\<close>

definition list_after :: "CommentsVo res list \<Rightarrow> comments_view \<Rightarrow> comments_view" where
  "list_after replies s = foldl (\<lambda>s r. st_of (on_comments True r s)) s replies"

fun page_of :: "CommentsVo res \<Rightarrow> Comments list" where
  "page_of (Inl e) = []"
| "page_of (Inr v) = cv_fomo_vec v"

lemma merge_comments_Nil [simp]: "merge_comments xs [] = xs"
  by (simp add: merge_comments_def)

lemma on_comments_list:
  "LeftFomoContentList (st_of (on_comments adv r s)) =
   merge_comments (LeftFomoContentList s) (page_of r)"
  by (cases r) (auto simp: on_comments_def advance_page_def)

lemma list_after_list:
  "LeftFomoContentList (list_after rs s) =
   foldl merge_comments (LeftFomoContentList s) (map page_of rs)"
  unfolding list_after_def
  by (induction rs arbitrary: s) (simp_all add: on_comments_list)

lemma add_comment_wallet:
  assumes "uid \<noteq> []" "nth_opt (cm_fomo s0) 0 = Some p"
  shows "actorCache (st_of (ReqAddComment uid img s0 s)) (fomo_pid p) = Some Wallet"
  using assms by (simp add: ReqAddComment_def add_comment_def)

section \<open>Properties\<close>

text \<open>C15. No comment is shown twice, and none of a project is lost. Whatever pages the project
  canister answers, with errors in between and in whatever order and overlap, as long as a page
  itself lists an index once, the list shown holds each index once, starts with what was shown
  before, and holds every index answered. Where an index names one comment, as among the
  comments of one project, the list shows exactly the comments shown before and those answered.
  Comments are told apart by their index alone: a comment of another project with an index
  already listed is left out (\<open>IcpInfo.old_comments_stay\<close>).\<close>

theorem comments_shown_once:
  assumes "distinct (map comment_idx (LeftFomoContentList s))"
    and "\<forall>r \<in> set rs. distinct (map comment_idx (page_of r))"
  shows "distinct (map comment_idx (LeftFomoContentList (list_after rs s))) \<and>
    comment_idx ` set (LeftFomoContentList (list_after rs s)) =
      comment_idx ` set (LeftFomoContentList s) \<union> (\<Union>r \<in> set rs. comment_idx ` set (page_of r)) \<and>
    (\<exists>cs. LeftFomoContentList (list_after rs s) = LeftFomoContentList s @ cs) \<and>
    (inj_on comment_idx (set (LeftFomoContentList s) \<union> (\<Union>r \<in> set rs. set (page_of r))) \<longrightarrow>
      set (LeftFomoContentList (list_after rs s)) =
        set (LeftFomoContentList s) \<union> (\<Union>r \<in> set rs. set (page_of r)))"
  using assms cms.merge_pages_distinct [of "LeftFomoContentList s" "map page_of rs"]
    cms.merge_pages_keys [of "LeftFomoContentList s" "map page_of rs"]
    cms.merge_pages_prefix [of "LeftFomoContentList s" "map page_of rs"]
    cms.merge_pages_all [of "LeftFomoContentList s" "map page_of rs"]
  by (simp add: list_after_list)

definition sample_comment :: "int \<Rightarrow> Comments" where
  "sample_comment i = \<lparr> user_star = [], comment_user_pid = ''u'', content = ''hi'', image_url = None,
     comment_fomo_idx = ''0'', comment_create_time = 0, comment_idx = i, extended = [] \<rparr>"

definition sample_replies :: "CommentsVo res list" where
  "sample_replies =
     [Inr \<lparr> cv_start_idx = 0, cv_end_idx = 1, cv_fomo_vec = [sample_comment 1, sample_comment 2] \<rparr>,
      Inl TypeError,
      Inr \<lparr> cv_start_idx = 0, cv_end_idx = 1, cv_fomo_vec = [sample_comment 2, sample_comment 3] \<rparr>]"

theorem comments_shown_once_witness:
  "distinct (map comment_idx (LeftFomoContentList (list_after sample_replies comments_init))) \<and>
   set (LeftFomoContentList (list_after sample_replies comments_init)) =
     {sample_comment 1, sample_comment 2, sample_comment 3}"
proof -
  have "distinct (map comment_idx (LeftFomoContentList comments_init))"
    "\<forall>r \<in> set sample_replies. distinct (map comment_idx (page_of r))"
    "set (LeftFomoContentList comments_init) \<union> (\<Union>r \<in> set sample_replies. set (page_of r)) =
      {sample_comment 1, sample_comment 2, sample_comment 3}"
    by (auto simp: sample_replies_def comments_init_def sample_comment_def)
  moreover have "inj_on comment_idx {sample_comment 1, sample_comment 2, sample_comment 3}"
    by (auto simp: inj_on_def sample_comment_def)
  ultimately show ?thesis using comments_shown_once [of comments_init sample_replies] by simp
qed

end
