(* ===== verification/Cycles.thy ===== *)
theory Cycles
  imports Page
begin

text \<open>
  The cycles of a project's canisters (\<open>pages/ICPInfo/ICPInfo.tsx\<close>): the three balances and the
  low-cycles warnings, the dialog that adds cycles from the user's cycles balance, its amount
  field in units of \<open>T\<close> (10 to the 12), and the scrolling to the cycles panel. The lemmas
  show which warning each combination of balances raises and what the amount field and the
  maximum button put into the request.
\<close>

section \<open>State\<close>

record low_flags =
  lf_fomo :: bool
  lf_token :: bool
  lf_pool :: bool
  isWindow :: bool

definition no_flags :: low_flags where
  "no_flags = \<lparr> lf_fomo = False, lf_token = False, lf_pool = False, isWindow = True \<rparr>"

record canister_infos =
  ci_fomo :: jsval
  ci_pool :: jsval
  ci_token :: jsval

record cycles_view =
  canisterInfos :: canister_infos
  addCycles :: bool
  amount :: string
  openbuyAmountLoding :: bool
  isshow :: bool
  btnfomoText :: string
  curBtnId :: "principal option"
  cyclesfee :: "string option"
  displayValue :: string
  openRightcyclesBox :: bool
  curCyclesBalance :: "int option"
  showaddcylesimg :: low_flags
  isShowArrPre :: bool

definition cycles_init :: cycles_view where
  "cycles_init = \<lparr> canisterInfos = \<lparr> ci_fomo = JNum (Fin 0), ci_pool = JNum (Fin 0),
       ci_token = JNum (Fin 0) \<rparr>, addCycles = False, amount = [], openbuyAmountLoding = False,
     isshow = True, btnfomoText = ''Enter cycles amount'', curBtnId = None, cyclesfee = None,
     displayValue = [], openRightcyclesBox = False, curCyclesBalance = None,
     showaddcylesimg = no_flags, isShowArrPre = False \<rparr>"

datatype cycles_task =
    WaitFee
  | WaitCyclesBalance
  | WaitWithdraw
  | WaitCanisterCycles
  | ObserveTarget
  | AnimationFrame "jsnum option"

type_synonym cycles_out = "(cycles_view, cycles_task) outcome"

section \<open>Units of T\<close>

definition one_T :: jsnum where
  "one_T = Fin 1000000000000"

fun unit_num :: "jsval \<Rightarrow> jsnum" where
  "unit_num (JStr s) = js_parseFloat s"
| "unit_num v = val_Number v"

definition formatUnitToT :: "'b bigjs \<Rightarrow> jsval \<Rightarrow> nat \<Rightarrow> bool \<Rightarrow> string res" where
  "formatUnitToT B num decimalPlaces isneedT =
     (if \<not> val_truthy num then Inr ''0.0''
      else if unit_num num = NaN \<or> js_eq (unit_num num) (Fin 0) then Inr ''0.0''
      else res_bind (big_num B (unit_num num)) (\<lambda>v.
           res_bind (big_num B one_T) (\<lambda>t.
           res_bind (big_div B v t) (\<lambda>q.
             Inr (strip_zeros (js_toFixed decimalPlaces (big_toNumber B q)) @
                  (if isneedT then ''T'' else []))))))"

text \<open>Its argument is the text of the amount field.\<close>

definition parseTUnitToCycles :: "string \<Rightarrow> jsnum res" where
  "parseTUnitToCycles value =
     (if js_parseFloat value = NaN then Inl (JsError ''Invalid T unit value'')
      else Inr (js_mul (js_parseFloat value) one_T))"

section \<open>Balances\<close>

definition getCuruserBalance :: "'b page_env \<Rightarrow> string \<Rightarrow> cycles_view \<Rightarrow> cycles_out" where
  "getCuruserBalance P uid s = (case from_text (pe_valid P) uid of
     Inl e \<Rightarrow> throws s e
   | Inr p \<Rightarrow> (s, [Call (cycles_icrc1_balance_of (pe_env P)
                     \<lparr> acc_owner = p, acc_subaccount = None \<rparr>)], [WaitCyclesBalance]))"

definition on_cycles_balance :: "int res \<Rightarrow> cycles_view \<Rightarrow> cycles_out" where
  "on_cycles_balance reply s = (case reply of
     Inl e \<Rightarrow> throws s e | Inr n \<Rightarrow> plain (s\<lparr> curCyclesBalance := Some n \<rparr>))"

definition Cyclesfee :: "environment \<Rightarrow> cycles_view \<Rightarrow> cycles_out" where
  "Cyclesfee env s = (s, [Call (cycles_icrc1_fee env)], [WaitFee])"

definition on_cycles_fee :: "int res \<Rightarrow> cycles_view \<Rightarrow> cycles_out" where
  "on_cycles_fee reply s = (case reply of
     Inl e \<Rightarrow> throws s e | Inr n \<Rightarrow> plain (s\<lparr> cyclesfee := Some (int_str n) \<rparr>))"

text \<open>The three queries of \<open>reqIcrc1_balance_of\<close>, all sent before any is awaited. A project that
  is not there throws.\<close>

definition reqIcrc1_balance_of :: "FomoProject option \<Rightarrow> cycles_view \<Rightarrow> cycles_out" where
  "reqIcrc1_balance_of p s = (case p of
     None \<Rightarrow> throws s TypeError
   | Some p \<Rightarrow> (s, [Call (project_cycles (fomo_pid p)), Call (icrc_plus_cycles (token_pid p)),
                   Call (icpex_pool_cycles (pool_pid p))], [WaitCanisterCycles]))"

text \<open>\<open>Promise.allSettled\<close>: a rejected query counts as \<open>0\<close>.\<close>

definition settled :: "int res \<Rightarrow> int" where
  "settled r = (case r of Inl _ \<Rightarrow> 0 | Inr n \<Rightarrow> n)"

definition low_cycles :: "'b bigjs \<Rightarrow> int \<Rightarrow> bool res" where
  "low_cycles B n =
     res_bind (big_num B (num_of_int n)) (\<lambda>v.
     res_bind (big_num B (Fin 100000000000)) (\<lambda>m. Inr (big_lt B v m)))"

text \<open>The first of the three that is low raises its flag in the flags of the render the call
  belongs to (\<open>f\<close>, a variable of that render), and these are shown; when none is low they
  are reset.\<close>

definition raise_flags :: "'b bigjs \<Rightarrow> int \<Rightarrow> int \<Rightarrow> int \<Rightarrow> low_flags \<Rightarrow> low_flags res" where
  "raise_flags B fomo token pool f =
     res_bind (low_cycles B fomo) (\<lambda>a.
       if a then Inr (f\<lparr> lf_fomo := True \<rparr>)
       else res_bind (low_cycles B token) (\<lambda>b.
         if b then Inr (f\<lparr> lf_token := True \<rparr>)
         else res_bind (low_cycles B pool) (\<lambda>c.
           if c then Inr (f\<lparr> lf_pool := True \<rparr>) else Inr no_flags)))"

definition on_canister_cycles :: "'b bigjs \<Rightarrow> bool \<Rightarrow> cycles_view \<Rightarrow> int res \<Rightarrow> int res \<Rightarrow> int res \<Rightarrow>
    low_flags \<Rightarrow> cycles_view \<Rightarrow> low_flags \<times> cycles_out" where
  "on_canister_cycles B found s0 r1 r2 r3 f s =
     (let fomo = settled r1; token = settled r2; pool = settled r3;
          shown = (\<lambda>n. JStr (formatAmountByUnit (JNum (num_of_int n)) 4));
          s1 = s\<lparr> canisterInfos := (canisterInfos s0)
                   \<lparr> ci_fomo := shown fomo, ci_token := shown token, ci_pool := shown pool \<rparr> \<rparr>
      in case raise_flags B fomo token pool f of
           Inl e \<Rightarrow> (f, throws s1 e)
         | Inr f' \<Rightarrow> (f', s1\<lparr> showaddcylesimg := f' \<rparr>, [], (if found then [ObserveTarget] else [])))"

text \<open>The intersection observer of a render: each entry in turn, with the flags of the render.\<close>

record intersection =
  isIntersecting :: bool
  rect_top :: rat
  rect_bottom :: rat

fun observe_entries :: "rat \<Rightarrow> intersection list \<Rightarrow> low_flags \<times> cycles_view \<Rightarrow> low_flags \<times> cycles_view"
where
  "observe_entries h [] r = r"
| "observe_entries h (e # es) (f, s) = observe_entries h es
     (if isIntersecting e
      then (f\<lparr> isWindow := True \<rparr>, s\<lparr> showaddcylesimg := (showaddcylesimg s)\<lparr> isWindow := True \<rparr> \<rparr>)
      else (let b = \<not> (lf_fomo f \<or> lf_pool f \<or> lf_token f);
                s1 = s\<lparr> showaddcylesimg := (showaddcylesimg s)\<lparr> isWindow := b \<rparr> \<rparr>
            in (f\<lparr> isWindow := b \<rparr>,
                if rect_bottom e < 0 then s1\<lparr> isShowArrPre := True \<rparr>
                else if rect_top e > h then s1\<lparr> isShowArrPre := False \<rparr> else s1)))"

section \<open>Adding cycles\<close>

definition openAddCyclesModal :: "'b page_env \<Rightarrow> string \<Rightarrow> principal \<Rightarrow> cycles_view \<Rightarrow> cycles_out" where
  "openAddCyclesModal P uid i s =
     (if uid \<noteq> []
      then then_do (getCuruserBalance P uid s)
             (\<lambda>s. plain (s\<lparr> curBtnId := Some i, addCycles := True \<rparr>))
      else emits s [WellModal True])"

definition handleaddaddCycles :: "cycles_view \<Rightarrow> cycles_view" where
  "handleaddaddCycles s = s\<lparr> addCycles := False, amount := [] \<rparr>"

text \<open>The request: \<open>BigInt(new Big(amount).round(0, 0).toString())\<close>, computed before the \<open>try\<close>.
  Its amount is a \<open>nat\<close> of the interface: for a missing canister or a negative amount the agent
  refuses the arguments, so no call leaves and the wait ends in the \<open>catch\<close> (\<open>on_withdraw\<close> of a
  rejection).\<close>

definition withdraw_amount :: "'b bigjs \<Rightarrow> string \<Rightarrow> int res" where
  "withdraw_amount B a =
     res_bind (big_str B a) (\<lambda>v. js_BigInt (big_toString B (big_round_down B v 0)))"

definition btnBuyamount :: "'b page_env \<Rightarrow> cycles_view \<Rightarrow> cycles_view \<Rightarrow> cycles_out" where
  "btnBuyamount P s0 s =
     (let s1 = s\<lparr> openbuyAmountLoding := True, openRightcyclesBox := True \<rparr> in
      case withdraw_amount (pe_big P) (amount s0) of
        Inl e \<Rightarrow> throws s1 e
      | Inr n \<Rightarrow> (case curBtnId s0 of
            None \<Rightarrow> (s1, [], [WaitWithdraw])
          | Some i \<Rightarrow> (s1, (if 0 \<le> n then [Call (cycles_withdraw (pe_env P)
                        \<lparr> wa_amount = n, wa_from_subaccount = None, wa_to = i,
                          wa_created_at_time = None \<rparr>)] else []), [WaitWithdraw])))"

definition on_withdraw ::
  "'b page_env \<Rightarrow> string \<Rightarrow> (int, 'e) candid_result res \<Rightarrow> cycles_view \<Rightarrow> cycles_out" where
  "on_withdraw P uid reply s =
     (let fin = (\<lambda>s. s\<lparr> openbuyAmountLoding := False, openRightcyclesBox := False \<rparr>) in
      case reply of
        Inr (COk _) \<Rightarrow>
          then_do (emits s [MsgSuccess ''Add cycles successfully!''])
            (\<lambda>s. then_do (getCuruserBalance P uid s)
              (\<lambda>s. plain (fin (s\<lparr> addCycles := False, amount := [], displayValue := [] \<rparr>))))
      | Inr (CErr _) \<Rightarrow> emits (fin s) [MsgError ''Add cycles failed!'']
      | Inl _ \<Rightarrow> emits (fin s) [MsgError ''Add cycles failed!''])"

text \<open>\<open>new Big(balance).minus(fee).toString()\<close>; a fee that is not loaded is \<open>undefined\<close>, which
  the library refuses.\<close>

definition max_amount :: "'b bigjs \<Rightarrow> int \<Rightarrow> string option \<Rightarrow> string res" where
  "max_amount B bal fee =
     res_bind (big_str B (int_str bal)) (\<lambda>b. case fee of
       None \<Rightarrow> Inl BigError
     | Some t \<Rightarrow> res_bind (big_str B t) (\<lambda>f. Inr (big_toString B (big_minus B b f))))"

definition btnMax :: "'b bigjs \<Rightarrow> cycles_view \<Rightarrow> cycles_view \<Rightarrow> cycles_out" where
  "btnMax B s0 s = (case curCyclesBalance s0 of
     None \<Rightarrow> plain (s\<lparr> displayValue := [], amount := [] \<rparr>)
   | Some bal \<Rightarrow>
       if bal = 0 then plain (s\<lparr> displayValue := [], amount := [] \<rparr>)
       else case max_amount B bal (cyclesfee s0) of
         Inl e \<Rightarrow> throws s e
       | Inr a \<Rightarrow> plain (s\<lparr> displayValue := formatAmountByUnitToT (JStr a) 4 False, amount := a \<rparr>))"

definition inputamountchange :: "string \<Rightarrow> cycles_view \<Rightarrow> cycles_out" where
  "inputamountchange value s =
     (if js_Number value \<noteq> NaN then
        (let s1 = s\<lparr> displayValue := value \<rparr> in
         if value = [] \<or> value = ''0.0'' then plain (s1\<lparr> amount := [] \<rparr>)
         else case parseTUnitToCycles value of
           Inl e \<Rightarrow> throws s1 e
         | Inr c \<Rightarrow> plain (s1\<lparr> amount := js_toString c \<rparr>))
      else emits s [MsgError ''The entered value is incorrect''])"

text \<open>The effect on the amount: the button is enabled for an amount within the balance.\<close>

definition amount_effect :: "'b bigjs \<Rightarrow> cycles_view \<Rightarrow> cycles_out" where
  "amount_effect B s =
     (if amount s \<noteq> [] \<and> \<not> js_eq (js_Number (amount s)) (Fin 0) \<and> js_Number (amount s) \<noteq> NaN
      then case res_bind (big_str B (amount s)) (\<lambda>a. case curCyclesBalance s of
                  None \<Rightarrow> Inl BigError
                | Some n \<Rightarrow> res_map (\<lambda>b. big_lt B b a) (big_str B (int_str n))) of
             Inl e \<Rightarrow> throws s e
           | Inr True \<Rightarrow> plain (s\<lparr> isshow := True, btnfomoText := ''Insufficient amount'' \<rparr>)
           | Inr False \<Rightarrow> plain (s\<lparr> isshow := False \<rparr>)
      else plain (s\<lparr> btnfomoText := ''Enter cycles amount'', isshow := True \<rparr>))"

text \<open>The effect on \<open>openRightcyclesBox\<close>. The snack bar is mounted as long as the page is.\<close>

definition handleButtonClick :: "bool \<Rightarrow> effect list" where
  "handleButtonClick b = [Snack ''Cycles transfer in progress'' b, SnackProgress True]"

section \<open>Scrolling\<close>

text \<open>\<open>ease\<close>: an ease-in-out of the time \<open>t\<close> over the duration \<open>d\<close>, from \<open>b\<close> over the
  distance \<open>c\<close>.\<close>

definition ease :: "jsnum \<Rightarrow> jsnum \<Rightarrow> jsnum \<Rightarrow> jsnum \<Rightarrow> jsnum" where
  "ease t b c d =
     (let t1 = js_div t (js_div d (Fin 2)) in
      if js_lt t1 (Fin 1) then js_add (js_mul (js_mul (js_div c (Fin 2)) t1) t1) b
      else (let t2 = js_sub t1 (Fin 1)
            in js_add (js_mul (js_div (js_neg c) (Fin 2))
                         (js_sub (js_mul t2 (js_sub t2 (Fin 2))) (Fin 1))) b))"

text \<open>One animation frame: the start time is that of the first frame. The result is the scroll
  position and the next frame's start time, or none when the time is over.\<close>

definition animation :: "jsnum \<Rightarrow> jsnum \<Rightarrow> jsnum option \<Rightarrow> jsnum \<Rightarrow> effect list \<times> jsnum option" where
  "animation startPosition distance startTime currentTime =
     (let st = (case startTime of None \<Rightarrow> currentTime | Some t \<Rightarrow> t);
          el = js_sub currentTime st
      in ([ScrollTo (ease el startPosition distance (Fin 600))],
          if js_lt el (Fin 600) then Some st else None))"

definition scroll_distance :: "jsnum \<Rightarrow> jsnum \<Rightarrow> jsnum" where
  "scroll_distance rt scrollY =
     js_sub (js_sub (js_add rt scrollY) (Fin 90)) scrollY"

text \<open>\<open>smoothScrollToElement("addcycles", 90)\<close>: nothing without the element, else a first frame is
  asked for. A frame asks for the next one until the time is over.\<close>

definition btntoaddcanisters :: "jsnum option \<Rightarrow> cycles_view \<Rightarrow> cycles_out" where
  "btntoaddcanisters rt s = (s, [], (case rt of None \<Rightarrow> [] | Some _ \<Rightarrow> [AnimationFrame None]))"

definition on_frame ::
  "jsnum \<Rightarrow> jsnum \<Rightarrow> jsnum option \<Rightarrow> jsnum \<Rightarrow> cycles_view \<Rightarrow> cycles_out" where
  "on_frame startPosition distance startTime currentTime s =
     (let (es, next) = animation startPosition distance startTime currentTime
      in (s, es, (case next of None \<Rightarrow> [] | Some t \<Rightarrow> [AnimationFrame (Some t)])))"

section \<open>Lemmas\<close>

lemma low_cycles_exact:
  assumes "big_laws B val" "\<bar>n\<bar> \<le> 2 ^ 53"
  shows "low_cycles B n = Inr (n < 100000000000)"
proof -
  obtain v where v: "big_num B (num_of_int n) = Inr v" "val v = of_int n"
    using big_lawsD(1) [OF assms] num_of_int_exact [OF assms(2)] by auto
  obtain m where m: "big_num B (Fin 100000000000) = Inr m" "val m = of_int 100000000000"
    using big_lawsD(1) [OF assms(1), of 100000000000] by auto
  show ?thesis
    unfolding low_cycles_def v(1) m(1) res_bind_simps big_lawsD(12) [OF assms(1)] v(2) m(2)
      of_int_less_iff ..
qed

lemma raise_flags_exact:
  assumes "big_laws B val" "\<bar>a\<bar> \<le> 2 ^ 53" "\<bar>b\<bar> \<le> 2 ^ 53" "\<bar>c\<bar> \<le> 2 ^ 53"
  shows "raise_flags B a b c f = Inr
    (if a < 100000000000 then f\<lparr> lf_fomo := True \<rparr>
     else if b < 100000000000 then f\<lparr> lf_token := True \<rparr>
     else if c < 100000000000 then f\<lparr> lf_pool := True \<rparr> else no_flags)"
  using assms(2-4) by (simp add: raise_flags_def low_cycles_exact [OF assms(1)])

lemma withdraw_amount_int:
  assumes "big_laws B val" "\<bar>n\<bar> < 10 ^ 21"
  shows "withdraw_amount B (int_str n) = Inr n"
proof -
  obtain v where v: "big_str B (int_str n) = Inr v" "val v = of_int n"
    using big_lawsD(2) [OF assms(1)] by blast
  have "val (big_round_down B v 0) = of_int n"
    unfolding big_lawsD(8) [OF assms(1)] v(2) by (rule round_down_at_0_int)
  from big_lawsD(9) [OF assms(1) this assms(2)] show ?thesis
    by (simp add: withdraw_amount_def v(1) js_BigInt_int_str)
qed

lemma max_amount_int:
  assumes "big_laws B val" "\<bar>bal - fee\<bar> < 10 ^ 21"
  shows "max_amount B bal (Some (int_str fee)) = Inr (int_str (bal - fee))"
proof -
  obtain v where v: "big_str B (int_str bal) = Inr v" "val v = of_int bal"
    using big_lawsD(2) [OF assms(1)] by blast
  obtain w where w: "big_str B (int_str fee) = Inr w" "val w = of_int fee"
    using big_lawsD(2) [OF assms(1)] by blast
  have "val (big_minus B v w) = of_int (bal - fee)"
    unfolding big_lawsD(5) [OF assms(1)] v(2) w(2) by simp
  from big_lawsD(9) [OF assms(1) this assms(2)] show ?thesis
    by (simp add: max_amount_def v(1) w(1))
qed

lemma btnBuyamount_calls:
  assumes "big_laws (pe_big P) val" "amount s0 = int_str n" "\<bar>n\<bar> < 10 ^ 21" "curBtnId s0 = Some i"
  shows "calls (fx_of (btnBuyamount P s0 s)) =
    (if 0 \<le> n then [cycles_withdraw (pe_env P) \<lparr> wa_amount = n, wa_from_subaccount = None,
                       wa_to = i, wa_created_at_time = None \<rparr>] else [])"
  using withdraw_amount_int [OF assms(1,3)] assms(2,4) by (simp add: btnBuyamount_def Let_def)

lemma amount_effect_int:
  assumes "big_laws B val" "amount s = int_str n" "\<bar>n\<bar> \<le> 2 ^ 53" "curCyclesBalance s = Some bal"
  shows "isshow (st_of (amount_effect B s)) = (n = 0 \<or> bal < n)"
    and "amount (st_of (amount_effect B s)) = int_str n"
    and "curBtnId (st_of (amount_effect B s)) = curBtnId s"
proof -
  obtain a where a: "big_str B (int_str n) = Inr a" "val a = of_int n"
    using big_lawsD(2) [OF assms(1)] by blast
  obtain b where b: "big_str B (int_str bal) = Inr b" "val b = of_int bal"
    using big_lawsD(2) [OF assms(1)] by blast
  have num: "js_Number (int_str n) = Fin (of_int n)"
    by (simp add: js_Number_int_str num_of_int_exact [OF assms(3)])
  have lt: "big_lt B b a = (bal < n)"
    using big_lawsD(12) [OF assms(1), of b a] a(2) b(2) by simp
  have eff: "amount_effect B s = plain
      (if n = 0 then s\<lparr> btnfomoText := ''Enter cycles amount'', isshow := True \<rparr>
       else if bal < n then s\<lparr> isshow := True, btnfomoText := ''Insufficient amount'' \<rparr>
       else s\<lparr> isshow := False \<rparr>)"
    using assms(2,4) by (simp add: amount_effect_def num js_eq_def a(1) b(1) lt)
  show "isshow (st_of (amount_effect B s)) = (n = 0 \<or> bal < n)"
    "amount (st_of (amount_effect B s)) = int_str n"
    "curBtnId (st_of (amount_effect B s)) = curBtnId s"
    using assms(2) by (simp_all add: eff)
qed

lemma inputamountchange_int:
  assumes "js_Number v \<noteq> NaN" "parseTUnitToCycles v = Inr (Fin (of_int n))" "\<bar>n\<bar> < 2 ^ 53"
    "v \<noteq> ''0.0''"
  shows "amount (st_of (inputamountchange v s)) = int_str n"
proof -
  have "v \<noteq> []"
  proof
    assume "v = []"
    moreover have "parse_decimal [] = None" by code_simp
    ultimately show False using assms(2)
      by (simp add: parseTUnitToCycles_def js_parseFloat_def js_trim_start_def parse_sign_def)
  qed
  moreover have "\<bar>n\<bar> < 10 ^ 21" using assms(3) by simp
  ultimately show ?thesis
    using assms js_toString_int [OF assms(3)]
    by (simp add: inputamountchange_def Let_def del: js_toString.simps)
qed

lemma inputamountchange_zero:
  "parseTUnitToCycles ''0.0'' = Inr (Fin 0)"
  "amount (st_of (inputamountchange ''0.0'' s)) = []"
proof -
  have p: "parse_decimal ''0.0'' = Some (0, [])" "js_trim_start ''0.0'' = ''0.0''"
    "js_trim ''0.0'' = ''0.0''" "parse_prefixed ''0.0'' = None"
    "parse_sign ''0.0'' = (False, ''0.0'')" "take 8 ''0.0'' = ''0.0''"
    by code_simp+
  then have f: "js_parseFloat ''0.0'' = Fin 0" "js_Number ''0.0'' = Fin 0"
    using fl_int [of 0] by (simp_all add: js_parseFloat_def js_Number_def)
  show "parseTUnitToCycles ''0.0'' = Inr (Fin 0)"
    using fl_int [of 0] by (simp add: parseTUnitToCycles_def f one_T_def)
  show "amount (st_of (inputamountchange ''0.0'' s)) = []"
    by (simp add: inputamountchange_def f)
qed

lemma inputamountchange_keeps [simp]:
  "curCyclesBalance (st_of (inputamountchange v s)) = curCyclesBalance s"
  "curBtnId (st_of (inputamountchange v s)) = curBtnId s"
  by (simp_all add: inputamountchange_def Let_def split: sum.splits)

text \<open>C9. Max takes the whole balance. With a balance above the fee, the Max button and then the
  effect on the amount leave the confirm button enabled, and it asks the cycles ledger for a
  withdrawal of exactly the balance less the fee, to the canister the dialog was opened for. With
  a balance of just the fee the button stays disabled; with a smaller one the amount is negative,
  the button is enabled all the same, and no call leaves.\<close>

theorem max_withdraws_rest:
  assumes "big_laws (pe_big P) val" "0 < bal" "\<bar>bal - fee\<bar> \<le> 2 ^ 53" "0 \<le> fee"
    and "curCyclesBalance s = Some bal" "cyclesfee s = Some (int_str fee)" "curBtnId s = Some i"
    and "t = st_of (amount_effect (pe_big P) (st_of (btnMax (pe_big P) s s)))"
  shows "(isshow t \<longleftrightarrow> bal = fee) \<and>
    calls (fx_of (btnBuyamount P t s')) =
      (if fee \<le> bal then [cycles_withdraw (pe_env P) \<lparr> wa_amount = bal - fee,
         wa_from_subaccount = None, wa_to = i, wa_created_at_time = None \<rparr>] else [])"
proof -
  let ?m = "st_of (btnMax (pe_big P) s s)"
  have b: "\<bar>bal - fee\<bar> < 10 ^ 21" using assms(3) by simp
  have "amount ?m = int_str (bal - fee)" "curBtnId ?m = Some i" "curCyclesBalance ?m = Some bal"
    using assms(2,5-7) max_amount_int [OF assms(1) b] by (simp_all add: btnMax_def)
  note e = amount_effect_int [OF assms(1) this(1) assms(3) this(3)] this(2)
  show ?thesis
    using e(1,4) assms(4) btnBuyamount_calls [OF assms(1) e(2) b, of i s'] e(3)
    by (auto simp: assms(8))
qed

text \<open>C8. A withdrawal stays within the balance. For a text typed into the amount field that reads
  as a whole number of cycles below 2 to the 53 (the field counts in \<open>T\<close>, 10 to the 12 cycles),
  the confirm button is enabled after the effect on the amount exactly when the number is not
  zero and not above the balance the dialog read, and the enabled button asks for a withdrawal of
  exactly that number of cycles. A negative amount enables the button too, and no call leaves.\<close>

theorem withdraw_within_balance:
  assumes "big_laws (pe_big P) val" "js_Number v \<noteq> NaN"
    and "parseTUnitToCycles v = Inr (Fin (of_int n))" "\<bar>n\<bar> < 2 ^ 53"
    and "curCyclesBalance s = Some bal" "curBtnId s = Some i"
    and "t = st_of (amount_effect (pe_big P) (st_of (inputamountchange v s)))"
  shows "(\<not> isshow t \<longleftrightarrow> n \<noteq> 0 \<and> n \<le> bal) \<and>
    (\<not> isshow t \<longrightarrow> calls (fx_of (btnBuyamount P t s')) =
      (if 0 < n then [cycles_withdraw (pe_env P) \<lparr> wa_amount = n, wa_from_subaccount = None,
         wa_to = i, wa_created_at_time = None \<rparr>] else []))"
proof (cases "v = ''0.0''")
  case True
  then have "n = 0" using assms(3) inputamountchange_zero(1) by simp
  moreover have "isshow t" using inputamountchange_zero(2) True by (simp add: assms(7) amount_effect_def)
  ultimately show ?thesis by simp
next
  case False
  let ?m = "st_of (inputamountchange v s)"
  have b: "\<bar>n\<bar> < 10 ^ 21" and b': "\<bar>n\<bar> \<le> 2 ^ 53" using assms(4) by simp_all
  have "curCyclesBalance ?m = Some bal" "curBtnId ?m = Some i" using assms(5,6) by simp_all
  note e = amount_effect_int [OF assms(1) inputamountchange_int [OF assms(2-4) False] b' this(1)]
    this(2)
  show ?thesis
    using e(1,4) btnBuyamount_calls [OF assms(1) e(2) b, of i s'] e(3)
    by (auto simp: assms(7))
qed

text \<open>Only the first low canister is marked, and a failed query counts as a low one. When the
  three cycles queries of a project have settled, at most one mark is raised, in the order
  project, token, pool, even where all three are below the limit; a project whose query failed
  is marked as if it had no cycles left.\<close>

lemma low_marks:
  assumes "big_laws B val" "\<bar>settled r1\<bar> \<le> 2 ^ 53" "\<bar>settled r2\<bar> \<le> 2 ^ 53" "\<bar>settled r3\<bar> \<le> 2 ^ 53"
  shows "showaddcylesimg (st_of (snd (on_canister_cycles B found s0 r1 r2 r3 no_flags s))) =
    (if settled r1 < 100000000000 then no_flags\<lparr> lf_fomo := True \<rparr>
     else if settled r2 < 100000000000 then no_flags\<lparr> lf_token := True \<rparr>
     else if settled r3 < 100000000000 then no_flags\<lparr> lf_pool := True \<rparr> else no_flags) \<and>
    (\<forall>e. r1 = Inl e \<longrightarrow>
       lf_fomo (showaddcylesimg (st_of (snd (on_canister_cycles B found s0 r1 r2 r3 no_flags s)))))"
proof -
  note f = raise_flags_exact [OF assms]
  have z: "settled (Inl e) = 0" for e :: js_exn by (simp add: settled_def)
  have e: "showaddcylesimg (st_of (snd (on_canister_cycles B found s0 r1 r2 r3 no_flags s))) =
      (if settled r1 < 100000000000 then no_flags\<lparr> lf_fomo := True \<rparr>
       else if settled r2 < 100000000000 then no_flags\<lparr> lf_token := True \<rparr>
       else if settled r3 < 100000000000 then no_flags\<lparr> lf_pool := True \<rparr> else no_flags)"
    by (simp add: on_canister_cycles_def Let_def f)
  show ?thesis unfolding e by (auto simp: z)
qed

definition sample_cycles :: cycles_view where
  "sample_cycles = cycles_init\<lparr> curCyclesBalance := Some 3000000000000,
     cyclesfee := Some (int_str 100000000), curBtnId := Some ''c'' \<rparr>"

definition sample_cenv :: "rat page_env" where
  "sample_cenv = \<lparr> pe_env = (\<lambda>_. Some ''e''), pe_valid = (\<lambda>_. True), pe_acct = id,
     pe_big = rat_big, pe_icrc2 = ''i'' \<rparr>"

lemma sample_cycles_sel [simp]:
  "curCyclesBalance sample_cycles = Some 3000000000000"
  "cyclesfee sample_cycles = Some (int_str 100000000)" "curBtnId sample_cycles = Some ''c''"
  "pe_big sample_cenv = rat_big"
  by (simp_all add: sample_cycles_def sample_cenv_def cycles_init_def)

theorem max_withdraws_rest_witness:
  "calls (fx_of (btnBuyamount sample_cenv
     (st_of (amount_effect rat_big (st_of (btnMax rat_big sample_cycles sample_cycles)))) cycles_init)) =
    [cycles_withdraw (pe_env sample_cenv) \<lparr> wa_amount = 2999900000000, wa_from_subaccount = None,
       wa_to = ''c'', wa_created_at_time = None \<rparr>]"
  using max_withdraws_rest [OF _ _ _ _ _ _ _ refl, of sample_cenv "\<lambda>x. x" 3000000000000 100000000
      sample_cycles "''c''" cycles_init]
  by (simp add: rat_big_laws)

lemma typed_half_T: "js_Number ''1.5'' = Fin (3 / 2)"
  "parseTUnitToCycles ''1.5'' = Inr (Fin (of_int 1500000000000))"
proof -
  have p: "parse_decimal ''1.5'' = Some (3 / 2, [])" "js_trim_start ''1.5'' = ''1.5''"
    "js_trim ''1.5'' = ''1.5''" "parse_prefixed ''1.5'' = None"
    "parse_sign ''1.5'' = (False, ''1.5'')" "take 8 ''1.5'' = ''1.5''"
    by code_simp+
  have f: "fl (3 / 2) = Fin (3 / 2)"
    using fl_cert [of 0 "3 / 2" "3 * 2 ^ 51"] by (simp add: power_int_minus)
  then have g: "js_parseFloat ''1.5'' = Fin (3 / 2)" using p by (simp add: js_parseFloat_def)
  show "js_Number ''1.5'' = Fin (3 / 2)" using p f by (simp add: js_Number_def)
  show "parseTUnitToCycles ''1.5'' = Inr (Fin (of_int 1500000000000))"
    using fl_int [of 1500000000000] by (simp add: parseTUnitToCycles_def g one_T_def)
qed

theorem withdraw_within_balance_witness:
  "calls (fx_of (btnBuyamount sample_cenv
     (st_of (amount_effect rat_big (st_of (inputamountchange ''1.5'' sample_cycles)))) cycles_init)) =
    [cycles_withdraw (pe_env sample_cenv) \<lparr> wa_amount = 1500000000000, wa_from_subaccount = None,
       wa_to = ''c'', wa_created_at_time = None \<rparr>]"
  using withdraw_within_balance [OF _ _ typed_half_T(2) _ _ _ refl, of sample_cenv "\<lambda>x. x"
      sample_cycles 3000000000000 "''c''" cycles_init]
  by (simp add: rat_big_laws typed_half_T(1))

end
