(* ===== verification/Ownership.thy ===== *)
theory Ownership
  imports Approve
begin

text \<open>
  Giving up the ownership of a project's token (\<open>pages/ICPInfo/ICPInfo.tsx\<close>): the dialog, the
  approve batch of the fee followed by the launcher's \<open>ownership_transfer\<close>, the icons read
  from the token's controllers, and the text on the locked liquidity. The lemmas show where
  the ownership goes, and that a failed approve does not stop the transfer.
\<close>

section \<open>State\<close>

record own_view =
  openOwnership :: bool
  isSneedDAO :: bool
  ownershipLoding :: bool
  issneedicon :: bool
  isfireicon :: bool

definition own_init :: own_view where
  "own_init = \<lparr> openOwnership = False, isSneedDAO = True, ownershipLoding = False,
     issneedicon = False, isfireicon = False \<rparr>"

datatype own_task =
    WaitOwnApprove own_view "FomoProject option"
  | WaitTransfer "FomoProject option"
  | WaitControllers

type_synonym own_out = "(own_view, own_task) outcome"

definition sneed_dao :: principal where
  "sneed_dao = ''fp274-iaaaa-aaaaq-aacha-cai''"

section \<open>The dialog and the icons\<close>

definition openOwnershipFn :: "string \<Rightarrow> own_view \<Rightarrow> own_view" where
  "openOwnershipFn opt s =
     (let s1 = s\<lparr> openOwnership := True \<rparr>
      in if opt = ''SneedDAO'' then s1\<lparr> isSneedDAO := True \<rparr>
         else if opt = ''BalckHole'' then s1\<lparr> isSneedDAO := False \<rparr> else s1)"

definition handleopenOwnership :: "own_view \<Rightarrow> own_view" where
  "handleopenOwnership s = s\<lparr> openOwnership := False \<rparr>"

text \<open>\<open>getStatus\<close> of a project that is not loaded throws inside its \<open>try\<close>, which logs it.\<close>

definition getStatus :: "FomoProject option \<Rightarrow> own_view \<Rightarrow> own_out" where
  "getStatus p s = (s\<lparr> issneedicon := False, isfireicon := False \<rparr>, [],
     (if p = None then [] else [WaitControllers]))"

text \<open>The controllers; \<open>None\<close> is a failed request or a status without a list of principals.\<close>

definition on_controllers :: "principal list option \<Rightarrow> own_view \<Rightarrow> own_view" where
  "on_controllers reply s = (case reply of
     None \<Rightarrow> s
   | Some cs \<Rightarrow> foldl (\<lambda>s c. if c = sneed_dao then s\<lparr> issneedicon := True \<rparr>
                            else if c = ''aaaaa-aa'' then s\<lparr> isfireicon := True \<rparr> else s) s cs)"

section \<open>The transfer\<close>

text \<open>\<open>Math.ceil(Number(price) * 10 ** 8 * 1.3 * 2)\<close>.\<close>

definition own_fee :: "jsval \<Rightarrow> jsnum" where
  "own_fee price =
     js_ceil (js_mul (js_mul (js_mul (val_Number price) (pow10 8)) (lit 13 10)) (Fin 2))"

text \<open>The \<open>finally\<close> block, and the \<open>catch\<close> block with it, which throws the exception again.\<close>

definition own_finally :: "FomoProject option \<Rightarrow> own_view \<Rightarrow> own_out" where
  "own_finally p s =
     then_do (emits (s\<lparr> ownershipLoding := False, openOwnership := False \<rparr>) [Snack [] False])
       (getStatus p)"

definition own_failed :: "FomoProject option \<Rightarrow> js_exn \<Rightarrow> own_view \<Rightarrow> own_out" where
  "own_failed p e s =
     then_do (emits s [Snack [] False, MsgError ''Token ownership relinquished failed''])
       (\<lambda>s. then_do (own_finally p s) (\<lambda>s. throws s e))"

definition own_approve_failed :: "own_view \<Rightarrow> own_out" where
  "own_approve_failed s =
     emits (s\<lparr> ownershipLoding := False, openOwnership := False \<rparr>)
       [Snack ''Token ownership relinquished failed'' False,
        MsgError ''Token ownership relinquished failed'']"

text \<open>The click. The wallet refuses an amount that is no whole number, so no call leaves then.\<close>

definition btnremoveownership ::
  "'b page_env \<Rightarrow> jsval \<Rightarrow> FomoProject option \<Rightarrow> own_view \<Rightarrow> own_view \<Rightarrow> own_out" where
  "btnremoveownership P price p s0 s =
     then_do (emits (s\<lparr> ownershipLoding := True \<rparr>)
                [Snack ''Token ownership relinquishing..'' True, SnackProgress True])
       (\<lambda>s. case env_principal P ''CANISTER_ID_FOMOWELL_LAUNCHER'' of
          Inl e \<Rightarrow> own_failed p e s
        | Inr _ \<Rightarrow> (s, (case res_bind (encoded_nat (own_fee price)) (launcher_approve P) of
                          Inl _ \<Rightarrow> [] | Inr c \<Rightarrow> [Call c]), [WaitOwnApprove s0 p]))"

text \<open>The transfer after the batch, to Sneed DAO or to nobody.\<close>

definition start_transfer :: "environment \<Rightarrow> FomoProject option \<Rightarrow> own_view \<Rightarrow> own_view \<Rightarrow> own_out" where
  "start_transfer env p s0 s = (case p of
     None \<Rightarrow> own_failed p TypeError s
   | Some q \<Rightarrow> (s, [Call (ownership_transfer env (fomo_pid q)
                     (if isSneedDAO s0 then Some sneed_dao else None))], [WaitTransfer p]))"

text \<open>The end of \<open>execute\<close>: the failure callback has run, and only a rejected promise goes to the
  \<open>catch\<close> block.\<close>

definition on_own_approve :: "environment \<Rightarrow> FomoProject option \<Rightarrow> own_view \<Rightarrow>
    'd batch \<times> 'd batch_result \<Rightarrow> own_view \<Rightarrow> own_out" where
  "on_own_approve env p s0 r s =
     then_do (run_callbacks plain own_approve_failed (b_log (fst r)) s)
       (\<lambda>s. case snd r of
          ResRejected \<Rightarrow> own_failed p TypeError s
        | _ \<Rightarrow> start_transfer env p s0 s)"

definition on_transfer :: "FomoProject option \<Rightarrow> unit res \<Rightarrow> own_view \<Rightarrow> own_out" where
  "on_transfer p reply s = (case reply of
     Inl e \<Rightarrow> own_failed p e s
   | Inr _ \<Rightarrow> then_do (emits s [Snack [] False, MsgSuccess ''Token ownership relinquished successfully''])
               (own_finally p))"

section \<open>The text on the liquidity\<close>

definition lock_percent :: "'b bigjs \<Rightarrow> int \<Rightarrow> 'b res" where
  "lock_percent B n =
     res_bind (big_str B (int_str n)) (\<lambda>v.
     res_bind (big_num B (pow10 16)) (\<lambda>p. big_div B v p))"

definition dig_start :: string where
  "dig_start = ''When the market cap reaches $5,000, all liquidity in the well will be migrated to ICPEx''"

definition dig_default :: string where
  "dig_default = dig_start @ '' and locked into the black hole address(aaaaa-aa). ''"

definition dig_locked :: "'b bigjs \<Rightarrow> int \<Rightarrow> string \<Rightarrow> string res" where
  "dig_locked B n dao =
     res_bind (big_num B (Fin 100)) (\<lambda>h.
     res_bind (lock_percent B n) (\<lambda>p.
       Inr (dig_start @ '', with '' @ big_toString B (big_minus B h p) @
            ''% locked into the black hole address(aaaaa-aa) and '' @ big_toString B p @
            ''% locked into '' @ dao @ ''.'')))"

definition welldiggingtext :: "'b bigjs \<Rightarrow> FomoProject option \<Rightarrow> string res" where
  "welldiggingtext B p = (case p of
     None \<Rightarrow> Inr dig_default
   | Some q \<Rightarrow> (case (sneed_dao_lock q, dogmi_dao_lock q) of
         (None, None) \<Rightarrow> Inr dig_default
       | (Some n, _) \<Rightarrow> dig_locked B n ''Sneed DAO''
       | (None, Some n) \<Rightarrow> dig_locked B n ''Dogmi DAO''))"

section \<open>Lemmas\<close>

interpretation own_approve: approve_client "plain :: own_view \<Rightarrow> own_out" own_approve_failed
  by unfold_locales (simp_all add: own_approve_failed_def emits_def)

lemma failed_calls [simp]:
  "calls (fx_of (own_failed p e s)) = []" "calls (fx_of (own_finally p s)) = []"
  "calls (fx_of (getStatus p s)) = []"
  by (simp_all add: own_failed_def own_finally_def getStatus_def)

lemma finally_state [simp]:
  "ownershipLoding (st_of (own_finally p s)) = False"
  "openOwnership (st_of (own_finally p s)) = False"
  by (simp_all add: own_finally_def getStatus_def)

lemma icons_of:
  "issneedicon (foldl (\<lambda>s c. if c = sneed_dao then s\<lparr> issneedicon := True \<rparr>
     else if c = ''aaaaa-aa'' then s\<lparr> isfireicon := True \<rparr> else s) s cs) =
     (issneedicon s \<or> sneed_dao \<in> set cs)"
  "isfireicon (foldl (\<lambda>s c. if c = sneed_dao then s\<lparr> issneedicon := True \<rparr>
     else if c = ''aaaaa-aa'' then s\<lparr> isfireicon := True \<rparr> else s) s cs) =
     (isfireicon s \<or> ''aaaaa-aa'' \<in> set cs)"
  by (induction cs arbitrary: s) (auto simp: sneed_dao_def)

lemma lock_percent_exact:
  assumes "big_laws B val"
  shows "\<exists>q. lock_percent B n = Inr q \<and> val q = of_int n / 10 ^ 16"
proof -
  obtain v where v: "big_str B (int_str n) = Inr v" "val v = of_int n"
    using big_lawsD(2) [OF assms] by blast
  obtain p where p: "big_num B (pow10 16) = Inr p" "val p = 10 ^ 16"
    using big_laws_pow10 [OF assms, of 16] by auto
  have "val p \<noteq> 0" using p(2) by simp
  then obtain q where q: "big_div B v p = Inr q" using big_div_error [OF assms] by blast
  have "val q = round_half_up_at 20 (of_int n / 10 ^ 16)"
    using big_lawsD(7) [OF assms q] unfolding v(2) p(2) .
  then have "val q = of_int n / 10 ^ 16" using round_half_up_exact [of 16 n] by simp
  then show ?thesis by (simp add: lock_percent_def v(1) p(1) q)
qed

lemma start_transfer_calls:
  "calls (fx_of (start_transfer env (Some q) s0 s)) =
    [ownership_transfer env (fomo_pid q) (if isSneedDAO s0 then Some sneed_dao else None)]"
  by (simp add: start_transfer_def)

lemma approve_rejected:
  "snd (approve_run is_err has_provider w r p) = ResRejected \<longleftrightarrow>
     has_provider \<and> w = ''plug'' \<and> \<not> snd p"
proof (cases has_provider)
  case True
  show ?thesis
  proof (cases "w = ''plug''")
    case w: True
    show ?thesis using True by (simp add: w approve_run_def execute_def processBatch_def
          prepareTrxArry_def new_batch_def one_trx_def finish_batch_def Let_def)
  next
    case False
    then show ?thesis
      by (auto simp: approve_run_def execute_def processBatch_def finish_batch_def Let_def
          split: prod.splits if_splits)
  qed
next
  case False
  then show ?thesis by (simp add: approve_no_provider)
qed


end
