(* ===== verification/IcpInfo.thy ===== *)
theory IcpInfo
  imports TradeRun ProjectData CommentsPage Cycles Ownership
begin

text \<open>
  The project page as a whole (\<open>pages/ICPInfo/ICPInfo.tsx\<close>): the state of its parts, the load of
  a project from the address, and the effects that run when the address, the project or the
  user changes. The parts are those of \<open>Trade\<close>, \<open>CommentsPage\<close>, \<open>ProjectData\<close>, \<open>Cycles\<close> and
  \<open>Ownership\<close>; \<open>lift\<close> runs an operation of a part in the page. The lemmas show the order a
  loaded project leaves, and what a change of the project keeps.
\<close>

section \<open>State\<close>

record icpinfo =
  pg_trade :: trade_view
  pg_comments :: comments_view
  pg_data :: data_view
  pg_cycles :: cycles_view
  pg_own :: own_view

datatype page_task =
    TTrade trade_task
  | TComments comments_task
  | TData data_task
  | TCycles cycles_task
  | TOwn own_task
  | WaitSearch icpinfo bool

type_synonym page_out = "(icpinfo, page_task) outcome"

definition page_init :: "string \<Rightarrow> icpinfo" where
  "page_init icrc2 = \<lparr> pg_trade = trade_init icrc2, pg_comments = comments_init,
     pg_data = data_init, pg_cycles = cycles_init, pg_own = own_init \<rparr>"

text \<open>An operation of a part: \<open>get\<close> and \<open>put\<close> reach the part, \<open>tag\<close> its pending work.\<close>

definition lift :: "('p \<Rightarrow> 's) \<Rightarrow> ('s \<Rightarrow> 'p \<Rightarrow> 'p) \<Rightarrow> ('t \<Rightarrow> 'u) \<Rightarrow> ('s \<Rightarrow> ('s, 't) outcome) \<Rightarrow>
    'p \<Rightarrow> ('p, 'u) outcome" where
  "lift get put tag f p =
     (let r = f (get p) in (put (st_of r) p, fx_of r, map tag (tasks_of r)))"

definition on_trade :: "(trade_view \<Rightarrow> (trade_view, trade_task) outcome) \<Rightarrow> icpinfo \<Rightarrow> page_out" where
  "on_trade = lift pg_trade (\<lambda>s p. p\<lparr> pg_trade := s \<rparr>) TTrade"

definition on_trade_data :: "(trade_view \<Rightarrow> (trade_view, data_task) outcome) \<Rightarrow> icpinfo \<Rightarrow> page_out"
where
  "on_trade_data = lift pg_trade (\<lambda>s p. p\<lparr> pg_trade := s \<rparr>) TData"

definition on_comments_part ::
  "(comments_view \<Rightarrow> (comments_view, comments_task) outcome) \<Rightarrow> icpinfo \<Rightarrow> page_out" where
  "on_comments_part = lift pg_comments (\<lambda>s p. p\<lparr> pg_comments := s \<rparr>) TComments"

definition on_data :: "(data_view \<Rightarrow> (data_view, data_task) outcome) \<Rightarrow> icpinfo \<Rightarrow> page_out" where
  "on_data = lift pg_data (\<lambda>s p. p\<lparr> pg_data := s \<rparr>) TData"

definition on_cycles :: "(cycles_view \<Rightarrow> (cycles_view, cycles_task) outcome) \<Rightarrow> icpinfo \<Rightarrow> page_out"
where
  "on_cycles = lift pg_cycles (\<lambda>s p. p\<lparr> pg_cycles := s \<rparr>) TCycles"

definition on_own :: "(own_view \<Rightarrow> (own_view, own_task) outcome) \<Rightarrow> icpinfo \<Rightarrow> page_out" where
  "on_own = lift pg_own (\<lambda>s p. p\<lparr> pg_own := s \<rparr>) TOwn"

text \<open>\<open>setFomoInfo\<close>: the projects are read by the trade and by the comments.\<close>

definition setFomoInfo :: "FomoProject list \<Rightarrow> icpinfo \<Rightarrow> icpinfo" where
  "setFomoInfo ps p = p\<lparr> pg_trade := (pg_trade p)\<lparr> curFomoInfo := ps \<rparr>,
                        pg_comments := (pg_comments p)\<lparr> cm_fomo := ps \<rparr> \<rparr>"

definition set_order :: "order \<Rightarrow> icpinfo \<Rightarrow> icpinfo" where
  "set_order q p = p\<lparr> pg_trade := (pg_trade p)\<lparr> CurBuyOrSell := q \<rparr> \<rparr>"

definition set_search_init :: "bool \<Rightarrow> icpinfo \<Rightarrow> icpinfo" where
  "set_search_init b p = p\<lparr> pg_data := (pg_data p)\<lparr> searchFomosInit := b \<rparr> \<rparr>"

definition page_btnBuy :: "'b page_env \<Rightarrow> icpinfo \<Rightarrow> icpinfo \<Rightarrow> icpinfo" where
  "page_btnBuy P p0 p = p\<lparr> pg_trade := btnBuy (pe_icrc2 P) (pg_trade p0) (pg_trade p) \<rparr>"

section \<open>Loading a project\<close>

text \<open>\<open>search_fomosReq\<close> with the closure \<open>p0\<close>; \<open>buy\<close> tells whether \<open>btnBuy\<close> follows.\<close>

definition search_fomosReq :: "'b page_env \<Rightarrow> string \<Rightarrow> bool \<Rightarrow> icpinfo \<Rightarrow> icpinfo \<Rightarrow> page_out" where
  "search_fomosReq P fomo buy p0 p = (case from_text (pe_valid P) fomo of
     Inl e \<Rightarrow> throws p e
   | Inr t \<Rightarrow> (p, [Call (get_fomo_by_fomo_pid (pe_env P) t)], [WaitSearch p0 buy]))"

definition on_search ::
  "'b page_env \<Rightarrow> icpinfo \<Rightarrow> bool \<Rightarrow> FomoProject list res \<Rightarrow> icpinfo \<Rightarrow> page_out" where
  "on_search P p0 buy reply p = (case reply of
     Inl e \<Rightarrow> throws p e
   | Inr ps \<Rightarrow>
       then_do (on_cycles (reqIcrc1_balance_of (nth_opt ps 0)) p)
         (\<lambda>p. let p1 = setFomoInfo ps (set_order ((CurBuyOrSell (pg_trade p0))
                       \<lparr> of_to := map_option token_pid (nth_opt ps 0),
                         of_pairs := [map_option pool_pid (nth_opt ps 0)] \<rparr>)
                     (set_search_init False p))
              in plain (if buy then page_btnBuy P p0 p1 else p1)))"

text \<open>The effect on the project. Every part of it closes over the render \<open>p\<close> it runs after.\<close>

definition holders_request :: "trade_view \<Rightarrow> icpinfo \<Rightarrow> page_out" where
  "holders_request t p = (case cur_project t of
     None \<Rightarrow> (p, [], [TData WaitHolders])
   | Some q \<Rightarrow>
       (let (c, ca) = get_top10_holders (fomo_pid q) (actorCache (pg_comments p))
        in (p\<lparr> pg_comments := (pg_comments p)\<lparr> actorCache := ca \<rparr> \<rparr>, [Call c], [TData WaitHolders])))"

definition fomo_effect :: "'b page_env \<Rightarrow> icpinfo \<Rightarrow> page_out" where
  "fomo_effect P p0 = (case cur_project (pg_trade p0) of
     None \<Rightarrow> plain p0
   | Some q \<Rightarrow>
       then_do (on_own (getStatus (Some q)) p0) (\<lambda>p.
       then_do (let (es, ts) = getPoolInfoFn (pe_env P) (pg_trade p0) in (p, es, map TData ts)) (\<lambda>p.
       then_do (holders_request (pg_trade p0) p) (\<lambda>p.
       then_do (p, [Call (get_god_of_wells (pe_env P))], [TData WaitGod]) (\<lambda>p.
       then_do (on_comments_part (getCommentsByIndex False (pg_comments p0) 0) p) (\<lambda>p.
       then_do (on_data (getuserName P (create_user_pid q) []) p) (\<lambda>p.
         plain (page_btnBuy P p0 (set_order ((CurBuyOrSell (pg_trade p0))
                  \<lparr> of_pairs := [Some (pool_pid q)] \<rparr>) p)))))))))"

text \<open>The effect on the address. The balances are reset while the search is under way.\<close>

definition read_metadata :: "'b page_env \<Rightarrow> icpinfo \<Rightarrow> page_out" where
  "read_metadata P p = (p, [Call (icrc1_metadata (pe_env P) None)], [TData WaitSellMetaOnly])"

definition start_loading :: "icpinfo \<Rightarrow> icpinfo" where
  "start_loading p = p\<lparr> pg_comments := (pg_comments p)\<lparr> loading := True \<rparr> \<rparr>"

definition pid_effect :: "'b page_env \<Rightarrow> string \<Rightarrow> icpinfo \<Rightarrow> page_out" where
  "pid_effect P fomo p0 =
     then_do (read_metadata P p0) (\<lambda>p.
     then_do (if fomo = ''undefined''
              then plain (set_search_init False (setFomoInfo [] (start_loading p)))
              else search_fomosReq P fomo True p0 (start_loading p)) (\<lambda>p.
       plain (p\<lparr> pg_trade := (pg_trade p)
                  \<lparr> CurUserBuyBalance := Fin 0, CurUserBalance := JNum (Fin 0) \<rparr> \<rparr>)))"

text \<open>The effect at the mount.\<close>

definition mount_effect :: "'b page_env \<Rightarrow> string \<Rightarrow> icpinfo \<Rightarrow> page_out" where
  "mount_effect P fomo p0 =
     then_do (on_cycles (Cyclesfee (pe_env P)) p0) (\<lambda>p.
     then_do (read_metadata P p) (\<lambda>p.
       if fomo = ''undefined'' then plain (set_search_init False (start_loading p))
       else search_fomosReq P fomo False p0 (start_loading p)))"

section \<open>What is shown\<close>

text \<open>The page and the notice that the project does not exist.\<close>

definition page_visible :: "icpinfo \<Rightarrow> bool" where
  "page_visible p = (case cur_project (pg_trade p) of
     Some q \<Rightarrow> fomo_pid q \<noteq> [] | None \<Rightarrow> searchFomosInit (pg_data p))"

definition market_cap_text :: "'b bigjs \<Rightarrow> trade_view \<Rightarrow> string res" where
  "market_cap_text B t = (case cur_project t of
     None \<Rightarrow> Inr ''0''
   | Some q \<Rightarrow>
       res_bind (big_str B (int_str (market_cap q))) (\<lambda>v.
       res_bind (big_num B (pow10 18)) (\<lambda>p.
       res_bind (big_div B v p) (\<lambda>x. Inr (formatAmountByUnit (JNum (big_toNumber B x)) 4)))))"

text \<open>\<open>Number(progress) / 100\<close> of a project that may be absent, and the width of the bar.\<close>

definition progress_percent :: "int option \<Rightarrow> jsnum" where
  "progress_percent n = (case n of None \<Rightarrow> NaN | Some n \<Rightarrow> js_div (num_of_int n) (Fin 100))"

definition progress_bar :: "int option \<Rightarrow> jsnum" where
  "progress_bar n = (if js_lt (Fin 100) (progress_percent n) then Fin 100 else progress_percent n)"

section \<open>Lemmas\<close>

lemma lift_sel [simp]:
  "st_of (lift get put tag f p) = put (st_of (f (get p))) p"
  "fx_of (lift get put tag f p) = fx_of (f (get p))"
  "tasks_of (lift get put tag f p) = map tag (tasks_of (f (get p)))"
  by (simp_all add: lift_def Let_def)

lemma pg_trade_parts [simp]:
  "pg_trade (st_of (on_cycles f p)) = pg_trade p" "pg_trade (st_of (on_data g p)) = pg_trade p"
  "pg_trade (st_of (on_own h p)) = pg_trade p"
  "pg_trade (st_of (on_comments_part k p)) = pg_trade p"
  "pg_trade (st_of (holders_request t p)) = pg_trade p"
  by (simp_all add: on_cycles_def on_data_def on_own_def on_comments_part_def holders_request_def
      split: option.splits prod.splits)

lemma pg_comments_parts [simp]:
  "pg_comments (st_of (on_cycles f p)) = pg_comments p"
  "pg_comments (st_of (on_data g p)) = pg_comments p"
  "pg_comments (st_of (on_own h p)) = pg_comments p"
  "LeftFomoContentList (pg_comments (st_of (holders_request t p))) = LeftFomoContentList (pg_comments p)"
  by (simp_all add: on_cycles_def on_data_def on_own_def holders_request_def
      split: option.splits prod.splits)

lemma getComments_list:
  "LeftFomoContentList (st_of (getCommentsByIndex adv s0 n s)) = LeftFomoContentList s"
  by (auto simp: getCommentsByIndex_def advance_page_def split: option.splits prod.splits)

lemma effect_list [simp]:
  "LeftFomoContentList (pg_comments (st_of (fomo_effect P p))) = LeftFomoContentList (pg_comments p)"
  by (auto simp: fomo_effect_def page_btnBuy_def set_order_def on_comments_part_def getComments_list
      split: option.splits prod.splits)

lemma search_list [simp]:
  "LeftFomoContentList (pg_comments (st_of (on_search P p0 b r p))) = LeftFomoContentList (pg_comments p)"
  by (auto simp: on_search_def page_btnBuy_def set_order_def setFomoInfo_def set_search_init_def
      Let_def split: sum.splits)

lemma search_project:
  "cur_project (pg_trade (st_of (on_search P p0 b (Inr ps) p))) = nth_opt ps 0"
  by (simp add: on_search_def page_btnBuy_def set_order_def setFomoInfo_def set_search_init_def
      Let_def btnBuy_def cur_project_def)

lemma effect_order:
  assumes "cur_project (pg_trade p) = Some q"
  shows "CurBuyOrSell (pg_trade (st_of (fomo_effect P p))) =
    (CurBuyOrSell (pg_trade p))
      \<lparr> of_dir := 1, of_from := Some (pe_icrc2 P), of_to := Some (token_pid q) \<rparr>"
    and "cur_project (pg_trade (st_of (fomo_effect P p))) = Some q"
  using assms
  by (simp_all add: fomo_effect_def page_btnBuy_def set_order_def btnBuy_def cur_token_def
      cur_project_def split: prod.splits)

section \<open>Properties\<close>

text \<open>C25. A loaded project is the one traded. Whatever order the page held before, and from whatever
  render the search was started, once the reply of the search and the effect on the project have
  run, the page's project is the first one answered and the order buys its token with the payment
  token.\<close>

theorem loaded_project_is_traded:
  "let t = pg_trade (st_of (fomo_effect P (st_of (on_search P p0 b (Inr (q # ps)) p)))) in
     cur_project t = Some q \<and> of_dir (CurBuyOrSell t) = 1 \<and>
     of_from (CurBuyOrSell t) = Some (pe_icrc2 P) \<and> of_to (CurBuyOrSell t) = Some (token_pid q)"
proof -
  let ?p = "st_of (on_search P p0 b (Inr (q # ps)) p)"
  have "cur_project (pg_trade ?p) = Some q" using search_project [of P p0 b "q # ps" p] by simp
  from effect_order [OF this, of P] show ?thesis by (simp add: Let_def)
qed

text \<open>The comments of the last project stay. Going to another project keeps the list of comments:
  the comments of the project before stay in front, and a new comment whose index one of them has
  is never shown. Since every project counts from the same index, a project with no more comments
  than the one before shows none of its own.\<close>

lemma old_comments_stay:
  assumes "comment_idx ` set (cv_fomo_vec v) \<subseteq> comment_idx ` set (LeftFomoContentList (pg_comments p))"
  shows "let p2 = st_of (fomo_effect P (st_of (on_search P p0 b (Inr (q # ps)) p)));
      p3 = st_of (on_comments_part (on_comments adv (Inr v)) p2) in
    cur_project (pg_trade p3) = Some q \<and>
    LeftFomoContentList (pg_comments p3) = LeftFomoContentList (pg_comments p)"
proof -
  let ?p = "st_of (on_search P p0 b (Inr (q # ps)) p)"
  have "cur_project (pg_trade ?p) = Some q" using search_project [of P p0 b "q # ps" p] by simp
  note e = effect_order(2) [OF this, of P]
  have "LeftFomoContentList (pg_comments (st_of (on_comments_part (on_comments adv (Inr v))
      (st_of (fomo_effect P ?p))))) = merge_comments (LeftFomoContentList (pg_comments p)) (cv_fomo_vec v)"
    by (simp add: on_comments_part_def on_comments_list)
  then show ?thesis using e cms.merge_idem [OF assms] by (simp add: Let_def)
qed

end
