(* ===== verification/ProjectView.thy ===== *)
theory ProjectView
  imports IcpInfo View
begin

text \<open>
  What the project page draws (\<open>pages/ICPInfo/ICPInfo.tsx\<close>) and which handler each of its actions
  runs. Amounts are computed with the decimal library while the page is drawn, so drawing is
  fallible: an exception here leaves no page. The lemmas show when a trade can be placed, which
  states cannot be drawn, and that the user can reach them; and that a running trade can be
  started a second time.
\<close>

section \<open>Actions\<close>

datatype canister = FomoCanister | PoolCanister | TokenCanister

fun canister_id :: "canister \<Rightarrow> FomoProject \<Rightarrow> principal" where
  "canister_id FomoCanister q = fomo_pid q"
| "canister_id PoolCanister q = pool_pid q"
| "canister_id TokenCanister q = token_pid q"

datatype project_act =
    GoBack | OpenUser string | OpenReply
  | TabBuy | TabSell | OpenSlippage | TypeTrade | ChooseTrade string | PlaceTrade
  | OpenWeb string | CopyId string | OpenDashboard string | OpenPool string | AddCyclesTo canister
  | ChooseOwner string | CloseTradeSteps | CrossTradeSteps
  | CloseComment | TypeComment | PickCommentImage | PostReply | CancelComment
  | CloseCycles | MaxCycles | TypeCycles | ConfirmCycles
  | CloseOwner | ConfirmOwner
  | CloseSlippage | TypeSlippage | AutoSlippage | ExpertMode bool
  | CloseTradeNotice | ViewTrade | CloseCyclesBar | ViewCyclesBar | ToCanisters
  | Preview nat preview_act

text \<open>What the page reads beside its state: the date library, the user, the price of ICP in
  dollars, the previews that are open and the message bar.\<close>

record project_ctx =
  cx_date :: "int \<Rightarrow> string \<Rightarrow> string"
  cx_uid :: string
  cx_price :: jsval
  cx_preview :: "nat \<Rightarrow> bool"
  cx_bar :: progress_bar

text \<open>\<open>curFomoInfo[0]?.x\<close>: in the text an absent value prints as nothing, in a template and as
  an argument of \<open>toString\<close> as \<open>undefined\<close>.\<close>

definition project_text :: "(FomoProject \<Rightarrow> string) \<Rightarrow> trade_view \<Rightarrow> string" where
  "project_text f t = (case cur_project t of None \<Rightarrow> [] | Some q \<Rightarrow> f q)"

definition project_template :: "(FomoProject \<Rightarrow> string) \<Rightarrow> trade_view \<Rightarrow> string" where
  "project_template f t = (case cur_project t of None \<Rightarrow> ''undefined'' | Some q \<Rightarrow> f q)"

section \<open>The project\<close>

text \<open>The two links back, of which the page shows one, and the notice that there is no project.\<close>

definition back_links :: "icpinfo \<Rightarrow> project_act node list" where
  "back_links p =
     [El [Click GoBack, NoDisplay (\<not> page_visible p)] [Txt ''[ go back ]''],
      El [NoDisplay (page_visible p)] [Txt ''Fomo does not exist''],
      El [Click GoBack, NoDisplay (page_visible p)] [Txt ''[ go back ]'']]"

definition creator :: "data_view \<Rightarrow> project_act node list" where
  "creator d =
     [image_of (map_option UserProfile.avatar (LeftUsername d)),
      button (OpenUser (case LeftUsername d of None \<Rightarrow> ''undefined'' | Some u \<Rightarrow> user_pid u))
        [Txt (case LeftUsername d of None \<Rightarrow> [] | Some u \<Rightarrow> user_name u)]]"

definition chart_page :: "'b bigjs \<Rightarrow> icpinfo \<Rightarrow> project_act node res" where
  "chart_page B p = res_map (\<lambda>cap. box
     [box ([box [Txt (project_text project_name (pg_trade p))],
            box [Txt ''Ticker: '', Txt (project_text ticker (pg_trade p))],
            box [Txt ''Market cap: $'', Txt cap], Txt ''created by''] @ creator (pg_data p)),
      Img (''https://dexscreener.com/icp/'' @ project_template pool_pid (pg_trade p) @
           ''?embed=1&theme=dark&trades=1&info=0'')])
     (market_cap_text B (pg_trade p))"

definition project_card :: "project_ctx \<Rightarrow> icpinfo \<Rightarrow> project_act node" where
  "project_card c p = (let t = pg_trade p in box
     [button OpenReply [Txt ''Post a reply''],
      box [box (creator (pg_data p)),
           box [Txt (CommentsPage.handlTimeFn (cx_date c) (map_option FomoProject.create_time (cur_project t)) False)]],
      map_acts (Preview 0) (ImagePreview (getImgUrl (project_text img_url t)) [] (cx_preview c 0)),
      box [Txt (project_text project_name t), Txt '' (ticker:'', Txt (project_text ticker t), Txt '')'',
           El [NoDisplay (\<not> lf_fomo (showaddcylesimg (pg_cycles p)))]
             [Img ''WarningAmberIcon'', Txt ''Running low on cycles, this token risks delisting!'']],
      box [Txt (project_text FomoProject.description t)]])"

section \<open>The comments\<close>

definition comment_user :: "comments_view \<Rightarrow> principal \<Rightarrow> UserProfile option" where
  "comment_user s u = (case map_of (userInfoList s) u of None \<Rightarrow> None | Some r \<Rightarrow> r)"

definition comment_item :: "project_ctx \<Rightarrow> comments_view \<Rightarrow> nat \<times> Comments \<Rightarrow> project_act node" where
  "comment_item c s ic = (let (i, m) = ic; u = comment_user s (comment_user_pid m) in box
     [Img (case u of None \<Rightarrow> [] | Some v \<Rightarrow> if UserProfile.avatar v \<noteq> [] then getImgUrl (UserProfile.avatar v) else []),
      button (OpenUser (comment_user_pid m)) [Txt (case u of None \<Rightarrow> [] | Some v \<Rightarrow> user_name v)],
      box [Txt (CommentsPage.handlTimeFn (cx_date c) (Some (comment_create_time m)) False)],
      box [map_acts (Preview (Suc i)) (ImagePreview
             (if the_default [] (image_url m) \<noteq> [] then getImgUrl (the_default [] (image_url m)) else [])
             [] (cx_preview c (Suc i))),
           box [Txt (content m)]]])"

definition comment_list :: "project_ctx \<Rightarrow> comments_view \<Rightarrow> project_act node list" where
  "comment_list c s = map (comment_item c s) (enumerate 0 (LeftFomoContentList s)) @
     [El [NoDisplay (\<not> loading s)] [Img ''CircularProgress'']]"

section \<open>The trade\<close>

definition trade_name :: "string \<Rightarrow> string option \<Rightarrow> string" where
  "trade_name absent n = the_default absent n"

definition trade_balance :: "trade_view \<Rightarrow> project_act node" where
  "trade_balance t = box
     [Txt ''Balance: '',
      Txt (if of_dir (CurBuyOrSell t) = 1 then formatAmountByUnit (JNum (CurUserBuyBalance t)) 4
           else formatAmountByUnit (CurUserBalance t) 4), Txt '' '',
      Txt (if of_dir (CurBuyOrSell t) = 1 then hanldString (trade_name [] (sellTokenName t))
           else trade_name [] (buyTokenName t)),
      button OpenSlippage [Txt ''Set max slippage'']]"

text \<open>The field and the token beside it. The image of a token that is sold is the one of the first
  project, without a question mark.\<close>

definition token_image :: "string \<Rightarrow> trade_view \<Rightarrow> string res" where
  "token_image icrc2 t =
     (if of_dir (CurBuyOrSell t) = 1 then Inr (''https://metrics.icpex.org/images/'' @ icrc2 @ ''.png'')
      else case cur_project t of
        None \<Rightarrow> Inl TypeError
      | Some q \<Rightarrow> Inr (''https://metrics.icpex.org/images/'' @ token_pid q @ ''.png''))"

definition trade_field :: "string \<Rightarrow> trade_view \<Rightarrow> project_act node res" where
  "trade_field icrc2 t = res_map (\<lambda>i. box
     [Field ''0.0'' (val_String (inputValue t)) (Some TypeTrade),
      Txt (trade_name ''undefined'' (if of_dir (CurBuyOrSell t) = 1 then sellTokenName t else buyTokenName t)),
      Img i])
     (token_image icrc2 t)"

definition trade_choice :: "string \<times> string \<Rightarrow> project_act node" where
  "trade_choice vl = button (ChooseTrade (fst vl)) [Txt (snd vl)]"

definition trade_choices :: "trade_view \<Rightarrow> project_act node list" where
  "trade_choices t =
     [El [NoDisplay (of_dir (CurBuyOrSell t) \<noteq> 1)]
        (map trade_choice [(''reset'', ''reset''), (''1'', ''1 ICP''), (''5'', ''5 ICP''), (''10'', ''10 ICP'')]),
      El [NoDisplay (of_dir (CurBuyOrSell t) = 1)]
        (map trade_choice [(''reset'', ''reset''), (''0.25'', ''25%''), (''0.50'', ''50%''), (''0.75'', ''75%''),
           (''1'', ''100%'')])]"

definition trade_preview :: "trade_view \<Rightarrow> project_act node" where
  "trade_preview t = box
     [El [NoDisplay (CurswitchIcp t = ''0'')]
        [Txt (CurswitchIcp t), Txt '' '',
         Txt (trade_name [] (if of_dir (CurBuyOrSell t) = 1 then buyTokenName t else sellTokenName t))],
      El [NoDisplay (\<not> isLodingBalance t)] [Img ''CircularProgress'']]"

text \<open>The button. Its colour compares the amount with the balance also where there is no amount.\<close>

definition place_button :: "'b bigjs \<Rightarrow> trade_view \<Rightarrow> project_act node res" where
  "place_button B t =
     res_bind (place_clickable B t) (\<lambda>c.
     res_bind (insufficient B t) (\<lambda>_.
     res_bind (place_label B t) (\<lambda>l.
       Inr (El [Click PlaceTrade, NoPointer (\<not> c), Loading (openRightBox t)] [Txt l]))))"

definition trade_box :: "'b bigjs \<Rightarrow> string \<Rightarrow> trade_view \<Rightarrow> project_act node res" where
  "trade_box B icrc2 t =
     res_bind (trade_field icrc2 t) (\<lambda>f.
     res_bind (place_button B t) (\<lambda>b.
       Inr (box ([button TabBuy [Txt ''Buy''],
                  El [Click TabSell, NoPointer (\<not> sellTabEnabled t)] [Txt ''Sell''],
                  trade_balance t, f] @ trade_choices t @ [trade_preview t, b]))))"

section \<open>Links, progress and holders\<close>

definition web_link :: "string \<Rightarrow> string \<Rightarrow> project_act node" where
  "web_link icon url = El [Click (OpenWeb url), NoDisplay (url = [])] [Img icon, Txt url]"

definition web_links :: "trade_view \<Rightarrow> project_act node list" where
  "web_links t =
     [web_link ''X'' (project_text twitter_link t), web_link ''buy'' (project_text telegram_link t),
      web_link ''linkIcon'' (project_text website t)]"

text \<open>A progress in hundredths of a percent: the text, and the bar by its width.\<close>

definition progress_row :: "string \<Rightarrow> int option \<Rightarrow> project_act node list" where
  "progress_row label n =
     [box [Txt label, Txt (js_toString (progress_percent n)), Txt ''%''],
      Img (js_toString (progress_bar n))]"

text \<open>What is left in the pool; a reserve of zero prints as nothing.\<close>

definition reserve_text :: "int \<Rightarrow> jsnum \<Rightarrow> string" where
  "reserve_text n d =
     (if n = 0 then [] else formatAmountByUnit (JNum (js_div (num_of_int n) (ten_pow d))) 4)"

definition pool_progress_box :: "'b bigjs \<Rightarrow> icpinfo \<Rightarrow> project_act node res" where
  "pool_progress_box B p = (let q = cur_project (pg_trade p); l = poolInfo (pg_data p) in
     res_map (\<lambda>dig. box (progress_row ''well digging progress: '' (map_option pool_progress q) @
       [box [Txt dig, Txt ''Well digging progress will accelerate as the token price increases.'',
             Txt ''There are still '',
             Txt (case l of None \<Rightarrow> [] | Some i \<Rightarrow> reserve_text (base_reserve i) (base_token_decimals i)),
             Txt '' tokens in the well available for sale, and there are '',
             Txt (case l of None \<Rightarrow> [] | Some i \<Rightarrow> reserve_text (quote_reserve i) (Fin 8)),
             Txt '' ICP in the well.'']]))
     (welldiggingtext B q))"

definition god_progress :: "project_ctx \<Rightarrow> icpinfo \<Rightarrow> project_act node" where
  "god_progress c p = (let q = cur_project (pg_trade p); since = Option.bind q god_of_wells_time in
     if the_default 0 since \<noteq> 0
     then box [Txt ''Crowned god of wells on '', Txt (CommentsPage.handlTimeFn (cx_date c) since True)]
     else box (progress_row ''god of wells progress: '' (map_option god_of_wells_progress q) @
       [box [Txt ''dethrone the current god at a $'',
             Txt (formatAmountByUnit (case macketcap (pg_data p) of None \<Rightarrow> JUndef | Some x \<Rightarrow> JNum x) 4),
             Txt '' mcap'']]))"

text \<open>The holders: the first group of the principal, the kind with its sign as UTF-8 bytes, and the
  share to two digits.\<close>

definition holder_kind :: "string \<Rightarrow> string" where
  "holder_kind k =
     (if k = ''pool'' then map char_of [240 :: nat, 159, 143, 166] @ '' (pool)''
      else if k = ''dev'' then map char_of [240 :: nat, 159, 164, 181, 226, 128, 141] @ ''(dev)'' else [])"

definition holder_share :: "jsnum \<Rightarrow> jsnum" where
  "holder_share x = js_div (js_floor (js_mul (js_mul x (Fin 100)) (Fin 100))) (Fin 100)"

definition holder_item :: "nat \<times> HolderInfo \<Rightarrow> project_act node" where
  "holder_item ih = (let (i, h) = ih in box
     [box [Txt (nat_str (Suc i)), Txt ''.''],
      box [Txt (takeWhile (\<lambda>c. c \<noteq> CHR ''-'') (acc_owner (holder_account h)))],
      box [Txt (holder_kind (holder_type h))],
      box [Txt (js_toString (holder_share (holder_percent h))), Txt ''%'']])"

definition holder_list :: "data_view \<Rightarrow> project_act node" where
  "holder_list d = box
     (box [Txt ''Holder distribution''] # map holder_item (enumerate 0 (the_default [] (topTen d))))"

section \<open>The canisters\<close>

text \<open>The row of a canister; the pool and the token have more icons.\<close>

definition canister_row :: "canister \<Rightarrow> string \<Rightarrow> project_act node list \<Rightarrow> bool \<Rightarrow> jsval \<Rightarrow> trade_view \<Rightarrow>
    project_act node" where
  "canister_row k label icons low cycles t = box
     [box ([box [Txt label],
            button (CopyId (project_template (canister_id k) t)) [Img ''ContentCopy''],
            button (OpenDashboard (project_template (canister_id k) t)) [Img ''Launch'']] @ icons),
      El [NoDisplay (\<not> low)] [Img ''addcycles''],
      box [box [Txt (val_String cycles)], button (AddCyclesTo k) [Txt ''+Cycles'']]]"

definition pool_icons :: "trade_view \<Rightarrow> project_act node list" where
  "pool_icons t = only_if (Option.bind (cur_project t) pool_progress_done_time \<noteq> None)
     (button (OpenPool (project_template pool_pid t)) [Img ''Lock''])"

definition token_icons :: "trade_view \<Rightarrow> own_view \<Rightarrow> project_act node list" where
  "token_icons t o1 =
     only_if (isfireicon o1) (button (OpenDashboard (project_template token_pid t)) [Img ''LocalFireDepartmentIcon'']) @
     only_if (issneedicon o1) (button (OpenDashboard (project_template token_pid t)) [Img ''SNEED''])"

definition canisters_overview :: "icpinfo \<Rightarrow> project_act node" where
  "canisters_overview p = (let t = pg_trade p; i = canisterInfos (pg_cycles p); f = showaddcylesimg (pg_cycles p) in
     box [box [Txt ''Canisters overview''],
          canister_row FomoCanister '' Fomo'' [] (lf_fomo f) (ci_fomo i) t,
          canister_row PoolCanister '' Pool'' (pool_icons t) (lf_pool f) (ci_pool i) t,
          canister_row TokenCanister '' Token'' (token_icons t (pg_own p)) (lf_token f) (ci_token i) t])"

text \<open>The options of the developer: for the project's creator, as long as no other has the token.\<close>

definition developer_options :: "string \<Rightarrow> icpinfo \<Rightarrow> project_act node" where
  "developer_options uid p = El
     [NoDisplay (\<not> (map_option create_user_pid (cur_project (pg_trade p)) = Some uid \<and>
        \<not> issneedicon (pg_own p) \<and> \<not> isfireicon (pg_own p)))]
     [box [Txt ''Developer Options''], box [Txt ''Tokens:''],
      box [box [Txt ''Ownership Transfer''],
           button (ChooseOwner ''BalckHole'') [Txt ''Balck Hole''],
           button (ChooseOwner ''SneedDAO'') [Txt ''Sneed DAO'']]]"

section \<open>The dialogs\<close>

definition traded :: "bool \<Rightarrow> trade_view \<Rightarrow> string" where
  "traded paid t = (if (of_dir (CurBuyOrSell t) = 1) = paid then ''ICP'' else project_template ticker t)"

definition trade_steps :: "trade_view \<Rightarrow> project_act node" where
  "trade_steps t = step_dialog (trade_view.openStep t) CloseTradeSteps CrossTradeSteps
     ((if of_dir (CurBuyOrSell t) = 1 then ''Buy'' else ''Sell'') @ '' in progress'')
     (''Approve '' @ traded True t, ''Swap '' @ traded True t @ '' to '' @ traded False t)
     (trade_view.isStepApprove t, trade_view.StepApproveSuccess t)
     (trade_view.isStepCreateFomo t, trade_view.StepCreateFomoSuccess t)"

definition comment_dialog :: "comments_view \<Rightarrow> project_act node" where
  "comment_dialog s = (let written = cc_content (addCommentParams s) \<noteq> [] in
     Overlay (addComment s) CloseComment
     [box [box [Txt ''add a comment''], Field [] [] (Some TypeComment)],
      box [box [Txt ''image''], button PickCommentImage [Img ''chooseFile''],
           Field [] (comments_view.fileName s) None,
           El [Click PostReply, NoPointer (\<not> written), Loading (ispostreply s)]
             [box [Txt (if written then ''post reply'' else ''Enter a comment'')],
              El [NoDisplay (\<not> written)]
                [Txt ''Requires: 6'', El [NoDisplay (ispostreply s)] [Img ''wellToken'']]],
           button CancelComment [Txt ''cancel'']]])"

definition cycles_dialog :: "'b bigjs \<Rightarrow> cycles_view \<Rightarrow> project_act node res" where
  "cycles_dialog B s =
     res_bind (formatUnitToT B (case cyclesfee s of None \<Rightarrow> JUndef | Some f \<Rightarrow> JStr f) 4 True) (\<lambda>fee.
     res_bind (formatUnitToT B (case curCyclesBalance s of None \<Rightarrow> JUndef | Some n \<Rightarrow> JStr (int_str n)) 4 True) (\<lambda>bal.
       Inr (Overlay (addCycles s) CloseCycles
         [button CloseCycles [Img ''CloseIcon''],
          box [Txt ''Add cycles for canister''],
          box [box [Txt ''Fee: '', Txt fee, Txt '' cycles''],
               box [Txt ''Balance:'', Txt bal, button MaxCycles [Txt ''Max'']]],
          box [Field ''0.0'' (displayValue s) (Some TypeCycles), Txt ''T Cycles''],
          El [Click ConfirmCycles, NoPointer (cycles_view.isshow s), Loading (cycles_view.openbuyAmountLoding s)]
            [El [NoDisplay (cycles_view.isshow s)] [Txt ''Confirm''],
             El [NoDisplay (\<not> cycles_view.isshow s)] [Txt (cycles_view.btnfomoText s)]]])))"

definition hole_text :: string where
  "hole_text = ''The control of the token canister will be transferred to the black hole (aaaaa-aa). '' @
     ''This change is irreversible.''"

definition sneed_text :: string where
  "sneed_text = ''The control of the token canister will be transferred to Sneed DAO '' @
     ''(fp274-iaaaa-aaaaq-aacha-cai). Any future upgrades to the token canister will be decided through '' @
     ''Sneed DAO voting.''"

definition owner_dialog :: "jsval \<Rightarrow> own_view \<Rightarrow> project_act node" where
  "owner_dialog price s = Overlay (openOwnership s) CloseOwner
     [box [Txt ''Ownership Transfer''],
      box [Img ''WarningAmberIcon'',
           El [NoDisplay (isSneedDAO s)] [Txt hole_text],
           El [NoDisplay (\<not> isSneedDAO s)] [Txt sneed_text],
           box [box [Txt ''Service Fee''],
                box [Txt (js_toString (js_mul (val_Number price) (Fin 2))), Txt ''ICP'']],
           El [Click ConfirmOwner, Loading (ownershipLoding s)]
             [Txt (if ownershipLoding s then [] else ''Confirm'')]]]"

definition slippage_popover :: "icpinfo \<Rightarrow> project_act node" where
  "slippage_popover p = (let t = pg_trade p in
     Overlay (anchorEl (pg_data p) \<noteq> None) CloseSlippage
     [box [Txt ''Setting''],
      box [box [Txt ''Slippage Tolerance''], box [Txt (InputSlippage t), Txt ''%'']],
      box [Field [] (InputSlippage t) (Some TypeSlippage), Txt ''%'', button AutoSlippage [Txt ''Auto'']],
      box [Txt ''Expert Mode''],
      box [button (ExpertMode False) [Txt ''OFF''], button (ExpertMode True) [Txt ''ON'']]])"

definition trade_notice :: "trade_view \<Rightarrow> project_act node" where
  "trade_notice t = corner_box (openRightBox t) CloseTradeNotice ViewTrade False
     [''Swap '', val_String (inputValue t), '' '', traded True t, '' to '', traded False t]"

definition canisters_arrow :: "cycles_view \<Rightarrow> project_act node" where
  "canisters_arrow s = El [Click ToCanisters, NoDisplay (isWindow (showaddcylesimg s))]
     [Img (if isShowArrPre s then ''addcyclesArrpre'' else ''addcyclesArr'')]"

section \<open>The page\<close>

definition left_part :: "'b bigjs \<Rightarrow> project_ctx \<Rightarrow> icpinfo \<Rightarrow> project_act node res" where
  "left_part B c p = res_map (\<lambda>chart. El [Invisible (\<not> page_visible p)]
     [chart, box (project_card c p # comment_list c (pg_comments p))])
     (chart_page B p)"

definition right_part :: "'b bigjs \<Rightarrow> string \<Rightarrow> project_ctx \<Rightarrow> icpinfo \<Rightarrow> project_act node res" where
  "right_part B icrc2 c p =
     res_bind (trade_box B icrc2 (pg_trade p)) (\<lambda>trade.
     res_bind (pool_progress_box B p) (\<lambda>pool.
       Inr (El [Invisible (\<not> page_visible p)]
         [trade, box (web_links (pg_trade p) @ [pool, god_progress c p, holder_list (pg_data p)]),
          canisters_overview p, developer_options (cx_uid c) p])))"

definition project_dialogs :: "project_ctx \<Rightarrow> icpinfo \<Rightarrow> project_act node \<Rightarrow> project_act node list" where
  "project_dialogs c p cyc =
     [trade_steps (pg_trade p), comment_dialog (pg_comments p), cyc, owner_dialog (cx_price c) (pg_own p),
      slippage_popover p, trade_notice (pg_trade p), progress_view CloseCyclesBar ViewCyclesBar (cx_bar c),
      canisters_arrow (pg_cycles p)]"

definition icpInfo_view :: "'b bigjs \<Rightarrow> string \<Rightarrow> project_ctx \<Rightarrow> icpinfo \<Rightarrow> project_act node res" where
  "icpInfo_view B icrc2 c p =
     res_bind (left_part B c p) (\<lambda>l.
     res_bind (right_part B icrc2 c p) (\<lambda>r.
     res_bind (cycles_dialog B (pg_cycles p)) (\<lambda>cyc.
       Inr (box (back_links p @ [l, r] @ project_dialogs c p cyc)))))"

section \<open>The handlers\<close>

text \<open>What a click depends on beside the page: the length of the history, the popover's anchor,
  whether the clipboard was written, the files picked, and where the cycles panel is.\<close>

record click_ctx =
  ck_history :: nat
  ck_anchor :: nat
  ck_copied :: bool
  ck_files :: "upload_file list option"
  ck_panel :: "jsnum option"

definition cur_canister :: "canister \<Rightarrow> icpinfo \<Rightarrow> principal res" where
  "cur_canister k p = (case cur_project (pg_trade p) of
     None \<Rightarrow> Inl TypeError | Some q \<Rightarrow> Inr (canister_id k q))"

text \<open>\<open>p0\<close> is the page as drawn, \<open>t\<close> the text typed.\<close>

fun project_do :: "'b page_env \<Rightarrow> project_ctx \<Rightarrow> click_ctx \<Rightarrow> project_act \<Rightarrow> string \<Rightarrow> icpinfo \<Rightarrow> icpinfo \<Rightarrow> page_out"
where
  "project_do P c k GoBack t p0 p = emits p (ProjectData.BtnGoback (ck_history k))"
| "project_do P c k (OpenUser u) t p0 p = emits p (ProjectData.BtnGoUserInfo u)"
| "project_do P c k OpenReply t p0 p = on_comments_part (\<lambda>s. plain (CommentsPage.BtnRightReply s)) p"
| "project_do P c k TabBuy t p0 p = plain (page_btnBuy P p0 p)"
| "project_do P c k TabSell t p0 p = on_trade (\<lambda>s. plain (Trade.btnSell (pe_icrc2 P) (pg_trade p0) s)) p"
| "project_do P c k OpenSlippage t p0 p = on_data (\<lambda>s. plain (ProjectData.handleClick (ck_anchor k) s)) p"
| "project_do P c k TypeTrade t p0 p = on_trade (Trade.InputAmountChange (pg_trade p0) t) p"
| "project_do P c k (ChooseTrade v) t p0 p = on_trade (Trade.selectHandle (pe_big P) (pg_trade p0) v) p"
| "project_do P c k PlaceTrade t p0 p = on_trade (Trade.btnPlaceTrade P (cx_uid c) (pg_trade p0)) p"
| "project_do P c k (OpenWeb u) t p0 p = emits p (ProjectData.btnToWeb u)"
| "project_do P c k (CopyId i) t p0 p = emits p (ProjectData.CanisterCopyBtnFn i (ck_copied k))"
| "project_do P c k (OpenDashboard i) t p0 p = emits p (ProjectData.getIdDashboardURL i)"
| "project_do P c k (OpenPool i) t p0 p = emits p (ProjectData.getPoolDashboardURL i)"
| "project_do P c k (AddCyclesTo m) t p0 p = (case cur_canister m p0 of
     Inl e \<Rightarrow> throws p e | Inr i \<Rightarrow> on_cycles (Cycles.openAddCyclesModal P (cx_uid c) i) p)"
| "project_do P c k (ChooseOwner v) t p0 p = on_own (\<lambda>s. plain (Ownership.openOwnershipFn v s)) p"
| "project_do P c k CloseTradeSteps t p0 p = on_trade (\<lambda>s. plain (Trade.handleCloseStep s)) p"
| "project_do P c k CrossTradeSteps t p0 p = on_trade (\<lambda>s. plain (Trade.onBtnCloseStep s)) p"
| "project_do P c k CloseComment t p0 p = on_comments_part (\<lambda>s. plain (CommentsPage.handleaddComment s)) p"
| "project_do P c k TypeComment t p0 p = on_comments_part (\<lambda>s. plain
     (s\<lparr> addCommentParams := (addCommentParams (pg_comments p0))\<lparr> cc_content := t \<rparr> \<rparr>)) p"
| "project_do P c k PickCommentImage t p0 p = on_comments_part (CommentsPage.BtnPhoto (ck_files k)) p"
| "project_do P c k PostReply t p0 p = on_comments_part (CommentsPage.BtnPostreply (cx_uid c) (pg_comments p0)) p"
| "project_do P c k CancelComment t p0 p = on_comments_part (\<lambda>s. plain (CommentsPage.BtnCloseAddModal s)) p"
| "project_do P c k CloseCycles t p0 p = on_cycles (\<lambda>s. plain (Cycles.handleaddaddCycles s)) p"
| "project_do P c k MaxCycles t p0 p = on_cycles (Cycles.btnMax (pe_big P) (pg_cycles p0)) p"
| "project_do P c k TypeCycles t p0 p = on_cycles (Cycles.inputamountchange t) p"
| "project_do P c k ConfirmCycles t p0 p = on_cycles (Cycles.btnBuyamount P (pg_cycles p0)) p"
| "project_do P c k CloseOwner t p0 p = on_own (\<lambda>s. plain (Ownership.handleopenOwnership s)) p"
| "project_do P c k ConfirmOwner t p0 p =
     on_own (Ownership.btnremoveownership P (cx_price c) (cur_project (pg_trade p0)) (pg_own p0)) p"
| "project_do P c k CloseSlippage t p0 p = on_data (\<lambda>s. plain (ProjectData.handleClose s)) p"
| "project_do P c k TypeSlippage t p0 p = on_trade (\<lambda>s. plain (s\<lparr> InputSlippage := t \<rparr>)) p"
| "project_do P c k AutoSlippage t p0 p = on_trade (\<lambda>s. plain (s\<lparr> InputSlippage := ''0.5'' \<rparr>)) p"
| "project_do P c k (ExpertMode b) t p0 p = on_trade (\<lambda>s. plain (Trade.handleMode b s)) p"
| "project_do P c k CloseTradeNotice t p0 p = on_trade (\<lambda>s. plain (Trade.closeRightBox s)) p"
| "project_do P c k ViewTrade t p0 p = on_trade (\<lambda>s. plain (s\<lparr> trade_view.openStep := True \<rparr>)) p"
| "project_do P c k CloseCyclesBar t p0 p = plain p"
| "project_do P c k ViewCyclesBar t p0 p = plain p"
| "project_do P c k ToCanisters t p0 p = on_cycles (Cycles.btntoaddcanisters (ck_panel k)) p"
| "project_do P c k (Preview i a) t p0 p = plain p"

section \<open>What can be clicked\<close>

text \<open>The actions of the trade; no other part of the page offers them.\<close>

fun trade_act :: "project_act \<Rightarrow> bool" where
  "trade_act PlaceTrade = True"
| "trade_act TabSell = True"
| "trade_act CloseTradeNotice = True"
| "trade_act _ = False"

abbreviation no_trade :: "project_act node \<Rightarrow> bool" where
  "no_trade n \<equiv> list_all (\<lambda>h. \<not> trade_act h) (live n)"

abbreviation no_trades :: "project_act node list \<Rightarrow> bool" where
  "no_trades ns \<equiv> list_all no_trade ns"

lemma no_trade_item: "no_trade (comment_item c s ic)"
  by (cases ic) (simp add: comment_item_def live_map list.pred_map Let_def)

lemma no_trade_comments: "no_trades (comment_list c s)"
  using no_trade_item by (simp add: comment_list_def list.pred_map o_def list.pred_True)

lemma no_trade_creator: "no_trades (creator d)"
  by (simp add: creator_def image_of_def)

lemma no_trade_card: "no_trade (project_card c p)"
  using no_trade_creator [of "pg_data p"] by (simp add: project_card_def all_live live_map Let_def)

lemma no_trade_left: "left_part B c p = Inr l \<Longrightarrow> no_trade l"
  using no_trade_creator [of "pg_data p"] no_trade_card [of c p] no_trade_comments [of c "pg_comments p"]
  by (auto simp: left_part_def chart_page_def res_map_eq_Inr all_live)

lemma no_trade_links: "no_trades (web_links t)"
  by (simp add: web_links_def web_link_def)

lemma no_trade_row: "no_trades icons \<Longrightarrow> no_trade (canister_row k label icons low cycles t)"
  by (simp add: canister_row_def all_live)

lemma no_trade_overview: "no_trade (canisters_overview p)"
  by (simp add: canisters_overview_def no_trade_row pool_icons_def token_icons_def Let_def)

lemma holders_live: "live (holder_list d) = []"
  by (simp add: holder_list_def holder_item_def case_prod_beta)

lemma no_trade_god: "no_trade (god_progress c p)"
  by (simp add: god_progress_def progress_row_def Let_def)

lemma no_trade_pool: "pool_progress_box B p = Inr l \<Longrightarrow> no_trade l"
  by (auto simp: pool_progress_box_def progress_row_def Let_def res_map_eq_Inr)

lemma no_trade_developer: "no_trade (developer_options uid p)"
  by (simp add: developer_options_def)

lemma no_trade_dialogs:
  "no_trade (comment_dialog s)" "no_trade (owner_dialog price o1)" "no_trade (slippage_popover p)"
  "no_trade (trade_steps t)" "no_trade (canisters_arrow y)" "no_trade (progress_view CloseCyclesBar ViewCyclesBar b)"
  "no_trades (back_links p)"
  by (simp_all add: comment_dialog_def owner_dialog_def slippage_popover_def trade_steps_def canisters_arrow_def
      back_links_def Let_def)

lemma no_trade_cycles: "cycles_dialog B s = Inr n \<Longrightarrow> no_trade n"
  by (auto simp: cycles_dialog_def res_bind_eq_Inr)

lemma no_trade_out: "no_trade n \<Longrightarrow> trade_act h \<Longrightarrow> h \<notin> set (live n)"
  by (auto simp: list_all_iff)

lemma no_trades_out: "no_trades ns \<Longrightarrow> trade_act h \<Longrightarrow> h \<notin> set (concat (map live ns))"
  by (auto simp: list_all_iff)

lemma trade_box_live:
  assumes "trade_box B icrc2 t = Inr n" "trade_act h"
  shows "h \<in> set (live n) \<longleftrightarrow>
    (h = TabSell \<and> sellTabEnabled t) \<or>
    (h = PlaceTrade \<and> place_clickable B t = Inr True \<and> \<not> openRightBox t)"
  using assms
  by (cases h) (auto simp: trade_box_def trade_field_def place_button_def trade_balance_def trade_choices_def
      trade_choice_def trade_preview_def res_map_eq_Inr res_bind_eq_Inr)

lemma page_live:
  assumes "icpInfo_view B icrc2 c p = Inr n" "trade_act h"
  shows "h \<in> set (live n) \<longleftrightarrow> (case h of
      PlaceTrade \<Rightarrow> page_visible p \<and> place_clickable B (pg_trade p) = Inr True \<and> \<not> openRightBox (pg_trade p)
    | TabSell \<Rightarrow> page_visible p \<and> sellTabEnabled (pg_trade p)
    | CloseTradeNotice \<Rightarrow> openRightBox (pg_trade p)
    | _ \<Rightarrow> False)"
proof -
  obtain l r cyc where parts: "left_part B c p = Inr l" "right_part B icrc2 c p = Inr r"
    "cycles_dialog B (pg_cycles p) = Inr cyc" and n: "n = box (back_links p @ [l, r] @ project_dialogs c p cyc)"
    using assms(1) by (auto simp: icpInfo_view_def res_bind_eq_Inr)
  obtain tr pool where tr: "trade_box B icrc2 (pg_trade p) = Inr tr" "pool_progress_box B p = Inr pool"
    and r: "r = El [Invisible (\<not> page_visible p)]
         [tr, box (web_links (pg_trade p) @ [pool, god_progress c p, holder_list (pg_data p)]),
          canisters_overview p, developer_options (cx_uid c) p]"
    using parts(2) by (auto simp: right_part_def res_bind_eq_Inr)
  note out = no_trade_out [OF _ assms(2)] no_trades_out [OF _ assms(2)]
  have "h \<in> set (live r) \<longleftrightarrow> page_visible p \<and> h \<in> set (live tr)"
    using out(1) [OF no_trade_pool [OF tr(2)]] out(1) [OF no_trade_god] holders_live [of "pg_data p"]
      out(1) [OF no_trade_overview] out(1) [OF no_trade_developer] out(2) [OF no_trade_links]
    by (simp add: r)
  moreover have "h \<notin> set (live l)" by (rule out(1) [OF no_trade_left [OF parts(1)]])
  moreover have "h \<in> set (concat (map live (project_dialogs c p cyc))) \<longleftrightarrow>
      h \<in> set (live (trade_notice (pg_trade p)))"
    using no_trade_dialogs(1-6) [THEN out(1)] out(1) [OF no_trade_cycles [OF parts(3)]]
    by (simp add: project_dialogs_def del: progress_view_live)
  moreover have "h \<notin> set (concat (map live (back_links p)))" by (rule out(2) [OF no_trade_dialogs(7)])
  ultimately show ?thesis using trade_box_live [OF tr(1) assms(2)] assms(2)
    by (cases h) (simp_all add: n trade_notice_def)
qed

text \<open>The texts computed by the library while the page is drawn.\<close>

lemma big_int_num:
  assumes "big_laws B val" "\<bar>n\<bar> \<le> 2 ^ 53"
  shows "\<exists>b. big_num B (Fin (of_int n)) = Inr b"
  using big_lawsD(1) [OF assms] by blast

lemma market_cap_drawn: "big_laws B val \<Longrightarrow> \<exists>m. market_cap_text B t = Inr m"
proof (cases "cur_project t")
  case (Some q)
  assume "big_laws B val"
  then show ?thesis
    by (rule units_exist [of B val 18 "market_cap q"]) (simp_all add: market_cap_text_def Some)
qed (simp add: market_cap_text_def)

lemma dig_drawn:
  assumes L: "big_laws B val"
  shows "\<exists>d. welldiggingtext B q = Inr d"
proof -
  have "\<exists>d. dig_locked B n dao = Inr d" for n dao
    using big_int_num [OF L, of 100]
    by (auto intro: units_exist [OF L, of 16 n] simp: dig_locked_def lock_percent_def)
  then show ?thesis by (simp add: welldiggingtext_def split: option.splits)
qed

definition counted :: "string option \<Rightarrow> bool" where
  "counted o1 = (case o1 of None \<Rightarrow> True | Some s \<Rightarrow> \<exists>n. s = nat_str n \<and> n \<le> 2 ^ 53)"

lemma unit_drawn:
  assumes L: "big_laws B val" and "counted o1"
  shows "\<exists>u. formatUnitToT B (case o1 of None \<Rightarrow> JUndef | Some s \<Rightarrow> JStr s) d b = Inr u"
proof (cases o1)
  case (Some s)
  with assms(2) obtain n where n: "s = nat_str n" "n \<le> 2 ^ 53" by (auto simp: counted_def)
  have u: "js_parseFloat s = Fin (of_int (int n))"
    using n fl_int [of "int n"] by (simp add: js_parseFloat_nat_str)
  obtain v where v: "big_num B (Fin (of_int (int n))) = Inr v" using big_int_num [OF L, of "int n"] n by auto
  obtain t where t: "big_num B one_T = Inr t" "val t = 1000000000000"
    using big_lawsD(1) [OF L, of 1000000000000] by (auto simp: one_T_def)
  obtain x where "big_div B v t = Inr x" using big_div_error [OF L, of t v] t by auto
  then show ?thesis using Some u v t by (simp add: formatUnitToT_def)
qed (simp add: formatUnitToT_def)

definition cycles_counted :: "cycles_view \<Rightarrow> bool" where
  "cycles_counted s \<longleftrightarrow> counted (cyclesfee s) \<and> counted (map_option int_str (curCyclesBalance s))"

lemma cycles_drawn:
  assumes "big_laws B val" "cycles_counted s"
  shows "\<exists>n. cycles_dialog B s = Inr n"
proof -
  have "(case map_option int_str (curCyclesBalance s) of None \<Rightarrow> JUndef | Some t \<Rightarrow> JStr t) =
      (case curCyclesBalance s of None \<Rightarrow> JUndef | Some n \<Rightarrow> JStr (int_str n))"
    by (simp split: option.splits)
  then show ?thesis
    using unit_drawn [OF assms(1), of "cyclesfee s" 4 True] assms(2)
      unit_drawn [OF assms(1), of "map_option int_str (curCyclesBalance s)" 4 True]
    by (auto simp: cycles_dialog_def cycles_counted_def)
qed

lemma button_drawn: "(\<exists>n. place_button B t = Inr n) \<longleftrightarrow> (\<exists>i. insufficient B t = Inr i)"
  by (cases "insufficient B t") (auto simp: place_button_def place_clickable_def place_label_def)

lemma field_drawn: "(\<exists>n. trade_field i t = Inr n) \<longleftrightarrow> of_dir (CurBuyOrSell t) = 1 \<or> cur_project t \<noteq> None"
  by (auto simp: trade_field_def token_image_def res_map_eq_Inr split: option.splits)

text \<open>The parts that can fail.\<close>

lemma drawn_parts: "(\<exists>n. icpInfo_view B icrc2 c p = Inr n) \<longleftrightarrow>
    (\<exists>m. market_cap_text B (pg_trade p) = Inr m) \<and>
    (of_dir (CurBuyOrSell (pg_trade p)) = 1 \<or> cur_project (pg_trade p) \<noteq> None) \<and>
    (\<exists>i. insufficient B (pg_trade p) = Inr i) \<and>
    (\<exists>d. welldiggingtext B (cur_project (pg_trade p)) = Inr d) \<and> (\<exists>y. cycles_dialog B (pg_cycles p) = Inr y)"
proof -
  have "(\<exists>n. trade_box B icrc2 (pg_trade p) = Inr n) \<longleftrightarrow>
      (\<exists>n. trade_field icrc2 (pg_trade p) = Inr n) \<and> (\<exists>n. place_button B (pg_trade p) = Inr n)"
    by (auto simp: trade_box_def res_bind_eq_Inr)
  moreover have "(\<exists>n. left_part B c p = Inr n) \<longleftrightarrow> (\<exists>m. market_cap_text B (pg_trade p) = Inr m)"
    by (auto simp: left_part_def chart_page_def res_map_eq_Inr)
  moreover have "(\<exists>n. pool_progress_box B p = Inr n) \<longleftrightarrow> (\<exists>d. welldiggingtext B (cur_project (pg_trade p)) = Inr d)"
    by (auto simp: pool_progress_box_def Let_def res_map_eq_Inr)
  moreover have "(\<exists>n. icpInfo_view B icrc2 c p = Inr n) \<longleftrightarrow> (\<exists>n. left_part B c p = Inr n) \<and>
      (\<exists>n. trade_box B icrc2 (pg_trade p) = Inr n) \<and> (\<exists>n. pool_progress_box B p = Inr n) \<and>
      (\<exists>y. cycles_dialog B (pg_cycles p) = Inr y)"
    by (auto simp: icpInfo_view_def right_part_def res_bind_eq_Inr)
  ultimately show ?thesis unfolding field_drawn button_drawn by auto
qed

lemma drawn_or_error: "(\<nexists>n. icpInfo_view B icrc2 c p = Inr n) \<Longrightarrow> \<exists>e. icpInfo_view B icrc2 c p = Inl e"
  by (cases "icpInfo_view B icrc2 c p") auto

text \<open>C26. When the page can be drawn. Under the laws of the library, and with cycles counted in whole
  numbers below \<open>2^53\<close>, the page is drawn exactly if it buys or a project is loaded, and the
  comparison of the typed amount with the balance can be computed.\<close>

theorem page_drawn_iff:
  assumes "big_laws B val" "cycles_counted (pg_cycles p)"
  shows "(\<exists>n. icpInfo_view B icrc2 c p = Inr n) \<longleftrightarrow>
    (of_dir (CurBuyOrSell (pg_trade p)) = 1 \<or> cur_project (pg_trade p) \<noteq> None) \<and>
    (\<exists>i. insufficient B (pg_trade p) = Inr i)"
  using market_cap_drawn [OF assms(1)] dig_drawn [OF assms(1)] cycles_drawn [OF assms]
  by (simp add: drawn_parts)

section \<open>States that cannot be drawn\<close>

text \<open>C31. A text that is no decimal takes the page down. The field takes every text that reads as a
  number, such as \<open>0x1\<close>, but the decimal library refuses characters no decimal literal has: after
  the text is typed, in whatever state, the page cannot be drawn.\<close>

theorem typed_text_takes_page_down:
  assumes "big_laws (pe_big P) val" "js_Number t \<noteq> NaN" "\<not> list_all literal_char t"
  shows "\<exists>e. icpInfo_view (pe_big P) icrc2 c (st_of (project_do P c k TypeTrade t p0 p)) = Inl e"
proof (rule drawn_or_error)
  have "inputValue (pg_trade (st_of (project_do P c k TypeTrade t p0 p))) = JStr t"
    using assms(2) by (auto simp: on_trade_def Trade.InputAmountChange_def Let_def split: sum.splits)
  moreover have "t \<noteq> []" using assms(3) by auto
  ultimately have "\<nexists>i. insufficient (pe_big P) (pg_trade (st_of (project_do P c k TypeTrade t p0 p))) = Inr i"
    using big_laws_reject(5) [OF assms(1,3)] by (simp add: insufficient_def)
  then show "\<nexists>n. icpInfo_view (pe_big P) icrc2 c (st_of (project_do P c k TypeTrade t p0 p)) = Inr n"
    unfolding drawn_parts by blast
qed

lemma hex_text: "js_Number ''0x1'' = Fin 1"
proof -
  have "js_trim ''0x1'' = ''0x1''" "parse_prefixed ''0x1'' = Some (Some 1)" by code_simp+
  then show ?thesis using fl_int [of 1] by (simp add: js_Number_def)
qed

text \<open>Before the project is loaded the page is shown with an empty project, and its tab for selling
  can be pressed; the image of the token sold then reads a project that is not there.\<close>

lemma sell_before_load:
  assumes "icpInfo_view (pe_big P) icrc2 c p = Inr n" "cur_project (pg_trade p) = None"
    and "searchFomosInit (pg_data p)" "sellTabEnabled (pg_trade p)"
  shows "TabSell \<in> set (live n) \<and>
    (\<exists>e. icpInfo_view (pe_big P) icrc2 c (st_of (project_do P c k TabSell t p p)) = Inl e)"
proof
  show "TabSell \<in> set (live n)" using page_live [OF assms(1), of TabSell] assms(2-4) by (simp add: page_visible_def)
  let ?p = "st_of (project_do P c k TabSell t p p)"
  have "of_dir (CurBuyOrSell (pg_trade ?p)) = 0" "cur_project (pg_trade ?p) = None"
    using assms(2) by (simp_all add: on_trade_def Trade.btnSell_def cur_project_def)
  then have "\<nexists>m. icpInfo_view (pe_big P) icrc2 c ?p = Inr m" unfolding drawn_parts by simp
  then show "\<exists>e. icpInfo_view (pe_big P) icrc2 c ?p = Inl e" by (rule drawn_or_error)
qed

section \<open>Trading\<close>

lemma approve_only_trade:
  "TTrade (WaitApprove w) \<in> set (tasks_of (project_do P c k a t p0 p)) \<Longrightarrow> a = PlaceTrade"
  by (cases a) (auto simp: on_trade_def on_comments_part_def on_data_def on_cycles_def on_own_def
      Trade.InputAmountChange_def Trade.selectHandle_def Let_def split: if_splits sum.splits)

lemma place_trade_out:
  assumes "TTrade (WaitApprove w) \<in> set (tasks_of (project_do P c k PlaceTrade t p p))"
  shows "cx_uid c \<noteq> [] \<and> of_amount (CurBuyOrSell (pg_trade p)) \<notin> {None, Some 0} \<and>
    pg_trade (st_of (project_do P c k PlaceTrade t p p)) = (pg_trade p)\<lparr> openStep := True, openRightBox := True \<rparr>"
  using assms
  by (auto simp: on_trade_def Trade.btnPlaceTrade_def Let_def emits_def split: sum.splits if_splits)

definition trade_margin :: "trade_view \<Rightarrow> jsnum" where
  "trade_margin t = (if of_dir (CurBuyOrSell t) = 1 then lit 1 10000 else Fin 1)"

definition trade_funds :: "'b bigjs \<Rightarrow> trade_view \<Rightarrow> 'b res" where
  "trade_funds B t = (if of_dir (CurBuyOrSell t) = 1 then big_num B (CurUserBuyBalance t)
     else big_val B (CurUserBalance t))"

lemma clickable_within:
  assumes "big_laws B val" "place_clickable B t = Inr True"
  shows "\<exists>v b m. big_val B (inputValue t) = Inr v \<and> trade_funds B t = Inr b \<and>
    big_num B (trade_margin t) = Inr m \<and> val v \<le> val b - val m"
proof -
  have i: "val_truthy (inputValue t)" "insufficient B t = Inr False"
    using assms(2) by (auto simp: place_clickable_def res_map_eq_Inr split: if_splits)
  then obtain v b m where "big_val B (inputValue t) = Inr v" "trade_funds B t = Inr b"
    "big_num B (trade_margin t) = Inr m" "\<not> big_lt B (big_minus B b m) v"
    unfolding insufficient_def trade_funds_def trade_margin_def by (auto simp: res_bind_eq_Inr)
  then show ?thesis using big_lawsD(5,12) [OF assms(1)] by (auto simp: not_less)
qed

text \<open>A page on which a trade can be placed.\<close>

definition ready_trade :: trade_view where
  "ready_trade = (sample_view 0 1)\<lparr> inputValue := JStr ''1'' \<rparr>"

definition ready_page :: icpinfo where
  "ready_page = (page_init ''i'')\<lparr> pg_trade := ready_trade \<rparr>"

definition ready_ctx :: project_ctx where
  "ready_ctx = \<lparr> cx_date = (\<lambda>_ s. s), cx_uid = ''u'', cx_price = JNull, cx_preview = (\<lambda>_. False), cx_bar = bar_init \<rparr>"

definition sample_click :: click_ctx where
  "sample_click = \<lparr> ck_history = 1, ck_anchor = 0, ck_copied = True, ck_files = None, ck_panel = None \<rparr>"

lemma one_text: "rat_of_dec ''1'' = Inr 1" "int_str 1 = ''1''" "int_str 2 = ''2''"
  using rat_of_dec_int_str [of 1]
  by (simp_all add: int_str_def nat_str.simps digit_char_def char_of_def bit_simps)

lemma ready_insufficient: "insufficient rat_big ready_trade = Inr False"
  by (simp add: insufficient_def ready_trade_def sample_view_def rat_big_def one_text)

theorem page_drawn_iff_witness:
  "\<exists>n. icpInfo_view rat_big ''i'' ready_ctx ready_page = Inr n"
proof -
  have "cycles_counted (pg_cycles ready_page)" "pg_trade ready_page = ready_trade" "cur_project ready_trade \<noteq> None"
    by (simp_all add: ready_page_def page_init_def cycles_init_def cycles_counted_def counted_def
        ready_trade_def sample_view_def cur_project_def)
  then show ?thesis using page_drawn_iff [OF rat_big_laws, of ready_page "''i''" ready_ctx] ready_insufficient by auto
qed

theorem typed_text_takes_page_down_witness:
  "\<exists>e. icpInfo_view rat_big ''i'' ready_ctx
    (st_of (project_do sample_page ready_ctx sample_click TypeTrade ''0x1'' ready_page ready_page)) = Inl e"
proof -
  have "js_Number ''0x1'' \<noteq> NaN" by (simp add: hex_text del: js_Number_def)
  moreover have "\<not> list_all literal_char ''0x1''" by code_simp
  moreover have "pe_big sample_page = rat_big" by (simp add: sample_page_def)
  ultimately show ?thesis
    using typed_text_takes_page_down [of sample_page "\<lambda>x. x" "''0x1''" "''i''" ready_ctx sample_click ready_page ready_page] rat_big_laws by simp
qed

lemma ready_drawn:
  obtains n where "icpInfo_view (pe_big sample_page) ''i'' ready_ctx ready_page = Inr n" "PlaceTrade \<in> set (live n)"
proof -
  have "cycles_counted (pg_cycles ready_page)"
    by (simp add: ready_page_def page_init_def cycles_init_def cycles_counted_def counted_def)
  then obtain n where n: "icpInfo_view rat_big ''i'' ready_ctx ready_page = Inr n"
    using drawn_parts [of rat_big "''i''" ready_ctx ready_page] market_cap_drawn [OF rat_big_laws, of ready_trade]
      dig_drawn [OF rat_big_laws, of "Some sample_project"] cycles_drawn [OF rat_big_laws, of "pg_cycles ready_page"]
      ready_insufficient
    by (auto simp: ready_page_def ready_trade_def cur_project_def sample_view_def)
  moreover have "page_visible ready_page"
    by (simp add: page_visible_def ready_page_def ready_trade_def cur_project_def sample_view_def sample_project_def)
  moreover have "val_truthy (inputValue ready_trade)" "openRightBox ready_trade = False"
    by (simp_all add: ready_trade_def sample_view_def trade_init_def)
  ultimately have "PlaceTrade \<in> set (live n)"
    using page_live [OF n, of PlaceTrade] ready_insufficient by (simp add: place_clickable_def ready_page_def)
  with n that show thesis by (simp add: sample_page_def)
qed

lemma ready_approve: "TTrade (WaitApprove ready_trade) \<in>
    set (tasks_of (project_do sample_page ready_ctx k PlaceTrade t ready_page ready_page))"
  using js_BigInt_int_str [of 2]
  by (simp add: on_trade_def Trade.btnPlaceTrade_def approve_call_def ready_page_def ready_trade_def ready_ctx_def
      sample_view_def sample_page_def rat_big_def one_text env_principal_def sample_env_def
      from_text_def cur_token_def cur_project_def sample_project_def rat_to_str_def Let_def)



text \<open>The flags of the step dialog and of the notice are not part of what can fail, nor of the order:
  \<open>with_flags u t\<close> is the trade \<open>t\<close> with the flags of \<open>u\<close>.\<close>

definition with_flags :: "trade_view \<Rightarrow> trade_view \<Rightarrow> trade_view" where
  "with_flags u t = t\<lparr> openStep := trade_view.openStep u, openRightBox := openRightBox u,
     isStepApprove := trade_view.isStepApprove u, isStepCreateFomo := trade_view.isStepCreateFomo u,
     StepApproveSuccess := trade_view.StepApproveSuccess u,
     StepCreateFomoSuccess := trade_view.StepCreateFomoSuccess u \<rparr>"

lemma with_flags_sel [simp]:
  "trade_view.openStep (with_flags u t) = trade_view.openStep u"
  "openRightBox (with_flags u t) = openRightBox u" "CurBuyOrSell (with_flags u t) = CurBuyOrSell t"
  by (simp_all add: with_flags_def)

lemma with_flags_closed:
  "Trade.handleCloseStep (with_flags u t) = with_flags (Trade.handleCloseStep u) t"
  "Trade.closeRightBox (with_flags u t) = with_flags (Trade.closeRightBox u) t"
  by (simp_all add: with_flags_def Trade.handleCloseStep_def reset_steps_def Trade.closeRightBox_def)


lemma flags_drawn:
  "(\<exists>n. icpInfo_view B icrc2 c (p\<lparr> pg_trade := with_flags u (pg_trade p) \<rparr>) = Inr n) \<longleftrightarrow>
   (\<exists>n. icpInfo_view B icrc2 c p = Inr n)"
  unfolding drawn_parts by (simp add: with_flags_def market_cap_text_def insufficient_def cur_project_def)

lemma flags_clickable:
  "place_clickable B (with_flags u t) = place_clickable B t"
  by (simp add: with_flags_def place_clickable_def insufficient_def)

lemma flags_approve: "approve_call P (with_flags u t) a = approve_call P t a"
  by (simp add: with_flags_def approve_call_def cur_token_def cur_project_def)

lemma flags_place:
  "fx_of (Trade.btnPlaceTrade P uid (with_flags u t) s) = fx_of (Trade.btnPlaceTrade P uid t s')"
proof -
  have f: "fx_of (case approve_call P t' a of Inl e \<Rightarrow> throws s1 e | Inr c \<Rightarrow> (s1, [Call c], [WaitApprove t'])) =
      (case approve_call P t' a of Inl e \<Rightarrow> [Uncaught e] | Inr c \<Rightarrow> [Call c])" for t' a s1
    by (simp add: throws_def split: sum.splits)
  show ?thesis
    by (auto simp: Trade.btnPlaceTrade_def Let_def f flags_approve emits_def throws_def split: sum.split)
qed

lemma trade_steps_live:
  assumes "icpInfo_view B icrc2 c p = Inr n" "trade_view.openStep (pg_trade p)"
  shows "CloseTradeSteps \<in> set (live n)"
  using assms by (auto simp: icpInfo_view_def res_bind_eq_Inr project_dialogs_def trade_steps_def)

text \<open>C29. A running trade can be started again. While the approve of a trade runs the button is
  blocked, the step dialog lies over the page and the notice is drawn. The dialog can be closed, and
  then the notice, whose cross only closes the notice; but the button is blocked by the flag of the
  notice, so it takes clicks again, and pressing it sends the same approve a second time and a
  second trade waits for it.\<close>

theorem trade_restarts:
  fixes P :: "'b page_env"
  assumes "icpInfo_view (pe_big P) icrc2 c p = Inr n" "PlaceTrade \<in> set (live n)"
    and "TTrade (WaitApprove w) \<in> set (tasks_of (project_do P c k PlaceTrade t p p))"
  defines "p1 \<equiv> st_of (project_do P c k PlaceTrade t p p)"
  defines "d1 \<equiv> st_of (project_do P c k CloseTradeSteps t p1 p1)"
  defines "p2 \<equiv> st_of (project_do P c k CloseTradeNotice t d1 d1)"
  shows "(\<exists>n1. icpInfo_view (pe_big P) icrc2 c p1 = Inr n1 \<and> PlaceTrade \<notin> set (live n1) \<and>
      CloseTradeNotice \<in> set (live n1) \<and> CloseTradeSteps \<in> set (live n1)) \<and>
    trade_view.openStep (pg_trade p1) \<and> \<not> trade_view.openStep (pg_trade d1) \<and>
    (\<exists>m. icpInfo_view (pe_big P) icrc2 c d1 = Inr m \<and> PlaceTrade \<notin> set (live m) \<and>
      CloseTradeNotice \<in> set (live m)) \<and>
    \<not> trade_view.openStep (pg_trade p2) \<and>
    (\<exists>n2. icpInfo_view (pe_big P) icrc2 c p2 = Inr n2 \<and> PlaceTrade \<in> set (live n2)) \<and>
    calls (fx_of (project_do P c k PlaceTrade t p2 p2)) = calls (fx_of (project_do P c k PlaceTrade t p p)) \<and>
    calls (fx_of (project_do P c k PlaceTrade t p p)) \<noteq> []"
proof -
  define q where "q u = p\<lparr> pg_trade := with_flags u (pg_trade p) \<rparr>" for u
  let ?u = "(pg_trade p)\<lparr> openStep := True, openRightBox := True \<rparr>"
  have qt: "pg_trade (q u) = with_flags u (pg_trade p)" for u by (simp add: q_def)
  have p1: "p1 = q ?u"
    using place_trade_out [OF assms(3)]
    by (simp add: p1_def q_def with_flags_def on_trade_def lift_def Let_def)
  have d1: "d1 = q (Trade.handleCloseStep ?u)"
    by (simp add: d1_def p1 on_trade_def lift_def qt with_flags_closed Let_def) (simp add: q_def)
  have p2: "p2 = q (Trade.closeRightBox (Trade.handleCloseStep ?u))"
    by (simp add: p2_def d1 on_trade_def lift_def qt with_flags_closed Let_def) (simp add: q_def)
  have f: "trade_view.openStep (pg_trade p1)" "openRightBox (pg_trade p1)"
    "\<not> trade_view.openStep (pg_trade d1)" "openRightBox (pg_trade d1)"
    "\<not> trade_view.openStep (pg_trade p2)" "\<not> openRightBox (pg_trade p2)"
    unfolding p1 d1 p2 qt
    by (simp_all add: Trade.handleCloseStep_def reset_steps_def Trade.closeRightBox_def)
  have d: "\<exists>n. icpInfo_view (pe_big P) icrc2 c (q u) = Inr n" for u
    unfolding q_def flags_drawn using assms(1) by blast
  have l: "page_visible p" "place_clickable (pe_big P) (pg_trade p) = Inr True"
    using page_live [OF assms(1), of PlaceTrade] assms(2) by simp_all
  have v: "page_visible (q u)" for u
    using l(1) by (simp add: q_def with_flags_def page_visible_def cur_project_def split: option.splits)
  have b: "PlaceTrade \<notin> set (live m) \<and> CloseTradeNotice \<in> set (live m)"
    if "icpInfo_view (pe_big P) icrc2 c r = Inr m" "openRightBox (pg_trade r)" for r m
    using page_live [OF that(1), of PlaceTrade] page_live [OF that(1), of CloseTradeNotice] that(2) by simp
  obtain n1 where n1: "icpInfo_view (pe_big P) icrc2 c p1 = Inr n1" using d p1 by blast
  obtain m where m: "icpInfo_view (pe_big P) icrc2 c d1 = Inr m" using d d1 by blast
  obtain n2 where n2: "icpInfo_view (pe_big P) icrc2 c p2 = Inr n2" using d p2 by blast
  have "page_visible p2" "place_clickable (pe_big P) (pg_trade p2) = Inr True"
    unfolding p2 qt flags_clickable by (rule v, rule l(2))
  then have "PlaceTrade \<in> set (live n2)" using page_live [OF n2, of PlaceTrade] f(6) by simp
  moreover have "calls (fx_of (project_do P c k PlaceTrade t p p)) \<noteq> []"
    using assms(3) by (auto simp: on_trade_def Trade.btnPlaceTrade_def Let_def emits_def split: sum.splits if_splits)
  moreover have "fx_of (project_do P c k PlaceTrade t p2 p2) = fx_of (project_do P c k PlaceTrade t p p)"
    by (simp add: p2 q_def on_trade_def flags_place [where s' = "pg_trade p"])
  ultimately show ?thesis
    using n1 n2 m b [OF n1 f(2)] b [OF m f(4)] f trade_steps_live [OF n1 f(1)]
    by (simp del: project_do.simps)
qed

theorem trade_restarts_witness:
  "let p1 = st_of (project_do sample_page ready_ctx sample_click PlaceTrade [] ready_page ready_page);
      d1 = st_of (project_do sample_page ready_ctx sample_click CloseTradeSteps [] p1 p1);
      p2 = st_of (project_do sample_page ready_ctx sample_click CloseTradeNotice [] d1 d1) in
    \<exists>n. icpInfo_view (pe_big sample_page) ''i'' ready_ctx p2 = Inr n \<and> PlaceTrade \<in> set (live n)"
proof -
  obtain n where "icpInfo_view (pe_big sample_page) ''i'' ready_ctx ready_page = Inr n" "PlaceTrade \<in> set (live n)"
    by (rule ready_drawn)
  then show ?thesis
    using trade_restarts [of sample_page "''i''" ready_ctx ready_page n ready_trade sample_click "[]"] ready_approve
    unfolding Let_def by blast
qed

end
