(* ===== verification/Home.thy ===== *)
theory Home
  imports Signals
begin

text \<open>
  The board (\<open>pages/Home/Home.tsx\<close>): the list of wells with its order, sort, search text and
  pages, the names, replies and low-cycles marks of the wells shown, and the god of wells. The
  order and sort menus are a memoised child that never renders again, so their handlers close
  over the first render. The lemmas show which request each control leads to and how the
  parameters of the requests relate to what the controls show.
\<close>

section \<open>State\<close>

record home_view = signal_view +
  SortVal :: string
  OrderVal :: string
  searchInputVal :: string
  searchFomosParams :: SearchParam
  showVal :: bool
  fomoList :: "FomoProject list"
  hm_userInfo :: "principal \<rightharpoonup> UserProfile option"
  lowBattery :: "principal \<rightharpoonup> bool"
  userReplies :: "principal \<rightharpoonup> string"
  godOfWells :: "FomoProject option"
  godOfWellName :: "string option"
  godOfWellReplies :: string
  GodUserInfo :: "UserProfile option"
  currentPage :: int
  shake :: bool
  hm_cache :: actor_cache

definition home_init :: home_view where
  "home_init = \<lparr> FomContext = None, last_buy_sell_op_img = Some [],
     last_create_fomo_img = Some [], buyShake = False, createShake = False,
     SortVal = ''BumpOrder'', OrderVal = ''DESC'', searchInputVal = [],
     searchFomosParams = \<lparr> sp_order = DESC, sp_sort = BumpOrder, sp_text = [], sp_limit = 6,
       sp_start = 0 \<rparr>,
     showVal = False, fomoList = [], hm_userInfo = Map.empty, lowBattery = Map.empty,
     userReplies = Map.empty, godOfWells = None, godOfWellName = Some [],
     godOfWellReplies = [], GodUserInfo = None, currentPage = 1, shake = False,
     hm_cache = Map.empty \<rparr>"

datatype home_task =
    HomeSignal signal_task
  | WaitPage
  | WaitSearch string
  | WaitDefault
  | WaitGod bool
  | WaitGodUser
  | WaitGodName
  | WaitGodReplies
  | WaitNames "FomoProject list"
  | TimerShake
  | StartContextInterval
  | ContextInterval
  | StartGodInterval
  | GodInterval

type_synonym home_out = "(home_view, home_task) outcome"

section \<open>Order and sort\<close>

definition sort_of :: "string \<Rightarrow> SortType option" where
  "sort_of v =
     (if v = ''BumpOrder'' then Some BumpOrder else if v = ''LastReply'' then Some LastReply
      else if v = ''ReplyCount'' then Some ReplyCount else if v = ''MarketCap'' then Some MarketCap
      else if v = ''CreationTime'' then Some CreationTime else None)"

definition order_of :: "string \<Rightarrow> OrderType option" where
  "order_of v = (if v = ''ASC'' then Some ASC else if v = ''DESC'' then Some DESC else None)"

definition handleSortMenuChange :: "string \<Rightarrow> home_view \<Rightarrow> home_view \<Rightarrow> home_view" where
  "handleSortMenuChange v s0 s =
     (case sort_of v of None \<Rightarrow> s
      | Some t \<Rightarrow> s\<lparr> searchFomosParams := (searchFomosParams s0)\<lparr> sp_sort := t \<rparr> \<rparr>)\<lparr> SortVal := v \<rparr>"

definition handleOrderMenuChange :: "string \<Rightarrow> home_view \<Rightarrow> home_view \<Rightarrow> home_view" where
  "handleOrderMenuChange v s0 s =
     (case order_of v of None \<Rightarrow> s
      | Some t \<Rightarrow> s\<lparr> searchFomosParams := (searchFomosParams s0)\<lparr> sp_order := t \<rparr> \<rparr>)\<lparr> OrderVal := v \<rparr>"

text \<open>The menus. Their handlers are those of the first render.\<close>

record selects =
  sel_sort :: string
  sel_order :: string

definition SelectsMemoSortChange ::
  "string \<Rightarrow> home_view \<Rightarrow> selects \<times> home_view \<Rightarrow> selects \<times> home_view" where
  "SelectsMemoSortChange v first r =
     ((fst r)\<lparr> sel_sort := v \<rparr>, handleSortMenuChange v first (snd r))"

definition SelectsMemoOrderChange ::
  "string \<Rightarrow> home_view \<Rightarrow> selects \<times> home_view \<Rightarrow> selects \<times> home_view" where
  "SelectsMemoOrderChange v first r =
     ((fst r)\<lparr> sel_order := v \<rparr>, handleOrderMenuChange v first (snd r))"

section \<open>Searching\<close>

text \<open>\<open>searchFomos\<close>: the parameters with the order, the sort and the text of this render; the start
  is that of the parameters.\<close>

definition search_params :: "home_view \<Rightarrow> SearchParam option" where
  "search_params s = (case (order_of (OrderVal s), sort_of (SortVal s)) of
     (Some r, Some t) \<Rightarrow> Some ((searchFomosParams s)
        \<lparr> sp_order := r, sp_sort := t, sp_text := searchInputVal s \<rparr>)
   | _ \<Rightarrow> None)"

definition searchFomos :: "environment \<Rightarrow> string \<Rightarrow> home_view \<Rightarrow> home_view \<Rightarrow> home_out" where
  "searchFomos env type s0 s = (case search_params s0 of
     None \<Rightarrow> throws s TypeError
   | Some p \<Rightarrow> (s, [Call (search_fomos env p)], [WaitSearch type]))"

definition on_searched :: "string \<Rightarrow> FomoProjectSearchVo res \<Rightarrow> home_view \<Rightarrow> home_out" where
  "on_searched type reply s = (case reply of
     Inl e \<Rightarrow> throws s e
   | Inr v \<Rightarrow>
       ((if type = ''search'' then s\<lparr> currentPage := 1 \<rparr> else s)
          \<lparr> fomoList := sv_fomo_vec v, showVal := True \<rparr>,
        (if sv_fomo_vec v = [] then [MsgError ''Nothing more''] else []),
        [WaitNames (sv_fomo_vec v)]))"

definition BtnSearch :: "environment \<Rightarrow> home_view \<Rightarrow> home_view \<Rightarrow> home_out" where
  "BtnSearch env = searchFomos env ''search''"

text \<open>The effects on the order and sort, on the search text, and on the start.\<close>

definition sort_effect :: "environment \<Rightarrow> home_view \<Rightarrow> home_out" where
  "sort_effect env s = searchFomos env ''search'' s s"

definition text_effect :: "home_view \<Rightarrow> home_view" where
  "text_effect s =
     s\<lparr> searchFomosParams := (searchFomosParams s)\<lparr> sp_text := searchInputVal s \<rparr> \<rparr>"

definition start_effect :: "environment \<Rightarrow> home_view \<Rightarrow> home_out" where
  "start_effect env s = searchFomos env [] s s"

definition set_search_text :: "string \<Rightarrow> home_view \<Rightarrow> home_view" where
  "set_search_text v s = s\<lparr> searchInputVal := v \<rparr>"

section \<open>Pages\<close>

text \<open>With a search text only the parameters change, and the effect on their start asks; without
  one the request is sent here and the parameters stay.\<close>

definition pagChange :: "environment \<Rightarrow> int \<Rightarrow> home_view \<Rightarrow> home_view \<Rightarrow> home_out" where
  "pagChange env page s0 s =
     (let s1 = s\<lparr> showVal := False \<rparr>; addStart = 6 * page - 6 in
      if searchInputVal s0 \<noteq> []
      then plain (s1\<lparr> searchFomosParams := (searchFomosParams s0)
                      \<lparr> sp_start := addStart, sp_text := searchInputVal s0 \<rparr> \<rparr>)
      else (s1, [Call (search_fomos env ((searchFomosParams s0)\<lparr> sp_start := addStart \<rparr>))], [WaitPage]))"

definition on_page :: "FomoProjectSearchVo res \<Rightarrow> home_view \<Rightarrow> home_out" where
  "on_page reply s = (case reply of
     Inl e \<Rightarrow> throws s e
   | Inr v \<Rightarrow>
       if sv_fomo_vec v \<noteq> []
       then (s\<lparr> fomoList := sv_fomo_vec v, showVal := True \<rparr>, [], [WaitNames (sv_fomo_vec v)])
       else emits (s\<lparr> fomoList := sv_fomo_vec v, showVal := True \<rparr>) [MsgError ''Nothing more''])"

definition handlePrevPage :: "environment \<Rightarrow> home_view \<Rightarrow> home_view \<Rightarrow> home_out" where
  "handlePrevPage env s0 s =
     (if currentPage s0 > 1
      then then_do (pagChange env (currentPage s0 - 1) s0 s)
             (\<lambda>s. plain (s\<lparr> currentPage := currentPage s0 - 1 \<rparr>))
      else plain s)"

definition handleNextPage :: "environment \<Rightarrow> home_view \<Rightarrow> home_view \<Rightarrow> home_out" where
  "handleNextPage env s0 s =
     (if fomoList s0 \<noteq> []
      then then_do (pagChange env (currentPage s0 + 1) s0 s)
             (\<lambda>s. plain (s\<lparr> currentPage := currentPage s0 + 1 \<rparr>))
      else emits s [MsgWarning ''Nothing more''])"

section \<open>The wells shown\<close>

text \<open>The three settled requests of a well. The profile's failure is caught in its function,
  which shows a message.\<close>

record well_replies =
  wr_user :: "UserProfile option res"
  wr_len :: "int res"
  wr_cycles :: "int res"

definition settled_cycles :: "int res \<Rightarrow> int" where
  "settled_cycles r = (case r of Inl _ \<Rightarrow> 0 | Inr n \<Rightarrow> n)"

text \<open>A well is low when its cycles, \<open>0\<close> after a failure, are below the limit; only otherwise is
  the reject message looked at.\<close>

definition is_low :: "'b bigjs \<Rightarrow> int res \<Rightarrow> bool res" where
  "is_low B r =
     res_bind (big_num B (num_of_int (settled_cycles r))) (\<lambda>v.
     res_bind (big_num B (Fin 100000000000)) (\<lambda>m.
       if big_lt B v m then Inr True
       else (case r of
           Inr _ \<Rightarrow> Inr False
         | Inl (CallError _ (Some msg)) \<Rightarrow> Inr (str_includes ''frozen'' msg)
         | Inl _ \<Rightarrow> Inl TypeError)))"

record well_names =
  wn_users :: "principal \<rightharpoonup> UserProfile option"
  wn_low :: "principal \<rightharpoonup> bool"
  wn_replies :: "principal \<rightharpoonup> string"

definition name_well :: "'b bigjs \<Rightarrow> (int \<Rightarrow> string) \<Rightarrow> FomoProject \<Rightarrow> well_replies \<Rightarrow> well_names \<Rightarrow>
    (well_names \<times> effect list) res" where
  "name_well B loc f r n =
     res_map (\<lambda>low.
       (n\<lparr> wn_users := (wn_users n)(create_user_pid f \<mapsto> (case wr_user r of Inl _ \<Rightarrow> None | Inr u \<Rightarrow> u)),
           wn_low := (wn_low n)(token_pid f \<mapsto> low),
           wn_replies := (wn_replies n)(token_pid f \<mapsto> (case wr_len r of Inl _ \<Rightarrow> [] | Inr k \<Rightarrow> loc k)) \<rparr>,
        (case wr_user r of Inl _ \<Rightarrow> [MsgError ''getFomoUserInfo error''] | Inr _ \<Rightarrow> [])))
       (is_low B (wr_cycles r))"

text \<open>The wells one after the other. The replies of every well so far are shown at once, the names
  and the marks at the end; an exception ends the loop.\<close>

fun updateFomoUserNames :: "'b bigjs \<Rightarrow> (int \<Rightarrow> string) \<Rightarrow> (FomoProject \<times> well_replies) list \<Rightarrow>
    well_names \<Rightarrow> home_view \<Rightarrow> home_out" where
  "updateFomoUserNames B loc [] n s =
     plain (s\<lparr> hm_userInfo := wn_users n, lowBattery := wn_low n \<rparr>)"
| "updateFomoUserNames B loc ((f, r) # frs) n s = (case name_well B loc f r n of
     Inl e \<Rightarrow> throws s e
   | Inr (n', es) \<Rightarrow>
       then_do (emits (s\<lparr> userReplies := wn_replies n' \<rparr>) es) (updateFomoUserNames B loc frs n'))"

definition no_names :: well_names where
  "no_names = \<lparr> wn_users = Map.empty, wn_low = Map.empty, wn_replies = Map.empty \<rparr>"

section \<open>The god of wells\<close>

text \<open>The requests for its author and its replies; \<open>read_len\<close> goes through the actor cache.\<close>

definition god_requests :: "'b page_env \<Rightarrow> FomoProject \<Rightarrow> home_view \<Rightarrow> home_out" where
  "god_requests P f s =
     (let (c, ca) = get_comments_len (fomo_pid f) (hm_cache s) in
      case getBaseUserInfo (pe_valid P) (pe_env P) (create_user_pid f) of
        Inl e \<Rightarrow> (s\<lparr> godOfWells := Some f, hm_cache := ca \<rparr>,
                  [Uncaught e, Call (getFomoUserInfo (pe_env P) (create_user_pid f)), Call c],
                  [WaitGodName, WaitGodReplies])
      | Inr b \<Rightarrow> (s\<lparr> godOfWells := Some f, hm_cache := ca \<rparr>,
                  [Call b, Call (getFomoUserInfo (pe_env P) (create_user_pid f)), Call c],
                  [WaitGodUser, WaitGodName, WaitGodReplies]))"

text \<open>The reply; \<open>poll\<close> is the request of the interval, which compares the index with the one it
  saw last, a variable of the first render.\<close>

definition on_god :: "'b page_env \<Rightarrow> bool \<Rightarrow> FomoProject option res \<Rightarrow> string \<Rightarrow> home_view \<Rightarrow>
    string \<times> home_out" where
  "on_god P poll reply cur s = (case reply of
     Inl e \<Rightarrow> (cur, throws s e)
   | Inr None \<Rightarrow> (cur, plain s)
   | Inr (Some f) \<Rightarrow>
       if poll
       then (int_str (fomo_idx f),
             then_do (god_requests P f s)
               (\<lambda>s. plain (s\<lparr> shake := (int_str (fomo_idx f) \<noteq> cur) \<rparr>)))
       else (cur, god_requests P f s))"

definition on_god_user :: "UserProfile option res \<Rightarrow> home_view \<Rightarrow> home_out" where
  "on_god_user reply s = (case reply of
     Inl e \<Rightarrow> throws s e | Inr u \<Rightarrow> plain (s\<lparr> GodUserInfo := u \<rparr>))"

definition on_god_name :: "UserProfile option res \<Rightarrow> home_view \<Rightarrow> home_out" where
  "on_god_name reply s = (case reply of
     Inl _ \<Rightarrow> emits s [MsgError ''getFomoUserInfo error'']
   | Inr u \<Rightarrow> plain (s\<lparr> godOfWellName := map_option user_name u \<rparr>))"

definition on_god_replies :: "(int \<Rightarrow> string) \<Rightarrow> int res \<Rightarrow> home_view \<Rightarrow> home_view" where
  "on_god_replies loc reply s = (case reply of
     Inl _ \<Rightarrow> s
   | Inr n \<Rightarrow> if loc n \<noteq> ''[object Object]'' then s\<lparr> godOfWellReplies := loc n \<rparr> else s)"

section \<open>The mount\<close>

definition defaultgetFomoList :: "environment \<Rightarrow> home_view \<Rightarrow> home_view \<Rightarrow> home_out" where
  "defaultgetFomoList env s0 s =
     (s\<lparr> showVal := False \<rparr>,
      [Call (search_fomos env (searchFomosParams s0)), Call (get_god_of_wells env)],
      [WaitDefault, WaitGod False])"

definition on_default :: "FomoProjectSearchVo res \<Rightarrow> home_view \<Rightarrow> home_out" where
  "on_default reply s = (case reply of
     Inl e \<Rightarrow> throws s e
   | Inr v \<Rightarrow> (s\<lparr> fomoList := sv_fomo_vec v, showVal := True \<rparr>, [], [WaitNames (sv_fomo_vec v)]))"

definition home_mount :: "environment \<Rightarrow> home_view \<Rightarrow> home_out" where
  "home_mount env s =
     then_do (tag_tasks HomeSignal (getFomContext env s)) (\<lambda>s1.
     then_do (defaultgetFomoList env s s1) (\<lambda>s2.
       (s2, [], [StartContextInterval, StartGodInterval])))"

text \<open>Timers: the delayed intervals, their ticks, and the end of the god's shake.\<close>

fun home_tick :: "environment \<Rightarrow> home_task \<Rightarrow> home_view \<Rightarrow> home_out option" where
  "home_tick env StartContextInterval s = Some (s, [], [ContextInterval])"
| "home_tick env ContextInterval s =
     Some (then_do (tag_tasks HomeSignal (getFomContext env s)) (\<lambda>s. (s, [], [ContextInterval])))"
| "home_tick env StartGodInterval s = Some (s, [], [GodInterval])"
| "home_tick env GodInterval s =
     Some (s, [Call (get_god_of_wells env)], [WaitGod True, GodInterval])"
| "home_tick env TimerShake s = Some (plain (s\<lparr> shake := False \<rparr>))"
| "home_tick env _ s = None"

definition god_shake_effect :: "home_view \<Rightarrow> home_task list" where
  "god_shake_effect s = (if shake s then [TimerShake] else [])"

section \<open>Navigation\<close>

text \<open>The project as a flat object: a bigint becomes a number, a principal its text, and an optional
  amount, an array, the text of its element.\<close>

definition opt_text :: "int option \<Rightarrow> jsval" where
  "opt_text x = JStr (case x of None \<Rightarrow> [] | Some n \<Rightarrow> int_str n)"

definition big_field :: "int \<Rightarrow> jsval" where
  "big_field n = JNum (num_of_int n)"

definition fomo_fields :: "FomoProject \<Rightarrow> (string \<times> jsval) list" where
  "fomo_fields f =
     [(''god_of_wells_time'', opt_text (god_of_wells_time f)),
      (''twitter_link'', JStr (twitter_link f)),
      (''sneed_dao_lock'', opt_text (sneed_dao_lock f)),
      (''market_cap'', big_field (market_cap f)),
      (''recently_reply_time'', big_field (recently_reply_time f)),
      (''ticker'', JStr (ticker f)), (''img_url'', JStr (img_url f)),
      (''dogmi_dao_lock'', opt_text (dogmi_dao_lock f)),
      (''name'', JStr (project_name f)),
      (''recently_bump_time'', big_field (recently_bump_time f)),
      (''create_user_pid'', JStr (create_user_pid f)),
      (''description'', JStr (description f)),
      (''pool_progress_done_time'', opt_text (pool_progress_done_time f)),
      (''telegram_link'', JStr (telegram_link f)), (''website'', JStr (website f)),
      (''fomo_idx'', big_field (fomo_idx f)), (''fomo_pid'', JStr (fomo_pid f)),
      (''create_time'', big_field (create_time f)),
      (''reply_count'', big_field (reply_count f)),
      (''token_pid'', JStr (token_pid f)),
      (''pool_progress'', big_field (pool_progress f)),
      (''pool_pid'', JStr (pool_pid f)),
      (''god_of_wells_progress'', big_field (god_of_wells_progress f))]"

definition BtnShowIcpInfo :: "FomoProject \<Rightarrow> effect list" where
  "BtnShowIcpInfo f =
     [StoreWrite (store_setCurBtnFomoIcpInfo (fomo_fields f)), Navigate (''/'' @ fomo_pid f)]"

definition godBtnShowIcpInfo :: "FomoProject \<Rightarrow> effect list" where
  "godBtnShowIcpInfo f =
     [StoreWrite (store_setCurBtnFomoIcpInfo []), Navigate (''/'' @ fomo_pid f)]"

definition btnToProfile :: "principal \<Rightarrow> effect list" where
  "btnToProfile p = [Navigate (''/profile/'' @ p)]"

definition BtnNewCoin :: "effect list" where
  "BtnNewCoin = [Navigate ''/create'']"

definition BtnToUserInfoPage :: "principal \<Rightarrow> effect list" where
  "BtnToUserInfoPage p = [StoreWrite (ls_set ''setCurUserInfoPid'' p), Navigate (''/profile/'' @ p)]"

section \<open>Lemmas\<close>

text \<open>The order and sort shown are always ones the request knows.\<close>

definition menus_ok :: "home_view \<Rightarrow> bool" where
  "menus_ok s = (order_of (OrderVal s) \<noteq> None \<and> sort_of (SortVal s) \<noteq> None)"

lemma menus_ok_init [simp]: "menus_ok home_init"
  by (simp add: menus_ok_def home_init_def order_of_def sort_of_def)

lemma menus_ok_change:
  "menus_ok s \<Longrightarrow> sort_of v \<noteq> None \<Longrightarrow> menus_ok (handleSortMenuChange v s0 s)"
  "menus_ok s \<Longrightarrow> order_of v \<noteq> None \<Longrightarrow> menus_ok (handleOrderMenuChange v s0 s)"
  by (auto simp: menus_ok_def handleSortMenuChange_def handleOrderMenuChange_def split: option.splits)

lemma search_request:
  assumes "menus_ok s0"
  shows "\<exists>p. search_params s0 = Some p \<and> searchFomos env t s0 s = (s, [Call (search_fomos env p)], [WaitSearch t]) \<and>
    order_of (OrderVal s0) = Some (sp_order p) \<and> sort_of (SortVal s0) = Some (sp_sort p) \<and>
    sp_text p = searchInputVal s0 \<and> sp_start p = sp_start (searchFomosParams s0)"
  using assms by (auto simp: menus_ok_def search_params_def searchFomos_def)

lemma is_low_failed:
  assumes "big_laws B val"
  shows "is_low B (Inl e) = Inr True"
proof -
  obtain v where v: "big_num B (Fin (of_int 0)) = Inr v" "val v = of_int 0"
    using big_lawsD(1) [OF assms, of 0] by auto
  obtain m where m: "big_num B (Fin (of_int 100000000000)) = Inr m" "val m = of_int 100000000000"
    using big_lawsD(1) [OF assms, of 100000000000] by auto
  have z: "num_of_int 0 = Fin 0" using num_of_int_exact [of 0] by simp
  show ?thesis using v m big_lawsD(12) [OF assms, of v m] by (simp add: is_low_def settled_cycles_def z)
qed

section \<open>Reachable states\<close>

text \<open>What the user, the replies and the timers can do to the board. A handler runs with the
  snapshot of a render, any state reached before; the menus' handlers have the first one.\<close>

inductive home_reach :: "'b page_env \<Rightarrow> home_view \<Rightarrow> bool" for P where
  start: "home_reach P home_init"
| mount: "home_reach P s \<Longrightarrow> home_reach P (st_of (home_mount (pe_env P) s))"
| sort: "home_reach P s \<Longrightarrow> sort_of v \<noteq> None \<Longrightarrow>
    home_reach P (snd (SelectsMemoSortChange v home_init (m, s)))"
| order: "home_reach P s \<Longrightarrow> order_of v \<noteq> None \<Longrightarrow>
    home_reach P (snd (SelectsMemoOrderChange v home_init (m, s)))"
| typed: "home_reach P s \<Longrightarrow> home_reach P (set_search_text v s)"
| typed_changed: "home_reach P s \<Longrightarrow> home_reach P (text_effect s)"
| search: "home_reach P s0 \<Longrightarrow> home_reach P s \<Longrightarrow> home_reach P (st_of (BtnSearch (pe_env P) s0 s))"
| prev_page: "home_reach P s0 \<Longrightarrow> home_reach P s \<Longrightarrow> home_reach P (st_of (handlePrevPage (pe_env P) s0 s))"
| next_page: "home_reach P s0 \<Longrightarrow> home_reach P s \<Longrightarrow> home_reach P (st_of (handleNextPage (pe_env P) s0 s))"
| searched: "home_reach P s \<Longrightarrow> home_reach P (st_of (on_searched t vo s))"
| paged: "home_reach P s \<Longrightarrow> home_reach P (st_of (on_page vo s))"
| defaulted: "home_reach P s \<Longrightarrow> home_reach P (st_of (on_default vo s))"
| named: "home_reach P s \<Longrightarrow> home_reach P (st_of (updateFomoUserNames (pe_big P) loc frs n s))"
| god: "home_reach P s \<Longrightarrow> home_reach P (st_of (snd (on_god P poll r cur s)))"
| god_parts: "home_reach P s \<Longrightarrow>
    s' \<in> {st_of (on_god_user u s), st_of (on_god_name u s), on_god_replies loc l s} \<Longrightarrow> home_reach P s'"
| signals: "home_reach P s \<Longrightarrow> home_reach P (st_of (snd (on_create_fomo False c p1 r m s)))"
| shakes: "home_reach P s \<Longrightarrow> shake_timer t s = Some s' \<Longrightarrow> home_reach P s'"
| tick: "home_reach P s \<Longrightarrow> home_tick (pe_env P) t s = Some r \<Longrightarrow> home_reach P (st_of r)"

definition search_inv :: "home_view \<Rightarrow> bool" where
  "search_inv s = (menus_ok s \<and> sp_limit (searchFomosParams s) = 6 \<and>
     6 dvd sp_start (searchFomosParams s) \<and> 0 \<le> sp_start (searchFomosParams s) \<and> 1 \<le> currentPage s)"

text \<open>The steps that leave the search alone.\<close>

definition same_search :: "home_view \<Rightarrow> home_view \<Rightarrow> bool" where
  "same_search s s' = (SortVal s' = SortVal s \<and> OrderVal s' = OrderVal s \<and>
     searchFomosParams s' = searchFomosParams s \<and> currentPage s' = currentPage s)"

lemma same_search_inv: "same_search s s' \<Longrightarrow> search_inv s \<Longrightarrow> search_inv s'"
  by (simp add: same_search_def search_inv_def menus_ok_def)

lemma same_search_trans: "same_search s s' \<Longrightarrow> same_search s' s'' \<Longrightarrow> same_search s s''"
  by (simp add: same_search_def)

lemma same_search_names: "same_search s (st_of (updateFomoUserNames B loc frs n s))"
proof (induction B loc frs n s rule: updateFomoUserNames.induct)
  case (1 B loc n s)
  then show ?case by (simp add: same_search_def)
next
  case (2 B loc f r frs n s)
  then show ?case
    by (auto simp: same_search_def split: sum.splits)
qed

lemma same_search_steps:
  "same_search s (st_of (home_mount env s))" "same_search s (set_search_text v s)"
  "same_search s (st_of (BtnSearch env s0 s))" "same_search s (st_of (on_page vo s))"
  "same_search s (st_of (on_default vo s))" "same_search s (st_of (snd (on_god P poll r cur s)))"
  "same_search s (st_of (on_god_user u s))" "same_search s (st_of (on_god_name u s))"
  "same_search s (on_god_replies loc l s)"
  "same_search s (st_of (snd (on_create_fomo False c p1 cr m s)))"
  by (auto simp: same_search_def home_mount_def getFomContext_def defaultgetFomoList_def
      set_search_text_def BtnSearch_def searchFomos_def on_page_def on_default_def on_god_def
      god_requests_def on_god_user_def on_god_name_def on_god_replies_def on_create_fomo_def Let_def
      split: sum.splits option.splits prod.splits)

lemma same_search_timers:
  "shake_timer t s = Some s' \<Longrightarrow> same_search s s'"
  "home_tick env ht s = Some r \<Longrightarrow> same_search s (st_of r)"
  by (cases t; auto simp: same_search_def) (cases ht; auto simp: same_search_def getFomContext_def)

lemma search_inv_pages:
  assumes "search_inv s0" "search_inv s" "1 \<le> n"
  shows "search_inv ((st_of (pagChange env n s0 s))\<lparr> currentPage := n \<rparr>)"
  using assms by (auto simp: search_inv_def menus_ok_def pagChange_def Let_def)

lemma search_inv_handlers:
  assumes "search_inv s0" "search_inv s"
  shows "search_inv (st_of (handlePrevPage env s0 s))" "search_inv (st_of (handleNextPage env s0 s))"
proof -
  have "1 \<le> currentPage s0" using assms(1) by (simp add: search_inv_def)
  then show "search_inv (st_of (handlePrevPage env s0 s))" "search_inv (st_of (handleNextPage env s0 s))"
    using assms search_inv_pages [OF assms, of "currentPage s0 - 1" env]
      search_inv_pages [OF assms, of "currentPage s0 + 1" env]
    by (auto simp: handlePrevPage_def handleNextPage_def)
qed

lemma search_inv_init: "search_inv home_init"
  unfolding search_inv_def using menus_ok_init by (simp add: home_init_def)

lemma search_inv_menus:
  assumes "search_inv s"
  shows "sort_of v \<noteq> None \<Longrightarrow> search_inv (handleSortMenuChange v home_init s)"
    "order_of v \<noteq> None \<Longrightarrow> search_inv (handleOrderMenuChange v home_init s)"
    "search_inv (text_effect s)" "search_inv (st_of (on_searched t vo s))"
  using assms menus_ok_change [of s v home_init]
  by (auto simp: search_inv_def handleSortMenuChange_def handleOrderMenuChange_def text_effect_def
      on_searched_def menus_ok_def home_init_def split: sum.splits)

lemma home_reach_inv: "home_reach P s \<Longrightarrow> search_inv s"
proof (induction rule: home_reach.induct)
  case start
  show ?case by (rule search_inv_init)
next
  case (god_parts s s' u l loc)
  then show ?case using same_search_inv same_search_steps(7-9) by blast
next
  case (shakes s t s')
  then show ?case using same_search_inv same_search_timers(1) by blast
next
  case (tick s t r)
  then show ?case using same_search_inv same_search_timers(2) by blast
next
  case (prev_page s0 s)
  then show ?case by (simp add: search_inv_handlers)
next
  case (next_page s0 s)
  then show ?case by (simp add: search_inv_handlers)
qed (simp_all add: search_inv_menus SelectsMemoSortChange_def SelectsMemoOrderChange_def
       same_search_inv [OF same_search_steps(1)] same_search_inv [OF same_search_steps(2)]
       same_search_inv [OF same_search_steps(3)] same_search_inv [OF same_search_steps(4)]
       same_search_inv [OF same_search_steps(5)] same_search_inv [OF same_search_steps(6)]
       same_search_inv [OF same_search_steps(10)] same_search_inv [OF same_search_names])

text \<open>C13. A search asks for what the menus show. In every state the board can reach, with handlers
  of any earlier render, the search button sends exactly one request, with the order, the sort and
  the text shown, for six wells from the start of some page; it never meets a value it does not
  know.\<close>

theorem search_as_shown:
  assumes "home_reach P s"
  shows "\<exists>p. BtnSearch env s s = (s, [Call (search_fomos env p)], [WaitSearch ''search'']) \<and>
    order_of (OrderVal s) = Some (sp_order p) \<and> sort_of (SortVal s) = Some (sp_sort p) \<and>
    sp_text p = searchInputVal s \<and> sp_limit p = 6 \<and> (\<exists>k\<ge>0. sp_start p = 6 * k)"
proof -
  have i: "menus_ok s" "sp_limit (searchFomosParams s) = 6" "6 dvd sp_start (searchFomosParams s)"
    "0 \<le> sp_start (searchFomosParams s)"
    using home_reach_inv [OF assms] by (simp_all add: search_inv_def)
  obtain k where "sp_start (searchFomosParams s) = 6 * k" using i(3) by (rule dvdE)
  then show ?thesis using i
    by (auto simp: menus_ok_def search_params_def searchFomos_def BtnSearch_def)
qed

text \<open>The next page forgets the sort. The menus are handlers of the first render, so choosing an
  order after a sort puts the sort of the first render back into the parameters: without a search
  text the next page is asked for by bump order, while the menu and the page shown so far have the
  sort chosen.\<close>

lemma paging_forgets_sort:
  assumes "sort_of v = Some t" "order_of w = Some r" "searchInputVal s = []" "fomoList s \<noteq> []"
  shows "let s' = snd (SelectsMemoOrderChange w home_init (SelectsMemoSortChange v home_init (m, s))) in
    SortVal s' = v \<and> OrderVal s' = w \<and>
    fx_of (handleNextPage env s' s') = [Call (search_fomos env \<lparr> sp_order = r, sp_sort = BumpOrder,
      sp_text = [], sp_limit = 6, sp_start = 6 * currentPage s \<rparr>)]"
  using assms
  by (simp add: SelectsMemoOrderChange_def SelectsMemoSortChange_def handleOrderMenuChange_def
      handleSortMenuChange_def handleNextPage_def pagChange_def home_init_def Let_def)

text \<open>A search keeps the page's start. After paging with a search text, the search button asks
  from the start of that page, and its reply puts the page number back to one: from then on page
  one shows the wells of a later page.\<close>

lemma search_keeps_start:
  assumes "searchInputVal s \<noteq> []" "fomoList s \<noteq> []" "menus_ok s"
  shows "let s' = st_of (handleNextPage env s s) in
    (\<exists>p. fx_of (BtnSearch env s' s') = [Call (search_fomos env p)] \<and> sp_start p = 6 * currentPage s) \<and>
    currentPage s' = currentPage s + 1 \<and>
    currentPage (st_of (on_searched ''search'' (Inr vo) s')) = 1"
  using assms
  by (auto simp: handleNextPage_def pagChange_def Let_def BtnSearch_def searchFomos_def
      search_params_def menus_ok_def on_searched_def)

lemma is_low_value:
  assumes "big_laws B val" "\<bar>settled_cycles r\<bar> \<le> 2 ^ 53"
  shows "is_low B r = (if settled_cycles r < 10 ^ 11 then Inr True else Inr False)"
proof -
  obtain v where v: "big_num B (num_of_int (settled_cycles r)) = Inr v" "val v = of_int (settled_cycles r)"
    using big_lawsD(1) [OF assms] by (auto simp: num_of_int_exact [OF assms(2)])
  obtain m where m: "big_num B (Fin (of_int 100000000000)) = Inr m" "val m = of_int 100000000000"
    using big_lawsD(1) [OF assms(1), of 100000000000] by auto
  have l: "big_lt B v m = (settled_cycles r < 100000000000)"
    using big_lawsD(12) [OF assms(1), of v m] by (simp only: v(2) m(2) of_int_less_iff)
  show ?thesis using v(1) m(1) l
    by (cases r) (simp_all add: is_low_def settled_cycles_def)
qed

lemma low_marks_kept:
  assumes "big_laws B val" "\<forall>(f, r) \<in> set frs. \<bar>settled_cycles (wr_cycles r)\<bar> \<le> 2 ^ 53"
    and "\<forall>(f, r) \<in> set frs. token_pid f \<noteq> k"
  shows "lowBattery (st_of (updateFomoUserNames B loc frs n s)) k = wn_low n k"
  using assms(2,3)
proof (induction frs arbitrary: n s)
  case (Cons fr frs)
  then show ?case
    by (cases fr) (auto simp: name_well_def is_low_value [OF assms(1)])
qed simp

text \<open>Which wells are marked low. For wells with distinct tokens the loop ends without an
  exception, names every author, and marks a well exactly when its cycles are below \<open>10 ^ 11\<close> or
  could not be read; the reject message that tells a frozen canister is never decisive.\<close>

lemma low_battery_marks:
  assumes "big_laws B val" "\<forall>(f, r) \<in> set frs. \<bar>settled_cycles (wr_cycles r)\<bar> \<le> 2 ^ 53"
    and "distinct (map (token_pid \<circ> fst) frs)" "(f, r) \<in> set frs"
  shows "lowBattery (st_of (updateFomoUserNames B loc frs n s)) (token_pid f) =
    Some ((\<exists>e. wr_cycles r = Inl e) \<or> settled_cycles (wr_cycles r) < 10 ^ 11)"
  using assms(2-4)
proof (induction frs arbitrary: n s)
  case (Cons gq frs)
  obtain g q where gq: "gq = (g, q)" by fastforce
  have low: "is_low B (wr_cycles q) = Inr ((\<exists>e. wr_cycles q = Inl e) \<or> settled_cycles (wr_cycles q) < 10 ^ 11)"
    using is_low_value [OF assms(1), of "wr_cycles q"] Cons.prems(1) gq
    by (cases "wr_cycles q") (auto simp: settled_cycles_def)
  show ?case
  proof (cases "(f, r) = (g, q)")
    case True
    then have "\<forall>(h, q) \<in> set frs. token_pid h \<noteq> token_pid f" using Cons.prems(2) gq by force
    then show ?thesis using True low gq Cons.prems(1)
      by (simp add: name_well_def low_marks_kept [OF assms(1)])
  next
    case False
    then have "(f, r) \<in> set frs" using Cons.prems(3) gq by auto
    then show ?thesis using Cons gq low by (simp add: name_well_def)
  qed
qed simp

text \<open>Wells and replies to evaluate.\<close>

definition sample_board :: home_view where
  "sample_board = home_init\<lparr> fomoList := [sample_project] \<rparr>"

definition sample_reply :: "int res \<Rightarrow> well_replies" where
  "sample_reply r = \<lparr> wr_user = Inr None, wr_len = Inr 0, wr_cycles = r \<rparr>"

lemma sample_board_sel [simp]:
  "fomoList sample_board = [sample_project]" "menus_ok sample_board" "currentPage sample_board = 1"
  "searchInputVal sample_board = []"
  by (simp_all add: sample_board_def menus_ok_def home_init_def order_of_def sort_of_def)

theorem search_as_shown_witness:
  "\<exists>p. BtnSearch sample_env (handleSortMenuChange ''MarketCap'' home_init home_init)
        (handleSortMenuChange ''MarketCap'' home_init home_init) =
      (handleSortMenuChange ''MarketCap'' home_init home_init, [Call (search_fomos sample_env p)], [WaitSearch ''search'']) \<and>
    sp_sort p = MarketCap"
proof -
  have "home_reach sample_page (handleSortMenuChange ''MarketCap'' home_init home_init)"
    using home_reach.sort [OF home_reach.start, of "''MarketCap''"]
    by (simp add: SelectsMemoSortChange_def sort_of_def)
  from search_as_shown [OF this, of sample_env] show ?thesis
    by (auto simp: handleSortMenuChange_def sort_of_def)
qed

end
