(* ===== verification/BoardView.thy ===== *)
theory BoardView
  imports Home SignalsView
begin

text \<open>
  What the board draws (\<open>pages/Home/Home.tsx\<close>) and which handler each of its actions runs. The
  menus are a child with its own state. The market caps are computed while the board is drawn. The
  lemmas show that the board can always be drawn and that it offers exactly the wells of its list.
\<close>

datatype board_act =
    JumpToWell string | NewCoin | ShowGod FomoProject | ShowGodUser principal
  | TypeSearch | PressSearch | ChooseSort string | ChooseOrder string
  | ShowWell FomoProject | ShowUser principal | PrevPage | NextPage

section \<open>The menus\<close>

definition SortMenu :: "(string \<times> string) list" where
  "SortMenu = [(''BumpOrder'', ''sort: bump order''), (''LastReply'', ''sort: last reply''),
     (''ReplyCount'', ''sort: reply count''), (''MarketCap'', ''sort: market cap''),
     (''CreationTime'', ''sort: creation time'')]"

definition OrderMenu :: "(string \<times> string) list" where
  "OrderMenu = [(''ASC'', ''order: asc''), (''DESC'', ''order: desc'')]"

text \<open>A \<open>Select\<close> shows the name of its value and reports a change to another value.\<close>

definition select_view :: "(string \<Rightarrow> 'h) \<Rightarrow> (string \<times> string) list \<Rightarrow> string \<Rightarrow> 'h node" where
  "select_view act menu v = box (Txt (the_default [] (map_of menu v)) #
     map (\<lambda>(x, name). button (act x) [Txt name]) (filter (\<lambda>(x, name). x \<noteq> v) menu))"

definition Selects :: "selects \<Rightarrow> board_act node" where
  "Selects m = box [select_view ChooseSort SortMenu (sel_sort m), select_view ChooseOrder OrderMenu (sel_order m)]"

section \<open>The wells\<close>

definition cap_text :: "'b bigjs \<Rightarrow> int \<Rightarrow> string res" where
  "cap_text B cap =
     res_bind (big_str B (int_str cap)) (\<lambda>v.
     res_bind (big_num B (pow10 18)) (\<lambda>p.
     res_bind (big_div B v p) (\<lambda>x. Inr (formatAmountByUnit (JNum (big_toNumber B x)) 4))))"

text \<open>The god of wells, or its empty card.\<close>

definition god_card :: "'b bigjs \<Rightarrow> home_view \<Rightarrow> board_act node res" where
  "god_card B s = (case godOfWells s of
     None \<Rightarrow> Inr (box [skeleton, skeleton, skeleton])
   | Some g \<Rightarrow> res_map (\<lambda>cap. button (ShowGod g)
       [Img ''god_img'', Img (getImgUrl (img_url g)),
        button (ShowGodUser (create_user_pid g))
          [Txt ''created by '', image_of (map_option UserProfile.avatar (GodUserInfo s)),
           Txt (the_default [] (godOfWellName s))],
        box [Txt ''market cap: $'', Txt cap, Txt ''[badge:'', Img ''champion'', Txt '']''],
        box [Txt ''replies: '', Txt (godOfWellReplies s)],
        box [Txt (project_name g), Txt '' [ticker:'', Txt (ticker g), Txt '']'']])
       (cap_text B (market_cap g)))"

text \<open>The user of a well, who may not be known yet.\<close>

definition well_user :: "home_view \<Rightarrow> FomoProject \<Rightarrow> UserProfile option" where
  "well_user s f = (case hm_userInfo s (create_user_pid f) of None \<Rightarrow> None | Some u \<Rightarrow> u)"

definition well_links :: "FomoProject \<Rightarrow> board_act node list" where
  "well_links f = only_if (twitter_link f \<noteq> []) (box [Img ''X'']) @ only_if (telegram_link f \<noteq> []) (box [Img ''buy'']) @
     only_if (website f \<noteq> []) (box [Img ''link''])"

definition well_badge :: "FomoProject \<Rightarrow> board_act node" where
  "well_badge f = El [NoDisplay (god_of_wells_progress f < 10000)]
     [Txt ''[badge:'', Img ''champion'',
      El [NoDisplay (pool_progress_done_time f = None)] [Img ''ICPEx''],
      El [NoDisplay (pool_progress_done_time f = None \<or> sneed_dao_lock f = None)] [Img ''sneed''], Txt '']'']"

definition well_card :: "'b bigjs \<Rightarrow> home_view \<Rightarrow> FomoProject \<Rightarrow> board_act node res" where
  "well_card B s f = res_map (\<lambda>cap. button (ShowWell f)
     [box ([box [Txt (project_name f), Txt '' ['', Txt (ticker f), Txt '']''],
            box [Txt ''created by '', image_of (map_option UserProfile.avatar (well_user s f)),
                 button (ShowUser (create_user_pid f)) [Txt (case well_user s f of None \<Rightarrow> [] | Some u \<Rightarrow> user_name u)]],
            box [Txt (FomoProject.description f)], box (well_links f),
            box [Txt ''market cap: $'', Txt cap, well_badge f],
            box [Txt ''replies: '', Txt (the_default [] (userReplies s (token_pid f)))]]),
      box [Img (getImgUrl (img_url f))],
      El [NoDisplay (the_default False (lowBattery s (token_pid f)) = False)] [Img ''lowBatteryimg'']])
     (cap_text B (market_cap f))"

definition well_list :: "'b bigjs \<Rightarrow> home_view \<Rightarrow> board_act node list res" where
  "well_list B s = (if showVal s then all_drawn (map (well_card B s) (fomoList s))
     else Inr [box [skeleton, skeleton, skeleton], box [skeleton, skeleton, skeleton], box [skeleton, skeleton, skeleton]])"

section \<open>The board\<close>

text \<open>The Enter key in the field runs the handler of the button beside it.\<close>

definition search_box :: "board_act node" where
  "search_box = box [Field ''Search by symbol or address id'' [] (Some TypeSearch), button PressSearch [Img ''SearchIcon'']]"

definition page_arrows :: "home_view \<Rightarrow> board_act node" where
  "page_arrows s = box [button PrevPage [Img ''ArrowBackIcon''], box [Txt (int_str (home_view.currentPage s))],
     button NextPage [Img ''ArrowForwardIcon'']]"

definition Home_view :: "'b bigjs \<Rightarrow> (int \<Rightarrow> string \<Rightarrow> string) \<Rightarrow> selects \<Rightarrow> home_view \<Rightarrow> board_act node res" where
  "Home_view B fmt m s =
     res_bind (god_card B s) (\<lambda>g.
     res_bind (well_list B s) (\<lambda>ws.
       Inr (box [trade_signal JumpToWell s, well_signal JumpToWell fmt s,
                 box [button NewCoin [Txt ''Start a new coin''], g, search_box],
                 box [Selects m, box ws, page_arrows s]])))"

section \<open>The handlers\<close>

definition with_menus :: "selects \<Rightarrow> home_out \<Rightarrow> (selects \<times> home_view, home_task) outcome" where
  "with_menus m r = ((m, st_of r), fx_of r, tasks_of r)"

text \<open>The state is that of the menus and of the board; \<open>first\<close> is the first render, which the menus
  close over, \<open>s0\<close> the board as drawn, \<open>t\<close> the text typed.\<close>

fun board_do :: "'b page_env \<Rightarrow> home_view \<Rightarrow> board_act \<Rightarrow> string \<Rightarrow> home_view \<Rightarrow> selects \<times> home_view \<Rightarrow>
    (selects \<times> home_view, home_task) outcome" where
  "board_do P first (JumpToWell i) t s0 (m, s) =
     with_menus m (tag_tasks HomeSignal (BtnLastBuySell (pe_env P) i s))"
| "board_do P first NewCoin t s0 (m, s) = with_menus m (emits s BtnNewCoin)"
| "board_do P first (ShowGod f) t s0 (m, s) = with_menus m (emits s (godBtnShowIcpInfo f))"
| "board_do P first (ShowGodUser p) t s0 (m, s) = with_menus m (emits s (BtnToUserInfoPage p))"
| "board_do P first TypeSearch t s0 (m, s) = with_menus m (plain (set_search_text t s))"
| "board_do P first PressSearch t s0 (m, s) = with_menus m (BtnSearch (pe_env P) s0 s)"
| "board_do P first (ChooseSort v) t s0 r = plain (SelectsMemoSortChange v first r)"
| "board_do P first (ChooseOrder v) t s0 r = plain (SelectsMemoOrderChange v first r)"
| "board_do P first (ShowWell f) t s0 (m, s) = with_menus m (emits s (BtnShowIcpInfo f))"
| "board_do P first (ShowUser p) t s0 (m, s) = with_menus m (emits s (btnToProfile p))"
| "board_do P first PrevPage t s0 (m, s) = with_menus m (handlePrevPage (pe_env P) s0 s)"
| "board_do P first NextPage t s0 (m, s) = with_menus m (handleNextPage (pe_env P) s0 s)"

section \<open>Lemmas\<close>

lemma cap_drawn:
  assumes L: "big_laws B val"
  shows "\<exists>c. cap_text B n = Inr c"
  by (rule units_exist [OF L, of 18 n]) (simp_all add: cap_text_def)

lemma well_links_live [simp]: "concat (map live (well_links f)) = []"
  by (simp add: well_links_def)

lemma well_badge_live [simp]: "live (well_badge f) = []"
  by (simp add: well_badge_def)

lemma well_card_drawn:
  assumes "big_laws B val"
  shows "\<exists>n. well_card B s f = Inr n \<and> live n = [ShowWell f, ShowUser (create_user_pid f)]"
  using cap_drawn [OF assms, of "market_cap f"] by (auto simp: well_card_def image_of_def)

lemma well_list_drawn:
  assumes "big_laws B val"
  shows "\<exists>ns. well_list B s = Inr ns \<and> concat (map live ns) =
    (if showVal s then concat (map (\<lambda>f. [ShowWell f, ShowUser (create_user_pid f)]) (fomoList s)) else [])"
proof (cases "showVal s")
  case True
  obtain ns where ns: "all_drawn (map (well_card B s) (fomoList s)) = Inr ns"
    "list_all2 (\<lambda>f n. live n = [ShowWell f, ShowUser (create_user_pid f)]) (fomoList s) ns"
    using all_drawn_some [of "fomoList s" "well_card B s" "\<lambda>f n. live n = [ShowWell f, ShowUser (create_user_pid f)]"]
      well_card_drawn [OF assms, of s] by auto
  from ns(2) have "map live ns = map (\<lambda>f. [ShowWell f, ShowUser (create_user_pid f)]) (fomoList s)"
    by (induction rule: list_all2_induct) simp_all
  then show ?thesis using True ns(1) by (simp add: well_list_def)
qed (simp add: well_list_def skeleton_def)

lemma god_card_drawn:
  assumes "big_laws B val"
  shows "\<exists>n. god_card B s = Inr n \<and> live n = (case godOfWells s of None \<Rightarrow> []
    | Some g \<Rightarrow> [ShowGod g, ShowGodUser (create_user_pid g)])"
proof (cases "godOfWells s")
  case (Some g)
  then show ?thesis using cap_drawn [OF assms, of "market_cap g"] by (auto simp: god_card_def image_of_def)
qed (simp add: god_card_def skeleton_def)

lemma select_live: "set (live (select_view act menu v)) = act ` (fst ` set menu - {v})"
  by (force simp: select_view_def)

text \<open>C14. The board is always drawn, and offers the wells of its list. Under the laws of the decimal
  library every state of the board can be drawn; a click can open exactly the wells of the list,
  once the list is there, and the god of wells; the search and both page arrows can always be
  pressed; and each menu can be changed to each of its other values.\<close>

theorem board_drawn:
  assumes "big_laws B val"
  shows "\<exists>n. Home_view B fmt m s = Inr n \<and>
    (\<forall>f. ShowWell f \<in> set (live n) \<longleftrightarrow> showVal s \<and> f \<in> set (fomoList s)) \<and>
    (\<forall>f. ShowGod f \<in> set (live n) \<longleftrightarrow> godOfWells s = Some f) \<and>
    {PressSearch, PrevPage, NextPage} \<subseteq> set (live n) \<and>
    (\<forall>v. ChooseSort v \<in> set (live n) \<longleftrightarrow> v \<in> fst ` set SortMenu \<and> v \<noteq> sel_sort m) \<and>
    (\<forall>v. ChooseOrder v \<in> set (live n) \<longleftrightarrow> v \<in> fst ` set OrderMenu \<and> v \<noteq> sel_order m)"
proof -
  obtain g where g: "god_card B s = Inr g" "live g = (case godOfWells s of None \<Rightarrow> []
      | Some g \<Rightarrow> [ShowGod g, ShowGodUser (create_user_pid g)])"
    using god_card_drawn [OF assms] by blast
  obtain ws where ws: "well_list B s = Inr ws" "concat (map live ws) =
      (if showVal s then concat (map (\<lambda>f. [ShowWell f, ShowUser (create_user_pid f)]) (fomoList s)) else [])"
    using well_list_drawn [OF assms] by blast
  obtain n where n: "Home_view B fmt m s = Inr n"
    and l: "live n = live (trade_signal JumpToWell s) @ live (well_signal JumpToWell fmt s) @ NewCoin # live g @
      [TypeSearch, PressSearch] @ live (select_view ChooseSort SortMenu (sel_sort m)) @
      live (select_view ChooseOrder OrderMenu (sel_order m)) @ concat (map live ws) @ [PrevPage, NextPage]"
    using g(1) ws(1) by (simp add: Home_view_def search_box_def Selects_def page_arrows_def)
  then show ?thesis
    by (intro exI [of _ n]) (auto simp: g(2) ws(2) signals_live select_live split: option.splits)
qed

theorem board_drawn_witness:
  "\<exists>n. Home_view rat_big (\<lambda>_ x. x) \<lparr> sel_sort = ''BumpOrder'', sel_order = ''DESC'' \<rparr>
     (home_init\<lparr> showVal := True, fomoList := [sample_project] \<rparr>) = Inr n \<and>
     ShowWell sample_project \<in> set (live n) \<and> ChooseOrder ''ASC'' \<in> set (live n)"
  using board_drawn [OF rat_big_laws, of "\<lambda>_ x. x" "\<lparr> sel_sort = ''BumpOrder'', sel_order = ''DESC'' \<rparr>"
      "home_init\<lparr> showVal := True, fomoList := [sample_project] \<rparr>"]
  by (fastforce simp: OrderMenu_def home_init_def)

text \<open>The menus offer what the handlers know.\<close>

lemma menus_known:
  "v \<in> fst ` set SortMenu \<longleftrightarrow> sort_of v \<noteq> None" "v \<in> fst ` set OrderMenu \<longleftrightarrow> order_of v \<noteq> None"
  by (auto simp: SortMenu_def OrderMenu_def sort_of_def order_of_def)

end
