(* ===== verification/Profile.thy ===== *)
theory Profile
  imports Send ProjectData Merge
begin

text \<open>
  The profile page (\<open>pages/User/UserInfo.tsx\<close>): the tokens a user holds with their estimated
  value, the user's ICP balance, the wells the user created with their replies, paging and
  navigation. Both reads of the holdings change the entries of one array in place, so the
  state keeps that array and what the last render drew of it. The lemmas show the value of a
  balance and of an estimate, that the wells created are listed once, and what a failed
  request leaves behind.
\<close>

section \<open>State\<close>

record profile_view =
  tab :: nat
  userBalance :: jsnum
  tHold :: "amountItem list"
  held_shown :: "amountItem list"
  HoldLoding :: bool
  HoldName :: "string option"
  coinCrateInfoitems :: "FomoProject list"
  currentPage :: int
  loading :: bool
  userNames :: "principal \<rightharpoonup> string option"
  userReplies :: "principal \<rightharpoonup> string"
  CurUserInfo :: "UserProfile option"
  pf_cache :: actor_cache

definition profile_init :: profile_view where
  "profile_init = \<lparr> tab = 0, userBalance = Fin 0, tHold = [], held_shown = [],
     HoldLoding = False, HoldName = None, coinCrateInfoitems = [], currentPage = 1,
     loading = False, userNames = Map.empty, userReplies = Map.empty, CurUserInfo = None,
     pf_cache = Map.empty \<rparr>"

datatype profile_task =
    WaitHold
  | WaitHoldDecimals "amountItem list"
  | WaitPrice nat nat
  | WaitSymbol
  | WaitIcp
  | WaitIcpUnits int
  | WaitCurUser
  | WaitCreated
  | WaitProfileNames "FomoProject list"
  | ScrollListener

type_synonym profile_out = "(profile_view, profile_task) outcome"

text \<open>A render draws the array as it is then.\<close>

definition rendered :: "profile_view \<Rightarrow> profile_view" where
  "rendered s = s\<lparr> held_shown := tHold s \<rparr>"

definition handleChange :: "nat \<Rightarrow> profile_view \<Rightarrow> profile_view" where
  "handleChange v s = rendered (s\<lparr> tab := v \<rparr>)"

definition panel_visible :: "nat \<Rightarrow> profile_view \<Rightarrow> bool" where
  "panel_visible i s = (tab s = i)"

section \<open>Holdings\<close>

definition getHoldReq :: "string \<Rightarrow> profile_view \<Rightarrow> profile_out" where
  "getHoldReq pid s = (rendered (s\<lparr> HoldLoding := True \<rparr>), [Fetch (getHold pid)], [WaitHold])"

definition on_hold :: "environment \<Rightarrow> amountItem list res \<Rightarrow> profile_view \<Rightarrow> profile_out" where
  "on_hold env reply s = (case reply of
     Inl e \<Rightarrow> throws s e
   | Inr rows \<Rightarrow> (s, [Call (icrc1_decimals env)], [WaitHoldDecimals rows]))"

text \<open>\<open>Number(new Big(Number(balance)).div(new Big(10).pow(d)))\<close>, and the estimate from a price.\<close>

definition held_balance :: "'b bigjs \<Rightarrow> nat \<Rightarrow> jsnum \<Rightarrow> jsnum res" where
  "held_balance B d x =
     res_bind (big_num B x) (\<lambda>v. res_bind (pow_ten B (Fin (of_nat d))) (\<lambda>p.
     res_bind (big_div B v p) (\<lambda>q. Inr (js_Number (big_toString B q)))))"

definition estimate :: "'b bigjs \<Rightarrow> nat \<Rightarrow> jsnum \<Rightarrow> int \<Rightarrow> jsnum res" where
  "estimate B d x price =
     res_bind (big_num B x) (\<lambda>v. res_bind (big_num B (num_of_int price)) (\<lambda>w.
     res_bind (pow_ten B (Fin (of_nat d))) (\<lambda>p.
     res_bind (big_div B (big_times B v w) p) (\<lambda>q. Inr (big_toNumber B q)))))"

text \<open>The first loop, in place: the entries before a failing one stay converted.\<close>

fun convert_held :: "'b bigjs \<Rightarrow> nat \<Rightarrow> amountItem list \<Rightarrow> amountItem list \<times> js_exn option" where
  "convert_held B d [] = ([], None)"
| "convert_held B d (h # hs) = (case held_balance B d (am_balance h) of
     Inl e \<Rightarrow> (h # hs, Some e)
   | Inr x \<Rightarrow> (let (hs', e) = convert_held B d hs in (h\<lparr> am_balance := x \<rparr> # hs', e)))"

definition put_estimate :: "nat \<Rightarrow> jsnum \<Rightarrow> profile_view \<Rightarrow> profile_view" where
  "put_estimate i x s =
     s\<lparr> tHold := (tHold s)[i := (tHold s ! i)\<lparr> icp_estimated := x \<rparr>] \<rparr>"

text \<open>The second loop, from entry \<open>i\<close> on: a pool that is no principal has the price \<open>0\<close>, another
  one is asked for. The array is set again at the end, which is the value the state has
  already: there is no render.\<close>

fun ask_prices :: "'b page_env \<Rightarrow> nat \<Rightarrow> nat \<Rightarrow> amountItem list \<Rightarrow> profile_view \<Rightarrow> profile_out" where
  "ask_prices P d i [] s = plain s"
| "ask_prices P d i (h # hs) s = (case from_text (pe_valid P) (poolpid h) of
     Inr p \<Rightarrow> (s, [Call (getMidPrice (pe_env P) p)], [WaitPrice d i])
   | Inl _ \<Rightarrow> (case estimate (pe_big P) d (am_balance h) 0 of
         Inl e \<Rightarrow> throws s e
       | Inr x \<Rightarrow> ask_prices P d (Suc i) hs (put_estimate i x s)))"

definition updataprice :: "'b page_env \<Rightarrow> nat \<Rightarrow> profile_view \<Rightarrow> profile_out" where
  "updataprice P d s =
     (let (hs, e) = convert_held (pe_big P) d (tHold s); s1 = s\<lparr> tHold := hs \<rparr> in
      case e of Some x \<Rightarrow> throws s1 x | None \<Rightarrow> ask_prices P d 0 hs s1)"

text \<open>The loading mark is reset without waiting for the prices, and this render draws the
  converted balances.\<close>

definition on_hold_decimals :: "'b page_env \<Rightarrow> amountItem list \<Rightarrow> nat res \<Rightarrow> profile_view \<Rightarrow> profile_out"
where
  "on_hold_decimals P rows reply s = (case reply of
     Inl e \<Rightarrow> throws s e
   | Inr d \<Rightarrow> then_do (updataprice P d (s\<lparr> tHold := rows \<rparr>))
                (\<lambda>s. plain (rendered (s\<lparr> HoldLoding := False \<rparr>))))"

definition on_price :: "'b page_env \<Rightarrow> nat \<Rightarrow> nat \<Rightarrow> int res \<Rightarrow> profile_view \<Rightarrow> profile_out" where
  "on_price P d i reply s = (case nth_opt (tHold s) i of
     None \<Rightarrow> plain s
   | Some h \<Rightarrow> (case estimate (pe_big P) d (am_balance h) (case reply of Inl _ \<Rightarrow> 0 | Inr n \<Rightarrow> n) of
         Inl e \<Rightarrow> throws s e
       | Inr x \<Rightarrow> ask_prices P d (Suc i) (drop (Suc i) (tHold s)) (put_estimate i x s)))"

section \<open>The ledger\<close>

definition icrc1MetadataName :: "environment \<Rightarrow> profile_view \<Rightarrow> profile_out" where
  "icrc1MetadataName env s = (s, [Call (icrc1_metadata env None)], [WaitSymbol])"

definition on_symbol :: "(string \<times> MetadataValue) list res \<Rightarrow> profile_view \<Rightarrow> profile_out" where
  "on_symbol reply s = (case reply of
     Inl e \<Rightarrow> throws s e
   | Inr kvs \<Rightarrow> plain (rendered (foldl (\<lambda>s (k, v).
       if k = ''icrc1:symbol'' then s\<lparr> HoldName := meta_text v \<rparr> else s) s kvs)))"

definition icrc1balanceReq :: "'b page_env \<Rightarrow> string \<Rightarrow> profile_view \<Rightarrow> profile_out" where
  "icrc1balanceReq P pid s = (case from_text (pe_valid P) pid of
     Inl e \<Rightarrow> throws s e
   | Inr p \<Rightarrow> (s, [Call (icrc1balance (pe_env P) (no_subaccount p) None)], [WaitIcp]))"

definition on_icp :: "environment \<Rightarrow> int res \<Rightarrow> profile_view \<Rightarrow> profile_out" where
  "on_icp env reply s = (case reply of
     Inl e \<Rightarrow> throws s e
   | Inr n \<Rightarrow> (s, [Call (icrc1_decimals env)], [WaitIcpUnits n]))"

definition on_icp_units :: "'b bigjs \<Rightarrow> int \<Rightarrow> nat res \<Rightarrow> profile_view \<Rightarrow> profile_out" where
  "on_icp_units B n reply s = (case res_bind reply (\<lambda>d. units_number B (Fin (of_nat d)) n) of
     Inl e \<Rightarrow> throws s e | Inr x \<Rightarrow> plain (rendered (s\<lparr> userBalance := x \<rparr>)))"

section \<open>The wells created\<close>

text \<open>The author of a profile that is not there is \<open>undefined\<close>, which the call cannot encode.\<close>

definition GertSearch_fomos :: "environment \<Rightarrow> principal option \<Rightarrow> profile_view \<Rightarrow> profile_out" where
  "GertSearch_fomos env pid s = (case pid of
     None \<Rightarrow> throws (rendered (s\<lparr> loading := True \<rparr>)) TypeError
   | Some p \<Rightarrow> (rendered (s\<lparr> loading := True \<rparr>), [Call (get_fomo_by_create_user_pid env p)],
                [WaitCreated]))"

definition merge_created :: "FomoProject list \<Rightarrow> FomoProject list \<Rightarrow> FomoProject list" where
  "merge_created prev vec =
     prev @ filter (\<lambda>f. fomo_pid f \<notin> set (map fomo_pid prev)) vec"

definition on_created :: "FomoProject list option res \<Rightarrow> profile_view \<Rightarrow> profile_out" where
  "on_created reply s = (case reply of
     Inl e \<Rightarrow> throws s e
   | Inr None \<Rightarrow> plain (rendered (s\<lparr> loading := False \<rparr>))
   | Inr (Some vec) \<Rightarrow>
       (rendered (s\<lparr> coinCrateInfoitems := merge_created (coinCrateInfoitems s) vec,
                    currentPage := currentPage s + 1, loading := False \<rparr>),
        [], [WaitProfileNames vec]))"

text \<open>The replies of the two requests of a well: a failed profile shows a message and counts as
  \<open>undefined\<close>, a failed count ends the loop.\<close>

definition created_name :: "UserProfile option res \<Rightarrow> string option" where
  "created_name r = (case r of Inr (Some u) \<Rightarrow> Some (user_name u) | _ \<Rightarrow> None)"

definition name_message :: "'v res \<Rightarrow> effect list" where
  "name_message r = (case r of Inl _ \<Rightarrow> [MsgError ''getFomoUserInfo error''] | Inr _ \<Rightarrow> [])"

type_synonym created_names = "(principal \<rightharpoonup> string option) \<times> (principal \<rightharpoonup> string)"

text \<open>The loop, over the objects of the render the request belongs to; they become the state only
  at its end.\<close>

fun updateFomoUserNames :: "environment \<Rightarrow> (int \<Rightarrow> string) \<Rightarrow>
    (FomoProject \<times> UserProfile option res \<times> int res) list \<Rightarrow> created_names \<Rightarrow> profile_view \<Rightarrow>
    profile_out" where
  "updateFomoUserNames env loc [] (us, rs) s =
     plain (rendered (s\<lparr> userReplies := rs, userNames := us \<rparr>))"
| "updateFomoUserNames env loc ((f, u, n) # frs) (us, rs) s =
     (let (c, ca) = get_comments_len (fomo_pid f) (pf_cache s);
          s1 = s\<lparr> pf_cache := ca \<rparr>;
          es = Call (getFomoUserInfo env (create_user_pid f)) # name_message u @ [Call c] in
      case n of
        Inl e \<Rightarrow> then_do (emits s1 es) (\<lambda>s. throws s e)
      | Inr k \<Rightarrow> then_do (emits s1 es)
          (updateFomoUserNames env loc frs
            (us(create_user_pid f \<mapsto> created_name u), rs(token_pid f \<mapsto> loc k))))"

text \<open>The user of the page, and the request that follows.\<close>

definition on_cur_user :: "environment \<Rightarrow> UserProfile option res \<Rightarrow> profile_view \<Rightarrow> profile_out" where
  "on_cur_user env reply s = (case reply of
     Inl _ \<Rightarrow> then_do (emits s [MsgError ''getFomoUserInfo error'']) (GertSearch_fomos env None)
   | Inr u \<Rightarrow> GertSearch_fomos env (map_option user_pid u) (s\<lparr> CurUserInfo := u \<rparr>))"

text \<open>\<open>loadData\<close> closes over the render at which the page last changed.\<close>

definition loadData :: "environment \<Rightarrow> profile_view \<Rightarrow> profile_view \<Rightarrow> profile_out" where
  "loadData env s0 s =
     (if currentPage s0 = 1 \<and> coinCrateInfoitems s0 \<noteq> [] then plain s
      else case CurUserInfo s0 of
        None \<Rightarrow> plain s | Some u \<Rightarrow> GertSearch_fomos env (Some (user_pid u)) s)"

text \<open>The debounced scroll: near the bottom the listener is taken away and the page is loaded;
  the effect on \<open>loading\<close> and the page adds one again.\<close>

definition handleScroll :: "environment \<Rightarrow> bool \<Rightarrow> profile_view \<Rightarrow> profile_view \<Rightarrow> profile_view \<Rightarrow> profile_out"
where
  "handleScroll env bottom sd s0 s =
     (if \<not> loading s0
      then if bottom then loadData env sd s else (s, [], [ScrollListener])
      else (s, [], [ScrollListener]))"

text \<open>The mount. A page whose parameter is no principal ends in an exception of the effect.\<close>

definition profile_mount :: "'b page_env \<Rightarrow> string \<Rightarrow> profile_view \<Rightarrow> profile_out" where
  "profile_mount P pid s =
     then_do (getHoldReq pid s) (\<lambda>s.
     then_do (icrc1MetadataName (pe_env P) s) (\<lambda>s.
     then_do (icrc1balanceReq P pid s) (\<lambda>s.
       let s1 = rendered (s\<lparr> loading := True \<rparr>) in
       case from_text (pe_valid P) pid of
         Inl e \<Rightarrow> throws s1 e
       | Inr p \<Rightarrow> (s1, [Call (getFomoUserInfo (pe_env P) p)], [WaitCurUser]))))"

section \<open>Navigation and texts\<close>

definition profile_goback :: "nat \<Rightarrow> effect list" where
  "profile_goback history_len =
     (if history_len > 1 then [NavigateBack] else [Navigate ''/board''])"

definition btnCoinCreated :: "string \<Rightarrow> string \<Rightarrow> effect list" where
  "btnCoinCreated origin fomoid = [OpenUrl (origin @ ''/'' @ fomoid)]"

definition profile_copy :: "string \<Rightarrow> bool \<Rightarrow> effect list" where
  "profile_copy text written =
     [CopyText text, if written then MsgSuccess ''Success!'' else MsgError ''clipboard write failed'']"

definition profile_dashboard :: "string \<Rightarrow> effect list" where
  "profile_dashboard i = [OpenUrl (''https://dashboard.internetcomputer.org/account/'' @ i)]"

text \<open>The account shown is that of the page's user; the copy and the dashboard of its row use the
  account of the store, which is the one of the user logged in.\<close>

definition account_row :: "'b page_env \<Rightarrow> string \<Rightarrow> world \<Rightarrow> (string \<times> effect list \<times> effect list) res"
where
  "account_row P pid w = res_map (\<lambda>p.
     (truncateString (pe_acct P p) 10, profile_copy (accountId (app w)) True,
      profile_dashboard (accountId (app w))))
     (if pe_valid P pid then Inr pid else Inl TypeError)"

definition balance_text :: "profile_view \<Rightarrow> string" where
  "balance_text s = formatAmountByUnit (JNum (userBalance s)) 4 @ '' ICP''"

definition created_cap_text :: "'b bigjs \<Rightarrow> FomoProject \<Rightarrow> string res" where
  "created_cap_text B f =
     res_bind (big_str B (int_str (market_cap f))) (\<lambda>v.
     res_bind (big_num B (pow10 18)) (\<lambda>p.
     res_bind (big_div B v p) (\<lambda>x. Inr (formatAmountByUnit (JNum (big_toNumber B x)) 4))))"

definition held_texts :: "amountItem \<Rightarrow> string \<times> string" where
  "held_texts h = (formatAmountByUnit (JNum (am_balance h)) 4 @ '' '' @ am_symbol h,
                   formatAmountByUnit (JNum (icp_estimated h)) 4 @ '' ICP'')"

text \<open>The button of a held token, shown to its owner, opens the transfer dialog.\<close>

definition send_visible :: "world \<Rightarrow> amountItem \<Rightarrow> bool" where
  "send_visible w h = (userId (app w) = am_userid h)"

definition btnOpenTopup :: "amountItem \<Rightarrow> token_view \<Rightarrow> token_view \<Rightarrow> token_out" where
  "btnOpenTopup h s0 s = token_openModal h s0 s"

section \<open>Lemmas\<close>

interpretation created: keyed_merge fomo_pid merge_created
  by unfold_locales (simp add: merge_created_def)

lemma held_balance_exact:
  assumes "big_laws B val" "d \<le> 20" "\<bar>n\<bar> \<le> 2 ^ 53"
  shows "\<exists>q. val q = of_int n / 10 ^ d \<and>
    held_balance B d (Fin (of_int n)) = Inr (js_Number (big_toString B q))"
proof -
  obtain q where q: "units_big B (Fin (of_nat d)) n = Inr q" "val q = of_int n / 10 ^ d"
    using units_big_exact [OF assms] by blast
  have "held_balance B d (Fin (of_int n)) =
        res_map (\<lambda>q. js_Number (big_toString B q)) (units_big B (Fin (of_nat d)) n)"
    by (auto simp: held_balance_def units_big_def num_of_int_exact [OF assms(3)] res_bind_def res_map_def
        split: sum.splits)
  then show ?thesis using q by auto
qed

lemma ask_prices_shown [simp]:
  "held_shown (st_of (ask_prices P d i hs s)) = held_shown s"
  by (induction P d i hs s rule: ask_prices.induct)
     (auto simp: put_estimate_def split: sum.splits)

lemma ask_prices_valid:
  "pe_valid P (poolpid h) \<Longrightarrow> ask_prices P d i (h # hs) s =
     (s, [Call (getMidPrice (pe_env P) (poolpid h))], [WaitPrice d i])"
  by (simp add: from_text_def)

text \<open>The prices are never drawn by the request that read them: the reply of a price leaves what
  is drawn as it was.\<close>

lemma on_price_not_drawn: "held_shown (st_of (on_price P d i reply s)) = held_shown s"
  by (simp add: on_price_def put_estimate_def split: option.splits sum.splits)

text \<open>A failed count of one well leaves the names and replies of all as they were.\<close>

lemma names_abort:
  "(f, u, Inl e) \<in> set frs \<Longrightarrow>
   userNames (st_of (updateFomoUserNames env loc frs n s)) = userNames s \<and>
   userReplies (st_of (updateFomoUserNames env loc frs n s)) = userReplies s"
  by (induction env loc frs n s rule: updateFomoUserNames.induct)
     (auto simp: Let_def split: prod.splits sum.splits)

lemma names_complete:
  "\<forall>(f, u, n) \<in> set frs. \<exists>k. n = Inr k \<Longrightarrow>
   userReplies (st_of (updateFomoUserNames env loc frs (us, rs) s)) =
     foldl (\<lambda>m (f, u, n). m(token_pid f \<mapsto> (case n of Inl _ \<Rightarrow> [] | Inr k \<Rightarrow> loc k))) rs frs"
proof (induction frs arbitrary: us rs s)
  case Nil
  then show ?case by (simp add: rendered_def)
next
  case (Cons x frs)
  obtain f u n where x: "x = (f, u, n)" by (cases x)
  obtain k where "n = Inr k" using Cons.prems x by auto
  then show ?case using Cons x by (simp add: Let_def fun_upd_def split: prod.splits cong: if_cong)
qed

section \<open>Properties\<close>

text \<open>The replies of the created wells one after the other, and the wells a reply lists.\<close>

definition created_after :: "FomoProject list option res list \<Rightarrow> profile_view \<Rightarrow> profile_view" where
  "created_after rs s = foldl (\<lambda>s r. st_of (on_created r s)) s rs"

fun created_of :: "FomoProject list option res \<Rightarrow> FomoProject list" where
  "created_of (Inr (Some vec)) = vec"
| "created_of _ = []"

lemma on_created_list:
  "coinCrateInfoitems (st_of (on_created r s)) = merge_created (coinCrateInfoitems s) (created_of r)"
  by (cases r rule: created_of.cases) (simp_all add: on_created_def rendered_def merge_created_def)

lemma created_after_list:
  "coinCrateInfoitems (created_after rs s) =
   foldl merge_created (coinCrateInfoitems s) (map created_of rs)"
  unfolding created_after_def by (induction rs arbitrary: s) (simp_all add: on_created_list)

text \<open>The list of created wells is the set of the wells answered. Whatever replies the launcher
  gives, errors and missing lists among them, the page shows every well of every reply and those
  shown before, each once: the list stands for the union of the replies, and asking again, which
  every scroll to the bottom does for the same list, adds nothing.\<close>

lemma created_list_is_union:
  assumes "distinct (map fomo_pid (coinCrateInfoitems s))"
    and "\<forall>r \<in> set rs. distinct (map fomo_pid (created_of r))"
  shows "fomo_pid ` set (coinCrateInfoitems (created_after rs s)) =
      fomo_pid ` set (coinCrateInfoitems s) \<union> (\<Union>r \<in> set rs. fomo_pid ` set (created_of r)) \<and>
    distinct (map fomo_pid (coinCrateInfoitems (created_after rs s))) \<and>
    (\<forall>r \<in> set rs. coinCrateInfoitems (created_after (rs @ [r]) s) = coinCrateInfoitems (created_after rs s))"
proof -
  let ?l = "foldl merge_created (coinCrateInfoitems s) (map created_of rs)"
  have u: "fomo_pid ` set ?l =
      fomo_pid ` set (coinCrateInfoitems s) \<union> (\<Union>r \<in> set rs. fomo_pid ` set (created_of r))"
    using created.merge_pages_keys [of "coinCrateInfoitems s" "map created_of rs"] by simp
  have "merge_created ?l (created_of r) = ?l" if "r \<in> set rs" for r
    by (rule created.merge_idem) (use that in \<open>auto simp: u\<close>)
  then show ?thesis
    using u created.merge_pages_distinct [of "coinCrateInfoitems s" "map created_of rs"] assms
    by (simp add: created_after_list)
qed

text \<open>The replies of the prices in turn, each to the request before it.\<close>

fun prices_run :: "'b page_env \<Rightarrow> nat \<Rightarrow> nat \<Rightarrow> int res list \<Rightarrow> profile_view \<Rightarrow> profile_view" where
  "prices_run P d i [] s = s"
| "prices_run P d i (r # rs) s = (case tasks_of (on_price P d i r s) of
     WaitPrice d' i' # _ \<Rightarrow> prices_run P d' i' rs (st_of (on_price P d i r s))
   | _ \<Rightarrow> st_of (on_price P d i r s))"

lemma prices_run_shown: "held_shown (prices_run P d i rs s) = held_shown s"
proof (induction P d i rs s rule: prices_run.induct)
  case (2 P d i r rs s)
  then show ?case
    by (auto simp: on_price_not_drawn split: list.splits profile_task.splits)
qed simp

lemma convert_held_estimates:
  "map icp_estimated (fst (convert_held B d hs)) = map icp_estimated hs"
  "map poolpid (fst (convert_held B d hs)) = map poolpid hs"
  by (induction B d hs rule: convert_held.induct) (auto simp: Let_def split: sum.splits prod.splits)

lemma ask_prices_first:
  "\<forall>h \<in> set hs. pe_valid P (poolpid h) \<Longrightarrow> st_of (ask_prices P d i hs s) = s"
  by (cases hs) (simp_all add: from_text_def)

text \<open>The estimated values are never drawn. The mark of loading is taken away before the first
  price is there, that render shows the estimates of the service, and the later replies change the
  array in place without a render: with pools that are principals, whatever prices come, the page
  goes on showing the estimates it was given.\<close>

lemma estimates_never_drawn:
  assumes "\<forall>h \<in> set rows. pe_valid P (poolpid h)"
  shows "map icp_estimated (held_shown
    (prices_run P d i rs (st_of (on_hold_decimals P rows (Inr d) s)))) = map icp_estimated rows"
proof -
  obtain hs e where c: "convert_held (pe_big P) d rows = (hs, e)" by fastforce
  have m: "map icp_estimated hs = map icp_estimated rows" "map poolpid hs = map poolpid rows"
    using convert_held_estimates [of "pe_big P" d rows] c by simp_all
  have "poolpid ` set hs = poolpid ` set rows" using m(2) by (metis set_map)
  then have "\<forall>h \<in> set hs. pe_valid P (poolpid h)" using assms by force
  then show ?thesis using m(1)
    by (auto simp: prices_run_shown on_hold_decimals_def updataprice_def c Let_def rendered_def
        ask_prices_first split: option.splits)
qed

lemma failed_count_uncaught:
  "(f, u, Inl e) \<in> set frs \<Longrightarrow>
   \<exists>e'. Uncaught e' \<in> set (fx_of (updateFomoUserNames env loc frs n s))"
proof (induction frs arbitrary: n s)
  case (Cons x frs)
  obtain g v k us rs where x: "x = (g, v, k)" "n = (us, rs)" by (cases x, cases n)
  show ?case
  proof (cases k)
    case (Inl e')
    then show ?thesis by (auto simp: x Let_def split: prod.splits)
  next
    case (Inr i)
    then have m: "(f, u, Inl e) \<in> set frs" using Cons.prems x by auto
    show ?thesis using Cons.IH [OF m] Inr by (fastforce simp: x Let_def split: prod.splits)
  qed
qed simp

text \<open>If the count of comments of one well cannot be read, the
  names and counts of every well of the page stay as they were, those before it included, and the
  exception is not caught.\<close>

lemma one_count_hides_names:
  assumes "(f, u, Inl e) \<in> set frs"
  shows "userNames (st_of (updateFomoUserNames env loc frs n s)) = userNames s \<and>
    userReplies (st_of (updateFomoUserNames env loc frs n s)) = userReplies s \<and>
    (\<exists>e'. Uncaught e' \<in> set (fx_of (updateFomoUserNames env loc frs n s)))"
  using names_abort [OF assms] failed_count_uncaught [OF assms] by simp

end
