(* ===== verification/ProfileView.thy ===== *)
theory ProfileView
  imports Profile SendView
begin

text \<open>
  What the profile page draws (\<open>pages/User/UserInfo.tsx\<close>), with the transfer dialog it contains,
  and which handler each of its actions runs. The lemmas show whose tokens can be sent from it, and
  whose account its account row copies.
\<close>

datatype profile_act =
    ProfileBack | CopyText string | OpenAccountPage string | ChooseTab nat | OpenWell string
  | SendToken amountItem | InToken send_act

section \<open>The page\<close>

definition account_text :: "'b page_env \<Rightarrow> string \<Rightarrow> world \<Rightarrow> string res" where
  "account_text P pid w = res_map fst (account_row P pid w)"

definition profile_header :: "'b page_env \<Rightarrow> string \<Rightarrow> world \<Rightarrow> profile_view \<Rightarrow> profile_act node res" where
  "profile_header P pid w s = res_map (\<lambda>acct. box
     [box [image_of (map_option UserProfile.avatar (CurUserInfo s)),
           Txt (case CurUserInfo s of None \<Rightarrow> [] | Some u \<Rightarrow> user_name u), Txt (balance_text s)],
      box [Txt ''Principle lD : '', Txt (truncateString pid 10), button (CopyText pid) [Img ''ContentCopy''],
           button (OpenAccountPage pid) [Img ''Launch'']],
      box [Txt ''Account Id : '', Txt acct, button (CopyText (accountId (app w))) [Img ''ContentCopy''],
           button (OpenAccountPage (accountId (app w))) [Img ''Launch'']]])
     (account_text P pid w)"

definition created_card :: "'b bigjs \<Rightarrow> profile_view \<Rightarrow> FomoProject \<Rightarrow> profile_act node res" where
  "created_card B s f = res_map (\<lambda>cap. button (OpenWell (fomo_pid f))
     [Img (getImgUrl (img_url f)),
      box [Txt ''Created by '', image_of (map_option UserProfile.avatar (CurUserInfo s)),
           Txt (case userNames s (create_user_pid f) of Some (Some n) \<Rightarrow> n | _ \<Rightarrow> [])],
      box [Txt ''market cap: $'', Txt cap],
      box [Txt ''replies: '', Txt (the_default [] (profile_view.userReplies s (token_pid f)))],
      box [Txt (FomoProject.description f)]])
     (created_cap_text B f)"

definition held_card :: "world \<Rightarrow> amountItem \<Rightarrow> profile_act node" where
  "held_card w h = box
     [button (OpenWell (fomopid h))
        [Img (''https://metrics.icpex.org/images/'' @ am_tokenid h @ ''.png''),
         box [Txt (fst (held_texts h))], box [Txt (snd (held_texts h))]],
      El [Click (SendToken h), NoDisplay (\<not> send_visible w h)] [Txt ''Send'']]"

text \<open>A panel draws its children only when it is chosen; they are computed all the same.\<close>

definition tab_panel :: "nat \<Rightarrow> profile_view \<Rightarrow> profile_act node list \<Rightarrow> profile_act node" where
  "tab_panel i s ns = box (only_if (panel_visible i s) (box ns))"

definition UserInfo_view :: "'b page_env \<Rightarrow> string \<Rightarrow> world \<Rightarrow> token_view \<times> progress_bar \<Rightarrow> profile_view \<Rightarrow>
    profile_act node res" where
  "UserInfo_view P pid w d s =
     res_bind (profile_header P pid w s) (\<lambda>h.
     res_bind (all_drawn (map (created_card (pe_big P) s) (coinCrateInfoitems s))) (\<lambda>cs.
       Inr (box [button ProfileBack [Txt ''[ go back ]''], h,
         box [button (ChooseTab 0) [Txt ''coin held''], button (ChooseTab 1) [Txt ''coin created'']],
         tab_panel 1 s (cs @ [El [NoDisplay (\<not> profile_view.loading s)] [Img ''CircularProgress'']]),
         tab_panel 0 s (map (held_card w) (held_shown s)),
         map_acts InToken (sentToken (fst d) (snd d))])))"

section \<open>The handlers\<close>

text \<open>The dialog is opened through its handle; its own actions stay in it.\<close>

fun profile_do :: "nat \<Rightarrow> bool \<Rightarrow> string \<Rightarrow> profile_act \<Rightarrow> token_view \<Rightarrow> token_view \<Rightarrow> profile_view \<Rightarrow>
    profile_out + token_out" where
  "profile_do hist copied origin ProfileBack d0 d s = Inl (emits s (profile_goback hist))"
| "profile_do hist copied origin (CopyText t) d0 d s = Inl (emits s (profile_copy t copied))"
| "profile_do hist copied origin (OpenAccountPage i) d0 d s = Inl (emits s (profile_dashboard i))"
| "profile_do hist copied origin (ChooseTab i) d0 d s = Inl (plain (handleChange i s))"
| "profile_do hist copied origin (OpenWell i) d0 d s = Inl (emits s (btnCoinCreated origin i))"
| "profile_do hist copied origin (SendToken h) d0 d s = Inr (Profile.btnOpenTopup h d0 d)"
| "profile_do hist copied origin (InToken a) d0 d s = Inl (plain s)"

section \<open>Lemmas\<close>

lemma held_live [simp]: "live (held_card w h) = OpenWell (fomopid h) # (if send_visible w h then [SendToken h] else [])"
  by (simp add: held_card_def)

lemma created_live:
  assumes "all_drawn (map (created_card B s) fs) = Inr ns"
  shows "concat (map live ns) = map (\<lambda>f. OpenWell (fomo_pid f)) fs"
  using assms
  by (induction fs arbitrary: ns) (auto simp: res_bind_eq_Inr res_map_eq_Inr created_card_def image_of_def)

lemma created_drawn:
  assumes "big_laws B val"
  shows "\<exists>ns. all_drawn (map (created_card B s) fs) = Inr ns"
proof -
  have "\<exists>n. created_card B s f = Inr n \<and> True" for f
    by (rule units_exist [OF assms, of 18 "market_cap f"]) (simp_all add: created_card_def created_cap_text_def)
  then show ?thesis using all_drawn_some [of fs "created_card B s" "\<lambda>_ _. True"] by blast
qed

lemma profile_live:
  assumes "UserInfo_view P pid w d s = Inr n"
  shows "set (live n) = {ProfileBack, CopyText pid, OpenAccountPage pid, CopyText (accountId (app w)),
      OpenAccountPage (accountId (app w)), ChooseTab 0, ChooseTab 1} \<union>
    (if tab s = 1 then (\<lambda>f. OpenWell (fomo_pid f)) ` set (coinCrateInfoitems s) else {}) \<union>
    (if tab s = 0 then (\<lambda>h. OpenWell (fomopid h)) ` set (held_shown s) \<union>
       SendToken ` {h \<in> set (held_shown s). send_visible w h} else {}) \<union>
    InToken ` set (live (sentToken (fst d) (snd d)))"
proof -
  obtain acct cs where a: "account_text P pid w = Inr acct"
    and cs: "all_drawn (map (created_card (pe_big P) s) (coinCrateInfoitems s)) = Inr cs"
    using assms by (auto simp: UserInfo_view_def profile_header_def res_bind_eq_Inr res_map_eq_Inr)
  show ?thesis
    using assms created_live [OF cs]
    by (auto simp: UserInfo_view_def profile_header_def a cs image_of_def tab_panel_def panel_visible_def live_map)
qed

text \<open>C10. Only the holder can send. Whatever the page of a user draws, the transfer dialog opens only
  for a token of the list shown, on the tab of holdings, and only if the user logged in is the one
  the token belongs to; the dialog then works on that token.\<close>

theorem sends_own_tokens:
  assumes "UserInfo_view P pid w d s = Inr n" "a \<in> set (live n)" "profile_do hist copied origin a d0 d1 s = Inr r"
  shows "\<exists>h \<in> set (held_shown s). a = SendToken h \<and> tab s = 0 \<and> userId (app w) = am_userid h \<and>
    baseInfo (st_of r) = Some h"
proof -
  obtain h where h: "a = SendToken h" "r = Profile.btnOpenTopup h d0 d1" using assms(3) by (cases a) auto
  then have "tab s = 0 \<and> h \<in> set (held_shown s) \<and> send_visible w h"
    using assms(2) unfolding profile_live [OF assms(1)] by (auto split: if_splits)
  then show ?thesis using h by (auto simp: send_visible_def Profile.btnOpenTopup_def token_openModal_def Let_def)
qed

lemma profile_drawn:
  assumes "big_laws (pe_big P) val" "pe_valid P pid"
  obtains n where "UserInfo_view P pid w d s = Inr n" "truncateString (pe_acct P pid) 10 \<in> set (texts n)"
proof -
  have a: "account_text P pid w = Inr (truncateString (pe_acct P pid) 10)"
    using assms(2) by (simp add: account_text_def account_row_def)
  obtain cs where cs: "all_drawn (map (created_card (pe_big P) s) (coinCrateInfoitems s)) = Inr cs"
    using created_drawn [OF assms(1)] by blast
  then show thesis using that by (simp add: UserInfo_view_def profile_header_def a)
qed

text \<open>A user on the page of their own holdings.\<close>

definition own_world :: world where
  "own_world = on_app (\<lambda>a. a\<lparr> userId := ''u'', accountId := ''acc'' \<rparr>) new_world"

definition own_profile :: profile_view where
  "own_profile = profile_init\<lparr> held_shown := [sample_item] \<rparr>"

theorem sends_own_tokens_witness:
  "userId (app own_world) = am_userid sample_item \<and>
   baseInfo (st_of (Profile.btnOpenTopup sample_item token_init token_init)) = Some sample_item"
proof -
  have "big_laws (pe_big sample_page) (\<lambda>x. x)" "pe_valid sample_page ''u''"
    using rat_big_laws by (simp_all add: sample_page_def)
  then obtain n where n: "UserInfo_view sample_page ''u'' own_world (token_init, bar_init) own_profile = Inr n"
    by (rule profile_drawn)
  have "send_visible own_world sample_item"
    by (simp add: send_visible_def own_world_def on_app_def sample_item_def)
  moreover have p: "tab own_profile = 0" "held_shown own_profile = [sample_item]"
    by (simp_all add: own_profile_def profile_init_def)
  ultimately have l: "SendToken sample_item \<in> set (live n)" unfolding profile_live [OF n] by simp
  have d: "profile_do 1 True [] (SendToken sample_item) token_init token_init own_profile =
      Inr (Profile.btnOpenTopup sample_item token_init token_init)" by (rule profile_do.simps)
  show ?thesis using sends_own_tokens [OF n l d] unfolding p by auto
qed

text \<open>C33. The account row of a profile copies the account of the one who looks. For every user the page
  shows the shortened account of that user, but what its buttons copy and open is the account of the
  store; no action of the page copies the account shown, unless it is the same.\<close>

theorem account_row_copies_viewer:
  assumes "big_laws (pe_big P) val" "pe_valid P pid"
  shows "\<exists>n. UserInfo_view P pid w d s = Inr n \<and> truncateString (pe_acct P pid) 10 \<in> set (texts n) \<and>
    {CopyText (accountId (app w)), OpenAccountPage (accountId (app w))} \<subseteq> set (live n) \<and>
    (\<forall>t. CopyText t \<in> set (live n) \<longrightarrow> t = pid \<or> t = accountId (app w))"
proof -
  obtain n where n: "UserInfo_view P pid w d s = Inr n" "truncateString (pe_acct P pid) 10 \<in> set (texts n)"
    by (rule profile_drawn [OF assms])
  show ?thesis by (intro exI [of _ n]) (auto simp: n profile_live [OF n(1)] split: if_splits)
qed

theorem account_row_copies_viewer_witness:
  "\<exists>n. UserInfo_view sample_page ''eve'' own_world (token_init, bar_init) own_profile = Inr n \<and>
    truncateString ''eve'' 10 \<in> set (texts n) \<and> CopyText ''acc'' \<in> set (live n)"
proof -
  have "big_laws (pe_big sample_page) (\<lambda>x. x)" "pe_valid sample_page ''eve''" "pe_acct sample_page ''eve'' = ''eve''"
    "accountId (app own_world) = ''acc''"
    using rat_big_laws by (simp_all add: sample_page_def own_world_def on_app_def)
  then show ?thesis
    using account_row_copies_viewer [of sample_page "\<lambda>x. x" "''eve''" own_world "(token_init, bar_init)" own_profile]
    by auto
qed

end
