(* ===== verification/Stoic.thy ===== *)
theory Stoic
  imports Identifier
begin

text \<open>
  The copy of the Stoic wallet's library in the adapter, \<open>artemis-web3-adapter/src/libs/stoicidentity.js\<close>:
  a login in a window of the wallet, and requests that each go through a hidden frame and come back
  as a message. Nothing in the repository imports it; the adapter uses the package it copies. The
  lemmas show that the hexadecimal text of bytes reads back, that a reply settles exactly the
  request it names and only once, and that some calls are never answered.
\<close>

section \<open>Hexadecimal text\<close>

definition buf2hex :: "byte list \<Rightarrow> string" where
  "buf2hex bs = concat (map byte_hex bs)"

text \<open>\<open>parseInt(s, 16)\<close>, where \<open>NaN\<close> is \<open>None\<close>; a byte array stores it modulo 256, and \<open>NaN\<close> as zero.\<close>

definition parseInt16 :: "string \<Rightarrow> int option" where
  "parseInt16 s =
     (let (neg, r) = parse_sign (js_trim_start s);
          r' = (if take 2 r = ''0x'' \<or> take 2 r = ''0X'' then drop 2 r else r);
          ds = List.map_filter (digit_in_base 16) (takeWhile (\<lambda>c. digit_in_base 16 c \<noteq> None) r');
          n = foldl (\<lambda>a d. 16 * a + int d) 0 ds
      in if ds = [] then None else Some (if neg then - n else n))"

definition to_byte :: "int option \<Rightarrow> byte" where
  "to_byte n = (case n of None \<Rightarrow> 0 | Some k \<Rightarrow> word_of_int k)"

text \<open>An odd character at the end falls outside the array.\<close>

fun hex2buf :: "string \<Rightarrow> byte list" where
  "hex2buf (a # b # s) = to_byte (parseInt16 [a, b]) # hex2buf s"
| "hex2buf _ = []"

section \<open>State\<close>

text \<open>The session kept under \<open>_scApp\<close>; \<open>'k\<close> is the exported secret key.\<close>

record 'k stoic_app =
  sa_principal :: string
  sa_key :: "byte list"
  sa_type :: string
  sa_secret :: 'k
  sa_apikey :: string

record frame_data =
  fd_action :: string
  fd_payload :: string
  fd_principal :: string
  fd_apikey :: string
  fd_sig :: string

datatype 'k stoic_answer = Confirmed "'k stoic_app" | Answered string | Refused string

text \<open>Promises are numbered as they are made. \<open>stoicWindow\<close> is whether the window is open,
  \<open>stoicWindowCB\<close> the login its callbacks belong to with the session it prepares, \<open>listener\<close> the
  request of each index, and a frame is in the document or removed. \<open>scApp\<close> is the entry of the
  local storage, as \<open>JSON.parse\<close> reads it.\<close>

record 'k stoic_state =
  stoicOrigin :: string
  stoicApp :: "'k stoic_app option"
  stoicApiKey :: "string option"
  stoicWindow :: "bool option"
  stoicWindowCB :: "(nat \<times> 'k stoic_app) option"
  listenerIndex :: nat
  listener :: "nat \<Rightarrow> nat option"
  frames :: "nat \<Rightarrow> (bool \<times> frame_data) option"
  scApp :: "'k stoic_app option"
  promises :: nat
  settled :: "nat \<Rightarrow> 'k stoic_answer option"

datatype 'k stoic_task = KeyTask nat string | SignTask nat string string string 'k

datatype stoic_effect =
    OpenWindow string | PostWindow string "string option" | CloseWindow
  | LoadFrame nat string | PostFrame nat frame_data | Raised js_exn

type_synonym 'k stoic_out = "'k stoic_state \<times> stoic_effect list \<times> 'k stoic_task list"

definition stoic_new :: "'k stoic_app option \<Rightarrow> 'k stoic_state" where
  "stoic_new stored = \<lparr> stoicOrigin = ''https://www.stoicwallet.com'', stoicApp = None, stoicApiKey = None,
     stoicWindow = None, stoicWindowCB = None, listenerIndex = 0, listener = Map.empty,
     frames = Map.empty, scApp = stored, promises = 0, settled = Map.empty \<rparr>"

text \<open>A promise keeps what it was settled with first.\<close>

definition settle :: "nat \<Rightarrow> 'k stoic_answer \<Rightarrow> 'k stoic_state \<Rightarrow> 'k stoic_state" where
  "settle p v s = (if settled s p = None then s\<lparr> settled := (settled s)(p \<mapsto> v) \<rparr> else s)"

section \<open>Operations\<close>

definition stoicInit :: "'k stoic_state \<Rightarrow> 'k stoic_state" where
  "stoicInit s = s\<lparr> stoicApp := scApp s \<rparr>"

definition stoicLogout :: "'k stoic_state \<Rightarrow> 'k stoic_state" where
  "stoicLogout s = s\<lparr> scApp := None, stoicApiKey := Some [], stoicApp := None \<rparr>"

definition stoicLogin :: "string \<Rightarrow> 'k stoic_state \<Rightarrow> 'k stoic_out" where
  "stoicLogin host s = (s\<lparr> promises := Suc (promises s) \<rparr>, [], [KeyTask (promises s) host])"

text \<open>A fresh session of a key pair: the exported secret and public keys.\<close>

definition generateKey :: "'k \<Rightarrow> byte list \<Rightarrow> 'k stoic_app" where
  "generateKey k spki = \<lparr> sa_principal = [], sa_key = [], sa_type = [], sa_secret = k, sa_apikey = buf2hex spki \<rparr>"

text \<open>The rest of the login once the key is there; \<open>opened\<close> is whether the browser opens a window.
  An exception leaves the promise as it is, since the executor is asynchronous.\<close>

definition on_key :: "nat \<Rightarrow> string \<Rightarrow> ('k \<times> byte list) res \<Rightarrow> bool \<Rightarrow> 'k stoic_state \<Rightarrow> 'k stoic_out" where
  "on_key p host reply opened s = (case reply of
     Inl e \<Rightarrow> (s, [Raised e], [])
   | Inr (k, spki) \<Rightarrow> (let a = generateKey k spki in
       (s\<lparr> stoicApiKey := Some (sa_apikey a), stoicWindow := (if opened then Some True else None),
           stoicWindowCB := Some (p, a) \<rparr>, [OpenWindow (host @ ''?authorizeApp'')], [])))"

definition postToFrame :: "frame_data \<Rightarrow> nat \<Rightarrow> 'k stoic_state \<Rightarrow> 'k stoic_out" where
  "postToFrame d p s = (let i = listenerIndex s in
     (s\<lparr> listenerIndex := Suc i, listener := (listener s)(i \<mapsto> p), frames := (frames s)(i \<mapsto> (True, d)) \<rparr>,
      [LoadFrame i (stoicOrigin s @ ''/?stoicTunnel'')], []))"

text \<open>A loaded frame is sent its request with its index.\<close>

definition on_load :: "nat \<Rightarrow> 'k stoic_state \<Rightarrow> 'k stoic_out" where
  "on_load i s = (s, case frames s i of Some (True, d) \<Rightarrow> [PostFrame i d] | _ \<Rightarrow> [], [])"

text \<open>The secret key is read before the signature, the key of the session after it.\<close>

definition stoicSign :: "string \<Rightarrow> string \<Rightarrow> string \<Rightarrow> 'k stoic_state \<Rightarrow> 'k stoic_out" where
  "stoicSign action payload pr s = (let s1 = s\<lparr> promises := Suc (promises s) \<rparr> in
     case stoicApp s of
       None \<Rightarrow> (s1, [Raised TypeError], [])
     | Some a \<Rightarrow> (s1, [], [SignTask (promises s) action payload pr (sa_secret a)]))"

definition on_signed :: "nat \<Rightarrow> string \<Rightarrow> string \<Rightarrow> string \<Rightarrow> byte list res \<Rightarrow> 'k stoic_state \<Rightarrow> 'k stoic_out" where
  "on_signed p action payload pr reply s = (case reply of
     Inl e \<Rightarrow> (s, [Raised e], [])
   | Inr sig \<Rightarrow> (case stoicApp s of
       None \<Rightarrow> (s, [Raised TypeError], [])
     | Some a \<Rightarrow> postToFrame \<lparr> fd_action = action, fd_payload = payload, fd_principal = pr,
         fd_apikey = sa_apikey a, fd_sig = buf2hex sig \<rparr> p s))"

section \<open>Messages\<close>

record message_data =
  md_target :: string
  md_success :: bool
  md_listener :: nat
  md_data :: string
  md_action :: string
  md_principal :: string
  md_key :: "byte list"
  md_type :: string

text \<open>The parent of a removed frame is \<open>null\<close>.\<close>

definition removeFrame :: "nat \<Rightarrow> 'k stoic_state \<Rightarrow> 'k stoic_out" where
  "removeFrame i s = (case frames s i of
     Some (True, d) \<Rightarrow> (s\<lparr> frames := (frames s)(i \<mapsto> (False, d)) \<rparr>, [], [])
   | _ \<Rightarrow> (s, [Raised TypeError], []))"

definition close_window :: "'k stoic_state \<Rightarrow> 'k stoic_out" where
  "close_window s = (case stoicWindow s of
     None \<Rightarrow> (s\<lparr> stoicWindowCB := None \<rparr>, [Raised TypeError], [])
   | Some _ \<Rightarrow> (s\<lparr> stoicWindowCB := None, stoicWindow := Some False \<rparr>, [CloseWindow], []))"

text \<open>The first callback of a login: the session is completed, kept and stored.\<close>

definition confirm_login :: "nat \<Rightarrow> 'k stoic_app \<Rightarrow> message_data \<Rightarrow> 'k stoic_state \<Rightarrow> 'k stoic_state" where
  "confirm_login p a d s =
     (let a' = a\<lparr> sa_principal := md_principal d, sa_key := md_key d, sa_type := md_type d \<rparr>
      in settle p (Confirmed a') (s\<lparr> stoicApp := Some a', scApp := Some a' \<rparr>))"

text \<open>Messages of other origins are ignored; \<open>None\<close> is a message whose data is \<open>null\<close>.\<close>

definition on_message :: "string \<Rightarrow> message_data option \<Rightarrow> 'k stoic_state \<Rightarrow> 'k stoic_out" where
  "on_message from data s =
     (if from \<noteq> stoicOrigin s then (s, [], [])
      else case data of
        None \<Rightarrow> (s, [Raised TypeError], [])
      | Some d \<Rightarrow>
          if md_target d = ''STOIC-EXT'' then
            (case listener s (md_listener d) of
               None \<Rightarrow> (s, [Raised TypeError], [])
             | Some p \<Rightarrow> removeFrame (md_listener d)
                 (settle p ((if md_success d then Answered else Refused) (md_data d)) s))
          else if md_action d = ''initiateStoicConnect'' then
            (case stoicWindow s of
               None \<Rightarrow> (s, [Raised TypeError], [])
             | Some _ \<Rightarrow> (s, [PostWindow ''requestAuthorization'' (stoicApiKey s)], []))
          else if md_action d = ''rejectAuthorization'' then
            (case stoicWindowCB s of
               None \<Rightarrow> (s, [Raised TypeError], [])
             | Some (p, a) \<Rightarrow> close_window (settle p (Refused ''Authorization Rejected'') s))
          else if md_action d = ''confirmAuthorization'' then
            (case stoicWindowCB s of
               None \<Rightarrow> (s, [Raised TypeError], [])
             | Some (p, a) \<Rightarrow> close_window (confirm_login p a d s))
          else (s, [], []))"

section \<open>The identity\<close>

record stoic_identity =
  id_principal :: string
  id_der :: "byte list"
  id_type :: string

definition identity_of :: "(string \<Rightarrow> bool) \<Rightarrow> 'k stoic_app \<Rightarrow> stoic_identity res" where
  "identity_of valid a = (if valid (sa_principal a)
     then Inr \<lparr> id_principal = sa_principal a, id_der = sa_key a, id_type = sa_type a \<rparr>
     else Inl (JsError ''principal''))"

text \<open>A host given to \<open>connect\<close> or \<open>load\<close> becomes the origin of all that follows.\<close>

definition use_host :: "string \<Rightarrow> 'k stoic_state \<Rightarrow> 'k stoic_state" where
  "use_host host s = (if host \<noteq> [] then s\<lparr> stoicOrigin := host \<rparr> else s)"

definition stoic_connect :: "string \<Rightarrow> 'k stoic_state \<Rightarrow> 'k stoic_out" where
  "stoic_connect host s = (let s1 = use_host host s in stoicLogin (stoicOrigin s1) s1)"

text \<open>What a login that was settled makes of \<open>connect\<close>.\<close>

definition connect_answer :: "(string \<Rightarrow> bool) \<Rightarrow> 'k stoic_answer \<Rightarrow> stoic_identity res" where
  "connect_answer valid v = (case v of
     Confirmed a \<Rightarrow> identity_of valid a | Answered t \<Rightarrow> Inl (JsError t) | Refused t \<Rightarrow> Inl (JsError t))"

definition accounts :: "stoic_identity \<Rightarrow> 'k stoic_state \<Rightarrow> 'k stoic_out" where
  "accounts x s = stoicSign ''accounts'' ''accounts'' (id_principal x) s"

definition sign_bytes :: "stoic_identity \<Rightarrow> byte list \<Rightarrow> 'k stoic_state \<Rightarrow> 'k stoic_out" where
  "sign_bytes x bs s = stoicSign ''sign'' (buf2hex bs) (id_principal x) s"

text \<open>\<open>load\<close> answers \<open>false\<close> at once without a stored session and otherwise asks for the accounts; a
  stored principal that is none is an exception in an asynchronous executor.\<close>

datatype load_result = LoadFalse | LoadWaits stoic_identity | LoadNever

definition stoic_load :: "string \<Rightarrow> (string \<Rightarrow> bool) \<Rightarrow> 'k stoic_state \<Rightarrow> load_result \<times> 'k stoic_out" where
  "stoic_load host valid s = (let s1 = stoicInit (use_host host s) in
     case stoicApp s1 of
       None \<Rightarrow> (LoadFalse, s1, [], [])
     | Some a \<Rightarrow> (case identity_of valid a of
         Inl e \<Rightarrow> (LoadNever, s1, [Raised e], [])
       | Inr x \<Rightarrow> (LoadWaits x, accounts x s1)))"

definition load_answer :: "stoic_identity \<Rightarrow> 'k stoic_answer \<Rightarrow> stoic_identity option" where
  "load_answer x v = (case v of Answered t \<Rightarrow> Some x | _ \<Rightarrow> None)"

text \<open>A call is signed over its hashed content, \<open>rid\<close>. The reply is parsed to the signature and the
  chain of a delegation, which the identity library reads.\<close>

definition domainSeparator :: "byte list" where
  "domainSeparator = 10 # ascii_bytes ''ic-request''"

definition sign_request :: "stoic_identity \<Rightarrow> byte list \<Rightarrow> 'k stoic_state \<Rightarrow> 'k stoic_out" where
  "sign_request x rid s = sign_bytes x (domainSeparator @ rid) s"

record 'd signed_body =
  sender_sig :: "byte list"
  sender_pubkey :: "byte list"
  sender_delegation :: "'d option"

definition transformRequest ::
    "(string \<Rightarrow> (string \<times> 'c) res) \<Rightarrow> ('c \<Rightarrow> (byte list \<times> 'd) res) \<Rightarrow> stoic_identity \<Rightarrow> string res \<Rightarrow>
     'd signed_body res" where
  "transformRequest parse fromJSON x reply =
     res_bind reply (\<lambda>t.
     res_bind (parse t) (\<lambda>(sig, chain).
       if id_type x = ''DelegationIdentity''
       then res_map (\<lambda>(pk, ds). \<lparr> sender_sig = hex2buf sig, sender_pubkey = pk, sender_delegation = Some ds \<rparr>)
              (fromJSON chain)
       else Inr \<lparr> sender_sig = hex2buf sig, sender_pubkey = id_der x, sender_delegation = None \<rparr>))"

section \<open>Bytes read back\<close>

lemma hex_digit_read:
  assumes "d < 16"
  shows "digit_in_base 16 (hex_digit d) = Some d \<and> \<not> is_ws (hex_digit d) \<and>
     hex_digit d \<notin> {CHR ''-'', CHR ''+'', CHR ''x'', CHR ''X''}"
proof -
  have n: "(of_char (hex_digit d) :: nat) = (if d < 10 then 48 + d else 87 + d)"
    using assms by (simp add: hex_digit_def)
  then have "of_char (hex_digit d) \<noteq> (of_char (CHR ''-'') :: nat) \<and> of_char (hex_digit d) \<noteq> (of_char (CHR ''+'') :: nat) \<and>
      of_char (hex_digit d) \<noteq> (of_char (CHR ''x'') :: nat) \<and> of_char (hex_digit d) \<noteq> (of_char (CHR ''X'') :: nat) \<and>
      of_char (hex_digit d) \<noteq> (of_char (CHR '' '') :: nat)"
    using assms by simp
  then show ?thesis using assms n by (auto simp: is_ws_def)
qed

lemma parse_hex_pair:
  assumes "a < 16" "b < 16"
  shows "parseInt16 [hex_digit a, hex_digit b] = Some (int (16 * a + b))"
  using hex_digit_read [OF assms(1)] hex_digit_read [OF assms(2)]
  by (simp add: parseInt16_def js_trim_start_def parse_sign_def map_filter_def del: digit_in_base.simps)

lemma parse_byte_hex: "to_byte (parseInt16 (byte_hex b)) = b"
proof -
  have "unat b < 2 ^ LENGTH(8)" by (rule unsigned_less)
  then have "parseInt16 (byte_hex b) = Some (int (unat b))"
    using parse_hex_pair [of "unat b div 16" "unat b mod 16"] by (simp add: byte_hex_def less_mult_imp_div_less)
  then show ?thesis by (simp add: to_byte_def)
qed

lemma hex2buf_buf2hex: "hex2buf (buf2hex bs) = bs"
proof (induction bs)
  case (Cons b bs)
  then show ?case using parse_byte_hex [of b] by (simp add: buf2hex_def byte_hex_def)
qed (simp add: buf2hex_def)

section \<open>The machine\<close>

text \<open>What can happen: calls of the library, keys and signatures that come in, messages, in any
  order. The second component are the tasks that wait for the browser.\<close>

fun task_promise :: "'k stoic_task \<Rightarrow> nat" where
  "task_promise (KeyTask p h) = p"
| "task_promise (SignTask p a d i k) = p"

definition then_tasks :: "'k stoic_task list \<Rightarrow> 'k stoic_out \<Rightarrow> 'k stoic_state \<times> 'k stoic_task list" where
  "then_tasks ts r = (fst r, ts @ snd (snd r))"

inductive stoic_step :: "'k stoic_state \<times> 'k stoic_task list \<Rightarrow> 'k stoic_state \<times> 'k stoic_task list \<Rightarrow> bool" where
  logout: "stoic_step (s, ts) (stoicLogout s, ts)"
| connect: "stoic_step (s, ts) (then_tasks ts (stoic_connect host s))"
| load: "stoic_step (s, ts) (then_tasks ts (snd (stoic_load host valid s)))"
| sign: "stoic_step (s, ts) (then_tasks ts (stoicSign action payload pr s))"
| key: "stoic_step (s, ts @ KeyTask p host # us) (then_tasks (ts @ us) (on_key p host reply opened s))"
| signed: "stoic_step (s, ts @ SignTask p action payload pr k # us)
    (then_tasks (ts @ us) (on_signed p action payload pr sig s))"
| message: "stoic_step (s, ts) (then_tasks ts (on_message from data s))"

definition cb_promises :: "'k stoic_state \<Rightarrow> nat list" where
  "cb_promises s = (case stoicWindowCB s of None \<Rightarrow> [] | Some (p, a) \<Rightarrow> [p])"

text \<open>The promises \<open>w\<close> that wait for a task or for the window are distinct, unsettled, and not those
  of a listener. The listeners are the indexes given out, each for a promise of its own, whose frame
  is in the document exactly until the promise is settled.\<close>

definition waits_ok :: "nat list \<Rightarrow> 'k stoic_state \<Rightarrow> bool" where
  "waits_ok w s =
     (distinct w \<and> (\<forall>p \<in> set w. p < promises s \<and> settled s p = None) \<and>
      (\<forall>p. settled s p \<noteq> None \<longrightarrow> p < promises s) \<and>
      (\<forall>i p. listener s i = Some p \<longrightarrow> p < promises s \<and> p \<notin> set w \<and>
         (\<exists>d. frames s i = Some (settled s p = None, d))) \<and>
      (\<forall>i j p. listener s i = Some p \<longrightarrow> listener s j = Some p \<longrightarrow> i = j) \<and>
      (\<forall>i. listener s i \<noteq> None \<longleftrightarrow> i < listenerIndex s))"

definition stoic_ok :: "'k stoic_state \<Rightarrow> 'k stoic_task list \<Rightarrow> bool" where
  "stoic_ok s ts = waits_ok (map task_promise ts @ cb_promises s) s"

lemma settle_simps [simp]:
  "stoicOrigin (settle p v s) = stoicOrigin s" "stoicApp (settle p v s) = stoicApp s"
  "stoicWindow (settle p v s) = stoicWindow s" "stoicWindowCB (settle p v s) = stoicWindowCB s"
  "listenerIndex (settle p v s) = listenerIndex s" "listener (settle p v s) = listener s"
  "frames (settle p v s) = frames s" "promises (settle p v s) = promises s"
  by (simp_all add: settle_def)

lemma waits_less: "waits_ok w s \<Longrightarrow> distinct w' \<Longrightarrow> set w' \<subseteq> set w \<Longrightarrow> waits_ok w' s"
  by (simp add: waits_ok_def) blast

lemma waits_fields:
  "waits_ok w s \<Longrightarrow> listenerIndex s' = listenerIndex s \<Longrightarrow> listener s' = listener s \<Longrightarrow> frames s' = frames s \<Longrightarrow>
   promises s' = promises s \<Longrightarrow> settled s' = settled s \<Longrightarrow> waits_ok w s'"
  by (simp add: waits_ok_def)

lemma waits_next: "waits_ok w s \<Longrightarrow> waits_ok w (s\<lparr> promises := Suc (promises s) \<rparr>)"
  by (simp add: waits_ok_def less_Suc_eq)

lemma waits_fresh: "waits_ok w s \<Longrightarrow> waits_ok (promises s # w) (s\<lparr> promises := Suc (promises s) \<rparr>)"
  by (fastforce simp: waits_ok_def less_Suc_eq)

lemma waits_post:
  assumes "waits_ok w s" "p \<in> set w"
  shows "waits_ok (remove1 p w) (fst (postToFrame fd p s))"
  using assms by (auto simp: waits_ok_def postToFrame_def Let_def)

lemma waits_settle:
  assumes "waits_ok w s" "p \<in> set w"
  shows "waits_ok (remove1 p w) (settle p v s)"
  using assms by (auto simp: waits_ok_def settle_def)

text \<open>A reply settles the request of its index and no other, and removes its frame; a second one
  changes nothing and throws.\<close>

lemma reply_settles:
  assumes "waits_ok w s" "listener s i = Some p"
  shows "\<exists>d. frames s i = Some (settled s p = None, d) \<and>
    removeFrame i (settle p v s) =
      (if settled s p = None
       then (s\<lparr> settled := (settled s)(p \<mapsto> v), frames := (frames s)(i \<mapsto> (False, d)) \<rparr>, [], [])
       else (s, [Raised TypeError], []))"
proof -
  obtain d where "frames s i = Some (settled s p = None, d)"
    using assms unfolding waits_ok_def by blast
  then show ?thesis by (auto simp: removeFrame_def settle_def)
qed

lemma waits_reply:
  assumes "waits_ok w s" "listener s i = Some p"
  shows "waits_ok w (fst (removeFrame i (settle p v s)))"
proof (cases "settled s p")
  case None
  then obtain d where "removeFrame i (settle p v s) =
      (s\<lparr> settled := (settled s)(p \<mapsto> v), frames := (frames s)(i \<mapsto> (False, d)) \<rparr>, [], [])"
    using reply_settles [OF assms, of v] by auto
  then show ?thesis using assms by (auto simp: waits_ok_def)
next
  case (Some x)
  then show ?thesis using reply_settles [OF assms, of v] assms(1) by auto
qed

lemma cb_simps [simp]:
  "cb_promises (s\<lparr> promises := n \<rparr>) = cb_promises s" "cb_promises (settle p v s) = cb_promises s"
  "cb_promises (s\<lparr> stoicOrigin := o1 \<rparr>) = cb_promises s" "cb_promises (s\<lparr> stoicApp := a \<rparr>) = cb_promises s"
  "stoicWindowCB s = Some (q, b) \<Longrightarrow> cb_promises s = [q]" "stoicWindowCB s = None \<Longrightarrow> cb_promises s = []"
  by (simp_all add: cb_promises_def)

lemma waits_task:
  assumes "waits_ok (ts @ us) s"
  shows "waits_ok (ts @ promises s # us) (s\<lparr> promises := Suc (promises s) \<rparr>)"
  by (rule waits_less [OF waits_fresh [OF assms]]) (use assms in \<open>auto simp: waits_ok_def\<close>)

lemma ok_login: "stoic_ok s ts \<Longrightarrow> stoic_ok (fst (stoicLogin h s)) (ts @ snd (snd (stoicLogin h s)))"
  using waits_task [of "map task_promise ts" "cb_promises s" s] by (simp add: stoic_ok_def stoicLogin_def)

lemma ok_sign: "stoic_ok s ts \<Longrightarrow> stoic_ok (fst (stoicSign a d i s)) (ts @ snd (snd (stoicSign a d i s)))"
  using waits_task [of "map task_promise ts" "cb_promises s" s] waits_next [of "map task_promise ts @ cb_promises s" s]
  by (simp add: stoic_ok_def stoicSign_def Let_def split: option.splits)

lemma ok_drop:
  assumes "stoic_ok s (ts @ t # us)"
  shows "stoic_ok s (ts @ us)"
  unfolding stoic_ok_def
  by (rule waits_less [OF assms [unfolded stoic_ok_def]]) (use assms in \<open>auto simp: stoic_ok_def waits_ok_def\<close>)

lemma ok_key:
  assumes "stoic_ok s (ts @ KeyTask p h # us)"
  shows "stoic_ok (fst (on_key p h r o1 s)) (ts @ us)"
proof (cases r)
  case (Inl e)
  then show ?thesis using ok_drop [OF assms] by (simp add: on_key_def)
next
  case (Inr x)
  have w: "waits_ok (map task_promise (ts @ us) @ [p]) s"
    by (rule waits_less [OF assms [unfolded stoic_ok_def]]) (use assms in \<open>auto simp: stoic_ok_def waits_ok_def\<close>)
  obtain k b where x: "x = (k, b)" by (cases x)
  then have "fst (on_key p h r o1 s) = s\<lparr> stoicApiKey := Some (sa_apikey (generateKey k b)),
      stoicWindow := (if o1 then Some True else None), stoicWindowCB := Some (p, generateKey k b) \<rparr>"
    using Inr by (simp add: on_key_def Let_def)
  then show ?thesis using waits_fields [OF w, of "fst (on_key p h r o1 s)"]
    by (simp add: stoic_ok_def cb_promises_def)
qed

lemma ok_signed:
  assumes "stoic_ok s (ts @ SignTask p a d i k # us)"
  shows "stoic_ok (fst (on_signed p a d i r s)) (ts @ us)"
proof -
  have "waits_ok (map task_promise (ts @ us) @ cb_promises s) (fst (postToFrame fd p s))" for fd
    by (rule waits_less [OF waits_post [OF assms [unfolded stoic_ok_def], of p]])
      (use assms in \<open>auto simp: stoic_ok_def waits_ok_def remove1_append\<close>)
  then have "stoic_ok (fst (postToFrame fd p s)) (ts @ us)" for fd
    by (simp add: stoic_ok_def postToFrame_def Let_def cb_promises_def)
  then show ?thesis using ok_drop [OF assms]
    by (simp add: on_signed_def split: sum.splits option.splits)
qed

text \<open>Either callback of a login settles it and forgets it.\<close>

lemma ok_callback:
  assumes "stoic_ok s ts" "stoicWindowCB s = Some (p, b)"
  shows "stoic_ok (fst (close_window (settle p v (s\<lparr> stoicApp := x, scApp := y \<rparr>)))) ts"
proof -
  let ?s = "s\<lparr> stoicApp := x, scApp := y \<rparr>"
  have "waits_ok (map task_promise ts @ [p]) ?s"
    using assms by (auto simp: stoic_ok_def cb_promises_def elim: waits_fields)
  from waits_less [OF waits_settle [OF this, of p v], of "map task_promise ts"]
  have w: "waits_ok (map task_promise ts) (settle p v ?s)"
    using assms by (auto simp: stoic_ok_def cb_promises_def waits_ok_def remove1_append)
  show ?thesis
    using waits_fields [OF w, of "fst (close_window (settle p v ?s))"]
    by (auto simp: stoic_ok_def close_window_def cb_promises_def split: option.splits)
qed

lemma ok_other:
  assumes "stoic_ok s ts"
  shows "stoic_ok (stoicLogout s) ts" "stoic_ok (use_host h s) ts" "stoic_ok (stoicInit s) ts"
  using assms waits_fields [of "map task_promise ts @ cb_promises s" s]
  by (simp_all add: stoic_ok_def stoicLogout_def use_host_def stoicInit_def cb_promises_def)

lemma no_new_tasks [simp]:
  "snd (snd (on_message from d s)) = []" "snd (snd (on_key p h r o1 s)) = []" "snd (snd (on_signed p a d' i r' s)) = []"
  by (auto simp: on_message_def removeFrame_def close_window_def on_key_def on_signed_def postToFrame_def Let_def
      split: option.splits sum.splits prod.splits bool.splits)

lemma ok_message:
  assumes "stoic_ok s ts"
  shows "stoic_ok (fst (on_message from d s)) ts"
proof -
  have "stoic_ok (fst (removeFrame i (settle p v s))) ts" if "listener s i = Some p" for i p v
    using waits_reply [OF assms [unfolded stoic_ok_def] that, of v]
    by (simp add: stoic_ok_def removeFrame_def cb_promises_def split: option.splits prod.splits bool.splits)
  moreover have "stoic_ok (fst (close_window (settle p v s))) ts" if "stoicWindowCB s = Some (p, b)" for p b v
    using ok_callback [OF assms that, where v = v and x = "stoicApp s" and y = "scApp s"] by simp
  moreover have "stoic_ok (fst (close_window (confirm_login p b m s))) ts" if "stoicWindowCB s = Some (p, b)" for p b m
    using ok_callback [OF assms that] by (simp add: confirm_login_def Let_def)
  ultimately show ?thesis using assms by (auto simp: on_message_def split: option.splits)
qed

lemma ok_step: "stoic_step c c' \<Longrightarrow> stoic_ok (fst c) (snd c) \<Longrightarrow> stoic_ok (fst c') (snd c')"
proof (induction rule: stoic_step.induct)
  case (connect s ts host)
  then show ?case using ok_login [OF ok_other(2)] by (simp add: then_tasks_def stoic_connect_def Let_def)
next
  case (load s ts host valid)
  then show ?case using ok_sign [OF ok_other(3) [OF ok_other(2)]] ok_other(3) [OF ok_other(2)]
    by (auto simp: then_tasks_def stoic_load_def accounts_def Let_def split: option.splits sum.splits)
qed (auto simp: then_tasks_def ok_other ok_sign intro: ok_key ok_signed ok_message)

lemma stoic_ok_new: "stoic_ok (stoic_new stored) []"
  by (simp add: stoic_ok_def waits_ok_def stoic_new_def cb_promises_def)

text \<open>In every state the library reaches, whatever calls and messages came before.\<close>

lemma replies_reach_requests:
  assumes "stoic_step\<^sup>*\<^sup>* (stoic_new stored, []) (s, ts)" "listener s i = Some p"
    and "md_target d = ''STOIC-EXT''" "md_listener d = i"
  shows "\<exists>fd. frames s i = Some (settled s p = None, fd) \<and>
    on_message (stoicOrigin s) (Some d) s =
      (if settled s p = None
       then (s\<lparr> settled := (settled s)(p \<mapsto> (if md_success d then Answered else Refused) (md_data d)),
               frames := (frames s)(i \<mapsto> (False, fd)) \<rparr>, [], [])
       else (s, [Raised TypeError], []))"
proof -
  have "stoic_ok (fst (s, ts)) (snd (s, ts))" using assms(1)
    by (induction rule: rtranclp_induct) (simp_all add: stoic_ok_new ok_step)
  then show ?thesis using reply_settles [OF _ assms(2)] assms by (simp add: stoic_ok_def on_message_def)
qed

section \<open>Calls that are never answered\<close>

text \<open>A promise nobody holds any more stays as it is.\<close>

definition forgotten :: "nat \<Rightarrow> 'k stoic_state \<times> 'k stoic_task list \<Rightarrow> bool" where
  "forgotten p c = (p < promises (fst c) \<and> p \<notin> set (map task_promise (snd c) @ cb_promises (fst c)) \<and>
     p \<notin> ran (listener (fst c)) \<and> settled (fst c) p = None)"

lemma forgotten_sign: "forgotten p (s, ts) \<Longrightarrow> forgotten p (then_tasks ts (stoicSign a d i s))"
  by (auto simp: forgotten_def then_tasks_def stoicSign_def Let_def split: option.splits)

lemma forgotten_login: "forgotten p (s, ts) \<Longrightarrow> forgotten p (then_tasks ts (stoicLogin h s))"
  by (auto simp: forgotten_def then_tasks_def stoicLogin_def)

lemma forgotten_fields:
  "forgotten p (s, ts) \<Longrightarrow> forgotten p (use_host h s, ts)" "forgotten p (s, ts) \<Longrightarrow> forgotten p (stoicInit s, ts)"
  "forgotten p (s, ts) \<Longrightarrow> forgotten p (stoicLogout s, ts)"
  by (simp_all add: forgotten_def use_host_def stoicInit_def stoicLogout_def cb_promises_def)

lemma forgotten_settle: "forgotten p (s, ts) \<Longrightarrow> q \<noteq> p \<Longrightarrow> forgotten p (settle q v s, ts)"
  by (simp add: forgotten_def) (simp add: settle_def)

lemma forgotten_close: "forgotten p (s, ts) \<Longrightarrow> forgotten p (fst (close_window s), ts)"
  by (auto simp: forgotten_def close_window_def cb_promises_def split: option.splits)

lemma forgotten_remove: "forgotten p (s, ts) \<Longrightarrow> forgotten p (fst (removeFrame i s), ts)"
  by (simp add: forgotten_def removeFrame_def cb_promises_def split: option.splits prod.splits bool.splits)

lemma forgotten_confirm: "forgotten p (s, ts) \<Longrightarrow> q \<noteq> p \<Longrightarrow> forgotten p (confirm_login q a d s, ts)"
  unfolding confirm_login_def Let_def by (rule forgotten_settle) (simp_all add: forgotten_def cb_promises_def)

lemma forgotten_message:
  assumes "forgotten p (s, ts)"
  shows "forgotten p (fst (on_message from d s), ts)"
proof -
  have "forgotten p (fst (removeFrame i (settle q v s)), ts)" if "listener s i = Some q" for i q v
    using assms that by (intro forgotten_remove forgotten_settle) (auto simp: forgotten_def intro: ranI)
  moreover have "forgotten p (fst (close_window (settle q v s)), ts)" if "stoicWindowCB s = Some (q, a)" for q a v
    using assms that by (intro forgotten_close forgotten_settle) (auto simp: forgotten_def)
  moreover have "forgotten p (fst (close_window (confirm_login q a m s)), ts)" if "stoicWindowCB s = Some (q, a)" for q a m
    using assms that by (intro forgotten_close forgotten_confirm) (auto simp: forgotten_def)
  ultimately show ?thesis using assms by (auto simp: on_message_def split: option.splits)
qed

lemma forgotten_key:
  "forgotten p (s, ts @ KeyTask q h # us) \<Longrightarrow> forgotten p (fst (on_key q h r o1 s), ts @ us)"
  by (auto simp: forgotten_def on_key_def Let_def cb_promises_def split: sum.splits prod.splits)

lemma forgotten_signed:
  "forgotten p (s, ts @ SignTask q a d i k # us) \<Longrightarrow> forgotten p (fst (on_signed q a d i r s), ts @ us)"
  by (auto simp: forgotten_def on_signed_def postToFrame_def Let_def cb_promises_def ran_def
      split: sum.splits option.splits if_splits)

lemma forgotten_step: "stoic_step c c' \<Longrightarrow> forgotten p c \<Longrightarrow> forgotten p c'"
proof (induction rule: stoic_step.induct)
  case (load s ts host valid)
  then have "forgotten p (stoicInit (use_host host s), ts)" by (intro forgotten_fields)
  then show ?case using forgotten_sign
    by (auto simp: stoic_load_def accounts_def Let_def then_tasks_def split: option.splits sum.splits)
next
  case (key s ts q h us r o1)
  then show ?case using forgotten_key by (simp add: then_tasks_def)
next
  case (signed s ts q a d i k us r)
  then show ?case using forgotten_signed by (simp add: then_tasks_def)
next
  case (message s ts fr d)
  then show ?case using forgotten_message by (simp add: then_tasks_def)
qed (auto simp: stoic_connect_def Let_def intro: forgotten_fields forgotten_login forgotten_sign)

lemma forgotten_for_ever: "stoic_step\<^sup>*\<^sup>* c c' \<Longrightarrow> forgotten p c \<Longrightarrow> settled (fst c') p = None"
proof -
  have "stoic_step\<^sup>*\<^sup>* c c' \<Longrightarrow> forgotten p c \<Longrightarrow> forgotten p c'"
    by (induction rule: rtranclp_induct) (auto intro: forgotten_step)
  then show "stoic_step\<^sup>*\<^sup>* c c' \<Longrightarrow> forgotten p c \<Longrightarrow> settled (fst c') p = None" by (simp add: forgotten_def)
qed

text \<open>A second login whose key comes in before the first one is answered takes its callbacks: the
  first one is never answered. And without a session a request is never answered.\<close>

lemma second_login_forgets:
  assumes "stoic_ok s (ts @ KeyTask q h # us)" "stoicWindowCB s = Some (p, a)"
  shows "forgotten p (then_tasks (ts @ us) (on_key q h (Inr r) o1 s))"
  using assms
  by (cases r) (auto simp: stoic_ok_def waits_ok_def forgotten_def on_key_def then_tasks_def Let_def cb_promises_def ran_def)

lemma request_without_session:
  assumes "stoic_ok s ts" "stoicApp s = None"
  shows "forgotten (promises s) (then_tasks ts (stoicSign a d i s))"
  using assms by (auto simp: stoic_ok_def waits_ok_def forgotten_def stoicSign_def then_tasks_def ran_def)

end
