(* ===== verification/DemoView.thy ===== *)
theory DemoView
  imports View
begin

text \<open>
  The demonstration components (\<open>components/Counter\<close>, \<open>components/TemplateTester\<close>) over the Redux
  slices of \<open>Stores\<close>: their actions are the actions they dispatch. No page uses them. The lemmas
  show what a series of clicks makes of the slices.
\<close>

definition Counter_view :: "jsnum \<Rightarrow> counter_action node" where
  "Counter_view count = box [button (Decrement (Fin 1)) [Txt ''-''], box [Txt (js_toString count), Txt '' ''],
     button (Increment (Fin 1)) [Txt ''+'']]"

definition tester_colors :: "(string \<times> string list) list" where
  "tester_colors =
     (let shades = [''.light'', ''.main'', ''.dark''] in
      map (\<lambda>t. (t, shades)) [''primary'', ''secondary'', ''error'', ''warning'', ''info'', ''success''] @
      [(''grey'', [''.50'', ''.100'', ''.200'', ''.300'', ''.400'', ''.500'', ''.600'', ''.700'', ''.800'', ''.900'',
          ''.A100'', ''.A200'', ''.A400'', ''.A700'']),
       (''background'', [''.default'', ''.paper'', ''.opposite'']),
       (''text'', [''.primary'', ''.secondary'', ''.disabled'']),
       (''gradient'', [''bronze'', ''silver'', ''gold''])])"

definition typographies :: "string list" where
  "typographies = [''h1'', ''h2'', ''h3'', ''h4'', ''h5'', ''h6'', ''subtitle1'', ''subtitle2'', ''body1'', ''body2'',
     ''body3'', ''body4'', ''caption'', ''button'', ''overline'']"

definition themeTypes :: "string \<Rightarrow> ('t, 'u) user_action node list \<Rightarrow> ('t, 'u) user_action node" where
  "themeTypes type func = box ([Txt type] @ func @ [button ChangeMode [Img ''Brightness4Icon'']])"

definition colorCards :: "('t, 'u) user_action node list" where
  "colorCards = map (\<lambda>(t, cs). box [Txt t, box (map (\<lambda>c. box [Txt c]) cs)]) tester_colors"

definition typoCards :: "('t, 'u) user_action node list" where
  "typoCards = map (\<lambda>t. box [Txt t]) typographies"

definition TemplateTester_view :: "('t, 'u) user_action node" where
  "TemplateTester_view = box [themeTypes ''#Colors'' colorCards, themeTypes ''#Typography'' typoCards]"

lemma Counter_live: "live (Counter_view c) = [Decrement (Fin 1), Increment (Fin 1)]"
  by (simp add: Counter_view_def)

lemma cards_live: "concat (map live colorCards) = []" "concat (map live typoCards) = []"
  by (auto simp: colorCards_def typoCards_def)

lemma TemplateTester_live: "live TemplateTester_view = [ChangeMode, ChangeMode]"
  by (simp add: TemplateTester_view_def themeTypes_def cards_live)

text \<open>While the count stays exact, clicks count: it is the start and the difference of the buttons.\<close>

lemma clicks_count:
  assumes "set as \<subseteq> set (live (Counter_view c))" "\<bar>n\<bar> + int (length as) \<le> 2 ^ 53"
  shows "foldl counter_reduce (Fin (of_int n)) as =
    Fin (of_int (n + int (length (filter (\<lambda>a. a = Increment (Fin 1)) as)) -
      int (length (filter (\<lambda>a. a = Decrement (Fin 1)) as))))"
  using assms
proof (induction as arbitrary: n)
  case (Cons a as)
  have e: "fl (of_int m) = Fin (of_int m)" if "\<bar>m\<bar> \<le> 2 ^ 53" for m using fl_int [OF that] .
  consider "a = Decrement (Fin 1)" | "a = Increment (Fin 1)" using Cons.prems(1) by (auto simp: Counter_live)
  then show ?case
  proof cases
    case 1
    then have "counter_reduce (Fin (of_int n)) a = Fin (of_int (n - 1))"
      using e [of "n - 1"] Cons.prems(2) by (simp add: js_sub_def)
    then show ?thesis using 1 Cons.IH [of "n - 1"] Cons.prems by (simp add: algebra_simps)
  next
    case 2
    then have "counter_reduce (Fin (of_int n)) a = Fin (of_int (n + 1))"
      using e [of "n + 1"] Cons.prems(2) by simp
    then show ?thesis using 2 Cons.IH [of "n + 1"] Cons.prems by (simp add: algebra_simps)
  qed
qed simp

text \<open>An even number of changes of the mode brings a mode of the two back.\<close>

lemma mode_twice:
  assumes "us_mode s \<in> {''light'', ''dark''}"
  shows "us_mode (fst (user_reduce (fst (user_reduce s ls ChangeMode)) ls' ChangeMode)) = us_mode s"
  using assms by auto

end
