(* ===== verification/Spec2Isabelle.thy ===== *)
theory Spec2Isabelle
  imports Replies HeaderView CreateView ProjectView BoardView ProfileView Stoic DemoView
begin

text \<open>
  A model of the Fomowell front end (\<open>fomowell-frontend/\<close>): a single-page application on the
  Internet Computer on which users create tokens (wells), trade them, comment on them and pay
  with ICP and points. It talks to the launcher, the exchange router and its transaction record,
  the ledgers, the cycles ledger, one canister per project, a metrics service and an image
  service, and signs its updates through a browser wallet.

  \<^bold>\<open>How the code is modelled.\<close> A React component is a record of its state. A handler closes over
  the values of the render that made it, so its model takes that snapshot (\<open>s0\<close>) and the current
  state (\<open>s\<close>) and yields the new state, the effects in order (calls to canisters, messages,
  navigation, writes to the shared stores, uncaught exceptions) and the pending work it leaves
  (\<open>Page\<close>). Every \<open>await\<close> splits a function: the part before it ends in a call and a task, the
  part after it is a definition named \<open>on_...\<close> with the reply as an argument. A reply is
  \<open>js_exn + 'a\<close>, and a canister's own result is \<open>COk\<close> or \<open>CErr\<close> in it. Timers and polls are
  tasks too. Exceptions that reach no \<open>catch\<close> are the effect \<open>Uncaught\<close>.

  What a component draws is a tree (\<open>View\<close>) of elements with their actions and those attributes
  that decide whether they can be seen and clicked: \<open>display\<close>, \<open>visibility\<close>, \<open>pointerEvents\<close>, the
  loading flag of a button, and whether a dialog is open. \<open>live\<close> are the actions that take clicks in
  it, those behind an open dialog once it is closed, and \<open>texts\<close> the texts it holds; for each component a function \<open>..._do\<close> gives the handler of
  an action. Where drawing computes with the decimal library it can fail, and a view is then a
  result: an exception there takes the page down.

  \<^bold>\<open>The theories.\<close>
  \<^item> \<open>Prelude\<close>, \<open>JsNumber\<close>, \<open>JsString\<close>: exceptions and results; binary64 numbers as exact
    rationals with rounding to nearest even (\<open>fl\<close>), \<open>Number\<close>, \<open>BigInt\<close>, \<open>toFixed\<close>,
    \<open>toString\<close>, \<open>parseFloat\<close>.
  \<^item> \<open>BigJs\<close>: the decimal library big.js, which is not in the repository: a record of the
    operations used, its documented laws \<open>big_laws\<close>, and the exact implementation \<open>rat_big\<close> that
    satisfies them, on which the witnesses run.
  \<^item> \<open>Format\<close>: \<open>utils/common.ts\<close>, \<open>fee.ts\<close>, \<open>getImgUrl.ts\<close>, \<open>principal.ts\<close>, \<open>appType.ts\<close>.
    \<open>HttpValid\<close>: the link check, its regular expression as a term with a matcher by derivatives.
  \<^item> \<open>Candid\<close>: the types of the canister interfaces. \<open>Stores\<close>: the MobX stores, local storage,
    the price feeds and the Redux slices. \<open>Request\<close>: the HTTP clients. \<open>ActorApi\<close>: environment,
    canister ids and one definition per function of \<open>api/\<close>, each yielding the call it makes.
  \<^item> \<open>Idl\<close>: the interface language of the canisters, Candid's typing of values, and codecs with
    their laws. \<open>LauncherIdl\<close>, \<open>LedgerIdl\<close>, \<open>ExchangeIdl\<close>, \<open>StandardIdl\<close>: the interface descriptions
    \<open>canisters/*/*.did.js\<close> and \<open>did/*.idl.js\<close>, one definition for each constant. \<open>Ledgers\<close> compares
    those of the ledgers. \<open>Codecs\<close>: the declared types of \<open>Candid\<close> as codecs. \<open>Interfaces\<close>: name,
    encoded arguments and interfaces of every method of \<open>ActorApi\<close>; \<open>Replies\<close>: what they answer.
  \<^item> \<open>Batch\<close>: the wallet adapter's batch of transactions with its retries and its Plug variant.
    \<open>Identifier\<close>: its account arithmetic on bytes and 32-bit words. \<open>Adapter\<close>: its seven wallets,
    whose promises may never settle, and the class \<open>Artemis\<close> with the runs of its operations.
    \<open>Wallet\<close>: the session functions of \<open>utils/wallet/connect.ts\<close> on top of it. \<open>Stoic\<close>: the copy of the
    Stoic wallet's library in \<open>libs/stoicidentity.js\<close>, with its logins, requests and messages.
  \<^item> \<open>Page\<close>, \<open>Approve\<close>, \<open>Signals\<close>, \<open>Merge\<close>: what the pages share (effects, ledger units, image
    checks; the approve through the wallet and its callbacks; the latest trade and well; a list
    extended page by page).
  \<^item> the project page \<open>pages/ICPInfo/ICPInfo.tsx\<close>: \<open>Trade\<close> (order, inputs, quotes, handlers),
    \<open>TradeRun\<close> (user events, callbacks, replies and timers of a trade as one step relation),
    \<open>CommentsPage\<close>, \<open>ProjectData\<close> (metadata, balances, pool, holders), \<open>Cycles\<close>, \<open>Ownership\<close>, and
    \<open>IcpInfo\<close>, which puts them together and loads a project.
  \<^item> \<open>Home\<close> (the board), \<open>Create\<close> (a new well), \<open>Profile\<close> (a user's holdings and wells), \<open>Send\<close>
    (both transfer dialogs), \<open>TopUp\<close> (points), \<open>Header\<close> with \<open>DataUrl\<close> (wallet choice, profile,
    images), \<open>Shell\<close> (root component, message bars, routes, hooks, development server).
  \<^item> \<open>View\<close>: drawn trees and the dialogs all pages share. \<open>ProjectView\<close>, \<open>BoardView\<close>, \<open>CreateView\<close>,
    \<open>ProfileView\<close>, \<open>HeaderView\<close>, \<open>SendView\<close>, \<open>TopUpView\<close>, \<open>SignalsView\<close>: what each of the components
    above draws, with the handlers of its actions. \<open>DemoView\<close>: the demonstration components.

  \<^bold>\<open>Interfaces.\<close> \<open>keyed_merge\<close> is what the comments and the created wells need of a merge,
  interpreted on both; \<open>toggle_list\<close> is the contract of the two token lists, interpreted on both;
  \<open>approve_client\<close> is what a batch asks of the callbacks of a page that pays, interpreted on the
  pages that do.

  \<^bold>\<open>What is shown.\<close> Money: an approve precedes every swap and covers it, the minimum return
  respects the slippage, amounts are sent in exact units up to \<open>10 ^ 21\<close> and withdrawals stay
  within the balance shown; a whole share of locked liquidity comes back as the same share.
  Control: when a batch of transactions ends done and when in error, exactly which forms are let
  through, which search a menu leads to, what a
  metadata reply makes of a balance, where links lead. Pages as drawn: which clicks can start a
  trade, a purchase, a transfer or a login, and in which states; which wells the board offers; when
  the project page can be drawn at all; and which dialogs let a running trade or creation be started
  once more. Lists: no comment of a project is listed twice or lost, and two token lists are sets. Sessions: whom a
  login can log in, when a disconnect returns, that the session of a user with a profile is restored
  from local storage, whose answers the actors of the adapter act for, and what an actor made in
  one session does in the next; the account identifiers of the adapter. Interfaces: which calls the
  agent encodes, that every reply can be read and read back, that the descriptions of the ledgers
  agree. Several properties state what the code does where that is not what it is meant to do; the
  findings of the manifest name them.

  \<^bold>\<open>Bounds and termination.\<close> Numbers that pass through \<open>Number\<close> are exact up to \<open>2 ^ 53\<close>; the
  statements carry that bound where they need it, and \<open>10 ^ 21\<close> is where the decimal library
  changes to exponents. The loops of a batch, of names and of prices are structural, the choice
  of an amount's unit has a measure; no definition uses fuel, and runs that go on for ever in
  the code (polls, intervals) are step relations or single ticks. An extension that never answers
  is the promise \<open>Pending\<close>.

  \<^bold>\<open>Parameters.\<close> Wallet extensions, canisters, HTTP services, the clock and the window are
  arguments: their replies come in as values. SHA-224 and CRC-32 are arguments of the account
  arithmetic. \<open>Principal.fromText\<close> and the account identifiers
  of the ledger library are the functions \<open>pe_valid\<close> and \<open>pe_acct\<close>.

  \<^bold>\<open>Not modelled.\<close> The canisters themselves (Rust, under \<open>fomowell-launcher/\<close>,
  \<open>fomowell-project/\<close> and \<open>fomowell-pool/\<close>), whose replies are unconstrained arguments here; the
  bytes Candid values are encoded to, which the agent library makes; the browser extensions; styles,
  themes (\<open>themes/AppThemeProvider.tsx\<close>, which the root component does not use) and assets, but for
  the attributes named above; console output.
\<close>

section \<open>Properties across components\<close>

text \<open>The pages the effects of a handler lead to.\<close>

fun visited :: "effect list \<Rightarrow> route list" where
  "visited [] = []"
| "visited (Navigate q # es) = page_at q # visited es"
| "visited (_ # es) = visited es"

lemma page_at_info:
  "p \<noteq> [] \<Longrightarrow> CHR ''/'' \<notin> set p \<Longrightarrow> List.map lower p \<noteq> ''board'' \<Longrightarrow> List.map lower p \<noteq> ''create'' \<Longrightarrow>
   page_at (''/'' @ p) = RInfo p"
  using route_info [of p] by (simp add: page_at_def)

lemma page_at_profile: "p \<noteq> [] \<Longrightarrow> CHR ''/'' \<notin> set p \<Longrightarrow> page_at (''/profile/'' @ p) = RProfile p"
  using route_profile [of p] by (simp add: page_at_def)

lemma page_at_static: "page_at ''/board'' = RBoard" "page_at ''/create'' = RCreate"
  using segment_path [of "''board''"] segment_path [of "''create''"]
  by (simp_all add: page_at_def Routing_def lower_def)

text \<open>C27. The links lead to the pages they name. For a well whose project canister's text is no path
  of its own, a click on it in the board and a jump from the latest trade reach its project page
  and no other; the links to a user reach that user's profile; the logo reaches the board and the
  button of the board the form for a new well. A jump to a well that is not there reaches the
  project page of the text \<open>undefined\<close>, which the page takes for no project.\<close>

theorem links_reach_pages:
  assumes "fomo_pid f \<noteq> []" "CHR ''/'' \<notin> set (fomo_pid f)" "List.map lower (fomo_pid f) \<notin> {''board'', ''create''}"
    and "u \<noteq> []" "CHR ''/'' \<notin> set u"
  shows "visited (BtnShowIcpInfo f) = [RInfo (fomo_pid f)] \<and>
    visited (fx_of (on_jump (Inr (f # fs)) s)) = [RInfo (fomo_pid f)] \<and>
    visited (fx_of (on_jump (Inr []) s)) = [RInfo ''undefined''] \<and>
    visited (btnToProfile u) = [RProfile u] \<and> visited (BtnGoUserInfo u) = [RProfile u] \<and>
    visited (fx_of (BtnShowUserInfo u h)) = [RProfile u] \<and>
    visited btnLogoToHome = [RBoard] \<and> visited BtnNewCoin = [RCreate]"
proof -
  have "page_at (CHR ''/'' # fomo_pid f) = RInfo (fomo_pid f)" using page_at_info [of "fomo_pid f"] assms(1-3) by simp
  moreover have "page_at ''/undefined'' = RInfo ''undefined''"
    using page_at_info [of "''undefined''"] by (simp add: lower_def)
  moreover have "page_at (''/profile/'' @ u) = RProfile u" using page_at_profile assms(4,5) by simp
  ultimately show ?thesis
    by (simp add: BtnShowIcpInfo_def on_jump_def btnToProfile_def BtnGoUserInfo_def BtnShowUserInfo_def
        btnLogoToHome_def BtnNewCoin_def page_at_static)
qed

theorem links_reach_pages_witness:
  "visited (BtnShowIcpInfo sample_project) = [RInfo ''f''] \<and> visited (btnToProfile ''eve'') = [RProfile ''eve'']"
  using links_reach_pages [of sample_project "''eve''" "[]" "()" "header_init new_world"]
  by (simp add: sample_project_def lower_def)

text \<open>C11. A whole share locked is the share shown. A whole number of ten to fifty percent typed into
  the form with the box of the lock ticked is in range, is sent with the request to create the well
  as \<open>p * 10 ^ 16\<close> units, and the page of a project with these units shows it as the same number of
  percent, with the rest of the hundred for the black hole. A share with more digits than a double
  holds is rounded on its way.\<close>

theorem locked_share_roundtrip:
  assumes "big_laws B val" "10 \<le> p" "p \<le> 50" "lockeChecked s"
  shows "let s1 = st_of (changelockedVal B (int_str p) s s) in
    lockedValRang s1 \<and> fc_sneed_dao_lock (create_request s1 ref) = Some (p * 10 ^ 16) \<and>
    welldiggingtext B (Some (q\<lparr> sneed_dao_lock := fc_sneed_dao_lock (create_request s1 ref) \<rparr>)) =
      Inr (dig_start @ '', with '' @ int_str (100 - p) @
        ''% locked into the black hole address(aaaaa-aa) and '' @ int_str p @
        ''% locked into Sneed DAO.'')"
proof -
  let ?n = "p * 10 ^ 16"
  have p: "\<bar>p\<bar> \<le> 2 ^ 53" "\<bar>p\<bar> < 10 ^ 21" "\<bar>100 - p\<bar> < 10 ^ 21" using assms(2,3) by simp_all
  have l: "lock_share B (JStr (int_str p)) = Inr ?n"
    using lock_share_exact [OF assms(1)] assms(2,3) by simp
  have r: "\<not> out_of_range (int_str p)"
    using assms(2,3) num_of_int_exact [OF p(1)] by (simp add: out_of_range_def js_Number_int_str)
  obtain x where x: "lock_percent B ?n = Inr x" "val x = of_int ?n / 10 ^ 16"
    using lock_percent_exact [OF assms(1)] by blast
  then have vx: "val x = of_int p" by simp
  obtain h where h: "big_num B (Fin (of_int 100)) = Inr h" "val h = of_int 100"
    using big_lawsD(1) [OF assms(1), of 100] by auto
  have "val (big_minus B h x) = of_int (100 - p)" using big_lawsD(5) [OF assms(1)] h(2) vx by simp
  then have t: "big_toString B x = int_str p" "big_toString B (big_minus B h x) = int_str (100 - p)"
    using big_lawsD(9) [OF assms(1) vx p(2)] big_lawsD(9) [OF assms(1) _ p(3)] by simp_all
  define s1 where "s1 = st_of (changelockedVal B (int_str p) s s)"
  have s1: "lockedValRang s1" "lockeChecked s1" "fc_sneed_dao_lock (FomoParms s1) = Some ?n"
    using assms(4) l r by (simp_all add: s1_def changelockedVal_def Let_def put_lock_def int_str_nonempty)
  have "dig_locked B ?n ''Sneed DAO'' = Inr (dig_start @ '', with '' @ int_str (100 - p) @
      ''% locked into the black hole address(aaaaa-aa) and '' @ int_str p @ ''% locked into Sneed DAO.'')"
    using h(1) x(1) by (simp add: dig_locked_def t)
  then show ?thesis using s1 by (simp add: s1_def [symmetric] create_request_def welldiggingtext_def)
qed

theorem locked_share_roundtrip_witness:
  "fc_sneed_dao_lock (create_request (st_of (changelockedVal rat_big (int_str 25) sample_form sample_form)) ''r'') =
     Some 250000000000000000"
  using locked_share_roundtrip [OF rat_big_laws, of 25 sample_form "''r''" sample_project]
  by (simp add: sample_form_def Let_def)

end
